(* ===== verification/Prelude.thy ===== *)
theory Prelude
  imports Main "HOL-Library.Word"
begin

unbundle bit_operations_syntax

text \<open>
  Shared vocabulary of the development: the widths of the C integer types, the outcome of a
  C operation whose behaviour may be undefined (\<open>ub + 'a\<close>), array accesses with their bounds,
  and the generic lemmas on words, bytes and double-word arithmetic that the component theories
  use.
\<close>

section \<open>Machine integers\<close>

type_synonym u8 = "8 word"
type_synonym u32 = "32 word"
type_synonym u64 = "64 word"

named_theorems uval \<open>values of the multi-word integer operations\<close>
named_theorems cres \<open>rules for outcomes with undefined behaviour\<close>

section \<open>Outcomes with undefined behaviour\<close>

text \<open>
  A C operation that reads outside an object, through a null or uninitialised pointer, or
  overflows a signed integer has no defined result. Such an outcome is \<open>Inl\<close> of the reason;
  a failing \<open>assert\<close> is one of the reasons, since it ends the program, and so is \<open>No_return\<close>, a
  loop that does not end.
\<close>

datatype ub =
    Out_of_bounds
  | Null_pointer
  | Uninitialised
  | Signed_overflow
  | Assertion_failed
  | Unset_function
  | No_return

type_synonym 'a outcome = "ub + 'a"

definition bind_o :: "'a outcome \<Rightarrow> ('a \<Rightarrow> 'b outcome) \<Rightarrow> 'b outcome" where
  "bind_o m f = (case m of Inl e \<Rightarrow> Inl e | Inr x \<Rightarrow> f x)"

lemma bind_o_simps [simp, cres]:
  "bind_o (Inl e) f = Inl e"
  "bind_o (Inr x) f = f x"
  by (simp_all add: bind_o_def)

lemma bind_o_Inr_iff [cres]:
  "bind_o m f = Inr y \<longleftrightarrow> (\<exists>x. m = Inr x \<and> f x = Inr y)"
  by (cases m) auto

lemma bind_o_split:
  "P (bind_o m f) \<longleftrightarrow> (\<forall>e. m = Inl e \<longrightarrow> P (Inl e)) \<and> (\<forall>x. m = Inr x \<longrightarrow> P (f x))"
  by (cases m) auto

lemma bind_o_cong [fundef_cong]:
  "m = m' \<Longrightarrow> (\<And>x. m' = Inr x \<Longrightarrow> f x = g x) \<Longrightarrow> bind_o m f = bind_o m' g"
  by (cases m') auto

definition guard_o :: "ub \<Rightarrow> bool \<Rightarrow> unit outcome" where
  "guard_o e b = (if b then Inr () else Inl e)"

lemma guard_o_simps [simp]:
  "guard_o e True = Inr ()"
  "guard_o e False = Inl e"
  "guard_o e b = Inr u \<longleftrightarrow> b"
  by (simp_all add: guard_o_def)

text \<open>An element of an array, and an array with an element replaced.\<close>

definition read_at :: "'a list \<Rightarrow> nat \<Rightarrow> 'a outcome" where
  "read_at xs i = (if i < length xs then Inr (xs ! i) else Inl Out_of_bounds)"

definition write_at :: "'a list \<Rightarrow> nat \<Rightarrow> 'a \<Rightarrow> 'a list outcome" where
  "write_at xs i v = (if i < length xs then Inr (xs[i := v]) else Inl Out_of_bounds)"

lemma read_at_in [simp]: "i < length xs \<Longrightarrow> read_at xs i = Inr (xs ! i)"
  by (simp add: read_at_def)

lemma write_at_in [simp]: "i < length xs \<Longrightarrow> write_at xs i v = Inr (xs[i := v])"
  by (simp add: write_at_def)

lemma read_at_out: "length xs \<le> i \<Longrightarrow> read_at xs i = Inl Out_of_bounds"
  by (simp add: read_at_def)

lemma write_at_out: "length xs \<le> i \<Longrightarrow> write_at xs i v = Inl Out_of_bounds"
  by (simp add: write_at_def)

lemma write_at_Inr_iff [cres]:
  "write_at xs i v = Inr ys \<longleftrightarrow> i < length xs \<and> ys = xs[i := v]"
  by (auto simp: write_at_def)

lemma read_at_Inr_iff [cres]: "read_at xs i = Inr y \<longleftrightarrow> i < length xs \<and> y = xs ! i"
  by (auto simp: read_at_def)

text \<open>Signed 64-bit arithmetic: a result outside the range is undefined.\<close>

definition int64 :: "int \<Rightarrow> int outcome" where
  "int64 i = (if - (2 ^ 63) \<le> i \<and> i < 2 ^ 63 then Inr i else Inl Signed_overflow)"

lemma int64_in [simp]: "- (2 ^ 63) \<le> i \<Longrightarrow> i < 2 ^ 63 \<Longrightarrow> int64 i = Inr i"
  by (simp add: int64_def)

lemma int64_Inr_iff [cres]: "int64 i = Inr j \<longleftrightarrow> j = i \<and> - (2 ^ 63) \<le> i \<and> i < 2 ^ 63"
  by (auto simp: int64_def)

section \<open>Arithmetic of numbers in two halves\<close>

text \<open>
  A double-width number is \<open>h * B + l\<close> with both halves below the base \<open>B\<close>. The lemmas
  describe addition with a carry, subtraction with a borrow and the two shifts on the halves;
  they are used with \<open>B = 2^64\<close> (halves of a 128-bit number) and \<open>B = 2^128\<close>
  (halves of a 256-bit number).
\<close>

lemma halves_lt: "h < B \<Longrightarrow> l < B \<Longrightarrow> h * B + l < B * (B :: nat)"
proof -
  assume h: "h < B" and l: "l < B"
  have "h * B + l < h * B + B" using l by simp
  also have "\<dots> = Suc h * B" by simp
  also have "\<dots> \<le> B * B" using h by (intro mult_le_mono1) simp
  finally show ?thesis .
qed

lemma halves_eq_iff:
  assumes "l < B" and "l' < (B :: nat)"
  shows "h * B + l = h' * B + l' \<longleftrightarrow> h = h' \<and> l = l'"
proof
  assume eq: "h * B + l = h' * B + l'"
  have "h = (h * B + l) div B" using assms(1) by simp
  also have "\<dots> = h'" using assms(2) eq by simp
  finally show "h = h' \<and> l = l'" using eq by simp
qed simp

lemma halves_less_iff:
  assumes "l < B" and "l' < (B :: nat)"
  shows "h * B + l < h' * B + l' \<longleftrightarrow> h < h' \<or> h = h' \<and> l < l'"
proof -
  have up: "a * B + x < b * B + y" if "a < b" and "x < B" for a b x y
  proof -
    have "a * B + x < Suc a * B" using that(2) by simp
    also have "\<dots> \<le> b * B" using that(1) by (intro mult_le_mono1) simp
    finally show ?thesis by simp
  qed
  show ?thesis
    using up [of h h' l l'] up [of h' h l' l] assms
    by (cases h h' rule: linorder_cases) auto
qed

lemma halves_mod:
  fixes B :: nat
  assumes "l < B"
  shows "(h * B + l) mod (B * B) = (h mod B) * B + l"
proof -
  have "(h * B + l) mod (B * B) = B * ((h * B + l) div B mod B) + (h * B + l) mod B"
    by (rule mod_mult2_eq)
  then show ?thesis using assms by simp
qed

lemma halves_add:
  fixes B :: nat
  assumes "l1 < B" and "l2 < B"
  shows "((h1 + h2 + of_bool ((l1 + l2) mod B < l1)) mod B) * B + (l1 + l2) mod B
         = (h1 * B + l1 + (h2 * B + l2)) mod (B * B)"
proof (cases "l1 + l2 < B")
  case True
  have eq: "h1 * B + l1 + (h2 * B + l2) = (h1 + h2) * B + (l1 + l2)"
    by (simp add: algebra_simps)
  show ?thesis unfolding eq halves_mod [OF True] using True by simp
next
  case False
  then have l: "(l1 + l2) mod B = l1 + l2 - B"
    using assms by (simp add: mod_if)
  have eq: "h1 * B + l1 + (h2 * B + l2) = (h1 + h2 + 1) * B + (l1 + l2 - B)"
    using False by (simp add: algebra_simps)
  have lt: "l1 + l2 - B < B" and c: "l1 + l2 - B < l1" using assms False by linarith+
  show ?thesis unfolding l eq halves_mod [OF lt] using c by simp
qed

lemma halves_sub:
  fixes B :: nat
  assumes "h2 < B" and "l1 < B" and "l2 < B"
  shows "((h1 + 2 * B - h2 - of_bool (l1 < (l1 + B - l2) mod B)) mod B) * B + (l1 + B - l2) mod B
         = (h1 * B + l1 + B * B - (h2 * B + l2)) mod (B * B)"
proof (cases "l2 \<le> l1")
  case True
  then have l: "(l1 + B - l2) mod B = l1 - l2"
    using assms by (simp add: mod_if)
  have h: "(h1 + 2 * B - h2) mod B = (h1 + B - h2) mod B"
  proof -
    have "h1 + 2 * B - h2 = h1 + B - h2 + B" using assms(1) by linarith
    then show ?thesis by simp
  qed
  have le: "h2 * B \<le> (h1 + B) * B" using assms(1) by simp
  have "h1 * B + l1 + B * B - (h2 * B + l2) = (h1 + B) * B + l1 - (h2 * B + l2)"
    by (simp add: algebra_simps)
  also have "\<dots> = ((h1 + B) * B - h2 * B) + (l1 - l2)"
    using True le by linarith
  also have "\<dots> = (h1 + B - h2) * B + (l1 - l2)" by (simp add: diff_mult_distrib)
  finally have eq: "h1 * B + l1 + B * B - (h2 * B + l2) = (h1 + B - h2) * B + (l1 - l2)" .
  have lt: "l1 - l2 < B" using assms by linarith
  show ?thesis unfolding l eq halves_mod [OF lt] using h True by simp
next
  case False
  then have l: "(l1 + B - l2) mod B = l1 + B - l2" and lt: "l1 + B - l2 < B"
    using assms by simp_all
  have c: "l1 < l1 + B - l2" using assms False by linarith
  have h: "(h1 + 2 * B - h2 - 1) mod B = (h1 + B - h2 - 1) mod B"
  proof -
    have "h1 + 2 * B - h2 - 1 = (h1 + B - h2 - 1) + B" using assms(1) by linarith
    then show ?thesis by simp
  qed
  have "(h2 + 1) * B \<le> (h1 + B) * B" using assms(1) by (intro mult_le_mono1) linarith
  then have le: "h2 * B + B \<le> (h1 + B) * B" by (simp add: algebra_simps)
  have "h1 * B + l1 + B * B - (h2 * B + l2) = (h1 + B) * B + l1 - (h2 * B + l2)"
    by (simp add: algebra_simps)
  also have "\<dots> = ((h1 + B) * B - (h2 * B + B)) + (l1 + B - l2)"
    using le assms by linarith
  also have "(h1 + B) * B - (h2 * B + B) = (h1 + B) * B - (h2 + 1) * B"
    by (simp add: algebra_simps)
  also have "\<dots> = (h1 + B - h2 - 1) * B"
    by (simp add: diff_mult_distrib)
  finally have eq: "h1 * B + l1 + B * B - (h2 * B + l2) = (h1 + B - h2 - 1) * B + (l1 + B - l2)" .
  show ?thesis unfolding l eq halves_mod [OF lt] using h c by simp
qed

text \<open>The borrow taken from an upper half that has already wrapped around.\<close>

lemma borrow_mod:
  fixes B :: nat
  assumes "y < B" and "b \<le> B"
  shows "((H + B - y) mod B + B - b) mod B = (H + 2 * B - y - b) mod B"
proof -
  have "((H + B - y) mod B + B - b) mod B = ((H + B - y) mod B + (B - b)) mod B"
    using assms(2) by simp
  also have "\<dots> = (H + B - y + (B - b)) mod B" by (rule mod_add_left_eq)
  also have "H + B - y + (B - b) = H + 2 * B - y - b" using assms by linarith
  finally show ?thesis .
qed

text \<open>Shifts by \<open>v\<close> bits, with \<open>p = 2^v\<close> and \<open>q = 2^(w - v)\<close>, so \<open>B = p * q\<close>.\<close>

lemma mult_mod_split:
  fixes p q l :: nat
  shows "l * p = (l div q) * (p * q) + (l mod q) * p"
proof -
  have "l * p = (l div q * q + l mod q) * p" by simp
  also have "\<dots> = (l div q) * (p * q) + (l mod q) * p" by (simp only: algebra_simps)
  finally show ?thesis .
qed

lemma halves_shl:
  fixes p q :: nat
  assumes B: "B = p * q" and l: "l < B" and q: "0 < q"
  shows "(((h * p) mod B + l div q) mod B) * B + (l * p) mod B = ((h * B + l) * p) mod (B * B)"
proof (cases "p = 0")
  case True
  with l B show ?thesis by simp
next
  case False
  have r: "(l mod q) * p < B" using B q False by simp
  have lp: "l * p = (l div q) * B + (l mod q) * p"
    unfolding B by (rule mult_mod_split)
  have lm: "(l * p) mod B = (l mod q) * p"
    unfolding lp using r by simp
  have "(h * B + l) * p = (h * p + l div q) * B + (l mod q) * p"
    using lp by (simp add: algebra_simps)
  then have "((h * B + l) * p) mod (B * B) = ((h * p + l div q) mod B) * B + (l mod q) * p"
    using halves_mod [OF r] by simp
  then show ?thesis by (simp add: lm mod_add_left_eq)
qed

lemma halves_shr:
  fixes p q :: nat
  assumes B: "B = p * q" and l: "l < B" and p: "0 < p" and q: "0 < q"
  shows "(h div p) * B + ((h * q) mod B + l div p) mod B = (h * B + l) div p"
proof -
  have hq: "(h * q) mod B = (h mod p) * q"
  proof -
    have "(h mod p) * q < B" using B p q by simp
    then show ?thesis
      unfolding mult_mod_split [of h q p] B by (simp add: mult.commute)
  qed
  have lt: "l div p < q" using l B by (simp add: less_mult_imp_div_less mult.commute)
  have "(h mod p) * q + l div p < (h mod p) * q + q" using lt by simp
  also have "\<dots> = Suc (h mod p) * q" by simp
  also have "\<dots> \<le> p * q" by (intro mult_le_mono1 Suc_leI mod_less_divisor p)
  finally have small: "(h mod p) * q + l div p < B" using B by simp
  have "(h * B + l) div p = (l + p * (h * q)) div p" using B by (simp add: algebra_simps)
  then have "(h * B + l) div p = h * q + l div p"
    using p by simp
  also have "h * q = (h div p) * B + (h mod p) * q"
    using mult_mod_split [of h q p] B by (simp add: mult.commute)
  finally show ?thesis using small hq by simp
qed

text \<open>Bitwise disjunction of the halves, and of numbers without common bits.\<close>

lemma cat_halves:
  fixes a b :: nat
  assumes "b < 2 ^ n"
  shows "a * 2 ^ n + b = or (push_bit n a) (take_bit n b)"
proof -
  have "and (push_bit n a) (take_bit n b) = 0"
    by (rule bit_eqI) (simp add: bit_simps)
  then have "push_bit n a + take_bit n b = or (push_bit n a) (take_bit n b)"
    by (rule disjunctive_add_eq_or)
  with assms show ?thesis by (simp add: push_bit_eq_mult take_bit_nat_eq_self)
qed

lemma or_halves:
  fixes h h' l l' :: nat
  assumes "l < 2 ^ n" and "l' < 2 ^ n"
  shows "or (h * 2 ^ n + l) (h' * 2 ^ n + l') = or h h' * 2 ^ n + or l l'"
proof -
  have "take_bit n (or l l') = or l l'"
    using assms by (simp add: take_bit_nat_eq_self)
  then have lt: "or l l' < 2 ^ n" by (simp only: take_bit_nat_eq_self_iff)
  show ?thesis
    unfolding cat_halves [OF assms(1)] cat_halves [OF assms(2)] cat_halves [OF lt]
    by (rule bit_eqI) (auto simp: bit_simps)
qed

lemma and_halves:
  fixes h h' l l' :: nat
  assumes "l < 2 ^ n" and "l' < 2 ^ n"
  shows "and (h * 2 ^ n + l) (h' * 2 ^ n + l') = and h h' * 2 ^ n + and l l'"
proof -
  have "take_bit n (and l l') = and l l'"
    using assms by (simp add: take_bit_nat_eq_self)
  then have lt: "and l l' < 2 ^ n" by (simp only: take_bit_nat_eq_self_iff)
  show ?thesis
    unfolding cat_halves [OF assms(1)] cat_halves [OF assms(2)] cat_halves [OF lt]
    by (rule bit_eqI) (auto simp: bit_simps)
qed

lemma xor_halves:
  fixes h h' l l' :: nat
  assumes "l < 2 ^ n" and "l' < 2 ^ n"
  shows "xor (h * 2 ^ n + l) (h' * 2 ^ n + l') = xor h h' * 2 ^ n + xor l l'"
proof -
  have "take_bit n (xor l l') = xor l l'"
    using assms by (simp add: take_bit_nat_eq_self)
  then have lt: "xor l l' < 2 ^ n" by (simp only: take_bit_nat_eq_self_iff)
  show ?thesis
    unfolding cat_halves [OF assms(1)] cat_halves [OF assms(2)] cat_halves [OF lt]
    by (rule bit_eqI) (auto simp: bit_simps)
qed

lemma halves_compl:
  fixes B :: nat
  assumes "h < B" and "l < B"
  shows "(B - 1 - h) * B + (B - 1 - l) = B * B - 1 - (h * B + l)"
proof -
  have "(B - 1 - h) * B + (B - 1 - l) + (h * B + l) = (B - 1) * B + (B - 1)"
  proof -
    have "(B - 1 - h) * B + h * B = (B - 1) * B"
      using assms(1) by (simp flip: distrib_right)
    with assms(2) show ?thesis by linarith
  qed
  also have "\<dots> = B * B - 1" using assms(1) by (cases B) simp_all
  finally show ?thesis by linarith
qed

section \<open>Words\<close>

lemma unat_push_bit: "unat (push_bit n (w :: 'a::len word)) = (unat w * 2 ^ n) mod 2 ^ LENGTH('a)"
  by (metis push_bit_eq_mult take_bit_eq_mod unsigned_push_bit_eq)

lemma unat_drop_bit: "unat (drop_bit n (w :: 'a::len word)) = unat w div 2 ^ n"
  by (metis drop_bit_eq_div unat_drop_bit_eq)

lemma unat_add_mod: "unat (a + b :: 'a::len word) = (unat a + unat b) mod 2 ^ LENGTH('a)"
  by (simp add: unat_word_ariths)

lemma unat_of_bool [simp]: "unat (of_bool b :: 'a::len word) = of_bool b"
  by (cases b) simp_all

lemma unat_less [simp, intro]: "unat (w :: 'a::len word) < 2 ^ LENGTH('a)"
  by (rule unsigned_less)

lemma unat_sub_mod:
  "unat (a - b :: 'a::len word) = (unat a + 2 ^ LENGTH('a) - unat b) mod 2 ^ LENGTH('a)"
proof -
  have le: "unat b \<le> unat a + 2 ^ LENGTH('a)"
    using unat_less [of b] by linarith
  have "int (unat (a - b)) = (int (unat a) - int (unat b)) mod 2 ^ LENGTH('a)"
    by (simp add: uint_word_ariths)
  also have "\<dots> = (int (unat a) - int (unat b) + 2 ^ LENGTH('a)) mod 2 ^ LENGTH('a)"
    by simp
  also have "int (unat a) - int (unat b) + 2 ^ LENGTH('a) = int (unat a + 2 ^ LENGTH('a) - unat b)"
    using le by (simp only: of_nat_diff of_nat_add of_nat_power of_nat_numeral)
  finally have "int (unat (a - b)) = int ((unat a + 2 ^ LENGTH('a) - unat b) mod 2 ^ LENGTH('a))"
    by (simp only: zmod_int of_nat_power of_nat_numeral)
  then show ?thesis by (simp only: of_nat_eq_iff)
qed

lemma unat_mult_mod: "unat (a * b :: 'a::len word) = (unat a * unat b) mod 2 ^ LENGTH('a)"
  by (simp add: unat_word_ariths)

lemma unat_not: "unat (NOT (w :: 'a::len word)) = 2 ^ LENGTH('a) - 1 - unat w"
proof -
  have "NOT w = - 1 - w" by (simp add: not_eq_complement)
  moreover have "w \<le> - 1" by (rule word_n1_ge)
  moreover have "unat (- 1 :: 'a word) = 2 ^ LENGTH('a) - 1"
    by (simp add: unsigned_minus_1_eq_mask mask_eq_exp_minus_1)
  ultimately show ?thesis by (simp add: unat_sub)
qed

lemma low32: "unat (w AND 0xFFFFFFFF :: u64) = unat w mod 2 ^ 32"
proof -
  have "(0xFFFFFFFF :: u64) = mask 32" by (simp add: mask_eq_exp_minus_1)
  then have "w AND 0xFFFFFFFF = take_bit 32 w" by (simp add: take_bit_eq_mask)
  then show ?thesis by (metis take_bit_eq_mod unsigned_take_bit_eq)
qed

section \<open>Folds\<close>

lemma fold_take_drop: "fold f (drop n xs) (fold f (take n xs) s) = fold f xs s"
  by (metis append_take_drop_id comp_apply fold_append)

lemma fold_append3: "fold f (xs @ ys @ zs) s = fold f zs (fold f ys (fold f xs s))"
  by simp

section \<open>Bit length\<close>

fun bitlen :: "nat \<Rightarrow> nat" where
  "bitlen n = (if n = 0 then 0 else Suc (bitlen (n div 2)))"

declare bitlen.simps [simp del]

lemma bitlen_0 [simp]: "bitlen 0 = 0"
  by (simp add: bitlen.simps)

lemma bitlen_pos: "0 < n \<Longrightarrow> bitlen n = Suc (bitlen (n div 2))"
  by (simp add: bitlen.simps)

lemma bitlen_upper: "n < 2 ^ bitlen n"
proof (induction n rule: bitlen.induct)
  case (1 n)
  show ?case
  proof (cases "n = 0")
    case False
    with 1 have "n div 2 < 2 ^ bitlen (n div 2)" by simp
    with False show ?thesis by (simp add: bitlen_pos)
  qed simp
qed

lemma bitlen_lower: "0 < n \<Longrightarrow> 2 ^ (bitlen n - 1) \<le> n"
proof (induction n rule: bitlen.induct)
  case (1 n)
  show ?case
  proof (cases "n div 2 = 0")
    case True
    with 1 show ?thesis by (simp add: bitlen_pos)
  next
    case False
    with 1 have "2 ^ (bitlen (n div 2) - 1) \<le> n div 2" by simp
    moreover have "0 < bitlen (n div 2)" using False by (simp add: bitlen_pos)
    ultimately have "2 * 2 ^ (bitlen (n div 2) - 1) \<le> n" by linarith
    then show ?thesis
      using False \<open>0 < bitlen (n div 2)\<close> 1 by (simp add: bitlen_pos flip: power_Suc)
  qed
qed

lemma bitlen_le: "n < 2 ^ k \<Longrightarrow> bitlen n \<le> k"
proof -
  assume n: "n < 2 ^ k"
  show ?thesis
  proof (cases "n = 0")
    case False
    then have "2 ^ (bitlen n - 1) < (2 :: nat) ^ k"
      using bitlen_lower [of n] n by linarith
    then have "bitlen n - 1 < k" by (rule power_less_imp_less_exp [rotated]) simp
    then show ?thesis by simp
  qed simp
qed

lemma bitlen_shift: "0 < h \<Longrightarrow> l < 2 ^ k \<Longrightarrow> bitlen (h * 2 ^ k + l) = k + bitlen h"
proof (induction k arbitrary: l)
  case (Suc k)
  have "(h * 2 ^ Suc k + l) div 2 = (l + 2 * (h * 2 ^ k)) div 2" by (simp add: algebra_simps)
  also have "\<dots> = h * 2 ^ k + l div 2" by simp
  finally have "bitlen (h * 2 ^ Suc k + l) = Suc (bitlen (h * 2 ^ k + l div 2))"
    using Suc.prems by (simp add: bitlen_pos)
  also have "bitlen (h * 2 ^ k + l div 2) = k + bitlen h"
    using Suc by simp
  finally show ?case by simp
qed simp

end
