(* ===== verification/Long_Division.thy ===== *)
theory Long_Division
  imports Prelude
begin

text \<open>
  The shift-and-subtract division that src/tscvee/ta/src/uint256.c writes twice, once for
  128-bit and once for 256-bit operands. The locale names the operations the algorithm calls and
  the laws it relies on; its lemmas say that the division returns, and returns quotient and
  remainder, for every non-zero divisor. The two widths interpret it.
\<close>

locale long_division =
  fixes W :: nat
    and val :: "'a \<Rightarrow> nat"
    and bits :: "'a \<Rightarrow> u32"
    and gt :: "'a \<Rightarrow> 'a \<Rightarrow> bool"
    and gte :: "'a \<Rightarrow> 'a \<Rightarrow> bool"
    and minus :: "'a \<Rightarrow> 'a \<Rightarrow> 'a"
    and orb :: "'a \<Rightarrow> 'a \<Rightarrow> 'a"
    and shiftl :: "'a \<Rightarrow> u32 \<Rightarrow> 'a"
    and shiftr :: "'a \<Rightarrow> u32 \<Rightarrow> 'a"
    and one :: 'a
    and clear :: 'a
    and loop :: "'a \<Rightarrow> 'a \<Rightarrow> 'a \<Rightarrow> 'a \<Rightarrow> 'a \<Rightarrow> ('a \<times> 'a) option"
    and divmod :: "'a \<Rightarrow> 'a \<Rightarrow> ('a \<times> 'a) option"
  assumes val_less: "val x < 2 ^ W"
    and val_one: "val one = 1"
    and val_clear: "val clear = 0"
    and bits_val: "unat (bits x) = bitlen (val x)"
    and gt_val: "gt x y \<longleftrightarrow> val y < val x"
    and gte_val: "gte x y \<longleftrightarrow> val y \<le> val x"
    and minus_val: "val (minus x y) = (val x + 2 ^ W - val y) mod 2 ^ W"
    and orb_val: "val (orb x y) = or (val x) (val y)"
    and shiftl_val: "val (shiftl x v) = (val x * 2 ^ unat v) mod 2 ^ W"
    and shiftr_val: "val (shiftr x v) = val x div 2 ^ unat v"
    and loop_eq: "loop r m c a d =
        (if gte m r
         then (if gte m c
               then loop r (minus m c) (shiftr c 1) (shiftr a 1) (orb d a)
               else loop r m (shiftr c 1) (shiftr a 1) d)
         else Some (d, m))"
    and divmod_eq: "divmod l r =
        (let diff = bits l - bits r
         in if gt r l then Some (clear, l)
            else let c = shiftl r diff; a = shiftl one diff
                 in if gt c l then loop r l (shiftr c 1) (shiftr a 1) clear
                    else loop r l c a clear)"
begin

lemma minus_exact: "val y \<le> val x \<Longrightarrow> val (minus x y) = val x - val y"
proof -
  assume le: "val y \<le> val x"
  then have "val (minus x y) = (val x - val y + 2 ^ W) mod 2 ^ W"
    by (simp add: minus_val)
  also have "\<dots> = val x - val y"
    using val_less [of x] by simp
  finally show ?thesis .
qed

lemma orb_disjoint:
  assumes "2 ^ Suc k dvd val d" and "val a = 2 ^ k"
  shows "val (orb d a) = val d + 2 ^ k"
proof -
  from assms(1) obtain h where h: "val d = h * 2 ^ Suc k + 0" by (auto simp: mult.commute)
  have "(2 :: nat) ^ k < 2 ^ Suc k" by simp
  then have "or (h * 2 ^ Suc k + 0) (0 * 2 ^ Suc k + 2 ^ k) = or h 0 * 2 ^ Suc k + or 0 (2 ^ k)"
    by (intro or_halves) simp_all
  with h show ?thesis by (simp add: orb_val assms(2))
qed

lemma shiftr_one: "val (shiftr x 1) = val x div 2"
  by (simp add: shiftr_val)

text \<open>
  The loop invariant: the subtrahend \<open>c\<close> is the divisor shifted by \<open>k\<close>, the adder \<open>a\<close> is
  the matching power of two, the quotient so far has no bit at or below \<open>k\<close>, and the
  remainder still fits the bits that are left.
\<close>

lemma loop_correct:
  assumes "0 < val r" and "val c = val r * 2 ^ k" and "val a = 2 ^ k"
    and "2 ^ Suc k dvd val d" and "val m < val r * 2 ^ Suc k"
  shows "\<exists>q n. loop r m c a d = Some (q, n) \<and> val q = val d + val m div val r \<and> val n = val m mod val r"
  using assms
proof (induction k arbitrary: m c a d)
  case 0
  show ?case
  proof (cases "val r \<le> val m")
    case True
    define m' where "m' = minus m c"
    have m': "val m' = val m - val r" "val m' < val r"
      using 0 True by (simp_all add: m'_def minus_exact)
    have "loop r m c a d = loop r m' (shiftr c 1) (shiftr a 1) (orb d a)"
      using 0 True by (simp add: loop_eq [of r m c a d] gte_val m'_def)
    also have "\<dots> = Some (orb d a, m')"
      using m'(2) by (simp add: loop_eq [of r m'] gte_val)
    finally have "loop r m c a d = Some (orb d a, m')" .
    moreover have "val (orb d a) = val d + 1" using orb_disjoint [of 0 d a] 0 by simp
    moreover have "val m div val r = 1" and "val m mod val r = val m - val r"
      using True 0 m' by (simp_all add: div_if mod_if)
    ultimately show ?thesis using m' by simp
  next
    case False
    then show ?thesis by (simp add: loop_eq [of r m] gte_val)
  qed
next
  case (Suc k)
  show ?case
  proof (cases "val r \<le> val m")
    case False
    then show ?thesis by (simp add: loop_eq [of r m] gte_val)
  next
    case True
    have c: "val (shiftr c 1) = val r * 2 ^ k" and a: "val (shiftr a 1) = 2 ^ k"
      using Suc.prems by (simp_all add: shiftr_one)
    show ?thesis
    proof (cases "val c \<le> val m")
      case ge: True
      define m' where "m' = minus m c"
      have m': "val m = val m' + 2 ^ Suc k * val r"
        using ge Suc.prems by (simp add: m'_def minus_exact mult.commute)
      have d: "val (orb d a) = val d + 2 ^ Suc k"
        using orb_disjoint [of "Suc k" d a] Suc.prems by simp
      have "2 ^ Suc k dvd val d"
        by (rule dvd_trans [OF _ Suc.prems(4)]) (simp add: le_imp_power_dvd)
      then have "2 ^ Suc k dvd val (orb d a)"
        unfolding d by simp
      moreover have "val m' < val r * 2 ^ Suc k" using m' Suc.prems(5) by simp
      ultimately obtain q n where qn: "loop r m' (shiftr c 1) (shiftr a 1) (orb d a) = Some (q, n)"
        "val q = val (orb d a) + val m' div val r" "val n = val m' mod val r"
        using Suc.IH [OF Suc.prems(1) c a] by blast
      have "loop r m c a d = Some (q, n)"
        using qn(1) True ge by (simp add: loop_eq [of r m c a d] gte_val m'_def)
      moreover have "val m div val r = 2 ^ Suc k + val m' div val r"
        unfolding m' using Suc.prems(1) by simp
      moreover have "val m mod val r = val m' mod val r"
        unfolding m' by simp
      ultimately show ?thesis using qn d by simp
    next
      case lt: False
      have "2 ^ Suc k dvd val d"
        by (rule dvd_trans [OF _ Suc.prems(4)]) (simp add: le_imp_power_dvd)
      moreover have "val m < val r * 2 ^ Suc k" using lt Suc.prems by simp
      ultimately obtain q n where "loop r m (shiftr c 1) (shiftr a 1) d = Some (q, n)"
        "val q = val d + val m div val r" "val n = val m mod val r"
        using Suc.IH [OF Suc.prems(1) c a] by blast
      with True lt show ?thesis by (simp add: loop_eq [of r m c a d] gte_val)
    qed
  qed
qed

text \<open>
  The shift that starts the loop aligns the divisor with the dividend: after the correction it
  does not exceed the dividend, and twice it does.
\<close>

lemma align:
  assumes r: "0 < val r" and le: "val r \<le> val l"
  shows "unat (bits l - bits r) = bitlen (val l) - bitlen (val r)"
    and "val (shiftl r (bits l - bits r)) = val r * 2 ^ (bitlen (val l) - bitlen (val r))"
    and "val (shiftl one (bits l - bits r)) = 2 ^ (bitlen (val l) - bitlen (val r))"
    and "val l < val r * 2 ^ Suc (bitlen (val l) - bitlen (val r))"
proof -
  define k where "k = bitlen (val l) - bitlen (val r)"
  have mono: "bitlen (val r) \<le> bitlen (val l)"
    using le bitlen_upper [of "val l"] by (intro bitlen_le) linarith
  have pos: "0 < bitlen (val r)" using r by (simp add: bitlen_pos)
  have W: "bitlen (val l) \<le> W" by (rule bitlen_le) (rule val_less)
  show diff: "unat (bits l - bits r) = bitlen (val l) - bitlen (val r)"
    using mono by (simp add: unat_sub word_le_nat_alt bits_val)
  have "val r * 2 ^ k < 2 ^ bitlen (val r) * 2 ^ k"
    using bitlen_upper [of "val r"] by simp
  also have "\<dots> = 2 ^ bitlen (val l)" using mono by (simp add: k_def flip: power_add)
  also have "\<dots> \<le> 2 ^ W" using W by simp
  finally show "val (shiftl r (bits l - bits r)) = val r * 2 ^ (bitlen (val l) - bitlen (val r))"
    by (simp add: shiftl_val diff k_def)
  have "(2 :: nat) ^ k < 2 ^ W"
    using pos W mono by (simp add: k_def)
  then show "val (shiftl one (bits l - bits r)) = 2 ^ (bitlen (val l) - bitlen (val r))"
    by (simp add: shiftl_val diff k_def val_one)
  have "val l < 2 ^ bitlen (val l)" by (rule bitlen_upper)
  also have "bitlen (val l) = bitlen (val r) - 1 + Suc k" using mono pos by (simp add: k_def)
  also have "(2 :: nat) ^ \<dots> = 2 ^ (bitlen (val r) - 1) * 2 ^ Suc k" by (rule power_add)
  also have "\<dots> \<le> val r * 2 ^ Suc k" by (rule mult_le_mono1) (rule bitlen_lower [OF r])
  finally show "val l < val r * 2 ^ Suc (bitlen (val l) - bitlen (val r))" by (simp add: k_def)
qed

lemma divmod_correct:
  assumes r: "0 < val r"
  shows "\<exists>q n. divmod l r = Some (q, n) \<and> val q = val l div val r \<and> val n = val l mod val r"
proof (cases "val l < val r")
  case True
  then show ?thesis by (simp add: divmod_eq gt_val val_clear Let_def)
next
  case False
  define k where "k = bitlen (val l) - bitlen (val r)"
  define c a where "c = shiftl r (bits l - bits r)" and "a = shiftl one (bits l - bits r)"
  have ca: "val c = val r * 2 ^ k" "val a = 2 ^ k" "val l < val r * 2 ^ Suc k"
    using align [OF r, of l] False by (simp_all add: c_def a_def k_def)
  have div: "divmod l r = (if gt c l then loop r l (shiftr c 1) (shiftr a 1) clear else loop r l c a clear)"
    using False by (simp add: divmod_eq gt_val Let_def c_def a_def)
  show ?thesis
  proof (cases "val l < val c")
    case False
    then show ?thesis
      using loop_correct [OF r ca(1,2) _ ca(3), of clear] by (simp add: div gt_val val_clear)
  next
    case True
    have "k \<noteq> 0" using True ca \<open>\<not> val l < val r\<close> by (cases k) simp_all
    then obtain j where k: "k = Suc j" by (cases k) auto
    have "val (shiftr c 1) = val r * 2 ^ j" and "val (shiftr a 1) = 2 ^ j"
      using ca by (simp_all add: shiftr_one k)
    moreover have "val l < val r * 2 ^ Suc j" using True ca(1) by (simp add: k)
    ultimately show ?thesis
      using loop_correct [OF r, of "shiftr c 1" j "shiftr a 1" clear l] True
      by (simp add: div gt_val val_clear)
  qed
qed

lemma divmod_value:
  "0 < val r \<Longrightarrow> divmod l r = Some (q, n) \<Longrightarrow> val q = val l div val r \<and> val n = val l mod val r"
  using divmod_correct [of r l] by auto

lemma divmod_returns: "0 < val r \<Longrightarrow> divmod l r \<noteq> None"
  using divmod_correct [of r l] by auto

end

end
