(* ===== verification/Uint128.thy ===== *)
theory Uint128
  imports Prelude Long_Division
begin

text \<open>
  128-bit arithmetic of src/tscvee/ta/src/uint256.c (the file src/on REE/src/uint256.c is the
  same text). A \<open>struct uint128_t\<close> is its two 64-bit elements, \<open>UPPER\<close> and \<open>LOWER\<close>.
  Functions that store through a \<open>target\<close> pointer return the stored value; every call in the
  program passes a target that is distinct from the operands or is one the function has finished
  reading, so the returned value is what the caller sees.
  \<open>val128\<close> is the number represented; the lemmas in \<open>uval\<close> give the value each operation
  computes, modulo 2^128 where the code wraps around.
\<close>

section \<open>The structure and its simple operations\<close>

record uint128_t =
  upper128 :: u64
  lower128 :: u64

definition mk128 :: "u64 \<Rightarrow> u64 \<Rightarrow> uint128_t" where
  "mk128 u l = \<lparr>upper128 = u, lower128 = l\<rparr>"

definition zero128 :: "uint128_t \<Rightarrow> bool" where
  "zero128 number \<longleftrightarrow> lower128 number = 0 \<and> upper128 number = 0"

definition copy128 :: "uint128_t \<Rightarrow> uint128_t" where
  "copy128 number = \<lparr>upper128 = upper128 number, lower128 = lower128 number\<rparr>"

definition clear128 :: uint128_t where
  "clear128 = \<lparr>upper128 = 0, lower128 = 0\<rparr>"

definition shiftl128 :: "uint128_t \<Rightarrow> u32 \<Rightarrow> uint128_t" where
  "shiftl128 number v =
     (if 128 \<le> v then clear128
      else if v = 64 then \<lparr>upper128 = lower128 number, lower128 = 0\<rparr>
      else if v = 0 then copy128 number
      else if v < 64 then
        \<lparr>upper128 = push_bit (unat v) (upper128 number) + drop_bit (unat (64 - v)) (lower128 number),
         lower128 = push_bit (unat v) (lower128 number)\<rparr>
      else if v < 128 \<and> 64 < v then
        \<lparr>upper128 = push_bit (unat (v - 64)) (lower128 number), lower128 = 0\<rparr>
      else clear128)"

definition shiftr128 :: "uint128_t \<Rightarrow> u32 \<Rightarrow> uint128_t" where
  "shiftr128 number v =
     (if 128 \<le> v then clear128
      else if v = 64 then \<lparr>upper128 = 0, lower128 = upper128 number\<rparr>
      else if v = 0 then copy128 number
      else if v < 64 then
        \<lparr>upper128 = drop_bit (unat v) (upper128 number),
         lower128 = push_bit (unat (64 - v)) (upper128 number) + drop_bit (unat v) (lower128 number)\<rparr>
      else if v < 128 \<and> 64 < v then
        \<lparr>upper128 = 0, lower128 = drop_bit (unat (v - 64)) (upper128 number)\<rparr>
      else clear128)"

text \<open>The two loops of \<open>bits128\<close>, which count the shifts that clear a 64-bit word.\<close>

function bits64_loop :: "u64 \<Rightarrow> u32 \<Rightarrow> u32" where
  "bits64_loop w r = (if w \<noteq> 0 then bits64_loop (drop_bit 1 w) (r + 1) else r)"
  by pat_completeness auto
termination
proof (relation "measure (\<lambda>(w, r). unat w)", goal_cases)
  case (2 w r)
  then have "0 < unat w" by (simp add: unat_gt_0)
  then show ?case by (simp add: unat_drop_bit)
qed simp

declare bits64_loop.simps [simp del]

definition bits128 :: "uint128_t \<Rightarrow> u32" where
  "bits128 number =
     (if upper128 number \<noteq> 0 then bits64_loop (upper128 number) 64
      else bits64_loop (lower128 number) 0)"

definition equal128 :: "uint128_t \<Rightarrow> uint128_t \<Rightarrow> bool" where
  "equal128 n1 n2 \<longleftrightarrow> upper128 n1 = upper128 n2 \<and> lower128 n1 = lower128 n2"

definition gt128 :: "uint128_t \<Rightarrow> uint128_t \<Rightarrow> bool" where
  "gt128 n1 n2 = (if upper128 n1 = upper128 n2 then lower128 n1 > lower128 n2
                  else upper128 n1 > upper128 n2)"

definition gte128 :: "uint128_t \<Rightarrow> uint128_t \<Rightarrow> bool" where
  "gte128 n1 n2 \<longleftrightarrow> gt128 n1 n2 \<or> equal128 n1 n2"

definition add128 :: "uint128_t \<Rightarrow> uint128_t \<Rightarrow> uint128_t" where
  "add128 n1 n2 =
     \<lparr>upper128 = upper128 n1 + upper128 n2 + of_bool (lower128 n1 + lower128 n2 < lower128 n1),
      lower128 = lower128 n1 + lower128 n2\<rparr>"

definition minus128 :: "uint128_t \<Rightarrow> uint128_t \<Rightarrow> uint128_t" where
  "minus128 n1 n2 =
     \<lparr>upper128 = upper128 n1 - upper128 n2 - of_bool (lower128 n1 - lower128 n2 > lower128 n1),
      lower128 = lower128 n1 - lower128 n2\<rparr>"

definition or128 :: "uint128_t \<Rightarrow> uint128_t \<Rightarrow> uint128_t" where
  "or128 n1 n2 = \<lparr>upper128 = upper128 n1 OR upper128 n2, lower128 = lower128 n1 OR lower128 n2\<rparr>"

definition xor128 :: "uint128_t \<Rightarrow> uint128_t \<Rightarrow> uint128_t" where
  "xor128 n1 n2 = \<lparr>upper128 = upper128 n1 XOR upper128 n2, lower128 = lower128 n1 XOR lower128 n2\<rparr>"

definition and128 :: "uint128_t \<Rightarrow> uint128_t \<Rightarrow> uint128_t" where
  "and128 n1 n2 = \<lparr>upper128 = upper128 n1 AND upper128 n2, lower128 = lower128 n1 AND lower128 n2\<rparr>"

definition not128 :: "uint128_t \<Rightarrow> uint128_t" where
  "not128 number = \<lparr>upper128 = NOT (upper128 number), lower128 = NOT (lower128 number)\<rparr>"

section \<open>Multiplication\<close>

text \<open>
  \<open>products[3 - x][y] = top[x] * bottom[y]\<close>: the entry \<open>P i j\<close> below is \<open>products[i][j]\<close>.
  The four column sums are 64-bit words; only the low 32 bits of \<open>first32\<close> survive the shift.
\<close>

definition split32 :: "uint128_t \<Rightarrow> u64 list" where
  "split32 n = [drop_bit 32 (upper128 n), upper128 n AND 0xFFFFFFFF,
                drop_bit 32 (lower128 n), lower128 n AND 0xFFFFFFFF]"

definition mul128 :: "uint128_t \<Rightarrow> uint128_t \<Rightarrow> uint128_t" where
  "mul128 n1 n2 =
     (let top = split32 n1; bottom = split32 n2;
          P = (\<lambda>i j. top ! (3 - i) * bottom ! j);
          lo = (\<lambda>w. w AND 0xFFFFFFFF); hi = (\<lambda>w. drop_bit 32 w);
          fourth32 = lo (P 0 3);
          third32 = lo (P 0 2) + hi (P 0 3);
          second32 = lo (P 0 1) + hi (P 0 2);
          first32 = lo (P 0 0) + hi (P 0 1);
          third32 = third32 + lo (P 1 3);
          second32 = second32 + (lo (P 1 2) + hi (P 1 3));
          first32 = first32 + (lo (P 1 1) + hi (P 1 2));
          second32 = second32 + lo (P 2 3);
          first32 = first32 + (lo (P 2 2) + hi (P 2 3));
          first32 = first32 + lo (P 3 3);
          tmp = mk128 (push_bit 32 first32) 0;
          tmp2 = mk128 (drop_bit 32 third32) (push_bit 32 third32);
          target = add128 tmp tmp2;
          tmp2 = add128 (mk128 second32 0) target
      in add128 (mk128 0 fourth32) tmp2)"

section \<open>Values\<close>

definition val128 :: "uint128_t \<Rightarrow> nat" where
  "val128 x = unat (upper128 x) * 2 ^ 64 + unat (lower128 x)"

lemma unat64 [simp]: "unat (w :: u64) < 18446744073709551616"
  using unat_less [of w] by simp

lemma unat64_pow: "unat (w :: u64) < 2 ^ 64"
  using unat_less [of w] by simp

lemma val128_lt: "val128 x < 2 ^ 128"
  using halves_lt [of "unat (upper128 x)" "2 ^ 64" "unat (lower128 x)"]
  by (simp add: val128_def)

lemma val128_less [simp]: "val128 x < 340282366920938463463374607431768211456"
  using val128_lt [of x] by simp

lemma val128_mk128: "val128 (mk128 u l) = unat u * 2 ^ 64 + unat l"
  by (simp add: val128_def mk128_def)

lemma val128_inj: "val128 x = val128 y \<longleftrightarrow> x = y"
  using halves_eq_iff [of "unat (lower128 x)" "2 ^ 64" "unat (lower128 y)"
      "unat (upper128 x)" "unat (upper128 y)"]
  by (cases x; cases y) (simp add: val128_def word_unat_eq_iff)

lemma copy128_id [simp]: "copy128 x = x"
  by (cases x) (simp add: copy128_def)

lemma val128_clear [uval, simp]: "val128 clear128 = 0"
  by (simp add: val128_def clear128_def)

lemma zero128_val [uval]: "zero128 x \<longleftrightarrow> val128 x = 0"
  by (auto simp: zero128_def val128_def unat_eq_0)

lemma equal128_val [uval]: "equal128 x y \<longleftrightarrow> val128 x = val128 y"
  unfolding val128_inj by (cases x; cases y) (auto simp: equal128_def)

lemma gt128_val [uval]: "gt128 x y \<longleftrightarrow> val128 y < val128 x"
  using halves_less_iff [of "unat (lower128 y)" "2 ^ 64" "unat (lower128 x)"
      "unat (upper128 y)" "unat (upper128 x)"]
  by (auto simp: gt128_def val128_def word_less_nat_alt word_unat_eq_iff)

lemma gte128_val [uval]: "gte128 x y \<longleftrightarrow> val128 y \<le> val128 x"
  by (auto simp: gte128_def uval)

lemma add128_val [uval]: "val128 (add128 x y) = (val128 x + val128 y) mod 2 ^ 128"
proof -
  have "val128 (add128 x y) =
    ((unat (upper128 x) + unat (upper128 y) +
      of_bool ((unat (lower128 x) + unat (lower128 y)) mod 2 ^ 64 < unat (lower128 x))) mod 2 ^ 64) * 2 ^ 64
      + (unat (lower128 x) + unat (lower128 y)) mod 2 ^ 64"
    by (simp add: val128_def add128_def unat_add_mod word_less_nat_alt mod_simps)
  also have "\<dots> = (val128 x + val128 y) mod (2 ^ 64 * 2 ^ 64)"
    unfolding val128_def by (rule halves_add) (simp_all add: unat_less)
  finally show ?thesis by simp
qed

lemma minus128_val [uval]: "val128 (minus128 x y) = (val128 x + 2 ^ 128 - val128 y) mod 2 ^ 128"
proof -
  let ?b = "of_bool (unat (lower128 x) < (unat (lower128 x) + 2 ^ 64 - unat (lower128 y)) mod 2 ^ 64) :: nat"
  have sub: "unat (u - v :: u64) = (unat u + 2 ^ 64 - unat v) mod 2 ^ 64" for u v
    using unat_sub_mod [of u v] by simp
  have "unat (upper128 x - upper128 y - of_bool (lower128 x < lower128 x - lower128 y)) =
        ((unat (upper128 x) + 2 ^ 64 - unat (upper128 y)) mod 2 ^ 64 + 2 ^ 64 - ?b) mod 2 ^ 64"
    by (simp only: sub word_less_nat_alt unat_of_bool)
  also have "\<dots> = (unat (upper128 x) + 2 * 2 ^ 64 - unat (upper128 y) - ?b) mod 2 ^ 64"
    by (rule borrow_mod) (rule unat64_pow, simp)
  finally have "val128 (minus128 x y) =
    ((unat (upper128 x) + 2 * 2 ^ 64 - unat (upper128 y) - ?b) mod 2 ^ 64) * 2 ^ 64
      + (unat (lower128 x) + 2 ^ 64 - unat (lower128 y)) mod 2 ^ 64"
    by (simp only: val128_def minus128_def uint128_t.select_convs sub [of "lower128 x"])
  also have "\<dots> = (val128 x + 2 ^ 64 * 2 ^ 64 - val128 y) mod (2 ^ 64 * 2 ^ 64)"
    unfolding val128_def by (rule halves_sub) (rule unat64_pow)+
  finally show ?thesis by simp
qed

lemma or128_val [uval]: "val128 (or128 x y) = or (val128 x) (val128 y)"
proof -
  have "or (h * 2 ^ 64 + l) (h' * 2 ^ 64 + l') = or h h' * 2 ^ 64 + or l l'"
    if "l < 2 ^ 64" and "l' < 2 ^ 64" for h l h' l' :: nat
    using that by (rule or_halves)
  then show ?thesis by (simp add: val128_def or128_def unsigned_or_eq)
qed

lemma xor128_val [uval]: "val128 (xor128 x y) = xor (val128 x) (val128 y)"
proof -
  have "xor (h * 2 ^ 64 + l) (h' * 2 ^ 64 + l') = xor h h' * 2 ^ 64 + xor l l'"
    if "l < 2 ^ 64" and "l' < 2 ^ 64" for h l h' l' :: nat
    using that by (rule xor_halves)
  then show ?thesis by (simp add: val128_def xor128_def unsigned_xor_eq)
qed

lemma and128_val [uval]: "val128 (and128 x y) = and (val128 x) (val128 y)"
proof -
  have "and (h * 2 ^ 64 + l) (h' * 2 ^ 64 + l') = and h h' * 2 ^ 64 + and l l'"
    if "l < 2 ^ 64" and "l' < 2 ^ 64" for h l h' l' :: nat
    using that by (rule and_halves)
  then show ?thesis by (simp add: val128_def and128_def unsigned_and_eq)
qed

lemma not128_val [uval]: "val128 (not128 x) = 2 ^ 128 - 1 - val128 x"
  using halves_compl [of "unat (upper128 x)" "2 ^ 64" "unat (lower128 x)"]
  by (simp add: val128_def not128_def unat_not)

lemma val128_shiftl: "val128 (shiftl128 x v) = (val128 x * 2 ^ unat v) mod 2 ^ 128"
proof -
  let ?H = "unat (upper128 x)" and ?L = "unat (lower128 x)"
  consider "128 \<le> unat v" | "unat v < 64" | "64 \<le> unat v" "unat v < 128" by linarith
  then show ?thesis
  proof cases
    case 1
    then have "128 \<le> v" by (simp add: word_le_nat_alt)
    moreover have "val128 x * 2 ^ unat v mod 2 ^ 128 = 0"
    proof -
      have "(2 :: nat) ^ 128 dvd 2 ^ unat v" using 1 by (rule le_imp_power_dvd)
      then show ?thesis by (simp add: dvd_imp_mod_0)
    qed
    ultimately show ?thesis by (simp add: shiftl128_def)
  next
    case 2
    then have v: "\<not> 128 \<le> v" "v \<noteq> 64" "v < 64"
      by (auto simp: word_le_nat_alt word_less_nat_alt)
    have u: "unat (64 - v) = 64 - unat v"
      using v(3) by (simp add: unat_sub less_imp_le)
    have "val128 (shiftl128 x v) =
        (((?H * 2 ^ unat v) mod 2 ^ 64 + ?L div 2 ^ (64 - unat v)) mod 2 ^ 64) * 2 ^ 64
          + (?L * 2 ^ unat v) mod 2 ^ 64"
      using v 2 by (cases "v = 0")
        (simp_all add: shiftl128_def val128_def unat_add_mod unat_push_bit unat_drop_bit u unat_eq_0)
    also have "\<dots> = (val128 x * 2 ^ unat v) mod (2 ^ 64 * 2 ^ 64)"
      unfolding val128_def
      by (rule halves_shl) (use 2 in \<open>simp_all flip: power_add\<close>)
    finally show ?thesis by simp
  next
    case 3
    then have v: "\<not> 128 \<le> v" "v \<noteq> 0" "\<not> v < 64" "v < 128" "v \<noteq> 64 \<longleftrightarrow> 64 < v" "64 \<le> v"
      by (auto simp: word_le_nat_alt word_less_nat_alt word_unat_eq_iff)
    have u: "unat (v - 64) = unat v - 64"
      using v(6) by (simp add: unat_sub)
    define k where "k = unat v - 64"
    have vk: "unat v = 64 + k" using 3 by (simp add: k_def)
    have "val128 (shiftl128 x v) = ((?L * 2 ^ k) mod 2 ^ 64) * 2 ^ 64"
      using v u vk by (cases "v = 64")
        (simp_all add: shiftl128_def val128_def unat_push_bit)
    also have "\<dots> = (?L * 2 ^ k * 2 ^ 64) mod (2 ^ 64 * 2 ^ 64)"
      by (rule mod_mult_mult2 [symmetric])
    also have "\<dots> = (?H * 2 ^ k * (2 ^ 64 * 2 ^ 64) + ?L * 2 ^ k * 2 ^ 64) mod (2 ^ 64 * 2 ^ 64)"
      by simp
    also have "?H * 2 ^ k * (2 ^ 64 * 2 ^ 64) + ?L * 2 ^ k * 2 ^ 64 = val128 x * 2 ^ unat v"
      by (simp add: val128_def vk power_add algebra_simps)
    finally show ?thesis by simp
  qed
qed

lemma val128_shiftr: "val128 (shiftr128 x v) = val128 x div 2 ^ unat v"
proof -
  let ?H = "unat (upper128 x)" and ?L = "unat (lower128 x)"
  consider "128 \<le> unat v" | "unat v < 64" | "64 \<le> unat v" "unat v < 128" by linarith
  then show ?thesis
  proof cases
    case 1
    then have "128 \<le> v" by (simp add: word_le_nat_alt)
    moreover have "val128 x < 2 ^ unat v"
      using val128_lt [of x] power_increasing [OF 1, of "2 :: nat"] by linarith
    ultimately show ?thesis by (simp add: shiftr128_def)
  next
    case 2
    then have v: "\<not> 128 \<le> v" "v \<noteq> 64" "v < 64"
      by (auto simp: word_le_nat_alt word_less_nat_alt)
    have u: "unat (64 - v) = 64 - unat v"
      using v(3) by (simp add: unat_sub less_imp_le)
    have "val128 (shiftr128 x v) = (?H div 2 ^ unat v) * 2 ^ 64
          + ((?H * 2 ^ (64 - unat v)) mod 2 ^ 64 + ?L div 2 ^ unat v) mod 2 ^ 64"
      using v 2 by (cases "v = 0")
        (simp_all add: shiftr128_def val128_def unat_add_mod unat_push_bit unat_drop_bit u unat_eq_0)
    also have "\<dots> = val128 x div 2 ^ unat v"
      unfolding val128_def
      by (rule halves_shr) (use 2 in \<open>simp_all flip: power_add\<close>)
    finally show ?thesis .
  next
    case 3
    then have v: "\<not> 128 \<le> v" "v \<noteq> 0" "\<not> v < 64" "v < 128" "v \<noteq> 64 \<longleftrightarrow> 64 < v" "64 \<le> v"
      by (auto simp: word_le_nat_alt word_less_nat_alt word_unat_eq_iff)
    have u: "unat (v - 64) = unat v - 64"
      using v(6) by (simp add: unat_sub)
    define k where "k = unat v - 64"
    have vk: "unat v = 64 + k" using 3 by (simp add: k_def)
    have "val128 (shiftr128 x v) = ?H div 2 ^ k"
      using v u vk by (cases "v = 64")
        (simp_all add: shiftr128_def val128_def unat_drop_bit)
    also have "?H = val128 x div 2 ^ 64"
      by (simp add: val128_def)
    also have "val128 x div 2 ^ 64 div 2 ^ k = val128 x div 2 ^ unat v"
      unfolding vk power_add by (rule div_mult2_eq [symmetric])
    finally show ?thesis .
  qed
qed

lemma bits64_loop_val:
  "unat r + bitlen (unat w) < 2 ^ 32 \<Longrightarrow> unat (bits64_loop w r) = unat r + bitlen (unat w)"
proof (induction w r rule: bits64_loop.induct)
  case (1 w r)
  show ?case
  proof (cases "w = 0")
    case True
    then show ?thesis by (simp add: bits64_loop.simps)
  next
    case False
    then have pos: "0 < unat w" by (simp add: unat_gt_0)
    have half: "bitlen (unat w) = Suc (bitlen (unat (drop_bit 1 w)))"
      using bitlen_pos [OF pos] by (simp add: unat_drop_bit)
    have "unat (r + 1) = unat r + 1"
      using "1.prems" half by (subst unat_add_mod) simp
    with 1 False half show ?thesis
      by (subst bits64_loop.simps) simp
  qed
qed

lemma bits128_val: "unat (bits128 x) = bitlen (val128 x)"
proof -
  have le: "bitlen (unat w) \<le> 64" for w :: u64
    using unat_less [of w] by (intro bitlen_le) simp
  show ?thesis
  proof (cases "upper128 x = 0")
    case True
    then show ?thesis
      using le [of "lower128 x"] by (simp add: bits128_def val128_def bits64_loop_val)
  next
    case False
    then have "bitlen (val128 x) = 64 + bitlen (unat (upper128 x))"
      unfolding val128_def by (intro bitlen_shift) (simp_all add: unat_gt_0)
    then show ?thesis
      using le [of "upper128 x"] False by (simp add: bits128_def bits64_loop_val)
  qed
qed

section \<open>The product\<close>

lemma unat_mult_small:
  assumes "unat a < 2 ^ 32" and "unat (b :: u64) < 2 ^ 32"
  shows "unat (a * b) = unat a * unat b"
proof -
  have "unat a * unat b < 2 ^ 32 * 2 ^ 32"
    using assms by (intro mult_strict_mono) simp_all
  then show ?thesis by (simp add: unat_mult_mod)
qed

lemma val128_split:
  assumes "split32 x = [a, b, c, d]"
  shows "val128 x = unat a * 2 ^ 96 + unat b * 2 ^ 64 + unat c * 2 ^ 32 + unat d"
    and "unat a < 2 ^ 32" and "unat b < 2 ^ 32" and "unat c < 2 ^ 32" and "unat d < 2 ^ 32"
proof -
  have half: "unat w = unat (drop_bit 32 w) * 2 ^ 32 + unat (w AND 0xFFFFFFFF)" for w :: u64
    by (simp add: unat_drop_bit low32)
  show "val128 x = unat a * 2 ^ 96 + unat b * 2 ^ 64 + unat c * 2 ^ 32 + unat d"
    using assms half [of "upper128 x"] half [of "lower128 x"]
    by (simp add: val128_def split32_def)
  have "unat (drop_bit 32 w) < 2 ^ 32" for w :: u64
    using unat64_pow [of w] by (simp add: unat_drop_bit less_mult_imp_div_less)
  then show "unat a < 2 ^ 32" and "unat b < 2 ^ 32" and "unat c < 2 ^ 32" and "unat d < 2 ^ 32"
    using assms by (auto simp: split32_def low32)
qed

text \<open>
  The schoolbook product in base \<open>B\<close>: each partial product is split into its low and high
  digit, and the column sums \<open>third\<close>, \<open>second\<close>, \<open>first\<close> are what the code accumulates.
\<close>

lemma schoolbook4:
  fixes B :: nat
  assumes p: "d * h = l03 + B * h03" "d * g = l02 + B * h02" "d * f = l01 + B * h01" "d * e = l00 + B * h00"
    "c * h = l13 + B * h13" "c * g = l12 + B * h12" "c * f = l11 + B * h11"
    "b * h = l23 + B * h23" "b * g = l22 + B * h22" "a * h = l33 + B * h33"
  shows "((a * B ^ 3 + b * B ^ 2 + c * B + d) * (e * B ^ 3 + f * B ^ 2 + g * B + h)) mod B ^ 4 =
    ((l00 + h01 + (l11 + h12) + (l22 + h23) + l33) * B ^ 3 +
     (l01 + h02 + (l12 + h13) + l23) * B ^ 2 + (l02 + h03 + l13) * B + l03) mod B ^ 4"
proof -
  have "(a * B ^ 3 + b * B ^ 2 + c * B + d) * (e * B ^ 3 + f * B ^ 2 + g * B + h) =
    B ^ 4 * (a * e * B ^ 2 + (a * f + b * e) * B + (a * g + b * f + c * e)) +
    ((d * e + c * f + b * g + a * h) * B ^ 3 + (d * f + c * g + b * h) * B ^ 2 +
     (d * g + c * h) * B + d * h)"
    (is "?prod = B ^ 4 * ?K + ?low")
    by (simp add: algebra_simps power_numeral_reduce)
  also have "(d * e + c * f + b * g + a * h) * B ^ 3 + (d * f + c * g + b * h) * B ^ 2 +
     (d * g + c * h) * B + d * h =
    B ^ 4 * (h00 + h11 + h22 + h33) +
    ((l00 + h01 + (l11 + h12) + (l22 + h23) + l33) * B ^ 3 +
     (l01 + h02 + (l12 + h13) + l23) * B ^ 2 + (l02 + h03 + l13) * B + l03)"
    unfolding p by (simp add: algebra_simps power_numeral_reduce)
  finally show ?thesis by (simp only: mod_mult_self4)
qed

lemma split_digit:
  fixes w :: u64
  shows "unat w = unat (w AND 0xFFFFFFFF) + 2 ^ 32 * unat (drop_bit 32 w)"
    and "unat (w AND 0xFFFFFFFF) < 2 ^ 32" and "unat (drop_bit 32 w) < 2 ^ 32"
  using unat64_pow [of w] by (simp_all add: unat_drop_bit low32 less_mult_imp_div_less)

lemma val128_shifted_digit: "val128 (mk128 (drop_bit 32 w) (push_bit 32 w)) = unat w * 2 ^ 32"
proof -
  have "unat w * 2 ^ 32 = (unat w div 2 ^ 32) * (2 ^ 32 * 2 ^ 32) + (unat w mod 2 ^ 32) * 2 ^ 32"
    by (rule mult_mod_split)
  moreover have "(unat w * 2 ^ 32) mod (2 ^ 32 * 2 ^ 32) = (unat w mod 2 ^ 32) * 2 ^ 32"
    by (rule mod_mult_mult2)
  ultimately show ?thesis
    by (simp add: val128_mk128 unat_drop_bit unat_push_bit)
qed

lemma val128_top_digit: "val128 (mk128 (push_bit 32 w) 0) = (unat w * 2 ^ 96) mod 2 ^ 128"
proof -
  have "(unat w * 2 ^ 32) mod 2 ^ 64 * 2 ^ 64 = (unat w * 2 ^ 32 * 2 ^ 64) mod (2 ^ 64 * 2 ^ 64)"
    by (rule mod_mult_mult2 [symmetric])
  then show ?thesis by (simp add: val128_mk128 unat_push_bit mult.commute)
qed

lemma mul128_val [uval]: "val128 (mul128 x y) = (val128 x * val128 y) mod 2 ^ 128"
proof -
  obtain a b c d where s: "split32 x = [a, b, c, d]" by (simp add: split32_def)
  obtain e f g h where t: "split32 y = [e, f, g, h]" by (simp add: split32_def)
  define lo hi where "lo = (\<lambda>w :: u64. w AND 0xFFFFFFFF)" and "hi = (\<lambda>w :: u64. drop_bit 32 w)"
  define n where "n = (\<lambda>w :: u64. unat (lo w))"
  define m where "m = (\<lambda>w :: u64. unat (hi w))"
  have bounds: "n w < 4294967296" "m w < 4294967296" for w
    using split_digit [of w] by (simp_all add: n_def m_def lo_def hi_def)
  have digits: "unat u * unat v = n (u * v) + 2 ^ 32 * m (u * v)"
    if "u \<in> {a, b, c, d}" and "v \<in> {e, f, g, h}" for u v
  proof -
    have "unat u < 2 ^ 32" and "unat v < 2 ^ 32"
      using that val128_split(2-5) [OF s] val128_split(2-5) [OF t] by blast+
    then show ?thesis
      using split_digit(1) [of "u * v"] by (simp add: unat_mult_small n_def m_def lo_def hi_def)
  qed
  define third second first where
    "third = lo (d * g) + hi (d * h) + lo (c * h)" and
    "second = lo (d * f) + hi (d * g) + (lo (c * g) + hi (c * h)) + lo (b * h)" and
    "first = lo (d * e) + hi (d * f) + (lo (c * f) + hi (c * g)) + (lo (b * g) + hi (b * h)) + lo (a * h)"
  have sums: "unat third = n (d * g) + m (d * h) + n (c * h)"
    "unat second = n (d * f) + m (d * g) + (n (c * g) + m (c * h)) + n (b * h)"
    "unat first = n (d * e) + m (d * f) + (n (c * f) + m (c * g)) + (n (b * g) + m (b * h)) + n (a * h)"
    using bounds [of "d * g"] bounds [of "d * h"] bounds [of "c * h"] bounds [of "d * f"]
      bounds [of "c * g"] bounds [of "b * h"] bounds [of "d * e"] bounds [of "c * f"]
      bounds [of "b * g"] bounds [of "a * h"]
    by (simp_all add: third_def second_def first_def unat_add_mod n_def m_def)
  have "mul128 x y = add128 (mk128 0 (lo (d * h))) (add128 (mk128 second 0)
      (add128 (mk128 (push_bit 32 first) 0) (mk128 (drop_bit 32 third) (push_bit 32 third))))"
    by (simp add: mul128_def s t Let_def third_def second_def first_def lo_def hi_def)
  then have "val128 (mul128 x y) =
      (n (d * h) + (unat second * 2 ^ 64 + (unat first * 2 ^ 96 + unat third * 2 ^ 32))) mod 2 ^ 128"
    using val128_mk128 [of 0 "lo (d * h)"] val128_mk128 [of second 0]
    by (simp add: add128_val val128_top_digit val128_shifted_digit n_def mod_simps)
  also have "\<dots> = (unat first * (2 ^ 32) ^ 3 + unat second * (2 ^ 32) ^ 2 + unat third * 2 ^ 32 + n (d * h))
      mod (2 ^ 32) ^ 4"
    by (simp add: algebra_simps)
  also have "\<dots> = ((unat a * (2 ^ 32) ^ 3 + unat b * (2 ^ 32) ^ 2 + unat c * 2 ^ 32 + unat d) *
      (unat e * (2 ^ 32) ^ 3 + unat f * (2 ^ 32) ^ 2 + unat g * 2 ^ 32 + unat h)) mod (2 ^ 32) ^ 4"
    unfolding sums by (rule schoolbook4 [symmetric]) (rule digits; simp)+
  also have "\<dots> = (val128 x * val128 y) mod 2 ^ 128"
    by (simp add: val128_split(1) [OF s] val128_split(1) [OF t])
  finally show ?thesis .
qed

section \<open>Division\<close>

text \<open>
  The loop of \<open>divmod128\<close> does not end when the divisor is zero, so it is a partial function:
  \<open>None\<close> stands for not returning. The result is quotient and remainder.
\<close>

partial_function (option) divmod128_loop ::
  "uint128_t \<Rightarrow> uint128_t \<Rightarrow> uint128_t \<Rightarrow> uint128_t \<Rightarrow> uint128_t \<Rightarrow> (uint128_t \<times> uint128_t) option" where
  "divmod128_loop r resMod copyd adder resDiv =
     (if gte128 resMod r
      then (if gte128 resMod copyd
            then divmod128_loop r (minus128 resMod copyd) (shiftr128 copyd 1) (shiftr128 adder 1)
                   (or128 resDiv adder)
            else divmod128_loop r resMod (shiftr128 copyd 1) (shiftr128 adder 1) resDiv)
      else Some (resDiv, resMod))"

definition divmod128 :: "uint128_t \<Rightarrow> uint128_t \<Rightarrow> (uint128_t \<times> uint128_t) option" where
  "divmod128 l r =
     (let diffBits = bits128 l - bits128 r
      in if gt128 r l then Some (clear128, l)
         else let copyd = shiftl128 r diffBits; adder = shiftl128 (mk128 0 1) diffBits
              in if gt128 copyd l
                 then divmod128_loop r l (shiftr128 copyd 1) (shiftr128 adder 1) clear128
                 else divmod128_loop r l copyd adder clear128)"

interpretation div128: long_division 128 val128 bits128 gt128 gte128 minus128 or128 shiftl128
  shiftr128 "mk128 0 1" clear128 divmod128_loop divmod128
proof (unfold_locales, goal_cases)
  case (11 r m c a d)
  show ?case by (rule divmod128_loop.simps)
next
  case (12 l r)
  show ?case by (simp add: divmod128_def)
qed (simp_all add: uval bits128_val val128_shiftl val128_shiftr val128_mk128)

lemma divmod128_by_zero: "val128 r = 0 \<Longrightarrow> divmod128 l r = None"
proof (rule ccontr)
  assume r: "val128 r = 0" and "divmod128 l r \<noteq> None"
  then obtain y where "divmod128 l r = Some y" by blast
  with r obtain c a where "divmod128_loop r l c a clear128 = Some y"
    by (auto simp: divmod128_def uval Let_def split: if_splits)
  then have "val128 r \<noteq> 0"
    by (rule divmod128_loop.raw_induct [rotated]) (auto simp: uval split: if_splits)
  with r show False by simp
qed

end
