(* ===== verification/Uint256.thy ===== *)
theory Uint256
  imports Uint128
begin

text \<open>
  256-bit arithmetic of src/tscvee/ta/src/uint256.c: a \<open>struct uint256_t\<close> is two 128-bit
  halves and every operation is built from the 128-bit ones. \<open>val256\<close> is the number
  represented; addition, subtraction, the shifts, the bitwise operations, comparison and division
  compute what their names say, modulo 2^256. Multiplication does not: a carry out of the column
  of weight 2^64 is added at weight 2^192 instead of 2^128 (\<open>mul256_value\<close>).
\<close>

section \<open>The structure and its operations\<close>

record uint256_t =
  upper256 :: uint128_t
  lower256 :: uint128_t

text \<open>The initialiser \<open>{a, b, c, d}\<close>, the most significant 64-bit element first.\<close>

definition mk256 :: "u64 \<Rightarrow> u64 \<Rightarrow> u64 \<Rightarrow> u64 \<Rightarrow> uint256_t" where
  "mk256 a b c d = \<lparr>upper256 = mk128 a b, lower256 = mk128 c d\<rparr>"

definition zero256 :: "uint256_t \<Rightarrow> bool" where
  "zero256 number \<longleftrightarrow> zero128 (lower256 number) \<and> zero128 (upper256 number)"

definition copy256 :: "uint256_t \<Rightarrow> uint256_t" where
  "copy256 number = \<lparr>upper256 = copy128 (upper256 number), lower256 = copy128 (lower256 number)\<rparr>"

definition clear256 :: uint256_t where
  "clear256 = \<lparr>upper256 = clear128, lower256 = clear128\<rparr>"

definition shiftl256 :: "uint256_t \<Rightarrow> u32 \<Rightarrow> uint256_t" where
  "shiftl256 number v =
     (if 256 \<le> v then clear256
      else if v = 128 then \<lparr>upper256 = copy128 (lower256 number), lower256 = clear128\<rparr>
      else if v = 0 then copy256 number
      else if v < 128 then
        let tmp1 = shiftl128 (upper256 number) v;
            tmp2 = shiftr128 (lower256 number) (128 - v)
        in \<lparr>upper256 = add128 tmp1 tmp2, lower256 = shiftl128 (lower256 number) v\<rparr>
      else if v < 256 \<and> 128 < v then
        \<lparr>upper256 = shiftl128 (lower256 number) (v - 128), lower256 = clear128\<rparr>
      else clear256)"

definition shiftr256 :: "uint256_t \<Rightarrow> u32 \<Rightarrow> uint256_t" where
  "shiftr256 number v =
     (if 256 \<le> v then clear256
      else if v = 128 then \<lparr>upper256 = clear128, lower256 = copy128 (upper256 number)\<rparr>
      else if v = 0 then copy256 number
      else if v < 128 then
        let tmp1 = shiftr128 (lower256 number) v;
            tmp2 = shiftl128 (upper256 number) (128 - v)
        in \<lparr>upper256 = shiftr128 (upper256 number) v, lower256 = add128 tmp1 tmp2\<rparr>
      else if v < 256 \<and> 128 < v then
        \<lparr>upper256 = clear128, lower256 = shiftr128 (upper256 number) (v - 128)\<rparr>
      else clear256)"

function bits128_loop :: "uint128_t \<Rightarrow> u32 \<Rightarrow> u32" where
  "bits128_loop w r = (if \<not> zero128 w then bits128_loop (shiftr128 w 1) (r + 1) else r)"
  by pat_completeness auto
termination
  by (relation "measure (\<lambda>(w, r). val128 w)") (auto simp: uval val128_shiftr)

declare bits128_loop.simps [simp del]

definition bits256 :: "uint256_t \<Rightarrow> u32" where
  "bits256 number =
     (if \<not> zero128 (upper256 number) then bits128_loop (copy128 (upper256 number)) 128
      else bits128_loop (copy128 (lower256 number)) 0)"

definition equal256 :: "uint256_t \<Rightarrow> uint256_t \<Rightarrow> bool" where
  "equal256 n1 n2 \<longleftrightarrow> equal128 (upper256 n1) (upper256 n2) \<and> equal128 (lower256 n1) (lower256 n2)"

definition gt256 :: "uint256_t \<Rightarrow> uint256_t \<Rightarrow> bool" where
  "gt256 n1 n2 = (if equal128 (upper256 n1) (upper256 n2) then gt128 (lower256 n1) (lower256 n2)
                  else gt128 (upper256 n1) (upper256 n2))"

definition gte256 :: "uint256_t \<Rightarrow> uint256_t \<Rightarrow> bool" where
  "gte256 n1 n2 \<longleftrightarrow> gt256 n1 n2 \<or> equal256 n1 n2"

definition add256 :: "uint256_t \<Rightarrow> uint256_t \<Rightarrow> uint256_t" where
  "add256 n1 n2 =
     (let up = add128 (upper256 n1) (upper256 n2);
          tmp = add128 (lower256 n1) (lower256 n2);
          up = (if gt128 (lower256 n1) tmp then add128 up (mk128 0 1) else up)
      in \<lparr>upper256 = up, lower256 = add128 (lower256 n1) (lower256 n2)\<rparr>)"

definition minus256 :: "uint256_t \<Rightarrow> uint256_t \<Rightarrow> uint256_t" where
  "minus256 n1 n2 =
     (let up = minus128 (upper256 n1) (upper256 n2);
          tmp = minus128 (lower256 n1) (lower256 n2);
          up = (if gt128 tmp (lower256 n1) then minus128 up (mk128 0 1) else up)
      in \<lparr>upper256 = up, lower256 = minus128 (lower256 n1) (lower256 n2)\<rparr>)"

definition or256 :: "uint256_t \<Rightarrow> uint256_t \<Rightarrow> uint256_t" where
  "or256 n1 n2 = \<lparr>upper256 = or128 (upper256 n1) (upper256 n2), lower256 = or128 (lower256 n1) (lower256 n2)\<rparr>"

definition xor256 :: "uint256_t \<Rightarrow> uint256_t \<Rightarrow> uint256_t" where
  "xor256 n1 n2 = \<lparr>upper256 = xor128 (upper256 n1) (upper256 n2), lower256 = xor128 (lower256 n1) (lower256 n2)\<rparr>"

definition and256 :: "uint256_t \<Rightarrow> uint256_t \<Rightarrow> uint256_t" where
  "and256 n1 n2 = \<lparr>upper256 = and128 (upper256 n1) (upper256 n2), lower256 = and128 (lower256 n1) (lower256 n2)\<rparr>"

definition not256 :: "uint256_t \<Rightarrow> uint256_t" where
  "not256 number = \<lparr>upper256 = not128 (upper256 number), lower256 = not128 (lower256 number)\<rparr>"

text \<open>
  Multiplication: the limbs of the operands as 128-bit numbers with a zero upper element,
  \<open>products[3 - x][y] = top[x] * bottom[y]\<close>, and the four column sums.
\<close>

definition limbs64 :: "uint256_t \<Rightarrow> uint128_t list" where
  "limbs64 n = [mk128 0 (upper128 (upper256 n)), mk128 0 (lower128 (upper256 n)),
                mk128 0 (upper128 (lower256 n)), mk128 0 (lower128 (lower256 n))]"

definition mul256 :: "uint256_t \<Rightarrow> uint256_t \<Rightarrow> uint256_t" where
  "mul256 n1 n2 =
     (let top = limbs64 n1; bottom = limbs64 n2;
          P = (\<lambda>i j. mul128 (top ! (3 - i)) (bottom ! j));
          lo = (\<lambda>p. mk128 0 (lower128 p)); up = (\<lambda>p. mk128 0 (upper128 p));
          fourth64 = lo (P 0 3);
          third64 = add128 (lo (P 0 2)) (up (P 0 3));
          second64 = add128 (lo (P 0 1)) (up (P 0 2));
          first64 = add128 (lo (P 0 0)) (up (P 0 1));
          third64 = add128 (lo (P 1 3)) third64;
          tmp2 = add128 (lo (P 1 2)) second64;
          second64 = add128 (up (P 1 3)) tmp2;
          tmp2 = add128 (lo (P 1 1)) first64;
          first64 = add128 (up (P 1 2)) tmp2;
          second64 = add128 (lo (P 2 3)) second64;
          tmp2 = add128 (lo (P 2 2)) first64;
          first64 = add128 (up (P 2 3)) tmp2;
          first64 = add128 (lo (P 3 3)) first64;
          target1 = \<lparr>upper256 = shiftl128 first64 64, lower256 = clear128\<rparr>;
          target2 = \<lparr>upper256 = mk128 (upper128 third64) 0, lower256 = shiftl128 third64 64\<rparr>;
          target = add256 target1 target2;
          target1 = \<lparr>upper256 = second64, lower256 = clear128\<rparr>;
          target2 = add256 target1 target;
          target1 = \<lparr>upper256 = clear128, lower256 = fourth64\<rparr>
      in add256 target1 target2)"

partial_function (option) divmod256_loop ::
  "uint256_t \<Rightarrow> uint256_t \<Rightarrow> uint256_t \<Rightarrow> uint256_t \<Rightarrow> uint256_t \<Rightarrow> (uint256_t \<times> uint256_t) option" where
  "divmod256_loop r resMod copyd adder resDiv =
     (if gte256 resMod r
      then (if gte256 resMod copyd
            then divmod256_loop r (minus256 resMod copyd) (shiftr256 copyd 1) (shiftr256 adder 1)
                   (or256 resDiv adder)
            else divmod256_loop r resMod (shiftr256 copyd 1) (shiftr256 adder 1) resDiv)
      else Some (resDiv, resMod))"

definition divmod256 :: "uint256_t \<Rightarrow> uint256_t \<Rightarrow> (uint256_t \<times> uint256_t) option" where
  "divmod256 l r =
     (let diffBits = bits256 l - bits256 r
      in if gt256 r l then Some (clear256, l)
         else let copyd = shiftl256 r diffBits; adder = shiftl256 (mk256 0 0 0 1) diffBits
              in if gt256 copyd l
                 then divmod256_loop r l (shiftr256 copyd 1) (shiftr256 adder 1) clear256
                 else divmod256_loop r l copyd adder clear256)"

section \<open>Values\<close>

definition val256 :: "uint256_t \<Rightarrow> nat" where
  "val256 x = val128 (upper256 x) * 2 ^ 128 + val128 (lower256 x)"

lemma val256_lt: "val256 x < 2 ^ 256"
  using halves_lt [of "val128 (upper256 x)" "2 ^ 128" "val128 (lower256 x)"]
  by (simp add: val256_def)

lemma val256_less [simp]:
  "val256 x < 115792089237316195423570985008687907853269984665640564039457584007913129639936"
  using val256_lt [of x] by simp

lemma val256_mk256:
  "val256 (mk256 a b c d) = unat a * 2 ^ 192 + unat b * 2 ^ 128 + unat c * 2 ^ 64 + unat d"
  by (simp add: val256_def mk256_def val128_mk128)

lemma val256_inj: "val256 x = val256 y \<longleftrightarrow> x = y"
  using halves_eq_iff [of "val128 (lower256 x)" "2 ^ 128" "val128 (lower256 y)"
      "val128 (upper256 x)" "val128 (upper256 y)"]
  by (cases x; cases y) (simp add: val256_def val128_inj)

lemma copy256_id [simp]: "copy256 x = x"
  by (cases x) (simp add: copy256_def)

lemma val256_clear [simp]: "val256 clear256 = 0"
  by (simp add: val256_def clear256_def)

lemma zero256_val [uval]: "zero256 x \<longleftrightarrow> val256 x = 0"
  by (auto simp: zero256_def val256_def uval)

lemma equal256_val [uval]: "equal256 x y \<longleftrightarrow> val256 x = val256 y"
  unfolding val256_inj by (cases x; cases y) (auto simp: equal256_def uval val128_inj)

lemma gt256_val [uval]: "gt256 x y \<longleftrightarrow> val256 y < val256 x"
  using halves_less_iff [of "val128 (lower256 y)" "2 ^ 128" "val128 (lower256 x)"
      "val128 (upper256 y)" "val128 (upper256 x)"]
  by (auto simp: gt256_def val256_def uval)

lemma gte256_val [uval]: "gte256 x y \<longleftrightarrow> val256 y \<le> val256 x"
  by (auto simp: gte256_def uval)

lemma add256_val [uval]: "val256 (add256 x y) = (val256 x + val256 y) mod 2 ^ 256"
proof -
  let ?c = "of_bool ((val128 (lower256 x) + val128 (lower256 y)) mod 2 ^ 128 < val128 (lower256 x)) :: nat"
  have "val128 (upper256 (add256 x y)) =
      (val128 (upper256 x) + val128 (upper256 y) + ?c) mod 2 ^ 128"
    by (simp add: add256_def Let_def uval val128_mk128 mod_Suc_eq)
  then have "val256 (add256 x y) =
      ((val128 (upper256 x) + val128 (upper256 y) + ?c) mod 2 ^ 128) * 2 ^ 128
        + (val128 (lower256 x) + val128 (lower256 y)) mod 2 ^ 128"
    by (simp add: val256_def add256_def Let_def uval)
  also have "\<dots> = (val256 x + val256 y) mod (2 ^ 128 * 2 ^ 128)"
    unfolding val256_def by (rule halves_add) (rule val128_lt)+
  finally show ?thesis by simp
qed

lemma minus128_zero: "minus128 x (mk128 0 0) = x"
  by (simp add: minus128_def mk128_def)

lemma minus256_upper:
  "upper256 (minus256 x y) = minus128 (minus128 (upper256 x) (upper256 y))
     (mk128 0 (of_bool (gt128 (minus128 (lower256 x) (lower256 y)) (lower256 x))))"
  by (simp add: minus256_def Let_def minus128_zero)

lemma minus256_val [uval]: "val256 (minus256 x y) = (val256 x + 2 ^ 256 - val256 y) mod 2 ^ 256"
proof -
  let ?b = "of_bool (val128 (lower256 x) < (val128 (lower256 x) + 2 ^ 128 - val128 (lower256 y)) mod 2 ^ 128) :: nat"
  have "val128 (mk128 0 (of_bool c)) = of_bool c" for c
    by (simp add: val128_mk128)
  then have "val128 (upper256 (minus256 x y)) =
      ((val128 (upper256 x) + 2 ^ 128 - val128 (upper256 y)) mod 2 ^ 128 + 2 ^ 128 - ?b) mod 2 ^ 128"
    by (simp only: minus256_upper minus128_val gt128_val)
  also have "\<dots> = (val128 (upper256 x) + 2 * 2 ^ 128 - val128 (upper256 y) - ?b) mod 2 ^ 128"
    by (rule borrow_mod) (rule val128_lt, simp)
  finally have up: "val128 (upper256 (minus256 x y)) =
      (val128 (upper256 x) + 2 * 2 ^ 128 - val128 (upper256 y) - ?b) mod 2 ^ 128" .
  have "lower256 (minus256 x y) = minus128 (lower256 x) (lower256 y)"
    by (simp add: minus256_def Let_def)
  then have "val256 (minus256 x y) =
      ((val128 (upper256 x) + 2 * 2 ^ 128 - val128 (upper256 y) - ?b) mod 2 ^ 128) * 2 ^ 128
        + (val128 (lower256 x) + 2 ^ 128 - val128 (lower256 y)) mod 2 ^ 128"
    by (simp only: val256_def up minus128_val)
  also have "\<dots> = (val256 x + 2 ^ 128 * 2 ^ 128 - val256 y) mod (2 ^ 128 * 2 ^ 128)"
    unfolding val256_def by (rule halves_sub) (rule val128_lt)+
  finally show ?thesis by simp
qed

lemma or256_val [uval]: "val256 (or256 x y) = or (val256 x) (val256 y)"
  unfolding val256_def or_halves [OF val128_lt val128_lt]
  by (simp add: or256_def uval)


lemma xor256_val [uval]: "val256 (xor256 x y) = xor (val256 x) (val256 y)"
  unfolding val256_def xor_halves [OF val128_lt val128_lt]
  by (simp add: xor256_def uval)

lemma and256_val [uval]: "val256 (and256 x y) = and (val256 x) (val256 y)"
  unfolding val256_def and_halves [OF val128_lt val128_lt]
  by (simp add: and256_def uval)

lemma not256_val [uval]: "val256 (not256 x) = 2 ^ 256 - 1 - val256 x"
  using halves_compl [of "val128 (upper256 x)" "2 ^ 128" "val128 (lower256 x)"]
  by (simp add: val256_def not256_def uval)

lemma val256_shiftl: "val256 (shiftl256 x v) = (val256 x * 2 ^ unat v) mod 2 ^ 256"
proof -
  let ?H = "val128 (upper256 x)" and ?L = "val128 (lower256 x)"
  consider "256 \<le> unat v" | "unat v < 128" | "128 \<le> unat v" "unat v < 256" by linarith
  then show ?thesis
  proof cases
    case 1
    then have "256 \<le> v" by (simp add: word_le_nat_alt)
    moreover have "val256 x * 2 ^ unat v mod 2 ^ 256 = 0"
    proof -
      have "(2 :: nat) ^ 256 dvd 2 ^ unat v" using 1 by (rule le_imp_power_dvd)
      then show ?thesis by (simp only: dvd_imp_mod_0 dvd_mult)
    qed
    ultimately show ?thesis by (simp add: shiftl256_def)
  next
    case 2
    then have v: "\<not> 256 \<le> v" "v \<noteq> 128" "v < 128"
      by (auto simp: word_le_nat_alt word_less_nat_alt)
    have u: "unat (128 - v) = 128 - unat v"
      using v(3) by (simp add: unat_sub less_imp_le)
    have "val256 (shiftl256 x v) =
        (((?H * 2 ^ unat v) mod 2 ^ 128 + ?L div 2 ^ (128 - unat v)) mod 2 ^ 128) * 2 ^ 128
          + (?L * 2 ^ unat v) mod 2 ^ 128"
      using v 2 by (cases "v = 0")
        (simp_all add: shiftl256_def val256_def add128_val val128_shiftl val128_shiftr u unat_eq_0 Let_def)
    also have "\<dots> = (val256 x * 2 ^ unat v) mod (2 ^ 128 * 2 ^ 128)"
      unfolding val256_def
      by (rule halves_shl) (use 2 in \<open>simp_all flip: power_add\<close>)
    finally show ?thesis by simp
  next
    case 3
    then have v: "\<not> 256 \<le> v" "v \<noteq> 0" "\<not> v < 128" "v < 256" "v \<noteq> 128 \<longleftrightarrow> 128 < v" "128 \<le> v"
      by (auto simp: word_le_nat_alt word_less_nat_alt word_unat_eq_iff)
    have u: "unat (v - 128) = unat v - 128"
      using v(6) by (simp add: unat_sub)
    define k where "k = unat v - 128"
    have vk: "unat v = 128 + k" using 3 by (simp add: k_def)
    have "val256 (shiftl256 x v) = ((?L * 2 ^ k) mod 2 ^ 128) * 2 ^ 128"
      using v u vk by (cases "v = 128")
        (simp_all add: shiftl256_def val256_def val128_shiftl)
    also have "\<dots> = (?L * 2 ^ k * 2 ^ 128) mod (2 ^ 128 * 2 ^ 128)"
      by (rule mod_mult_mult2 [symmetric])
    also have "\<dots> = (?H * 2 ^ k * (2 ^ 128 * 2 ^ 128) + ?L * 2 ^ k * 2 ^ 128) mod (2 ^ 128 * 2 ^ 128)"
      by simp
    also have "?H * 2 ^ k * (2 ^ 128 * 2 ^ 128) + ?L * 2 ^ k * 2 ^ 128 = val256 x * 2 ^ unat v"
      by (simp add: val256_def vk power_add algebra_simps)
    finally show ?thesis by simp
  qed
qed

lemma val256_shiftr: "val256 (shiftr256 x v) = val256 x div 2 ^ unat v"
proof -
  let ?H = "val128 (upper256 x)" and ?L = "val128 (lower256 x)"
  consider "256 \<le> unat v" | "unat v < 128" | "128 \<le> unat v" "unat v < 256" by linarith
  then show ?thesis
  proof cases
    case 1
    then have "256 \<le> v" by (simp add: word_le_nat_alt)
    moreover have "val256 x < 2 ^ unat v"
      using val256_lt [of x] power_increasing [OF 1, of "2 :: nat"] by linarith
    ultimately show ?thesis by (simp add: shiftr256_def)
  next
    case 2
    then have v: "\<not> 256 \<le> v" "v \<noteq> 128" "v < 128"
      by (auto simp: word_le_nat_alt word_less_nat_alt)
    have u: "unat (128 - v) = 128 - unat v"
      using v(3) by (simp add: unat_sub less_imp_le)
    have "val256 (shiftr256 x v) = (?H div 2 ^ unat v) * 2 ^ 128
          + ((?H * 2 ^ (128 - unat v)) mod 2 ^ 128 + ?L div 2 ^ unat v) mod 2 ^ 128"
      using v 2 by (cases "v = 0")
        (simp_all add: shiftr256_def val256_def add128_val val128_shiftl val128_shiftr u unat_eq_0
          Let_def add.commute)
    also have "\<dots> = val256 x div 2 ^ unat v"
      unfolding val256_def
      by (rule halves_shr) (use 2 in \<open>simp_all flip: power_add\<close>)
    finally show ?thesis .
  next
    case 3
    then have v: "\<not> 256 \<le> v" "v \<noteq> 0" "\<not> v < 128" "v < 256" "v \<noteq> 128 \<longleftrightarrow> 128 < v" "128 \<le> v"
      by (auto simp: word_le_nat_alt word_less_nat_alt word_unat_eq_iff)
    have u: "unat (v - 128) = unat v - 128"
      using v(6) by (simp add: unat_sub)
    define k where "k = unat v - 128"
    have vk: "unat v = 128 + k" using 3 by (simp add: k_def)
    have "val256 (shiftr256 x v) = ?H div 2 ^ k"
      using v u vk by (cases "v = 128")
        (simp_all add: shiftr256_def val256_def val128_shiftr)
    also have "?H = val256 x div 2 ^ 128"
      by (simp add: val256_def)
    also have "val256 x div 2 ^ 128 div 2 ^ k = val256 x div 2 ^ unat v"
      unfolding vk power_add by (rule div_mult2_eq [symmetric])
    finally show ?thesis .
  qed
qed

lemma bits128_loop_val:
  "unat r + bitlen (val128 w) < 2 ^ 32 \<Longrightarrow> unat (bits128_loop w r) = unat r + bitlen (val128 w)"
proof (induction w r rule: bits128_loop.induct)
  case (1 w r)
  show ?case
  proof (cases "zero128 w")
    case True
    then show ?thesis by (simp add: bits128_loop.simps uval)
  next
    case False
    then have pos: "0 < val128 w" by (simp add: uval)
    have half: "bitlen (val128 w) = Suc (bitlen (val128 (shiftr128 w 1)))"
      using bitlen_pos [OF pos] by (simp add: val128_shiftr)
    have "unat (r + 1) = unat r + 1"
      using "1.prems" half by (subst unat_add_mod) simp
    with 1 False half show ?thesis
      by (subst bits128_loop.simps) simp
  qed
qed

lemma bits256_val: "unat (bits256 x) = bitlen (val256 x)"
proof -
  have le: "bitlen (val128 w) \<le> 128" for w
    by (rule bitlen_le) (rule val128_lt)
  show ?thesis
  proof (cases "zero128 (upper256 x)")
    case True
    then show ?thesis
      using le [of "lower256 x"] by (simp add: bits256_def val256_def bits128_loop_val uval)
  next
    case False
    then have "bitlen (val256 x) = 128 + bitlen (val128 (upper256 x))"
      unfolding val256_def by (intro bitlen_shift val128_lt) (simp add: uval)
    then show ?thesis
      using le [of "upper256 x"] False by (simp add: bits256_def bits128_loop_val)
  qed
qed

interpretation div256: long_division 256 val256 bits256 gt256 gte256 minus256 or256 shiftl256
  shiftr256 "mk256 0 0 0 1" clear256 divmod256_loop divmod256
proof (unfold_locales, goal_cases)
  case (1 x)
  show ?case by (rule val256_lt)
next
  case (11 r m c a d)
  show ?case by (rule divmod256_loop.simps)
next
  case (12 l r)
  show ?case by (simp add: divmod256_def)
qed (simp_all only: uval bits256_val val256_shiftl val256_shiftr, simp_all add: val256_mk256)

lemma divmod256_by_zero: "val256 r = 0 \<Longrightarrow> divmod256 l r = None"
proof (rule ccontr)
  assume r: "val256 r = 0" and "divmod256 l r \<noteq> None"
  then obtain y where "divmod256 l r = Some y" by blast
  with r obtain c a where "divmod256_loop r l c a clear256 = Some y"
    by (auto simp: divmod256_def uval Let_def split: if_splits)
  then have "val256 r \<noteq> 0"
    by (rule divmod256_loop.raw_induct [rotated]) (auto simp: uval split: if_splits)
  with r show False by simp
qed


section \<open>What multiplication computes\<close>

lemma val256_limbs:
  assumes "limbs64 x = [mk128 0 a, mk128 0 b, mk128 0 c, mk128 0 d]"
  shows "val256 x = unat a * (2 ^ 64) ^ 3 + unat b * (2 ^ 64) ^ 2 + unat c * 2 ^ 64 + unat d"
  using assms by (simp add: limbs64_def val256_def val128_def mk128_def)

lemma limbs64_exist: "\<exists>a b c d. limbs64 x = [mk128 0 a, mk128 0 b, mk128 0 c, mk128 0 d]"
  by (auto simp: limbs64_def)

lemma val128_lo: "val128 (mk128 0 (lower128 p)) = val128 p mod 2 ^ 64"
  by (simp add: val128_def mk128_def)

lemma val128_up: "val128 (mk128 0 (upper128 p)) = val128 p div 2 ^ 64"
  by (simp add: val128_def mk128_def)

lemma mul128_limbs: "val128 (mul128 (mk128 0 u) (mk128 0 v)) = unat u * unat v"
proof -
  have "unat u * unat v < 2 ^ 64 * 2 ^ 64"
    by (intro mult_strict_mono unat64_pow) simp_all
  then show ?thesis by (simp add: mul128_val val128_mk128)
qed

text \<open>The carry out of the column of weight 2^64, at most 2.\<close>

definition mul256_carry :: "uint256_t \<Rightarrow> uint256_t \<Rightarrow> nat" where
  "mul256_carry x y =
     (let x0 = unat (lower128 (lower256 x)); x1 = unat (upper128 (lower256 x));
          y0 = unat (lower128 (lower256 y)); y1 = unat (upper128 (lower256 y))
      in ((x0 * y1) mod 2 ^ 64 + (x0 * y0) div 2 ^ 64 + (x1 * y0) mod 2 ^ 64) div 2 ^ 64)"

lemma mul256_carry_limbs:
  assumes "limbs64 x = [mk128 0 a, mk128 0 b, mk128 0 c, mk128 0 d]"
    and "limbs64 y = [mk128 0 e, mk128 0 f, mk128 0 g, mk128 0 h]"
  shows "mul256_carry x y = ((unat d * unat g) mod 2 ^ 64 + (unat d * unat h) div 2 ^ 64
    + (unat c * unat h) mod 2 ^ 64) div 2 ^ 64"
  using assms by (simp add: limbs64_def mk128_def mul256_carry_def Let_def)

lemma shifted_first: "val256 \<lparr>upper256 = shiftl128 w 64, lower256 = clear128\<rparr> = (val128 w * (2 ^ 64) ^ 3) mod (2 ^ 64) ^ 4"
proof -
  have "(val128 w * 2 ^ 64) mod 2 ^ 128 * 2 ^ 128 = (val128 w * 2 ^ 64 * 2 ^ 128) mod (2 ^ 128 * 2 ^ 128)"
    by (rule mod_mult_mult2 [symmetric])
  then show ?thesis by (simp add: val256_def val128_shiftl mult.assoc)
qed

lemma shifted_third:
  "val256 \<lparr>upper256 = mk128 (upper128 w) 0, lower256 = shiftl128 w 64\<rparr> =
   (val128 w div 2 ^ 64) * (2 ^ 64) ^ 3 + (val128 w mod 2 ^ 64) * 2 ^ 64"
proof -
  have "(val128 w * 2 ^ 64) mod (2 ^ 64 * 2 ^ 64) = (val128 w mod 2 ^ 64) * 2 ^ 64"
    by (rule mod_mult_mult2)
  moreover have "unat (upper128 w) = val128 w div 2 ^ 64" by (simp add: val128_def)
  ultimately show ?thesis by (simp add: val256_def val128_shiftl val128_mk128 mult.assoc)
qed

lemma mul256_columns:
  assumes s: "limbs64 x = [mk128 0 a, mk128 0 b, mk128 0 c, mk128 0 d]"
    and t: "limbs64 y = [mk128 0 e, mk128 0 f, mk128 0 g, mk128 0 h]"
  defines "l \<equiv> \<lambda>u v. (unat u * unat v) mod 2 ^ 64"
    and "m \<equiv> \<lambda>u v. (unat u * unat v) div 2 ^ 64"
  defines "T \<equiv> l d g + m d h + l c h"
  shows "val256 (mul256 x y) =
    ((l d e + m d f + (l c f + m c g) + (l b g + m b h) + l a h) * (2 ^ 64) ^ 3
     + (l d f + m d g + (l c g + m c h) + l b h) * (2 ^ 64) ^ 2
     + (T div 2 ^ 64 * (2 ^ 64) ^ 3 + T mod 2 ^ 64 * 2 ^ 64) + l d h) mod (2 ^ 64) ^ 4"
proof -
  define P where "P = (\<lambda>u v :: u64. mul128 (mk128 0 u) (mk128 0 v))"
  define lo up where "lo = (\<lambda>u v. mk128 0 (lower128 (P u v)))" and "up = (\<lambda>u v. mk128 0 (upper128 (P u v)))"
  have lv: "val128 (lo u v) = l u v" and uv: "val128 (up u v) = m u v" for u v
    by (simp_all add: lo_def up_def val128_lo val128_up mul128_limbs P_def l_def m_def)
  have lb: "l u v < 18446744073709551616" for u v by (simp add: l_def)
  have ub: "m u v < 18446744073709551616" for u v
    using uv [of u v] unat64 [of "upper128 (P u v)"] by (simp add: up_def val128_mk128)
  define third second first where
    "third = add128 (lo c h) (add128 (lo d g) (up d h))" and
    "second = add128 (lo b h) (add128 (up c h) (add128 (lo c g) (add128 (lo d f) (up d g))))" and
    "first = add128 (lo a h) (add128 (up b h) (add128 (lo b g) (add128 (up c g) (add128 (lo c f)
       (add128 (lo d e) (up d f))))))"
  have sums: "val128 third = T"
    "val128 second = l d f + m d g + (l c g + m c h) + l b h"
    "val128 first = l d e + m d f + (l c f + m c g) + (l b g + m b h) + l a h"
    using lb [of d g] ub [of d h] lb [of c h] lb [of d f] ub [of d g] lb [of c g] ub [of c h] lb [of b h]
      lb [of d e] ub [of d f] lb [of c f] ub [of c g] lb [of b g] ub [of b h] lb [of a h]
    by (simp_all add: third_def second_def first_def add128_val lv uv T_def)
  have low: "val256 \<lparr>upper256 = clear128, lower256 = lo u v\<rparr> = l u v" for u v
    by (simp add: val256_def lv)
  have mid: "val256 \<lparr>upper256 = w, lower256 = clear128\<rparr> = val128 w * (2 ^ 64) ^ 2" for w
    by (simp add: val256_def)
  have "mul256 x y = add256 \<lparr>upper256 = clear128, lower256 = lo d h\<rparr>
      (add256 \<lparr>upper256 = second, lower256 = clear128\<rparr>
        (add256 \<lparr>upper256 = shiftl128 first 64, lower256 = clear128\<rparr>
          \<lparr>upper256 = mk128 (upper128 third) 0, lower256 = shiftl128 third 64\<rparr>))"
    by (simp add: mul256_def s t Let_def third_def second_def first_def lo_def up_def P_def)
  moreover have "(2 :: nat) ^ 256 = (2 ^ 64) ^ 4" by (simp flip: power_mult)
  ultimately have "val256 (mul256 x y) = (l d h + (val128 second * (2 ^ 64) ^ 2 + (val128 first * (2 ^ 64) ^ 3
      + (T div 2 ^ 64 * (2 ^ 64) ^ 3 + T mod 2 ^ 64 * 2 ^ 64)))) mod (2 ^ 64) ^ 4"
    by (simp only: add256_val shifted_first shifted_third,
        simp only: low mid sums(1) mod_add_right_eq mod_add_left_eq)
  then show ?thesis by (simp only: sums(2,3) add.assoc add.commute add.left_commute)
qed

lemma misplaced_carry:
  fixes R c :: nat
  assumes "v = (F * R ^ 3 + S * R ^ 2 + (T div R * R ^ 3 + T mod R * R) + l) mod R ^ 4"
    and "p mod R ^ 4 = (F * R ^ 3 + S * R ^ 2 + T * R + l) mod R ^ 4"
  shows "(v + T div R * R ^ 2) mod R ^ 4 = (p + T div R * R ^ 3) mod R ^ 4"
proof -
  have T: "T * R = T div R * R ^ 2 + T mod R * R"
  proof -
    have "T * R = (T div R * R + T mod R) * R" by simp
    also have "\<dots> = T div R * R ^ 2 + T mod R * R"
      by (simp only: distrib_right mult.assoc power2_eq_square)
    finally show ?thesis .
  qed
  have "(v + T div R * R ^ 2) mod R ^ 4 =
      (F * R ^ 3 + S * R ^ 2 + T * R + l + T div R * R ^ 3) mod R ^ 4"
    unfolding assms(1) T by (simp only: mod_add_left_eq, simp only: add.assoc add.commute add.left_commute)
  also have "\<dots> = (p + T div R * R ^ 3) mod R ^ 4"
    using assms(2) by (metis mod_add_left_eq)
  finally show ?thesis .
qed

lemma mul256_carried:
  "(val256 (mul256 x y) + mul256_carry x y * 2 ^ 128) mod 2 ^ 256 =
   (val256 x * val256 y + mul256_carry x y * 2 ^ 192) mod 2 ^ 256"
proof -
  obtain a b c d where s: "limbs64 x = [mk128 0 a, mk128 0 b, mk128 0 c, mk128 0 d]"
    using limbs64_exist by blast
  obtain e f g h where t: "limbs64 y = [mk128 0 e, mk128 0 f, mk128 0 g, mk128 0 h]"
    using limbs64_exist by blast
  have digits: "unat u * unat v = (unat u * unat v) mod 2 ^ 64 + 2 ^ 64 * ((unat u * unat v) div 2 ^ 64)"
    for u v :: u64
    by (simp only: mod_mult_div_eq)
  have "(val256 x * val256 y) mod (2 ^ 64) ^ 4 =
      ((unat a * (2 ^ 64) ^ 3 + unat b * (2 ^ 64) ^ 2 + unat c * 2 ^ 64 + unat d) *
       (unat e * (2 ^ 64) ^ 3 + unat f * (2 ^ 64) ^ 2 + unat g * 2 ^ 64 + unat h)) mod (2 ^ 64) ^ 4"
    by (simp only: val256_limbs [OF s] val256_limbs [OF t])
  note product = this [unfolded schoolbook4 [OF digits digits digits digits digits digits digits digits digits digits]]
  have "(val256 (mul256 x y) + mul256_carry x y * (2 ^ 64) ^ 2) mod (2 ^ 64) ^ 4 =
     (val256 x * val256 y + mul256_carry x y * (2 ^ 64) ^ 3) mod (2 ^ 64) ^ 4"
    unfolding mul256_carry_limbs [OF s t]
    by (rule misplaced_carry [OF mul256_columns [OF s t] product])
  then show ?thesis by (simp flip: power_mult)
qed

lemma mul256_carry_le: "mul256_carry x y \<le> 2"
proof -
  have "u mod 2 ^ 64 + v + w mod 2 ^ 64 < 3 * 2 ^ 64" if "v < 2 ^ 64" for u v w :: nat
    using that by (simp add: add_less_mono [of _ "2 ^ 64" _ "2 * 2 ^ 64"])
  moreover have "unat (u :: u64) * unat (v :: u64) div 2 ^ 64 < 2 ^ 64" for u v
  proof -
    have "unat u * unat v < 2 ^ 64 * 2 ^ 64"
      by (intro mult_strict_mono unat64_pow) simp_all
    then show ?thesis by (simp add: less_mult_imp_div_less)
  qed
  ultimately have "mul256_carry x y < 3"
    unfolding mul256_carry_def Let_def by (intro less_mult_imp_div_less) blast
  then show ?thesis by simp
qed


section \<open>Properties\<close>

lemma add_mod_cancel:
  fixes a b p M :: nat
  assumes "(p + a) mod M = (p + b) mod M" and "a < M" and "b < M"
  shows "a = b"
proof -
  have le: "u = v" if "(p + u) mod M = (p + v) mod M" and "v < M" and "u \<le> v" for u v
  proof -
    have "p + u \<le> p + v" using that(3) by simp
    then have "M dvd (p + v) - (p + u)"
      using that(1) by (metis mod_eq_dvd_iff_nat)
    with that(2,3) show ?thesis by (auto dest: dvd_imp_le)
  qed
  show ?thesis using le [of a b] le [of b a] assms by (cases "a \<le> b") auto
qed

lemma mul256_exact:
  "val256 (mul256 x y) = (val256 x * val256 y) mod 2 ^ 256 \<longleftrightarrow> mul256_carry x y = 0"
proof
  let ?c = "mul256_carry x y"
  assume "val256 (mul256 x y) = (val256 x * val256 y) mod 2 ^ 256"
  then have "(val256 x * val256 y + ?c * 2 ^ 128) mod 2 ^ 256 = (val256 x * val256 y + ?c * 2 ^ 192) mod 2 ^ 256"
    using mul256_carried [of x y] by (simp only: mod_add_left_eq)
  then have "?c * 2 ^ 128 = ?c * 2 ^ 192"
    by (rule add_mod_cancel) (use mul256_carry_le [of x y] in simp_all)
  then show "?c = 0" by simp
next
  assume "mul256_carry x y = 0"
  then have "val256 (mul256 x y) mod 2 ^ 256 = (val256 x * val256 y) mod 2 ^ 256"
    using mul256_carried [of x y] by (simp only: mult_zero_left add_0_right)
  then show "val256 (mul256 x y) = (val256 x * val256 y) mod 2 ^ 256"
    using mod_less [OF val256_lt [of "mul256 x y"]] by metis
qed

text \<open>
  Claim C15. What \<open>mul256\<close> computes, for all operands: the product modulo 2^256, except that the
  carry out of the column of weight 2^64 is added at weight 2^192 where it belongs at 2^128. So
  the result is the product exactly when that carry is zero.
\<close>

theorem mul256_value:
  "(val256 (mul256 x y) + mul256_carry x y * 2 ^ 128) mod 2 ^ 256 =
     (val256 x * val256 y + mul256_carry x y * 2 ^ 192) mod 2 ^ 256 \<and>
   (val256 (mul256 x y) = (val256 x * val256 y) mod 2 ^ 256 \<longleftrightarrow> mul256_carry x y = 0)"
  using mul256_carried mul256_exact by blast

text \<open>
  For the operands 2^64 + 1 and (2^64 - 1) * 2^64 + 1 there is such a carry, and
  \<open>mul256\<close> does not return their product.
\<close>

theorem mul256_wrong_product:
  "val256 (mul256 (mk256 0 0 1 1) (mk256 0 0 (- 1) 1)) \<noteq>
   (val256 (mk256 0 0 1 1) * val256 (mk256 0 0 (- 1) 1)) mod 2 ^ 256"
  by (simp only: mul256_exact) (simp add: mul256_carry_def mk256_def mk128_def unsigned_minus_1_eq_mask mask_eq_exp_minus_1)

text \<open>
  Claim C16. 256-bit division returns for every divisor but zero, where it never returns, and what
  it returns is the quotient and the remainder.
\<close>

theorem divmod256_spec:
  "case divmod256 l r of
     None \<Rightarrow> val256 r = 0
   | Some (q, m) \<Rightarrow> val256 r \<noteq> 0 \<and> val256 q = val256 l div val256 r \<and> val256 m = val256 l mod val256 r"
  using div256.divmod_correct [of r l] divmod256_by_zero [of r l] by (cases "val256 r = 0") auto

text \<open>
  Addition and subtraction undo each other on every pair of 256-bit numbers, carries
  and borrows between all four words included.
\<close>

theorem add_minus256:
  "minus256 (add256 x y) y = x \<and> add256 (minus256 x y) y = x"
proof -
  have "((a + b) mod M + M - b) mod M = a" and "((a + M - b) mod M + b) mod M = a"
    if "a < M" and "b < M" for a b M :: nat
  proof -
    have "((a + b) mod M + M - b) mod M = ((a + b) mod M + (M - b)) mod M" using that by simp
    also have "\<dots> = (a + b + (M - b)) mod M" by (rule mod_add_left_eq)
    finally show "((a + b) mod M + M - b) mod M = a" using that by simp
    have "((a + M - b) mod M + b) mod M = (a + M - b + b) mod M" by (rule mod_add_left_eq)
    then show "((a + M - b) mod M + b) mod M = a" using that by simp
  qed
  then show ?thesis
    unfolding val256_inj [symmetric] add256_val minus256_val
    using val256_lt [of x] val256_lt [of y] by blast
qed

text \<open>
  Claim C22. The shifts multiply by and divide by a power of two for every 32-bit shift amount,
  across the boundaries between the words and beyond the width.
\<close>

theorem shifts256:
  "val256 (shiftl256 x v) = (val256 x * 2 ^ unat v) mod 2 ^ 256 \<and>
   val256 (shiftr256 x v) = val256 x div 2 ^ unat v"
  by (simp only: val256_shiftl val256_shiftr simp_thms)

end
