(* ===== verification/Bytes.thy ===== *)
theory Bytes
  imports Uint256
begin

text \<open>
  Bytes and buffers: the big-endian readers of src/tscvee/ta/src/uint256.c, the writers
  \<open>u256_to_u8_*\<close> of include/instructions.h, and the byte helpers of include/evmc.h. A
  \<open>uint8_t *\<close> is a buffer, the list of its bytes, and an index into it; an access beyond the
  buffer is \<open>Inl Out_of_bounds\<close>. \<open>be_val\<close> and \<open>be_bytes\<close> are the number a big-endian
  sequence stands for and the sequence of a number.
\<close>

section \<open>Big-endian numbers\<close>

definition be_val :: "u8 list \<Rightarrow> nat" where
  "be_val bs = foldl (\<lambda>a b. a * 256 + unat b) 0 bs"

fun be_bytes :: "nat \<Rightarrow> nat \<Rightarrow> u8 list" where
  "be_bytes 0 v = []"
| "be_bytes (Suc n) v = be_bytes n (v div 256) @ [of_nat v]"

lemma be_val_Nil [simp]: "be_val [] = 0"
  by (simp add: be_val_def)

lemma be_val_snoc [simp]: "be_val (bs @ [b]) = be_val bs * 256 + unat b"
  by (simp add: be_val_def)

lemma length_be_bytes [simp]: "length (be_bytes n v) = n"
  by (induction n arbitrary: v) simp_all

lemma unat8_lt: "unat (b :: u8) < 256"
  using unat_less [of b] by simp

lemma be_val_append: "be_val (xs @ ys) = be_val xs * 256 ^ length ys + be_val ys"
proof (induction ys rule: rev_induct)
  case (snoc y ys)
  have "be_val (xs @ ys @ [y]) = be_val (xs @ ys) * 256 + unat y"
    by (metis append_assoc be_val_snoc)
  then show ?case using snoc by (simp add: algebra_simps)
qed simp

lemma be_val_less: "be_val bs < 256 ^ length bs"
proof (induction bs rule: rev_induct)
  case (snoc b bs)
  have "be_val bs * 256 + unat b < be_val bs * 256 + 256"
    using unat8_lt [of b] by simp
  also have "\<dots> = (be_val bs + 1) * 256" by simp
  also have "\<dots> \<le> 256 ^ length bs * 256" using snoc by (intro mult_le_mono1) simp
  finally show ?case by simp
qed simp

lemma be_val_bytes: "be_val (be_bytes n v) = v mod 256 ^ n"
proof (induction n arbitrary: v)
  case (Suc n)
  have "v mod (256 * 256 ^ n) = 256 * (v div 256 mod 256 ^ n) + v mod 256"
    by (rule mod_mult2_eq)
  with Suc show ?case by (simp add: unsigned_of_nat take_bit_eq_mod)
qed simp

lemma be_bytes_val: "length bs = n \<Longrightarrow> be_bytes n (be_val bs) = bs"
proof (induction n arbitrary: bs)
  case (Suc n)
  then obtain cs c where bs: "bs = cs @ [c]" "length cs = n"
    by (metis length_Suc_conv_rev)
  have "(be_val cs * 256 + unat c) div 256 = be_val cs"
    using unat8_lt [of c] by simp
  moreover have "(of_nat (be_val cs * 256 + unat c) :: u8) = c"
  proof -
    have "(of_nat (be_val cs * 256) :: u8) = 0" by (simp only: word_of_nat_eq_0_iff) simp
    then show ?thesis by (simp only: of_nat_add) simp
  qed
  ultimately show ?case using Suc.IH [OF bs(2)] by (simp add: bs(1) del: of_nat_add)
qed simp

lemma be_bytes_mod: "be_bytes n (v mod 256 ^ n) = be_bytes n v"
  by (metis be_bytes_val be_val_bytes length_be_bytes)

lemma be_bytes_append: "be_bytes (m + n) v = be_bytes m (v div 256 ^ n) @ be_bytes n v"
  by (induction n arbitrary: v) (simp_all add: div_mult2_eq)

section \<open>Reading\<close>

definition be_word64 :: "u8 \<Rightarrow> u8 \<Rightarrow> u8 \<Rightarrow> u8 \<Rightarrow> u8 \<Rightarrow> u8 \<Rightarrow> u8 \<Rightarrow> u8 \<Rightarrow> u64" where
  "be_word64 b0 b1 b2 b3 b4 b5 b6 b7 =
     push_bit 56 (ucast b0) OR push_bit 48 (ucast b1) OR push_bit 40 (ucast b2) OR
     push_bit 32 (ucast b3) OR push_bit 24 (ucast b4) OR push_bit 16 (ucast b5) OR
     push_bit 8 (ucast b6) OR ucast b7"

definition readUint64BE :: "u8 list \<Rightarrow> nat \<Rightarrow> u64 outcome" where
  "readUint64BE buffer p =
     bind_o (read_at buffer p) (\<lambda>b0. bind_o (read_at buffer (p + 1)) (\<lambda>b1.
     bind_o (read_at buffer (p + 2)) (\<lambda>b2. bind_o (read_at buffer (p + 3)) (\<lambda>b3.
     bind_o (read_at buffer (p + 4)) (\<lambda>b4. bind_o (read_at buffer (p + 5)) (\<lambda>b5.
     bind_o (read_at buffer (p + 6)) (\<lambda>b6. bind_o (read_at buffer (p + 7)) (\<lambda>b7.
     Inr (be_word64 b0 b1 b2 b3 b4 b5 b6 b7)))))))))"

definition readu128BE :: "u8 list \<Rightarrow> nat \<Rightarrow> uint128_t outcome" where
  "readu128BE buffer p =
     bind_o (readUint64BE buffer p) (\<lambda>u. bind_o (readUint64BE buffer (p + 8)) (\<lambda>l.
     Inr \<lparr>upper128 = u, lower128 = l\<rparr>))"

definition readu256BE :: "u8 list \<Rightarrow> nat \<Rightarrow> uint256_t outcome" where
  "readu256BE buffer p =
     bind_o (readu128BE buffer p) (\<lambda>u. bind_o (readu128BE buffer (p + 16)) (\<lambda>l.
     Inr \<lparr>upper256 = u, lower256 = l\<rparr>))"

lemma or_byte:
  assumes "unat (w :: u64) < 2 ^ 56"
  shows "unat (push_bit 8 w OR ucast (b :: u8)) = unat w * 256 + unat b"
proof -
  have "unat (ucast b :: u64) = unat b"
    by (simp add: unsigned_ucast_eq take_bit_nat_eq_self less_trans [OF unat8_lt])
  moreover have "unat (push_bit 8 w) = unat w * 2 ^ 8"
    using assms by (simp add: unat_push_bit)
  moreover have "or (unat w * 2 ^ 8 + 0) (0 * 2 ^ 8 + unat b) = or (unat w) 0 * 2 ^ 8 + or 0 (unat b)"
    using unat8_lt [of b] by (intro or_halves) simp_all
  ultimately show ?thesis by (simp add: unsigned_or_eq)
qed

lemma horner_bytes:
  "length bs \<le> 8 \<Longrightarrow> unat (foldl (\<lambda>w b. push_bit 8 w OR ucast b) (0 :: u64) bs) = be_val bs"
proof (induction bs rule: rev_induct)
  case (snoc b bs)
  have "(256 :: nat) ^ length bs \<le> 256 ^ 7" using snoc.prems by (intro power_increasing) simp_all
  then have "be_val bs < 2 ^ 56" using be_val_less [of bs] by simp
  then show ?case using snoc by (simp add: or_byte)
qed simp

lemma be_word64_val: "unat (be_word64 b0 b1 b2 b3 b4 b5 b6 b7) = be_val [b0, b1, b2, b3, b4, b5, b6, b7]"
proof -
  have eq: "be_word64 b0 b1 b2 b3 b4 b5 b6 b7 =
      foldl (\<lambda>w b. push_bit 8 w OR ucast b) 0 [b0, b1, b2, b3, b4, b5, b6, b7]"
    by (simp add: be_word64_def push_bit_or or.assoc)
  have "length [b0, b1, b2, b3, b4, b5, b6, b7] \<le> 8" by simp
  then show ?thesis unfolding eq by (rule horner_bytes)
qed

text \<open>A slice of a buffer, and the readers as the number of the slice.\<close>

definition slice :: "nat \<Rightarrow> nat \<Rightarrow> 'a list \<Rightarrow> 'a list" where
  "slice p n xs = take n (drop p xs)"

lemma length_slice [simp]: "p + n \<le> length xs \<Longrightarrow> length (slice p n xs) = n"
  by (simp add: slice_def)

lemma slice_Suc: "p < length xs \<Longrightarrow> slice p (Suc n) xs = xs ! p # slice (Suc p) n xs"
  by (simp add: slice_def Cons_nth_drop_Suc [symmetric])

lemma slice_add: "slice p (m + n) xs = slice p m xs @ slice (p + m) n xs"
  by (simp add: slice_def take_add add.commute)

lemma slice_8:
  assumes "p + 8 \<le> length xs"
  shows "slice p 8 xs = [xs ! p, xs ! (p + 1), xs ! (p + 2), xs ! (p + 3), xs ! (p + 4), xs ! (p + 5),
    xs ! (p + 6), xs ! (p + 7)]"
  using assms by (intro nth_equalityI)
    (auto simp: slice_def nth_Cons less_Suc_eq add.commute eval_nat_numeral)

lemma readUint64BE_ok:
  assumes "p + 8 \<le> length buffer"
  shows "\<exists>w. readUint64BE buffer p = Inr w \<and> unat w = be_val (slice p 8 buffer)"
  using assms by (simp add: readUint64BE_def be_word64_val slice_8)

lemma readUint64BE_out: "length buffer < p + 8 \<Longrightarrow> readUint64BE buffer p = Inl Out_of_bounds"
  by (auto simp: readUint64BE_def read_at_def)

lemma readu128BE_ok:
  assumes "p + 16 \<le> length buffer"
  shows "\<exists>w. readu128BE buffer p = Inr w \<and> val128 w = be_val (slice p 16 buffer)"
proof -
  obtain u l where "readUint64BE buffer p = Inr u" "unat u = be_val (slice p 8 buffer)"
    "readUint64BE buffer (p + 8) = Inr l" "unat l = be_val (slice (p + 8) 8 buffer)"
    using assms readUint64BE_ok [of p buffer] readUint64BE_ok [of "p + 8" buffer] by auto
  moreover have "be_val (slice p 16 buffer) = be_val (slice p 8 buffer) * 2 ^ 64 + be_val (slice (p + 8) 8 buffer)"
    using assms slice_add [of p 8 8 buffer] by (simp add: be_val_append)
  ultimately show ?thesis by (simp add: readu128BE_def val128_def)
qed

lemma readu256BE_ok:
  assumes "p + 32 \<le> length buffer"
  shows "\<exists>w. readu256BE buffer p = Inr w \<and> val256 w = be_val (slice p 32 buffer)"
proof -
  obtain u l where "readu128BE buffer p = Inr u" "val128 u = be_val (slice p 16 buffer)"
    "readu128BE buffer (p + 16) = Inr l" "val128 l = be_val (slice (p + 16) 16 buffer)"
    using assms readu128BE_ok [of p buffer] readu128BE_ok [of "p + 16" buffer] by auto
  moreover have "be_val (slice p 32 buffer) = be_val (slice p 16 buffer) * 2 ^ 128 + be_val (slice (p + 16) 16 buffer)"
    using assms slice_add [of p 16 16 buffer] by (simp add: be_val_append)
  ultimately show ?thesis by (simp add: readu256BE_def val256_def)
qed

lemma readu128BE_out: "length buffer < p + 16 \<Longrightarrow> readu128BE buffer p = Inl Out_of_bounds"
  by (cases "p + 8 \<le> length buffer")
    (use readUint64BE_ok [of p buffer] in \<open>auto simp: readu128BE_def readUint64BE_out\<close>)

lemma readu256BE_out: "length buffer < p + 32 \<Longrightarrow> readu256BE buffer p = Inl Out_of_bounds"
  by (cases "p + 16 \<le> length buffer")
    (use readu128BE_ok [of p buffer] in \<open>auto simp: readu256BE_def readu128BE_out\<close>)

section \<open>Writing\<close>

text \<open>
  One loop of \<open>u256_to_u8_*\<close>: \<open>n\<close> times store the low byte of \<open>tmp\<close> at \<open>i\<close>, going down,
  and drop it. \<open>i\<close> is not used any more when it would pass 0.
\<close>

fun put_bytes :: "u8 list \<Rightarrow> nat \<Rightarrow> nat \<Rightarrow> u64 \<Rightarrow> u8 list outcome" where
  "put_bytes data i 0 tmp = Inr data"
| "put_bytes data i (Suc n) tmp =
     bind_o (write_at data i (ucast (tmp AND 0xFF))) (\<lambda>data. put_bytes data (i - 1) n (drop_bit 8 tmp))"

definition u256_to_u8_32 :: "uint256_t \<Rightarrow> u8 list \<Rightarrow> nat \<Rightarrow> u8 list outcome" where
  "u256_to_u8_32 x data p =
     bind_o (put_bytes data (p + 31) 8 (lower128 (lower256 x))) (\<lambda>data.
     bind_o (put_bytes data (p + 23) 8 (upper128 (lower256 x))) (\<lambda>data.
     bind_o (put_bytes data (p + 15) 8 (lower128 (upper256 x))) (\<lambda>data.
     put_bytes data (p + 7) 8 (upper128 (upper256 x)))))"

definition u256_to_u8_20 :: "uint256_t \<Rightarrow> u8 list \<Rightarrow> nat \<Rightarrow> u8 list outcome" where
  "u256_to_u8_20 x data p =
     bind_o (put_bytes data (p + 19) 8 (lower128 (lower256 x))) (\<lambda>data.
     bind_o (put_bytes data (p + 11) 8 (upper128 (lower256 x))) (\<lambda>data.
     put_bytes data (p + 3) 4 (lower128 (upper256 x))))"

definition u256_to_u8_8 :: "uint256_t \<Rightarrow> u8 list \<Rightarrow> nat \<Rightarrow> u8 list outcome" where
  "u256_to_u8_8 x data p = put_bytes data (p + 7) 8 (lower128 (lower256 x))"

text \<open>A buffer with a slice replaced.\<close>

definition overwrite :: "nat \<Rightarrow> 'a list \<Rightarrow> 'a list \<Rightarrow> 'a list" where
  "overwrite p ys xs = take p xs @ ys @ drop (p + length ys) xs"

lemma length_overwrite [simp]: "p + length ys \<le> length xs \<Longrightarrow> length (overwrite p ys xs) = length xs"
  by (simp add: overwrite_def)

lemma slice_overwrite: "p + length ys \<le> length xs \<Longrightarrow> slice p (length ys) (overwrite p ys xs) = ys"
  by (simp add: slice_def overwrite_def)

lemma overwrite_Nil [simp]: "overwrite p [] xs = xs"
  by (simp add: overwrite_def)

lemma overwrite_snoc:
  "p + length ys < length xs \<Longrightarrow> overwrite p ys (xs[p + length ys := y]) = overwrite p (ys @ [y]) xs"
  by (simp add: overwrite_def Cons_nth_drop_Suc [symmetric] flip: drop_update_swap)

lemma overwrite_overwrite:
  "p + length ys + length zs \<le> length xs \<Longrightarrow>
   overwrite p ys (overwrite (p + length ys) zs xs) = overwrite p (ys @ zs) xs"
  by (simp add: overwrite_def add.assoc)

lemma overwrite_after:
  "p + length ys + length zs \<le> length xs \<Longrightarrow>
   overwrite (p + length ys) zs (overwrite p ys xs) = overwrite p (ys @ zs) xs"
  by (simp add: overwrite_def ac_simps)

lemma overwrite_Cons:
  "p < length xs \<Longrightarrow> xs[p := y] = overwrite p [y] xs"
  by (simp add: overwrite_def upd_conv_take_nth_drop)

lemma ucast_low_byte: "(ucast (w AND 0xFF :: u64) :: u8) = of_nat (unat w)"
proof -
  have "(0xFF :: u64) = mask 8" by (simp add: mask_eq_exp_minus_1)
  then have "w AND 0xFF = take_bit 8 w" by (simp add: take_bit_eq_mask)
  then show ?thesis
    by (intro bit_word_eqI) (simp add: bit_simps)
qed

lemma put_bytes_ok:
  "p + n \<le> length data \<Longrightarrow>
   put_bytes data (p + n - 1) n tmp = Inr (overwrite p (be_bytes n (unat tmp)) data)"
proof (induction n arbitrary: data tmp)
  case (Suc n)
  then show ?case
    using overwrite_snoc [of p "be_bytes n (unat tmp div 256)" data "of_nat (unat tmp)"]
    by (simp add: ucast_low_byte unat_drop_bit)
qed simp

lemma put_bytes_8:
  "p + 8 \<le> length data \<Longrightarrow> put_bytes data (p + 7) 8 w = Inr (overwrite p (be_bytes 8 (unat w)) data)"
  using put_bytes_ok [of p 8 data w] by (simp add: add.commute)

lemma put_bytes_out:
  "length data \<le> i \<Longrightarrow> put_bytes data i (Suc n) tmp = Inl Out_of_bounds"
  by (simp add: write_at_out)

lemma unat_limbs:
  "unat (lower128 (lower256 x)) = val256 x mod 2 ^ 64"
  "unat (upper128 (lower256 x)) = val256 x div 2 ^ 64 mod 2 ^ 64"
  "unat (lower128 (upper256 x)) = val256 x div 2 ^ 128 mod 2 ^ 64"
  "unat (upper128 (upper256 x)) = val256 x div 2 ^ 192"
proof -
  have low: "val256 x mod 2 ^ 128 = val128 (lower256 x)" and high: "val256 x div 2 ^ 128 = val128 (upper256 x)"
    by (simp_all add: val256_def)
  have l: "val128 w mod 2 ^ 64 = unat (lower128 w)" and u: "val128 w div 2 ^ 64 = unat (upper128 w)" for w
    by (simp_all add: val128_def)
  have "val256 x mod 2 ^ 64 = val256 x mod 2 ^ 128 mod 2 ^ 64"
    by (simp add: mod_mod_cancel)
  then show "unat (lower128 (lower256 x)) = val256 x mod 2 ^ 64"
    unfolding low l by simp
  have "val256 x mod (2 ^ 64 * 2 ^ 64) = 2 ^ 64 * (val256 x div 2 ^ 64 mod 2 ^ 64) + val256 x mod 2 ^ 64"
    by (rule mod_mult2_eq)
  then have "val256 x div 2 ^ 64 mod 2 ^ 64 = val256 x mod 2 ^ 128 div 2 ^ 64"
    by simp
  then show "unat (upper128 (lower256 x)) = val256 x div 2 ^ 64 mod 2 ^ 64"
    unfolding low u by simp
  show "unat (lower128 (upper256 x)) = val256 x div 2 ^ 128 mod 2 ^ 64"
    unfolding high l by simp
  have "val256 x div 2 ^ 192 = val256 x div 2 ^ 128 div 2 ^ 64"
    by (simp add: div_mult2_eq [symmetric])
  then show "unat (upper128 (upper256 x)) = val256 x div 2 ^ 192"
    unfolding high u by simp
qed

lemma be_bytes_8_mod: "be_bytes 8 (v mod 2 ^ 64) = be_bytes 8 v"
  using be_bytes_mod [of 8 v] by simp

lemma u256_to_u8_32_ok:
  assumes "p + 32 \<le> length data"
  shows "u256_to_u8_32 x data p = Inr (overwrite p (be_bytes 32 (val256 x)) data)"
proof -
  let ?v = "val256 x"
  note com = add.commute [of 31 p] add.commute [of 24 p] add.commute [of 23 p] add.commute [of 16 p] add.commute [of 15 p] add.commute [of 8 p] add.commute [of 7 p]
  let ?d1 = "overwrite (p + 24) (be_bytes 8 ?v) data"
  let ?d2 = "overwrite (p + 16) (be_bytes 16 ?v) data"
  let ?d3 = "overwrite (p + 8) (be_bytes 24 ?v) data"
  have 1: "put_bytes data (p + 31) 8 (lower128 (lower256 x)) = Inr ?d1"
    using put_bytes_8 [of "p + 24" data] assms by (simp add: com unat_limbs be_bytes_8_mod [simplified])
  have 2: "put_bytes ?d1 (p + 23) 8 (upper128 (lower256 x)) = Inr ?d2"
    using put_bytes_8 [of "p + 16" ?d1] assms be_bytes_append [of 8 8 ?v]
      overwrite_overwrite [of "p + 16" "be_bytes 8 (?v div 2 ^ 64)" "be_bytes 8 ?v" data]
    by (simp add: com unat_limbs be_bytes_8_mod [simplified])
  have 3: "put_bytes ?d2 (p + 15) 8 (lower128 (upper256 x)) = Inr ?d3"
    using put_bytes_8 [of "p + 8" ?d2] assms be_bytes_append [of 8 16 ?v]
      overwrite_overwrite [of "p + 8" "be_bytes 8 (?v div 2 ^ 128)" "be_bytes 16 ?v" data]
    by (simp add: com unat_limbs be_bytes_8_mod [simplified])
  have 4: "put_bytes ?d3 (p + 7) 8 (upper128 (upper256 x)) = Inr (overwrite p (be_bytes 32 ?v) data)"
    using put_bytes_8 [of p ?d3] assms be_bytes_append [of 8 24 ?v]
      overwrite_overwrite [of p "be_bytes 8 (?v div 2 ^ 192)" "be_bytes 24 ?v" data]
    by (simp add: com unat_limbs)
  show ?thesis by (simp add: u256_to_u8_32_def 1 2 3 4)
qed

lemma u256_to_u8_32_out: "length data < p + 32 \<Longrightarrow> u256_to_u8_32 x data p = Inl Out_of_bounds"
  by (simp add: u256_to_u8_32_def write_at_out eval_nat_numeral)

lemma u256_to_u8_20_ok:
  assumes "p + 20 \<le> length data"
  shows "u256_to_u8_20 x data p = Inr (overwrite p (be_bytes 20 (val256 x)) data)"
proof -
  let ?v = "val256 x"
  note com = add.commute [of 19 p] add.commute [of 12 p] add.commute [of 11 p] add.commute [of 4 p] add.commute [of 3 p]
  let ?d1 = "overwrite (p + 12) (be_bytes 8 ?v) data"
  let ?d2 = "overwrite (p + 4) (be_bytes 16 ?v) data"
  have 1: "put_bytes data (p + 19) 8 (lower128 (lower256 x)) = Inr ?d1"
    using put_bytes_8 [of "p + 12" data] assms by (simp add: com unat_limbs be_bytes_8_mod [simplified])
  have 2: "put_bytes ?d1 (p + 11) 8 (upper128 (lower256 x)) = Inr ?d2"
    using put_bytes_8 [of "p + 4" ?d1] assms be_bytes_append [of 8 8 ?v]
      overwrite_overwrite [of "p + 4" "be_bytes 8 (?v div 2 ^ 64)" "be_bytes 8 ?v" data]
    by (simp add: com unat_limbs be_bytes_8_mod [simplified])
  have m4: "be_bytes 4 (?v div 2 ^ 128 mod 2 ^ 64) = be_bytes 4 (?v div 2 ^ 128)"
    using be_bytes_mod [of 4 "?v div 2 ^ 128 mod 2 ^ 64"] be_bytes_mod [of 4 "?v div 2 ^ 128"]
    by (simp add: mod_mod_cancel)
  have 3: "put_bytes ?d2 (p + 3) 4 (lower128 (upper256 x)) = Inr (overwrite p (be_bytes 20 ?v) data)"
    using put_bytes_ok [of p 4 ?d2 "lower128 (upper256 x)"] assms be_bytes_append [of 4 16 ?v]
      overwrite_overwrite [of p "be_bytes 4 (?v div 2 ^ 128)" "be_bytes 16 ?v" data] m4
    by (simp add: com unat_limbs)
  show ?thesis by (simp add: u256_to_u8_20_def 1 2 3)
qed

lemma u256_to_u8_8_ok:
  "p + 8 \<le> length data \<Longrightarrow> u256_to_u8_8 x data p = Inr (overwrite p (be_bytes 8 (val256 x)) data)"
  using put_bytes_8 [of p data]
  by (simp add: u256_to_u8_8_def unat_limbs be_bytes_8_mod [simplified])


section \<open>Properties\<close>

text \<open>
  Claim C23. Writing a 256-bit number as 32 bytes succeeds exactly when the 32 bytes lie in the
  buffer; it changes nothing else in the buffer, and reading the bytes back gives the number.
\<close>

theorem u256_bytes_roundtrip:
  "case u256_to_u8_32 x data p of
     Inl e \<Rightarrow> e = Out_of_bounds \<and> length data < p + 32
   | Inr data' \<Rightarrow> p + 32 \<le> length data \<and> length data' = length data \<and>
       take p data' = take p data \<and> drop (p + 32) data' = drop (p + 32) data \<and>
       readu256BE data' p = Inr x"
proof (cases "p + 32 \<le> length data")
  case True
  let ?d = "overwrite p (be_bytes 32 (val256 x)) data"
  have "slice p 32 ?d = be_bytes 32 (val256 x)"
    using slice_overwrite [of p "be_bytes 32 (val256 x)" data] True by simp
  then have "readu256BE ?d p = Inr x"
    using readu256BE_ok [of p ?d] True val256_lt [of x]
    by (auto simp: be_val_bytes val256_inj)
  with True show ?thesis
    by (simp add: u256_to_u8_32_ok) (simp add: overwrite_def)
next
  case False
  then show ?thesis by (simp add: u256_to_u8_32_out)
qed

end
