(* ===== verification/To_Text.thy ===== *)
theory To_Text
  imports Bytes
begin

text \<open>
  Text output of src/tscvee/ta/src/uint256.c: \<open>reverseString\<close>, \<open>tostring128\<close> and
  \<open>tostring256\<close>. The two conversions are the same loop at two widths; the locale
  \<open>text_conversion\<close> states what the loop needs of the division, and is interpreted by both.
  A result \<open>None\<close> is a conversion that does not return.
\<close>

section \<open>The code\<close>

definition HEXDIGITS :: "u8 list" where
  "HEXDIGITS = [48, 49, 50, 51, 52, 53, 54, 55, 56, 57, 97, 98, 99, 100, 101, 102, 0]"

lemma loop_step:
  assumes "i < (j :: u32)"
  shows "unat (i + 1) = unat i + 1" and "unat (j - 1) = unat j - 1"
proof -
  have "unat i < unat j" using assms by (simp add: word_less_nat_alt)
  moreover have "unat j < 2 ^ 32" using unat_less [of j] by simp
  ultimately show "unat (i + 1) = unat i + 1" by (simp add: unat_add_mod)
  have "1 \<le> j" using \<open>unat i < unat j\<close> by (simp add: word_le_nat_alt)
  then show "unat (j - 1) = unat j - 1" by (simp add: unat_sub)
qed

function reverse_loop :: "u8 list \<Rightarrow> u32 \<Rightarrow> u32 \<Rightarrow> u8 list outcome" where
  "reverse_loop str i j =
     (if i < j then
        bind_o (read_at str (unat i)) (\<lambda>c.
        bind_o (read_at str (unat j)) (\<lambda>d.
        bind_o (write_at str (unat i) d) (\<lambda>str.
        bind_o (write_at str (unat j) c) (\<lambda>str.
        reverse_loop str (i + 1) (j - 1)))))
      else Inr str)"
  by pat_completeness auto

termination
  by (relation "measure (\<lambda>(str, i, j). unat j - unat i)") (auto simp: loop_step word_less_nat_alt)

declare reverse_loop.simps [simp del]

definition reverseString :: "u8 list \<Rightarrow> u32 \<Rightarrow> u8 list outcome" where
  "reverseString str n = reverse_loop str 0 (n - 1)"

partial_function (option) tostring128_loop ::
  "uint128_t \<Rightarrow> u32 \<Rightarrow> uint128_t \<Rightarrow> u32 \<Rightarrow> u8 list \<Rightarrow> (bool \<times> u8 list) outcome option" where
  "tostring128_loop base outLength rDiv offset out =
     (if offset > outLength - 1 then Some (Inr (False, out))
      else case divmod128 rDiv base of None \<Rightarrow> None
      | Some (rDiv, rMod) \<Rightarrow>
          (case bind_o (read_at HEXDIGITS (unat (ucast (lower128 rMod) :: u8))) (write_at out (unat offset)) of
             Inl e \<Rightarrow> Some (Inl e)
           | Inr out \<Rightarrow>
               if \<not> zero128 rDiv then tostring128_loop base outLength rDiv (offset + 1) out
               else Some (bind_o (write_at out (unat (offset + 1)) 0) (\<lambda>out.
                 bind_o (reverseString out (offset + 1)) (\<lambda>out. Inr (True, out))))))"

definition tostring128 :: "uint128_t \<Rightarrow> u32 \<Rightarrow> u8 list \<Rightarrow> u32 \<Rightarrow> (bool \<times> u8 list) outcome option" where
  "tostring128 number baseParam out outLength =
     (if baseParam < 2 \<or> baseParam > 16 then Some (Inr (False, out))
      else tostring128_loop (mk128 0 (ucast baseParam)) outLength (copy128 number) 0 out)"

partial_function (option) tostring256_loop ::
  "uint256_t \<Rightarrow> u32 \<Rightarrow> uint256_t \<Rightarrow> u32 \<Rightarrow> u8 list \<Rightarrow> (bool \<times> u8 list) outcome option" where
  "tostring256_loop base outLength rDiv offset out =
     (if offset > outLength - 1 then Some (Inr (False, out))
      else case divmod256 rDiv base of None \<Rightarrow> None
      | Some (rDiv, rMod) \<Rightarrow>
          (case bind_o (read_at HEXDIGITS (unat (ucast (lower128 (lower256 rMod)) :: u8)))
                  (write_at out (unat offset)) of
             Inl e \<Rightarrow> Some (Inl e)
           | Inr out \<Rightarrow>
               if \<not> zero256 rDiv then tostring256_loop base outLength rDiv (offset + 1) out
               else Some (bind_o (write_at out (unat (offset + 1)) 0) (\<lambda>out.
                 bind_o (reverseString out (offset + 1)) (\<lambda>out. Inr (True, out))))))"

definition tostring256 :: "uint256_t \<Rightarrow> u32 \<Rightarrow> u8 list \<Rightarrow> u32 \<Rightarrow> (bool \<times> u8 list) outcome option" where
  "tostring256 number baseParam out outLength =
     (if baseParam < 2 \<or> baseParam > 16 then Some (Inr (False, out))
      else tostring256_loop (mk256 0 0 0 (ucast baseParam)) outLength (copy256 number) 0 out)"

section \<open>Reversal\<close>

lemma reverse_loop_ok:
  "length xs = unat i \<Longrightarrow> unat j + 1 = unat i + length ys \<Longrightarrow>
   reverse_loop (xs @ ys @ zs) i j = Inr (xs @ rev ys @ zs)"
proof (induction "length ys" arbitrary: xs ys zs i j rule: less_induct)
  case less
  show ?case
  proof (cases "i < j")
    case True
    then have lt: "unat i < unat j" by (simp add: word_less_nat_alt)
    with less.prems obtain a ys' where "ys = a # ys'" "ys' \<noteq> []" by (cases ys) auto
    then obtain b mid where ys: "ys = a # mid @ [b]" by (cases ys' rule: rev_cases) auto
    have j: "unat j = length xs + length mid + 1" using less.prems ys by simp
    have nth: "(xs @ ys @ zs) ! unat i = a" "(xs @ ys @ zs) ! unat j = b"
      by (simp_all add: ys less.prems(1) [symmetric] j nth_append)
    have upd: "(xs @ ys @ zs)[unat i := b, unat j := a] = (xs @ [b]) @ mid @ (a # zs)"
      by (simp add: ys less.prems(1) [symmetric] j list_update_append)
    have len: "unat i < length (xs @ ys @ zs)" "unat j < length (xs @ ys @ zs)"
      unfolding length_append using less.prems lt by linarith+
    have "reverse_loop (xs @ ys @ zs) i j = reverse_loop ((xs @ [b]) @ mid @ (a # zs)) (i + 1) (j - 1)"
      using True len nth upd by (simp add: reverse_loop.simps [of _ i])
    also have "\<dots> = Inr ((xs @ [b]) @ rev mid @ (a # zs))"
      by (rule less.hyps) (use less.prems True j ys in \<open>simp_all add: loop_step\<close>)
    finally show ?thesis by (simp add: ys)
  next
    case False
    then have "unat j \<le> unat i" by (simp add: word_less_nat_alt)
    with less.prems have "length ys \<le> 1" by linarith
    then have "rev ys = ys" by (cases ys) (auto simp: Suc_le_eq)
    with False show ?thesis by (simp add: reverse_loop.simps [of _ i])
  qed
qed

lemma reverseString_ok:
  assumes "length ys = unat n" and "n \<noteq> 0"
  shows "reverseString (ys @ zs) n = Inr (rev ys @ zs)"
proof -
  have "1 \<le> n" using assms(2) by (simp add: word_le_nat_alt word_unat_eq_iff)
  then have "unat (n - 1) = unat n - 1" by (simp add: unat_sub)
  moreover have "0 < unat n" using assms(2) by (simp add: unat_gt_0)
  ultimately show ?thesis
    using reverse_loop_ok [of "[]" 0 "n - 1" ys zs] assms(1) by (simp add: reverseString_def)
qed

section \<open>Digits\<close>

text \<open>The digits of a number, least significant first, and their characters.\<close>

fun digits :: "nat \<Rightarrow> nat \<Rightarrow> nat list" where
  "digits b n = (if b < 2 \<or> n < b then [n] else n mod b # digits b (n div b))"

declare digits.simps [simp del]

definition digit_text :: "nat \<Rightarrow> nat \<Rightarrow> u8 list" where
  "digit_text b n = map (\<lambda>d. HEXDIGITS ! d) (digits b n)"

lemma digits_less: "2 \<le> b \<Longrightarrow> d \<in> set (digits b n) \<Longrightarrow> d < b"
proof (induction b n rule: digits.induct)
  case (1 b n)
  then show ?case by (subst (asm) (2) digits.simps) (auto split: if_splits)
qed

lemma digits_value: "2 \<le> b \<Longrightarrow> foldr (\<lambda>d v. v * b + d) (digits b n) 0 = n"
proof (induction b n rule: digits.induct)
  case (1 b n)
  then show ?case by (subst digits.simps) (auto simp: not_less)
qed

lemma digits_not_Nil [simp]: "digits b n \<noteq> []"
  by (subst digits.simps) simp

lemma digits_step:
  "2 \<le> b \<Longrightarrow> digits b n = n mod b # (if n div b = 0 then [] else digits b (n div b))"
  by (subst digits.simps) (auto simp: div_eq_0_iff)

lemma digit_text_step:
  "2 \<le> b \<Longrightarrow> digit_text b n = HEXDIGITS ! (n mod b) # (if n div b = 0 then [] else digit_text b (n div b))"
  by (simp add: digit_text_def digits_step [of b n])

section \<open>The conversion loop at either width\<close>

text \<open>
  \<open>low8\<close> is the \<open>(uint8_t)\<close> cast of the remainder's lowest word, \<open>loop\<close> the \<open>do\<close> loop of
  the conversion.
\<close>

locale text_conversion =
  fixes val :: "'a \<Rightarrow> nat"
    and low8 :: "'a \<Rightarrow> u8"
    and zero :: "'a \<Rightarrow> bool"
    and divmod :: "'a \<Rightarrow> 'a \<Rightarrow> ('a \<times> 'a) option"
    and loop :: "'a \<Rightarrow> u32 \<Rightarrow> 'a \<Rightarrow> u32 \<Rightarrow> u8 list \<Rightarrow> (bool \<times> u8 list) outcome option"
  assumes low8_val: "unat (low8 x) = val x mod 256"
    and zero_val: "zero x \<longleftrightarrow> val x = 0"
    and divmod_val: "0 < val r \<Longrightarrow>
      \<exists>q n. divmod l r = Some (q, n) \<and> val q = val l div val r \<and> val n = val l mod val r"
    and loop_eq: "loop base len d off out =
      (if off > len - 1 then Some (Inr (False, out))
       else case divmod d base of None \<Rightarrow> None
       | Some (d, m) \<Rightarrow>
          (case bind_o (read_at HEXDIGITS (unat (low8 m))) (write_at out (unat off)) of
             Inl e \<Rightarrow> Some (Inl e)
           | Inr out \<Rightarrow>
               if \<not> zero d then loop base len d (off + 1) out
               else Some (bind_o (write_at out (unat (off + 1)) 0) (\<lambda>out.
                 bind_o (reverseString out (off + 1)) (\<lambda>out. Inr (True, out))))))"
begin

text \<open>
  One round: the next digit is stored, and the loop ends at the last one. The text so far is
  \<open>ys\<close>, at the start of the buffer.
\<close>

lemma loop_round:
  assumes base: "2 \<le> val base" "val base \<le> 16"
    and room: "unat off < unat len" and off: "length ys = unat off"
    and buf: "unat len \<le> length (ys @ zs)"
  shows "\<exists>q zs'. length zs = Suc (length zs') \<and> zs' = tl zs \<and> val q = val d div val base \<and>
    loop base len d off (ys @ zs) =
      (let ys' = ys @ [HEXDIGITS ! (val d mod val base)]
       in if val q \<noteq> 0 then loop base len q (off + 1) (ys' @ zs')
          else Some (bind_o (write_at (ys' @ zs') (unat (off + 1)) 0) (\<lambda>out.
                 bind_o (reverseString out (off + 1)) (\<lambda>out. Inr (True, out)))))"
proof -
  have "off < len" using room by (simp add: word_less_nat_alt)
  moreover have "unat (len - 1) = unat len - 1" using loop_step(2) [OF calculation] .
  ultimately have go: "\<not> off > len - 1" using room by (simp add: word_less_nat_alt)
  obtain q n where qn: "divmod d base = Some (q, n)" "val q = val d div val base" "val n = val d mod val base"
    using divmod_val [of base d] base by auto
  have "val d mod val base < val base" using base by simp
  then have small: "val n < 16" using base qn(3) by linarith
  then have low: "unat (low8 n) = val d mod val base" using qn(3) by (simp add: low8_val)
  have hex: "unat (low8 n) < length HEXDIGITS" using small low qn(3) by (simp add: HEXDIGITS_def)
  have "zs \<noteq> []" using room off buf by auto
  then obtain z zs' where zs: "zs = z # zs'" by (cases zs) auto
  then show ?thesis
    using go qn hex low off
    by (auto simp: loop_eq [of base len d] zero_val Let_def list_update_append intro!: exI [of _ q])
qed

lemma loop_text:
  assumes base: "2 \<le> val base" "val base \<le> 16"
  shows "unat off \<le> unat len \<Longrightarrow> length ys = unat off \<Longrightarrow> unat len \<le> length (ys @ zs) \<Longrightarrow> len \<noteq> 0 \<Longrightarrow>
    loop base len d off (ys @ zs) = Some
      (let text = ys @ digit_text (val base) (val d); k = length text
       in if unat len < k then Inr (False, take (unat len) text @ drop (unat len) (ys @ zs))
          else if k < length (ys @ zs) then Inr (True, rev text @ 0 # drop (Suc k) (ys @ zs))
          else Inl Out_of_bounds)"
proof (induction "val d" arbitrary: d off ys zs rule: less_induct)
  case less
  show ?case
  proof (cases "unat off = unat len")
    case True
    have "0 < unat len" using less.prems(4) by (simp add: unat_gt_0)
    then have "0 < len" by (simp add: word_less_nat_alt)
    then have "unat (len - 1) = unat len - 1" by (rule loop_step(2))
    then have "off > len - 1" using True \<open>0 < unat len\<close> by (simp add: word_less_nat_alt)
    moreover have "digit_text (val base) (val d) \<noteq> []" by (simp add: digit_text_def)
    ultimately show ?thesis
      using True less.prems by (simp add: loop_eq [of base len d] Let_def)
  next
    case False
    then have room: "unat off < unat len" using less.prems(1) by simp
    then have off1: "unat (off + 1) = unat off + 1"
      using loop_step(1) [of off len] by (simp add: word_less_nat_alt)
    define y where "y = HEXDIGITS ! (val d mod val base)"
    obtain q zs' where q: "length zs = Suc (length zs')" "zs' = tl zs" "val q = val d div val base"
      "loop base len d off (ys @ zs) =
        (let ys' = ys @ [y]
         in if val q \<noteq> 0 then loop base len q (off + 1) (ys' @ zs')
            else Some (bind_o (write_at (ys' @ zs') (unat (off + 1)) 0) (\<lambda>out.
                 bind_o (reverseString out (off + 1)) (\<lambda>out. Inr (True, out)))))"
      using loop_round [OF base room less.prems(2,3)] unfolding y_def by blast
    have tx: "digit_text (val base) (val d) = y # (if val q = 0 then [] else digit_text (val base) (val q))"
      using base(1) by (simp add: digit_text_step [of "val base" "val d"] q(3) y_def)
    obtain z where zs: "zs = z # zs'" using q(1,2) by (cases zs) auto
    show ?thesis
    proof (cases "val q = 0")
      case True
      have "off + 1 \<noteq> 0" using off1 by (auto simp: word_unat_eq_iff)
      then have "reverseString ((ys @ [y]) @ 0 # tl zs') (off + 1) = Inr (rev (ys @ [y]) @ 0 # tl zs')"
        using less.prems(2) off1 by (intro reverseString_ok) simp_all
      moreover have "write_at (ys @ y # zs') (unat (off + 1)) 0 =
          (if zs' = [] then Inl Out_of_bounds else Inr (ys @ y # 0 # tl zs'))"
        using less.prems(2) off1 by (cases zs') (simp_all add: write_at_def list_update_append)
      moreover have "drop (Suc (Suc (length ys))) (ys @ zs) = tl zs'"
        unfolding zs by (simp add: drop_Suc flip: numeral_2_eq_2)
      ultimately show ?thesis
        using q(1,4) True tx room less.prems(2) by (cases zs') (auto simp: Let_def)
    next
      case False
      have "val q < val d"
        using False base(1) unfolding q(3) by (intro div_less_dividend) (auto intro: gr0I)
      moreover have "unat len \<le> length ((ys @ [y]) @ zs')" using less.prems(3) q(1) by simp
      ultimately have "loop base len q (off + 1) ((ys @ [y]) @ zs') = Some
          (let text = (ys @ [y]) @ digit_text (val base) (val q); k = length text
           in if unat len < k then Inr (False, take (unat len) text @ drop (unat len) ((ys @ [y]) @ zs'))
              else if k < length ((ys @ [y]) @ zs') then Inr (True, rev text @ 0 # drop (Suc k) ((ys @ [y]) @ zs'))
              else Inl Out_of_bounds)"
        using less.hyps [of q "off + 1" "ys @ [y]" zs'] room less.prems(2,4) off1 by simp
      moreover have "drop m ((ys @ [y]) @ zs') = drop m (ys @ zs)" if "length ys < m" for m
        using that q(1,2) by (cases zs) (auto simp: drop_Cons')
      ultimately show ?thesis
        using q(1,4) zs False tx room less.prems(2) by (simp add: Let_def)
    qed
  qed
qed

end

lemma ucast_low_val:
  "unat (ucast (w :: u64) :: u8) = unat w mod 256"
  by (simp add: unsigned_ucast_eq take_bit_eq_mod)

lemma unat_base: "unat (ucast (b :: u32) :: u64) = unat b"
proof -
  have "unat b < 2 ^ 64"
    using unat_less [of b] by (rule less_trans [OF _ power_strict_increasing]) simp_all
  then show ?thesis by (simp add: unsigned_ucast_eq take_bit_nat_eq_self)
qed

interpretation text128: text_conversion val128 "\<lambda>n. ucast (lower128 n)" zero128 divmod128 tostring128_loop
proof (unfold_locales, goal_cases)
  case (3 r l)
  then show ?case by (rule div128.divmod_correct)
next
  case (4 base len d off out)
  show ?case by (rule tostring128_loop.simps)
next
  case (1 x)
  have "val128 x mod 256 = unat (lower128 x) mod 256"
    by (simp add: val128_def) (simp add: mod_simps flip: mod_add_left_eq)
  then show ?case by (simp add: ucast_low_val)
qed (simp add: uval)

interpretation text256: text_conversion val256 "\<lambda>n. ucast (lower128 (lower256 n))" zero256 divmod256 tostring256_loop
proof (unfold_locales, goal_cases)
  case (3 r l)
  then show ?case by (rule div256.divmod_correct)
next
  case (4 base len d off out)
  show ?case by (rule tostring256_loop.simps)
next
  case (1 x)
  have "val256 x mod 256 = val256 x mod 2 ^ 64 mod 256"
    by (simp add: mod_mod_cancel)
  then show ?case by (simp add: ucast_low_val unat_limbs)
qed (simp add: uval)

section \<open>Properties\<close>

text \<open>
  Claim C24. \<open>tostring256\<close> returns for every number. It refuses a base outside 2 to 16; in a
  buffer of the promised length it writes the digits of the number, most significant first, and a
  terminating NUL when they are fewer than the length, stops with \<open>false\<close> when they are more, and
  writes one byte beyond the promised length when they are exactly as many.
\<close>

theorem tostring256_text:
  assumes "outLength \<noteq> 0" and "unat outLength \<le> length out"
  shows "tostring256 number base out outLength = Some
    (let txt = digit_text (unat base) (val256 number); k = length txt
     in if base < 2 \<or> 16 < base then Inr (False, out)
        else if unat outLength < k then Inr (False, take (unat outLength) txt @ drop (unat outLength) out)
        else if k < length out then Inr (True, rev txt @ 0 # drop (Suc k) out)
        else Inl Out_of_bounds)"
proof (cases "base < 2 \<or> 16 < base")
  case False
  then have "2 \<le> unat base" and "unat base \<le> 16"
    by (auto simp: word_less_nat_alt)
  moreover have "val256 (mk256 0 0 0 (ucast base)) = unat base"
    by (simp add: val256_mk256 unat_base)
  ultimately show ?thesis
    using text256.loop_text [of "mk256 0 0 0 (ucast base)" 0 outLength "[]" out "copy256 number"] assms False
    by (simp add: tostring256_def Let_def)
qed (simp add: tostring256_def)

lemma tostring256_text_witness:
  "tostring256 (mk256 0 0 0 255) 16 [7, 7] 2 = Some (Inl Out_of_bounds)"
  using tostring256_text [of 2 "[7, 7]" "mk256 0 0 0 255" 16]
  by (simp add: val256_mk256 digit_text_def digits.simps)

lemma tostring128_text:
  assumes "outLength \<noteq> 0" and "unat outLength \<le> length out"
  shows "tostring128 number base out outLength = Some
    (let txt = digit_text (unat base) (val128 number); k = length txt
     in if base < 2 \<or> 16 < base then Inr (False, out)
        else if unat outLength < k then Inr (False, take (unat outLength) txt @ drop (unat outLength) out)
        else if k < length out then Inr (True, rev txt @ 0 # drop (Suc k) out)
        else Inl Out_of_bounds)"
proof (cases "base < 2 \<or> 16 < base")
  case False
  then have "2 \<le> unat base" and "unat base \<le> 16"
    by (auto simp: word_less_nat_alt)
  moreover have "val128 (mk128 0 (ucast base)) = unat base"
    by (simp add: val128_mk128 unat_base)
  ultimately show ?thesis
    using text128.loop_text [of "mk128 0 (ucast base)" 0 outLength "[]" out "copy128 number"] assms False
    by (simp add: tostring128_def Let_def)
qed (simp add: tostring128_def)

text \<open>The digits denote the number, so the text can be read back.\<close>

lemma digit_text_denotes:
  assumes "2 \<le> b" and "b \<le> 16"
  shows "\<exists>ds. digit_text b n = map (\<lambda>d. HEXDIGITS ! d) ds \<and> (\<forall>d\<in>set ds. d < b) \<and>
    foldr (\<lambda>d v. v * b + d) ds 0 = n"
  using digits_value [OF assms(1)] digits_less [OF assms(1)] by (auto simp: digit_text_def)

end
