(* ===== verification/Evmc.thy ===== *)
theory Evmc
  imports Bytes
begin

text \<open>
  The data types of the interface between the EVM and its host, src/tscvee/ta/include/evmc.h: the
  status codes, revisions, messages, the transaction context and the results, with the helpers
  of the header. Byte arrays of fixed size (\<open>evmc_bytes32\<close>, \<open>evmc_address\<close>) are lists, of length
  32 and 20. A pointer with a size (\<open>input_data\<close>, \<open>input_size\<close>) is the list of the bytes of the
  object it points to and the size; a null pointer is \<open>None\<close> where the code lets it be null. The
  table of function pointers of the host is not used by the TA and is not modelled.
\<close>

type_synonym evmc_bytes32 = "u8 list"
type_synonym evmc_uint256be = "u8 list"
type_synonym evmc_address = "u8 list"

section \<open>Enumerations\<close>

datatype evmc_call_kind = EVMC_CALL | EVMC_DELEGATECALL | EVMC_CALLCODE | EVMC_CREATE | EVMC_CREATE2

datatype evmc_status_code =
    EVMC_SUCCESS | EVMC_FAILURE | EVMC_REVERT | EVMC_OUT_OF_GAS | EVMC_INVALID_INSTRUCTION
  | EVMC_UNDEFINED_INSTRUCTION | EVMC_STACK_OVERFLOW | EVMC_STACK_UNDERFLOW
  | EVMC_BAD_JUMP_DESTINATION | EVMC_INVALID_MEMORY_ACCESS | EVMC_CALL_DEPTH_EXCEEDED
  | EVMC_STATIC_MODE_VIOLATION | EVMC_PRECOMPILE_FAILURE | EVMC_CONTRACT_VALIDATION_FAILURE
  | EVMC_ARGUMENT_OUT_OF_RANGE | EVMC_WASM_UNREACHABLE_INSTRUCTION | EVMC_WASM_TRAP
  | EVMC_INSUFFICIENT_BALANCE | EVMC_INTERNAL_ERROR | EVMC_REJECTED | EVMC_OUT_OF_MEMORY

datatype evmc_storage_status =
    EVMC_STORAGE_UNCHANGED | EVMC_STORAGE_MODIFIED | EVMC_STORAGE_MODIFIED_AGAIN
  | EVMC_STORAGE_ADDED | EVMC_STORAGE_DELETED

datatype evmc_access_status = EVMC_ACCESS_COLD | EVMC_ACCESS_WARM

datatype evmc_set_option_result =
    EVMC_SET_OPTION_SUCCESS | EVMC_SET_OPTION_INVALID_NAME | EVMC_SET_OPTION_INVALID_VALUE

text \<open>The revisions are ordered by their numbers; the code compares them.\<close>

datatype evmc_revision =
    EVMC_FRONTIER | EVMC_HOMESTEAD | EVMC_TANGERINE_WHISTLE | EVMC_SPURIOUS_DRAGON
  | EVMC_BYZANTIUM | EVMC_CONSTANTINOPLE | EVMC_PETERSBURG | EVMC_ISTANBUL | EVMC_BERLIN
  | EVMC_LONDON | EVMC_PARIS | EVMC_SHANGHAI | EVMC_CANCUN

fun rev_number :: "evmc_revision \<Rightarrow> nat" where
  "rev_number EVMC_FRONTIER = 0"
| "rev_number EVMC_HOMESTEAD = 1"
| "rev_number EVMC_TANGERINE_WHISTLE = 2"
| "rev_number EVMC_SPURIOUS_DRAGON = 3"
| "rev_number EVMC_BYZANTIUM = 4"
| "rev_number EVMC_CONSTANTINOPLE = 5"
| "rev_number EVMC_PETERSBURG = 6"
| "rev_number EVMC_ISTANBUL = 7"
| "rev_number EVMC_BERLIN = 8"
| "rev_number EVMC_LONDON = 9"
| "rev_number EVMC_PARIS = 10"
| "rev_number EVMC_SHANGHAI = 11"
| "rev_number EVMC_CANCUN = 12"

lemma rev_number_inj: "rev_number r = rev_number r' \<longleftrightarrow> r = r'"
  by (cases r; cases r') simp_all

instantiation evmc_revision :: linorder
begin

definition less_eq_evmc_revision :: "evmc_revision \<Rightarrow> evmc_revision \<Rightarrow> bool" where
  "less_eq_evmc_revision r r' = (rev_number r \<le> rev_number r')"

definition less_evmc_revision :: "evmc_revision \<Rightarrow> evmc_revision \<Rightarrow> bool" where
  "less_evmc_revision r r' = (rev_number r < rev_number r')"

instance
  by standard
    (use rev_number_inj in \<open>auto simp: less_eq_evmc_revision_def less_evmc_revision_def\<close>)

end

lemmas rev_order = less_eq_evmc_revision_def less_evmc_revision_def

section \<open>Records\<close>

record evmc_message =
  kind :: evmc_call_kind
  flags :: u32
  depth :: int
  gas_limit :: int
  recipient :: evmc_address
  sender :: evmc_address
  input_data :: "u8 list"
  input_size :: nat
  call_value :: evmc_uint256be
  create2_salt :: evmc_bytes32
  code_address :: evmc_address

definition EVMC_STATIC :: u32 where
  "EVMC_STATIC = 1"

text \<open>
  The salt has 32 bytes, of which the initialisation clears the first 20; the others keep what
  the allocation left in them.
\<close>

definition EVMCMessage_init_v :: "evmc_message \<Rightarrow> int \<Rightarrow> u8 list \<Rightarrow> nat \<Rightarrow> evmc_message" where
  "EVMCMessage_init_v msg gas input in_size = msg\<lparr>
     kind := EVMC_CALL, flags := 0, depth := 0, gas_limit := gas,
     recipient := replicate 20 1, sender := replicate 20 0,
     input_data := input, input_size := in_size,
     call_value := replicate 32 0,
     create2_salt := overwrite 0 (replicate 20 0) (create2_salt msg),
     code_address := replicate 20 0\<rparr>"

record evmc_tx_context =
  tx_gas_price :: evmc_uint256be
  tx_origin :: evmc_address
  block_coinbase :: evmc_address
  block_number :: int
  block_timestamp :: int
  block_gas_limit :: int
  block_prev_randao :: evmc_uint256be
  chain_id :: evmc_uint256be
  block_base_fee :: evmc_uint256be

text \<open>A context in zeroed memory.\<close>

definition zero_tx_context :: evmc_tx_context where
  "zero_tx_context = \<lparr>tx_gas_price = replicate 32 0, tx_origin = replicate 20 0,
     block_coinbase = replicate 20 0, block_number = 0, block_timestamp = 0, block_gas_limit = 0,
     block_prev_randao = replicate 32 0, chain_id = replicate 32 0, block_base_fee = replicate 32 0\<rparr>"

text \<open>
  \<open>evmcContext_init\<close> takes its argument by value: it clears a copy, and the caller's context keeps
  its value.
\<close>

definition evmcContext_init :: "evmc_tx_context \<Rightarrow> evmc_tx_context" where
  "evmcContext_init caller = (let tx = zero_tx_context in caller)"

record evmc_result =
  status_code :: evmc_status_code
  result_gas_left :: int
  output_data :: "u8 list option"
  result_output_size :: nat
  release :: bool
  create_address :: evmc_address

definition evmc_result_init :: "evmc_result" where
  "evmc_result_init = \<lparr>status_code = EVMC_SUCCESS, result_gas_left = 0, output_data = None,
     result_output_size = 0, release = False, create_address = replicate 20 0\<rparr>"

section \<open>Helpers\<close>

definition u64_to_b32 :: "u64 \<Rightarrow> evmc_bytes32" where
  "u64_to_b32 v = replicate 24 0 @ map (\<lambda>i. ucast (drop_bit (8 * i) v)) [7, 6, 5, 4, 3, 2, 1, 0]"

definition u64_to_addr :: "u64 \<Rightarrow> evmc_address" where
  "u64_to_addr v = replicate 12 0 @ map (\<lambda>i. ucast (drop_bit (8 * i) v)) [7, 6, 5, 4, 3, 2, 1, 0]"

fun bytes_equal :: "u8 list \<Rightarrow> u8 list \<Rightarrow> nat \<Rightarrow> nat \<Rightarrow> bool" where
  "bytes_equal a b i 0 = True"
| "bytes_equal a b i (Suc n) = (if a ! i \<noteq> b ! i then False else bytes_equal a b (i + 1) n)"

definition b32_equal :: "evmc_bytes32 \<Rightarrow> evmc_bytes32 \<Rightarrow> bool" where
  "b32_equal b1 b2 = bytes_equal b1 b2 0 32"

definition addr_equal :: "evmc_address \<Rightarrow> evmc_address \<Rightarrow> bool" where
  "addr_equal a1 a2 = bytes_equal a1 a2 0 20"

fun bytes_zero :: "u8 list \<Rightarrow> nat \<Rightarrow> nat \<Rightarrow> bool" where
  "bytes_zero b i 0 = True"
| "bytes_zero b i (Suc n) = (if b ! i \<noteq> 0 then False else bytes_zero b (i + 1) n)"

definition b32_zero :: "evmc_bytes32 \<Rightarrow> bool" where
  "b32_zero b = bytes_zero b 0 32"

fun bytes_gt_eq :: "u8 list \<Rightarrow> u8 list \<Rightarrow> nat \<Rightarrow> nat \<Rightarrow> bool" where
  "bytes_gt_eq a b i 0 = True"
| "bytes_gt_eq a b i (Suc n) = (if a ! i < b ! i then False else bytes_gt_eq a b (i + 1) n)"

definition addr_gt_eq :: "evmc_address \<Rightarrow> evmc_address \<Rightarrow> bool" where
  "addr_gt_eq a1 a2 = bytes_gt_eq a1 a2 0 20"

text \<open>
  The output is copied out of the memory \<open>data\<close> from \<open>offset\<close> on. The allocation of the copy does
  not fail in the model.
\<close>

definition evmc_make_result ::
  "evmc_status_code \<Rightarrow> int \<Rightarrow> u8 list \<Rightarrow> nat \<Rightarrow> nat \<Rightarrow> evmc_result outcome" where
  "evmc_make_result status gas_left data offset out_size =
     (let result = \<lparr>status_code = EVMC_SUCCESS, result_gas_left = 0, output_data = None,
            result_output_size = 0, release = False, create_address = replicate 20 0\<rparr>
      in bind_o (if out_size \<noteq> 0 then
             if offset + out_size \<le> length data then
               Inr (result\<lparr>output_data := Some (slice offset out_size data), result_output_size := out_size,
                      release := True\<rparr>)
             else Inl Out_of_bounds
           else Inr result) (\<lambda>result.
         Inr (result\<lparr>status_code := status, result_gas_left := gas_left\<rparr>)))"

subsection \<open>Laws of the helpers\<close>

lemma bytes_equal_iff: "bytes_equal a b i n \<longleftrightarrow> (\<forall>j < n. a ! (i + j) = b ! (i + j))"
proof (induction n arbitrary: i)
  case (Suc n)
  then show ?case by (auto simp: All_less_Suc2)
qed simp

lemma bytes_zero_iff: "bytes_zero b i n \<longleftrightarrow> (\<forall>j < n. b ! (i + j) = 0)"
proof (induction n arbitrary: i)
  case (Suc n)
  then show ?case by (auto simp: All_less_Suc2)
qed simp

lemma b32_zero_iff: "length b = 32 \<Longrightarrow> b32_zero b \<longleftrightarrow> b = replicate 32 0"
  by (simp add: b32_zero_def bytes_zero_iff list_eq_iff_nth_eq)

lemma b32_equal_iff: "length a = 32 \<Longrightarrow> length b = 32 \<Longrightarrow> b32_equal a b \<longleftrightarrow> a = b"
  by (simp add: b32_equal_def bytes_equal_iff list_eq_iff_nth_eq)

lemma addr_equal_iff: "length a = 20 \<Longrightarrow> length b = 20 \<Longrightarrow> addr_equal a b \<longleftrightarrow> a = b"
  by (simp add: addr_equal_def bytes_equal_iff list_eq_iff_nth_eq)

lemma length_u64_to_addr [simp]: "length (u64_to_addr v) = 20" "length (u64_to_b32 v) = 32"
  by (simp_all add: u64_to_addr_def u64_to_b32_def)

end
