(* ===== verification/Containers.thy ===== *)
theory Containers
  imports Bytes
begin

text \<open>
  The containers of src/tscvee/ta/stc that the host and the analysis rely on: the hash map
  \<open>cmap.h\<close> (open addressing with linear probing), the searches of \<open>cvec.h\<close>, and the comparison
  and hash of \<open>cstr.h\<close> that the maps use for their keys. The map is generic in the hash and the
  comparison of its keys, as the C template is. The locale \<open>hash_keys\<close> states what the map needs
  of them; under it the map is a finite map. The keys of the EVM maps meet it as long as they hold
  no zero byte, because their comparison is \<open>strcmp\<close>.
\<close>

section \<open>Comparison and hash of byte strings\<close>

text \<open>\<open>strcmp\<close> on a \<open>cstr\<close>, whose bytes are followed by a NUL; only the sign matters.\<close>

fun cstr_cmp :: "u8 list \<Rightarrow> u8 list \<Rightarrow> int" where
  "cstr_cmp [] [] = 0"
| "cstr_cmp [] (y # ys) = (if y = 0 then 0 else - 1)"
| "cstr_cmp (x # xs) [] = (if x = 0 then 0 else 1)"
| "cstr_cmp (x # xs) (y # ys) =
     (if x \<noteq> y then (if x < y then - 1 else 1) else if x = 0 then 0 else cstr_cmp xs ys)"

definition ROTL26 :: "u64 \<Rightarrow> u64" where
  "ROTL26 x = push_bit 26 x OR drop_bit 38 x"

text \<open>Little-endian load of up to eight bytes, as \<open>TEE_MemMove\<close> into an integer does.\<close>

definition load_le :: "u8 list \<Rightarrow> u64" where
  "load_le bs = foldr (\<lambda>b w. push_bit 8 w OR ucast b) bs 0"

fun fasthash_words :: "nat \<Rightarrow> u8 list \<Rightarrow> u64 \<Rightarrow> u64" where
  "fasthash_words 0 x h = h"
| "fasthash_words (Suc n) x h =
     (let w = load_le (take 8 x)
      in fasthash_words n (drop 8 x) (h + (ROTL26 w XOR w) * 0xc6a4a7935bd1e99d))"

definition c_fasthash :: "u8 list \<Rightarrow> u64" where
  "c_fasthash key =
     (let n = length key div 8; h = fasthash_words n key 1; x = drop (n * 8) key; l = length key mod 8
      in if l = 0 then h
         else if l = 4 then h + load_le x * 0xc6a4a7935bd1e99d
         else let h = fold (\<lambda>b h. (push_bit 10 h - h) + ucast b) (tl x) (h + ucast (hd x))
              in ROTL26 h XOR h)"

section \<open>The hash map\<close>

text \<open>A bucket is empty (its \<open>_hashx\<close> is 0) or holds the hash byte, the key and the value.\<close>

record ('k, 'v) cmap =
  buckets :: "(u8 \<times> 'k \<times> 'v) option list"
  msize :: nat

definition cmap_init :: "('k, 'v) cmap" where
  "cmap_init = \<lparr>buckets = [], msize = 0\<rparr>"

definition fastrange_uint32 :: "u64 \<Rightarrow> nat \<Rightarrow> nat" where
  "fastrange_uint32 x n = (unat (ucast x :: u32) * n) div 2 ^ 32"

text \<open>
  The loop of \<open>_bucket_\<close> from index \<open>i\<close>, with the number of buckets still unseen: when none is
  left every bucket is occupied by another key and the loop does not end.
\<close>

fun probe :: "('k \<Rightarrow> 'k \<Rightarrow> bool) \<Rightarrow> (u8 \<times> 'k \<times> 'v) option list \<Rightarrow> u8 \<Rightarrow> 'k \<Rightarrow> nat \<Rightarrow> nat \<Rightarrow> nat option" where
  "probe eq bs hx k i 0 = None"
| "probe eq bs hx k i (Suc n) =
     (case bs ! i of None \<Rightarrow> Some i
      | Some (h, k', v) \<Rightarrow>
          if h = hx \<and> eq k' k then Some i
          else probe eq bs hx k (if i + 1 = length bs then 0 else i + 1) n)"

definition hash_byte :: "('k \<Rightarrow> u64) \<Rightarrow> 'k \<Rightarrow> u8" where
  "hash_byte hash k = ucast (hash k OR 0x80)"

definition cmap_bucket ::
  "('k \<Rightarrow> u64) \<Rightarrow> ('k \<Rightarrow> 'k \<Rightarrow> bool) \<Rightarrow> ('k, 'v) cmap \<Rightarrow> 'k \<Rightarrow> nat outcome" where
  "cmap_bucket hash eq m k =
     (let cap = length (buckets m)
      in if cap = 0 then Inl Null_pointer
         else case probe eq (buckets m) (hash_byte hash k) k (fastrange_uint32 (hash k) cap) cap of
           None \<Rightarrow> Inl No_return
         | Some i \<Rightarrow> Inr i)"

text \<open>\<open>_contains\<close>, \<open>_find\<close>, \<open>_get\<close>: the bucket of the key, if there is one.\<close>

definition cmap_get ::
  "('k \<Rightarrow> u64) \<Rightarrow> ('k \<Rightarrow> 'k \<Rightarrow> bool) \<Rightarrow> ('k, 'v) cmap \<Rightarrow> 'k \<Rightarrow> nat option outcome" where
  "cmap_get hash eq m k =
     (if msize m = 0 then Inr None
      else bind_o (cmap_bucket hash eq m k) (\<lambda>i. Inr (if buckets m ! i = None then None else Some i)))"

definition cmap_value :: "('k, 'v) cmap \<Rightarrow> nat \<Rightarrow> 'v outcome" where
  "cmap_value m i = (case buckets m ! i of Some (h, k, v) \<Rightarrow> Inr v | None \<Rightarrow> Inl Uninitialised)"

text \<open>Reading the value at a key through the pointer that \<open>_get\<close> returns, where there is one.\<close>

definition cmap_find ::
  "('k \<Rightarrow> u64) \<Rightarrow> ('k \<Rightarrow> 'k \<Rightarrow> bool) \<Rightarrow> ('k, 'v) cmap \<Rightarrow> 'k \<Rightarrow> 'v option outcome" where
  "cmap_find hash eq m k = bind_o (cmap_get hash eq m k) (\<lambda>r. case r of None \<Rightarrow> Inr None
     | Some i \<Rightarrow> bind_o (cmap_value m i) (\<lambda>v. Inr (Some v)))"

fun rehash ::
  "('k \<Rightarrow> u64) \<Rightarrow> ('k \<Rightarrow> 'k \<Rightarrow> bool) \<Rightarrow> (u8 \<times> 'k \<times> 'v) option list \<Rightarrow> ('k, 'v) cmap \<Rightarrow> ('k, 'v) cmap outcome" where
  "rehash hash eq [] m = Inr m"
| "rehash hash eq (None # es) m = rehash hash eq es m"
| "rehash hash eq (Some (h, k, v) # es) m =
     bind_o (cmap_bucket hash eq m k) (\<lambda>i.
       rehash hash eq es (m\<lparr>buckets := (buckets m)[i := Some (hash_byte hash k, k, v)]\<rparr>))"

text \<open>
  \<open>max_load_factor\<close> is 0.85; the products and quotients with it are written with the fraction
  17/20, with which the float results agree for every table that fits the memory.
\<close>

definition cmap_reserve ::
  "('k \<Rightarrow> u64) \<Rightarrow> ('k \<Rightarrow> 'k \<Rightarrow> bool) \<Rightarrow> ('k, 'v) cmap \<Rightarrow> nat \<Rightarrow> ('k, 'v) cmap outcome" where
  "cmap_reserve hash eq m newcap =
     (let nbuckets = or (newcap * 20 div 17 + 2) 1
      in if newcap \<noteq> msize m \<and> newcap \<le> length (buckets m) then Inr m
         else rehash hash eq (buckets m) \<lparr>buckets = replicate nbuckets None, msize = msize m\<rparr>)"

text \<open>The bucket for a key, in a table with room for it; the flag says that it is a new one.\<close>

definition cmap_insert_entry ::
  "('k \<Rightarrow> u64) \<Rightarrow> ('k \<Rightarrow> 'k \<Rightarrow> bool) \<Rightarrow> ('k, 'v) cmap \<Rightarrow> 'k \<Rightarrow> (('k, 'v) cmap \<times> nat \<times> bool) outcome" where
  "cmap_insert_entry hash eq m k =
     bind_o (if msize m + 2 > length (buckets m) * 17 div 20 then cmap_reserve hash eq m (msize m * 3 div 2 + 4)
             else Inr m) (\<lambda>m.
     bind_o (cmap_bucket hash eq m k) (\<lambda>i.
     let inserted = (buckets m ! i = None)
     in Inr (if inserted then m\<lparr>msize := msize m + 1\<rparr> else m, i, inserted)))"

definition cmap_insert ::
  "('k \<Rightarrow> u64) \<Rightarrow> ('k \<Rightarrow> 'k \<Rightarrow> bool) \<Rightarrow> ('k, 'v) cmap \<Rightarrow> 'k \<Rightarrow> 'v \<Rightarrow> ('k, 'v) cmap outcome" where
  "cmap_insert hash eq m k v =
     bind_o (cmap_insert_entry hash eq m k) (\<lambda>(m, i, inserted).
     Inr (if inserted then m\<lparr>buckets := (buckets m)[i := Some (hash_byte hash k, k, v)]\<rparr> else m))"

text \<open>Storing through a pointer to the value in bucket \<open>i\<close>.\<close>

definition cmap_set_value :: "('k, 'v) cmap \<Rightarrow> nat \<Rightarrow> 'v \<Rightarrow> ('k, 'v) cmap" where
  "cmap_set_value m i v =
     m\<lparr>buckets := (buckets m)[i := map_option (\<lambda>(h, k, _). (h, k, v)) (buckets m ! i)]\<rparr>"

definition cmap_insert_or_assign ::
  "('k \<Rightarrow> u64) \<Rightarrow> ('k \<Rightarrow> 'k \<Rightarrow> bool) \<Rightarrow> ('k, 'v) cmap \<Rightarrow> 'k \<Rightarrow> 'v \<Rightarrow> ('k, 'v) cmap outcome" where
  "cmap_insert_or_assign hash eq m k v =
     bind_o (cmap_insert_entry hash eq m k) (\<lambda>(m, i, inserted).
     Inr (if inserted then m\<lparr>buckets := (buckets m)[i := Some (hash_byte hash k, k, v)]\<rparr>
          else cmap_set_value m i v))"

section \<open>The map as a finite map\<close>

text \<open>Probing visits the buckets in circular order from the start and takes the first hit.\<close>

definition hit :: "('k \<Rightarrow> 'k \<Rightarrow> bool) \<Rightarrow> (u8 \<times> 'k \<times> 'v) option \<Rightarrow> u8 \<Rightarrow> 'k \<Rightarrow> bool" where
  "hit eq s hx k = (case s of None \<Rightarrow> True | Some (h, k', v) \<Rightarrow> h = hx \<and> eq k' k)"

lemma probe_Suc:
  "probe eq bs hx k i (Suc n) =
     (if hit eq (bs ! i) hx k then Some i
      else probe eq bs hx k (if i + 1 = length bs then 0 else i + 1) n)"
  by (auto simp: hit_def split: option.splits prod.splits)

declare probe.simps(2) [simp del]

lemma next_index: "i < c \<Longrightarrow> ((if i + 1 = c then 0 else i + 1) + j) mod c = (i + Suc j) mod (c :: nat)"
proof (cases "i + 1 = c")
  case True
  then have eq: "i + Suc j = c + j" by simp
  show ?thesis unfolding eq using True by simp
qed simp

lemma probe_iff:
  "i < length bs \<Longrightarrow> probe eq bs hx k i n = Some r \<longleftrightarrow>
     (\<exists>j < n. r = (i + j) mod length bs \<and> hit eq (bs ! r) hx k \<and>
        (\<forall>j' < j. \<not> hit eq (bs ! ((i + j') mod length bs)) hx k))"
proof (induction n arbitrary: i)
  case (Suc n)
  let ?c = "length bs" and ?i = "if i + 1 = length bs then 0 else i + 1"
  let ?H = "\<lambda>r. hit eq (bs ! r) hx k"
  have i: "?i < ?c" using Suc.prems by auto
  show ?case
  proof (cases "?H i")
    case True
    have "(\<exists>j < Suc n. r = (i + j) mod ?c \<and> ?H r \<and> (\<forall>j' < j. \<not> ?H ((i + j') mod ?c))) \<longleftrightarrow> r = i"
    proof
      assume "\<exists>j < Suc n. r = (i + j) mod ?c \<and> ?H r \<and> (\<forall>j' < j. \<not> ?H ((i + j') mod ?c))"
      then obtain j where j: "r = (i + j) mod ?c" "\<forall>j' < j. \<not> ?H ((i + j') mod ?c)" by blast
      then have "j = 0" using True Suc.prems by (cases j) (auto dest: spec [of _ 0])
      then show "r = i" using j Suc.prems by simp
    qed (use True Suc.prems in \<open>auto intro!: exI [of _ 0]\<close>)
    then show ?thesis using True by (auto simp: probe_Suc)
  next
    case False
    have "(\<exists>j < Suc n. r = (i + j) mod ?c \<and> ?H r \<and> (\<forall>j' < j. \<not> ?H ((i + j') mod ?c))) \<longleftrightarrow>
          (\<exists>j < n. r = (i + Suc j) mod ?c \<and> ?H r \<and> (\<forall>j' < Suc j. \<not> ?H ((i + j') mod ?c)))"
    proof -
      have "?H r \<longrightarrow> r \<noteq> (i + 0) mod ?c" using False Suc.prems by auto
      then show ?thesis by (auto simp: less_Suc_eq_0_disj [of _ n])
    qed
    also have "\<dots> \<longleftrightarrow> (\<exists>j < n. r = (?i + j) mod ?c \<and> ?H r \<and> (\<forall>j' < j. \<not> ?H ((?i + j') mod ?c)))"
      unfolding next_index [OF Suc.prems] All_less_Suc2 using False Suc.prems by simp
    also have "\<dots> \<longleftrightarrow> probe eq bs hx k ?i n = Some r"
      by (rule Suc.IH [OF i, symmetric])
    finally show ?thesis using False by (simp add: probe_Suc)
  qed
qed simp

lemma circular:
  assumes "i < c" and "r < (c :: nat)"
  obtains j where "j < c" and "r = (i + j) mod c"
proof (cases "i \<le> r")
  case True
  then show ?thesis using that [of "r - i"] assms by simp
next
  case False
  then show ?thesis using that [of "r + c - i"] assms by simp
qed

text \<open>With an empty bucket in the table the loop ends.\<close>

lemma probe_ends:
  assumes i: "i < length bs" and r: "r < length bs" and e: "bs ! r = None"
  shows "\<exists>s < length bs. probe eq bs hx k i (length bs) = Some s \<and> hit eq (bs ! s) hx k"
proof -
  let ?c = "length bs" and ?P = "\<lambda>j. hit eq (bs ! ((i + j) mod length bs)) hx k"
  obtain j where j: "j < ?c" "r = (i + j) mod ?c" using circular [OF i r] .
  with e have Pj: "?P j" by (simp add: hit_def)
  let ?j = "LEAST j. ?P j"
  have "?P ?j" using Pj by (rule LeastI)
  moreover have "?j < ?c" using Least_le [of ?P, OF Pj] j by simp
  moreover have "\<forall>j' < ?j. \<not> ?P j'" using not_less_Least by blast
  ultimately have "probe eq bs hx k i ?c = Some ((i + ?j) mod ?c)"
    unfolding probe_iff [OF i] by blast
  moreover have "(i + ?j) mod ?c < ?c" using i by (intro mod_less_divisor) linarith
  ultimately show ?thesis using \<open>?P ?j\<close> by blast
qed

lemma fastrange_less: "0 < n \<Longrightarrow> fastrange_uint32 x n < n"
proof -
  assume n: "0 < n"
  have "unat (ucast x :: u32) * n < 2 ^ 32 * n"
    using n unsigned_less [of "ucast x :: u32"] by simp
  then show ?thesis
    by (simp add: fastrange_uint32_def less_mult_imp_div_less mult.commute)
qed

text \<open>
  The content of a map, as a partial function, and the representation invariant: every entry
  lies where its own key is found, the size is the number of entries, and a bucket is free.
\<close>

definition slot_of :: "'k \<Rightarrow> (u8 \<times> 'k \<times> 'v) option \<Rightarrow> bool" where
  "slot_of k s = (case s of Some (h, k', v) \<Rightarrow> k' = k | None \<Rightarrow> False)"

definition table_lookup :: "(u8 \<times> 'k \<times> 'v) option list \<Rightarrow> 'k \<Rightarrow> 'v option" where
  "table_lookup bs k = (case List.find (slot_of k) bs of Some (Some (h, k', v)) \<Rightarrow> Some v | _ \<Rightarrow> None)"

definition cmap_lookup :: "('k, 'v) cmap \<Rightarrow> 'k \<Rightarrow> 'v option" where
  "cmap_lookup m = table_lookup (buckets m)"

lemma table_lookup_simps [simp]:
  "table_lookup [] k = None"
  "table_lookup (None # es) k = table_lookup es k"
  "table_lookup (Some (h, k', v) # es) k = (if k' = k then Some v else table_lookup es k)"
  by (simp_all add: table_lookup_def slot_of_def)

lemma table_lookup_empty [simp]: "table_lookup (replicate n None) k = None"
  by (induction n) simp_all

definition used :: "'a option list \<Rightarrow> nat" where
  "used bs = length (filter (\<lambda>s. s \<noteq> None) bs)"

definition unique_keys :: "(u8 \<times> 'k \<times> 'v) option list \<Rightarrow> bool" where
  "unique_keys bs = (\<forall>i j h k v h' v'. i < length bs \<longrightarrow> j < length bs \<longrightarrow>
     bs ! i = Some (h, k, v) \<longrightarrow> bs ! j = Some (h', k, v') \<longrightarrow> i = j)"

lemma unique_keysD:
  "unique_keys bs \<Longrightarrow> i < length bs \<Longrightarrow> j < length bs \<Longrightarrow> bs ! i = Some (h, k, v) \<Longrightarrow>
     bs ! j = Some (h', k, v') \<Longrightarrow> i = j"
  unfolding unique_keys_def by blast

lemma table_lookup_iff:
  assumes "unique_keys bs"
  shows "table_lookup bs k = Some v \<longleftrightarrow> (\<exists>i < length bs. \<exists>h. bs ! i = Some (h, k, v))"
proof
  assume "table_lookup bs k = Some v"
  then show "\<exists>i < length bs. \<exists>h. bs ! i = Some (h, k, v)"
    by (auto simp: table_lookup_def find_Some_iff slot_of_def split: option.splits)
next
  assume "\<exists>i < length bs. \<exists>h. bs ! i = Some (h, k, v)"
  then obtain i h where i: "i < length bs" "bs ! i = Some (h, k, v)" by blast
  have "List.find (slot_of k) bs = Some (Some (h, k, v))"
    unfolding find_Some_iff
  proof (intro exI conjI allI impI)
    fix j assume "j < i"
    then show "\<not> slot_of k (bs ! j)"
      using unique_keysD [OF assms, of j i] i
      by (fastforce simp: slot_of_def split: option.splits)
  qed (use i in \<open>auto simp: slot_of_def\<close>)
  then show "table_lookup bs k = Some v" by (simp add: table_lookup_def)
qed

lemma table_lookup_None:
  assumes "unique_keys bs"
  shows "table_lookup bs k = None \<longleftrightarrow> (\<forall>i < length bs. \<forall>h v. bs ! i \<noteq> Some (h, k, v))"
  using table_lookup_iff [OF assms, of k] by (metis not_None_eq)

lemma unique_keys_tl: "unique_keys (x # es) \<Longrightarrow> unique_keys es"
  unfolding unique_keys_def by (metis Suc_less_eq Suc_inject length_Cons nth_Cons_Suc)

lemma unique_keys_hd: "unique_keys (Some (h, k, v) # es) \<Longrightarrow> table_lookup es k = None"
  unfolding table_lookup_None [OF unique_keys_tl]
  unfolding unique_keys_def
  by (metis Suc_less_eq length_Cons nat.distinct(1) nth_Cons_0 nth_Cons_Suc zero_less_Suc)

lemma used_le: "used bs \<le> length bs"
  by (simp add: used_def)

lemma used_room: "used bs < length bs \<Longrightarrow> \<exists>i < length bs. bs ! i = None"
  by (metis (mono_tags, lifting) filter_True in_set_conv_nth less_irrefl used_def)

lemma used_update_new: "i < length bs \<Longrightarrow> bs ! i = None \<Longrightarrow> used (bs[i := Some e]) = used bs + 1"
proof (induction bs arbitrary: i)
  case (Cons b bs)
  then show ?case by (cases i) (auto simp: used_def)
qed simp

lemma used_update_old: "i < length bs \<Longrightarrow> bs ! i = Some d \<Longrightarrow> used (bs[i := Some e]) = used bs"
proof (induction bs arbitrary: i)
  case (Cons b bs)
  then show ?case by (cases i) (auto simp: used_def)
qed simp

definition in_place ::
  "('k \<Rightarrow> u64) \<Rightarrow> ('k \<Rightarrow> 'k \<Rightarrow> bool) \<Rightarrow> ('k \<Rightarrow> bool) \<Rightarrow> (u8 \<times> 'k \<times> 'v) option list \<Rightarrow> bool" where
  "in_place hash eq good bs = (\<forall>i < length bs. case bs ! i of None \<Rightarrow> True
     | Some (h, k, v) \<Rightarrow> good k \<and> h = hash_byte hash k \<and>
         probe eq bs h k (fastrange_uint32 (hash k) (length bs)) (length bs) = Some i)"

definition cmap_inv ::
  "('k \<Rightarrow> u64) \<Rightarrow> ('k \<Rightarrow> 'k \<Rightarrow> bool) \<Rightarrow> ('k \<Rightarrow> bool) \<Rightarrow> ('k, 'v) cmap \<Rightarrow> bool" where
  "cmap_inv hash eq good m = (in_place hash eq good (buckets m) \<and> msize m = used (buckets m) \<and>
     (buckets m = [] \<or> used (buckets m) < length (buckets m)))"

lemma in_placeD:
  assumes "in_place hash eq good bs" and "i < length bs" and "bs ! i = Some (h, k, v)"
  shows "good k" and "h = hash_byte hash k"
    and "probe eq bs (hash_byte hash k) k (fastrange_uint32 (hash k) (length bs)) (length bs) = Some i"
  using assms by (auto simp: in_place_def dest!: spec [of _ i])

lemma in_place_unique: "in_place hash eq good bs \<Longrightarrow> unique_keys bs"
  unfolding unique_keys_def
proof (intro allI impI)
  fix i j h k v h' v'
  assume bs: "in_place hash eq good bs"
    and i: "i < length bs" "bs ! i = Some (h, k, v)" and j: "j < length bs" "bs ! j = Some (h', k, v')"
  show "i = j" using in_placeD(3) [OF bs i] in_placeD(3) [OF bs j] by simp
qed

text \<open>Filling a bucket does not disturb a probe that another key hits elsewhere.\<close>

lemma probe_put:
  assumes s: "s < length bs" and p: "probe eq bs hx k s n = Some r"
    and same: "bs ! i = None \<or> (hit eq (bs ! i) hx k \<longleftrightarrow> hit eq e hx k)"
    and at_i: "r = i \<Longrightarrow> hit eq e hx k"
  shows "probe eq (bs[i := e]) hx k s n = Some r"
proof -
  let ?c = "length bs"
  obtain j where j: "j < n" "r = (s + j) mod ?c" "hit eq (bs ! r) hx k"
    and no: "\<forall>j' < j. \<not> hit eq (bs ! ((s + j') mod ?c)) hx k"
    using p unfolding probe_iff [OF s] by blast
  have r: "r < ?c" using j(2) s by (simp add: mod_less_divisor [OF le_less_trans [OF le0 s]])
  have "hit eq (bs[i := e] ! r) hx k"
    using at_i j(3) r by (cases "r = i") auto
  moreover have "\<not> hit eq (bs[i := e] ! ((s + j') mod ?c)) hx k" if "j' < j" for j'
  proof (cases "(s + j') mod ?c = i")
    case True
    then have "i < ?c" using s by (metis le0 le_less_trans mod_less_divisor)
    have "\<not> hit eq (bs ! i) hx k" using no that True by blast
    then have "bs ! i \<noteq> None" "\<not> hit eq e hx k"
      using same by (auto simp: hit_def split: option.splits)
    then show ?thesis using True \<open>i < ?c\<close> by simp
  qed (use no that in simp)
  moreover have "s < length (bs[i := e])" using s by simp
  ultimately show ?thesis using j(1,2) by (subst probe_iff) auto
qed

text \<open>What the map needs of its keys: the comparison decides equality.\<close>

locale hash_keys =
  fixes hash :: "'k \<Rightarrow> u64"
    and eq :: "'k \<Rightarrow> 'k \<Rightarrow> bool"
    and good :: "'k \<Rightarrow> bool"
  assumes eq_iff: "good k \<Longrightarrow> good k' \<Longrightarrow> eq k k' \<longleftrightarrow> k = k'"

context hash_keys
begin

lemma hit_iff:
  assumes "in_place hash eq good bs" and "i < length bs" and "good k"
  shows "hit eq (bs ! i) (hash_byte hash k) k \<longleftrightarrow> bs ! i = None \<or> (\<exists>v. bs ! i = Some (hash_byte hash k, k, v))"
  using in_placeD [OF assms(1,2)] eq_iff assms(3) by (auto simp: hit_def split: option.splits)

lemma bucket_cases:
  assumes bs: "in_place hash eq good (buckets m)" and free: "used (buckets m) < length (buckets m)"
    and k: "good k"
  obtains i where "i < length (buckets m)" and "cmap_bucket hash eq m k = Inr i"
    and "probe eq (buckets m) (hash_byte hash k) k (fastrange_uint32 (hash k) (length (buckets m)))
           (length (buckets m)) = Some i"
    and "buckets m ! i = None \<and> cmap_lookup m k = None
         \<or> (\<exists>v. buckets m ! i = Some (hash_byte hash k, k, v) \<and> cmap_lookup m k = Some v)"
proof -
  let ?bs = "buckets m"
  obtain r where r: "r < length ?bs" "?bs ! r = None" using used_room [OF free] by blast
  then have s: "fastrange_uint32 (hash k) (length ?bs) < length ?bs" by (intro fastrange_less) linarith
  obtain i where i: "i < length ?bs" "hit eq (?bs ! i) (hash_byte hash k) k"
    and p: "probe eq ?bs (hash_byte hash k) k (fastrange_uint32 (hash k) (length ?bs)) (length ?bs) = Some i"
    using probe_ends [OF s r] by blast
  have bucket: "cmap_bucket hash eq m k = Inr i"
    using p r(1) by (auto simp: cmap_bucket_def Let_def)
  have u: "unique_keys ?bs" using in_place_unique [OF bs] .
  have "cmap_lookup m k = None" if none: "?bs ! i = None"
    unfolding cmap_lookup_def table_lookup_None [OF u]
  proof (intro allI impI notI)
    fix j h v assume j: "j < length ?bs" "?bs ! j = Some (h, k, v)"
    then have "probe eq ?bs (hash_byte hash k) k (fastrange_uint32 (hash k) (length ?bs)) (length ?bs) = Some j"
      by (rule in_placeD(3) [OF bs])
    then show False using p j none by simp
  qed
  moreover have "cmap_lookup m k = Some v" if "?bs ! i = Some (hash_byte hash k, k, v)" for v
    unfolding cmap_lookup_def table_lookup_iff [OF u] using i that by blast
  moreover have "?bs ! i = None \<or> (\<exists>v. ?bs ! i = Some (hash_byte hash k, k, v))"
    using i hit_iff [OF bs i(1) k] by blast
  ultimately have "?bs ! i = None \<and> cmap_lookup m k = None
      \<or> (\<exists>v. ?bs ! i = Some (hash_byte hash k, k, v) \<and> cmap_lookup m k = Some v)"
    by metis
  then show ?thesis using that [OF i(1) bucket p] by blast
qed

lemma put_in_place:
  assumes bs: "in_place hash eq good bs" and i: "i < length bs" and k: "good k"
    and p: "probe eq bs (hash_byte hash k) k (fastrange_uint32 (hash k) (length bs)) (length bs) = Some i"
    and at: "bs ! i = None \<or> (\<exists>v. bs ! i = Some (hash_byte hash k, k, v))"
  shows "in_place hash eq good (bs[i := Some (hash_byte hash k, k, w)])"
proof -
  let ?e = "Some (hash_byte hash k, k, w)"
  have s: "fastrange_uint32 (hash k') (length bs) < length bs" for k'
    using i by (intro fastrange_less) linarith
  have keeps: "probe eq (bs[i := ?e]) (hash_byte hash k') k' (fastrange_uint32 (hash k') (length bs)) (length bs)
      = Some j"
    if "probe eq bs (hash_byte hash k') k' (fastrange_uint32 (hash k') (length bs)) (length bs) = Some j"
      and "j = i \<Longrightarrow> k' = k" for k' j
    by (rule probe_put [OF s that(1)])
      (use at that(2) eq_iff [OF k k] in \<open>auto simp: hit_def\<close>)
  have "good k' \<and> h = hash_byte hash k' \<and>
      probe eq (bs[i := ?e]) h k' (fastrange_uint32 (hash k') (length bs)) (length bs) = Some j"
    if j: "j < length bs" "bs[i := ?e] ! j = Some (h, k', v)" for j h k' v
  proof (cases "j = i")
    case True
    then have "h = hash_byte hash k" "k' = k" using j by auto
    then show ?thesis using True k keeps [OF p] by simp
  next
    case False
    then have "bs ! j = Some (h, k', v)" using j by simp
    then show ?thesis using in_placeD [OF bs j(1)] keeps False by blast
  qed
  then show ?thesis by (auto simp: in_place_def split: option.splits)
qed

lemma put_lookup:
  assumes bs: "in_place hash eq good bs" and i: "i < length bs" and k: "good k"
    and p: "probe eq bs (hash_byte hash k) k (fastrange_uint32 (hash k) (length bs)) (length bs) = Some i"
    and at: "bs ! i = None \<or> (\<exists>v. bs ! i = Some (hash_byte hash k, k, v))"
  shows "table_lookup (bs[i := Some (hash_byte hash k, k, w)]) = (table_lookup bs)(k \<mapsto> w)"
proof
  fix k'
  let ?bs' = "bs[i := Some (hash_byte hash k, k, w)]"
  have u: "unique_keys bs" and u': "unique_keys ?bs'"
    using in_place_unique [OF bs] in_place_unique [OF put_in_place [OF assms]] .
  show "table_lookup ?bs' k' = ((table_lookup bs)(k \<mapsto> w)) k'"
  proof (cases "k' = k")
    case True
    have "table_lookup ?bs' k = Some w" unfolding table_lookup_iff [OF u'] using i by auto
    then show ?thesis using True by simp
  next
    case False
    have "(\<exists>j < length ?bs'. \<exists>h. ?bs' ! j = Some (h, k', v)) \<longleftrightarrow> (\<exists>j < length bs. \<exists>h. bs ! j = Some (h, k', v))" for v
    proof -
      have "?bs' ! j = Some (h, k', v) \<longleftrightarrow> bs ! j = Some (h, k', v)" if "j < length bs" for j h
        using False at that by (cases "j = i") auto
      then show ?thesis by auto
    qed
    then have "table_lookup ?bs' k' = Some v \<longleftrightarrow> table_lookup bs k' = Some v" for v
      unfolding table_lookup_iff [OF u] table_lookup_iff [OF u'] .
    then have "table_lookup ?bs' k' = table_lookup bs k'" by (metis not_None_eq)
    then show ?thesis using False by simp
  qed
qed

lemma get_law:
  assumes inv: "cmap_inv hash eq good m" and k: "good k"
  shows "\<exists>r. cmap_get hash eq m k = Inr r \<and> (case r of None \<Rightarrow> cmap_lookup m k = None
           | Some i \<Rightarrow> i < length (buckets m) \<and> (\<exists>v. buckets m ! i = Some (hash_byte hash k, k, v) \<and> cmap_lookup m k = Some v))"
proof (cases "msize m = 0")
  case True
  then have "filter (\<lambda>s. s \<noteq> None) (buckets m) = []"
    using inv by (simp add: cmap_inv_def used_def)
  then have "\<forall>s \<in> set (buckets m). s = None"
    unfolding filter_empty_conv by blast
  then have "buckets m = replicate (length (buckets m)) None"
    by (metis replicate_eqI)
  then have "cmap_lookup m k = None" by (metis cmap_lookup_def table_lookup_empty)
  then show ?thesis using True by (simp add: cmap_get_def)
next
  case False
  then have free: "used (buckets m) < length (buckets m)" and bs: "in_place hash eq good (buckets m)"
    using inv by (auto simp: cmap_inv_def used_def)
  show ?thesis
    using False by (rule_tac bucket_cases [OF bs free k]) (auto simp: cmap_get_def)
qed

lemma put_used:
  assumes i: "i < length bs" and at: "bs ! i = None \<or> (\<exists>v. bs ! i = Some (hash_byte hash k, k, v))"
  shows "used (bs[i := Some e]) = used bs + of_bool (bs ! i = None)"
  using used_update_new [OF i] used_update_old [OF i] at by (cases "bs ! i") simp_all

lemma find_law:
  assumes "cmap_inv hash eq good m" and "good k"
  shows "cmap_find hash eq m k = Inr (cmap_lookup m k)"
  using get_law [OF assms] by (auto simp: cmap_find_def cmap_value_def split: option.splits)

text \<open>Moving the entries of a table into another one.\<close>

lemma rehash_law:
  assumes "in_place hash eq good (buckets m)" and "unique_keys es"
    and "\<And>h k v. Some (h, k, v) \<in> set es \<Longrightarrow> good k \<and> cmap_lookup m k = None"
    and "used (buckets m) + used es < length (buckets m)"
  shows "\<exists>m'. rehash hash eq es m = Inr m' \<and> in_place hash eq good (buckets m') \<and> msize m' = msize m \<and>
           length (buckets m') = length (buckets m) \<and> used (buckets m') = used (buckets m) + used es \<and>
           cmap_lookup m' = cmap_lookup m ++ table_lookup es"
  using assms
proof (induction es arbitrary: m)
  case Nil
  then show ?case by (simp add: used_def map_add_def)
next
  case (Cons x es)
  have u: "unique_keys es" using Cons.prems(2) by (rule unique_keys_tl)
  show ?case
  proof (cases x)
    case None
    then have "used (x # es) = used es" and "table_lookup (x # es) = table_lookup es"
      by (auto simp: used_def)
    with None Cons.IH [OF Cons.prems(1) u] Cons.prems(3,4) show ?thesis by simp
  next
    case (Some e)
    obtain h k v where e: "e = (h, k, v)" by (cases e)
    let ?b = "buckets m"
    have k: "good k" "cmap_lookup m k = None" using Cons.prems(3) Some e by auto
    have x: "used (x # es) = Suc (used es)" using Some e by (simp add: used_def)
    then have free: "used ?b < length ?b" using Cons.prems(4) by simp
    obtain i where i: "i < length ?b" "cmap_bucket hash eq m k = Inr i" "?b ! i = None"
      and p: "probe eq ?b (hash_byte hash k) k (fastrange_uint32 (hash k) (length ?b)) (length ?b) = Some i"
      using bucket_cases [OF Cons.prems(1) free k(1)] k(2) by auto
    let ?b' = "?b[i := Some (hash_byte hash k, k, v)]"
    let ?m = "m\<lparr>buckets := ?b'\<rparr>"
    have "in_place hash eq good (buckets ?m)"
      using put_in_place [OF Cons.prems(1) i(1) k(1) p] i(3) by simp
    moreover have l: "cmap_lookup ?m = (cmap_lookup m)(k \<mapsto> v)"
      using put_lookup [OF Cons.prems(1) i(1) k(1) p] i(3) by (simp add: cmap_lookup_def)
    moreover have n: "used (buckets ?m) = Suc (used ?b)" using i by (simp add: used_update_new)
    moreover have "good k' \<and> cmap_lookup ?m k' = None" if "Some (h', k', v') \<in> set es" for h' k' v'
    proof -
      have "table_lookup es k = None" using unique_keys_hd [of h k v es] Cons.prems(2) Some e by simp
      then have "k' \<noteq> k" using that table_lookup_None [OF u] by (metis in_set_conv_nth)
      then show ?thesis using Cons.prems(3) [of h' k' v'] that l by simp
    qed
    ultimately obtain m' where m': "rehash hash eq es ?m = Inr m'" "in_place hash eq good (buckets m')"
      "msize m' = msize m" "length (buckets m') = length ?b" "used (buckets m') = used ?b + used (x # es)"
      "cmap_lookup m' = (cmap_lookup m)(k \<mapsto> v) ++ table_lookup es"
      using Cons.IH [of ?m] u Cons.prems(4) x by fastforce
    have "table_lookup es k = None" using unique_keys_hd [of h k v es] Cons.prems(2) Some e by simp
    then have "(cmap_lookup m)(k \<mapsto> v) ++ table_lookup es = cmap_lookup m ++ table_lookup (x # es)"
      using Some e by (auto simp: map_add_def fun_eq_iff split: option.splits)
    then show ?thesis using m' Some e i(2) by (auto simp del: table_lookup_simps)
  qed
qed

lemma empty_table: "in_place hash eq good (replicate n None)" "used (replicate n None) = 0"
  by (simp_all add: in_place_def used_def)

text \<open>Making room keeps the content and leaves two free buckets or more.\<close>

lemma reserve_law:
  assumes inv: "cmap_inv hash eq good m" and room: "msize m \<le> newcap"
  shows "\<exists>m'. cmap_reserve hash eq m newcap = Inr m' \<and> in_place hash eq good (buckets m') \<and>
           msize m' = msize m \<and> used (buckets m') = used (buckets m) \<and> newcap \<le> length (buckets m') \<and>
           used (buckets m') < length (buckets m') \<and> cmap_lookup m' = cmap_lookup m"
proof (cases "newcap \<noteq> msize m \<and> newcap \<le> length (buckets m)")
  case True
  with inv room show ?thesis by (auto simp: cmap_reserve_def cmap_inv_def Let_def)
next
  case False
  let ?n = "or (newcap * 20 div 17 + 2) 1"
  let ?m = "\<lparr>buckets = replicate ?n None, msize = msize m\<rparr> :: ('k, 'b) cmap"
  have n: "newcap + 2 \<le> ?n"
    by (simp only: or_one_eq)
  have bs: "in_place hash eq good (buckets m)" and size: "msize m = used (buckets m)"
    using inv by (auto simp: cmap_inv_def)
  have u: "unique_keys (buckets m)" using in_place_unique [OF bs] .
  have "good k \<and> cmap_lookup ?m k = None" if "Some (h, k, v) \<in> set (buckets m)" for h k v
    using that in_placeD(1) [OF bs] by (auto simp: in_set_conv_nth cmap_lookup_def)
  moreover have "used (buckets ?m) + used (buckets m) < length (buckets ?m)"
    using n room size by (simp add: empty_table)
  ultimately obtain m' where m': "rehash hash eq (buckets m) ?m = Inr m'" "in_place hash eq good (buckets m')"
    "msize m' = msize m" "length (buckets m') = ?n" "used (buckets m') = used (buckets m)"
    "cmap_lookup m' = cmap_lookup ?m ++ table_lookup (buckets m)"
    using rehash_law [OF _ u, of ?m] by (fastforce simp: empty_table)
  have "cmap_lookup m' = cmap_lookup m"
    using m'(6) by (auto simp: cmap_lookup_def map_add_def split: option.splits)
  moreover have "cmap_reserve hash eq m newcap = Inr m'"
    unfolding cmap_reserve_def Let_def if_not_P [OF False] by (rule m'(1))
  ultimately show ?thesis using m' n room size by auto
qed

text \<open>
  The bucket that an insertion works on: the map has room, the invariant holds of its buckets,
  and the bucket is the key's own or a free one that the key is probed to.
\<close>

lemma insert_entry_law:
  assumes inv: "cmap_inv hash eq good m" and k: "good k"
  obtains m' i where "cmap_insert_entry hash eq m k =
      Inr (if buckets m' ! i = None then m'\<lparr>msize := msize m + 1\<rparr> else m', i, buckets m' ! i = None)"
    and "in_place hash eq good (buckets m')" and "msize m' = msize m" and "used (buckets m') = msize m"
    and "used (buckets m') + 1 < length (buckets m')" and "cmap_lookup m' = cmap_lookup m"
    and "i < length (buckets m')"
    and "probe eq (buckets m') (hash_byte hash k) k (fastrange_uint32 (hash k) (length (buckets m')))
           (length (buckets m')) = Some i"
    and "buckets m' ! i = None \<and> cmap_lookup m k = None
         \<or> (\<exists>v. buckets m' ! i = Some (hash_byte hash k, k, v) \<and> cmap_lookup m k = Some v)"
proof -
  let ?grow = "msize m + 2 > length (buckets m) * 17 div 20"
  obtain m' where m': "(if ?grow then cmap_reserve hash eq m (msize m * 3 div 2 + 4) else Inr m) = Inr m'"
    "in_place hash eq good (buckets m')" "msize m' = msize m" "used (buckets m') = msize m"
    "used (buckets m') + 1 < length (buckets m')" "cmap_lookup m' = cmap_lookup m"
  proof (cases ?grow)
    case True
    have "msize m \<le> msize m * 3 div 2 + 4" by linarith
    from reserve_law [OF inv this] obtain m' where r: "cmap_reserve hash eq m (msize m * 3 div 2 + 4) = Inr m'"
      "in_place hash eq good (buckets m')" "msize m' = msize m" "used (buckets m') = used (buckets m)"
      "msize m * 3 div 2 + 4 \<le> length (buckets m')" "cmap_lookup m' = cmap_lookup m"
      by blast
    have "used (buckets m') = msize m" using r(4) inv by (simp add: cmap_inv_def)
    moreover from this have "used (buckets m') + 1 < length (buckets m')" using r(5) by linarith
    ultimately show ?thesis using that r True by simp
  next
    case False
    then have "msize m + 2 \<le> length (buckets m)" by linarith
    then show ?thesis using that [of m] False inv by (simp add: cmap_inv_def)
  qed
  have free: "used (buckets m') < length (buckets m')" using m'(5) by linarith
  obtain i where i: "i < length (buckets m')" "cmap_bucket hash eq m' k = Inr i"
    "probe eq (buckets m') (hash_byte hash k) k (fastrange_uint32 (hash k) (length (buckets m')))
       (length (buckets m')) = Some i"
    "buckets m' ! i = None \<and> cmap_lookup m' k = None
     \<or> (\<exists>v. buckets m' ! i = Some (hash_byte hash k, k, v) \<and> cmap_lookup m' k = Some v)"
    using bucket_cases [OF m'(2) free k] .
  have "cmap_insert_entry hash eq m k =
      Inr (if buckets m' ! i = None then m'\<lparr>msize := msize m + 1\<rparr> else m', i, buckets m' ! i = None)"
    unfolding cmap_insert_entry_def m'(1) using i(2) m'(3) by (simp add: Let_def)
  then show ?thesis using that m' i by simp
qed

text \<open>Assigning a key: the map is updated at the key and keeps its invariant.\<close>

lemma insert_or_assign_law:
  assumes inv: "cmap_inv hash eq good m" and k: "good k"
  shows "\<exists>m'. cmap_insert_or_assign hash eq m k v = Inr m' \<and> cmap_inv hash eq good m' \<and>
           cmap_lookup m' = (cmap_lookup m)(k \<mapsto> v)"
proof -
  obtain n i where e: "cmap_insert_entry hash eq m k =
      Inr (if buckets n ! i = None then n\<lparr>msize := msize m + 1\<rparr> else n, i, buckets n ! i = None)"
    and n: "in_place hash eq good (buckets n)" "msize n = msize m" "used (buckets n) = msize m"
      "used (buckets n) + 1 < length (buckets n)" "cmap_lookup n = cmap_lookup m"
    and i: "i < length (buckets n)"
    and p: "probe eq (buckets n) (hash_byte hash k) k (fastrange_uint32 (hash k) (length (buckets n)))
              (length (buckets n)) = Some i"
    and at: "buckets n ! i = None \<and> cmap_lookup m k = None
         \<or> (\<exists>v. buckets n ! i = Some (hash_byte hash k, k, v) \<and> cmap_lookup m k = Some v)"
    by (rule insert_entry_law [OF inv k])
  have at': "buckets n ! i = None \<or> (\<exists>v. buckets n ! i = Some (hash_byte hash k, k, v))"
    using at by blast
  let ?m = "\<lparr>buckets = (buckets n)[i := Some (hash_byte hash k, k, v)],
             msize = msize m + of_bool (buckets n ! i = None)\<rparr>"
  have "cmap_insert_or_assign hash eq m k v = Inr ?m"
    using at' n(2) by (auto simp: cmap_insert_or_assign_def e cmap_set_value_def intro!: cmap.equality)
  moreover have "cmap_inv hash eq good ?m"
    using put_in_place [OF n(1) i k p at'] put_used [OF i at'] n by (auto simp: cmap_inv_def)
  moreover have "cmap_lookup ?m = (cmap_lookup m)(k \<mapsto> v)"
    using put_lookup [OF n(1) i k p at'] n(5) by (simp add: cmap_lookup_def)
  ultimately show ?thesis by blast
qed

text \<open>Storing through the pointer that a lookup returned.\<close>

lemma set_value_law:
  assumes inv: "cmap_inv hash eq good m" and k: "good k" and i: "cmap_get hash eq m k = Inr (Some i)"
  shows "cmap_inv hash eq good (cmap_set_value m i v)"
    and "cmap_lookup (cmap_set_value m i v) = (cmap_lookup m)(k \<mapsto> v)"
proof -
  obtain w where w: "i < length (buckets m)" "buckets m ! i = Some (hash_byte hash k, k, w)"
    using get_law [OF inv k] i by auto
  have bs: "in_place hash eq good (buckets m)" using inv by (simp add: cmap_inv_def)
  have at: "buckets m ! i = None \<or> (\<exists>v. buckets m ! i = Some (hash_byte hash k, k, v))" using w by blast
  have eq: "cmap_set_value m i v = m\<lparr>buckets := (buckets m)[i := Some (hash_byte hash k, k, v)]\<rparr>"
    using w by (simp add: cmap_set_value_def)
  note p = in_placeD(3) [OF bs w]
  show "cmap_inv hash eq good (cmap_set_value m i v)"
    using put_in_place [OF bs w(1) k p at] put_used [OF w(1) at] inv w by (auto simp: eq cmap_inv_def)
  show "cmap_lookup (cmap_set_value m i v) = (cmap_lookup m)(k \<mapsto> v)"
    using put_lookup [OF bs w(1) k p at] by (simp add: eq cmap_lookup_def)
qed

lemma get_value:
  assumes "cmap_inv hash eq good m" and "good k"
  obtains "cmap_get hash eq m k = Inr None" and "cmap_lookup m k = None"
  | i v where "cmap_get hash eq m k = Inr (Some i)" and "cmap_lookup m k = Some v" and "cmap_value m i = Inr v"
  using get_law [OF assms] by (auto simp: cmap_value_def split: option.splits)

text \<open>Inserting leaves the value of a key that is present.\<close>

lemma insert_law:
  assumes inv: "cmap_inv hash eq good m" and k: "good k"
  shows "\<exists>m'. cmap_insert hash eq m k v = Inr m' \<and> cmap_inv hash eq good m' \<and>
           cmap_lookup m' = (if cmap_lookup m k = None then (cmap_lookup m)(k \<mapsto> v) else cmap_lookup m)"
proof -
  obtain n i where e: "cmap_insert_entry hash eq m k =
      Inr (if buckets n ! i = None then n\<lparr>msize := msize m + 1\<rparr> else n, i, buckets n ! i = None)"
    and n: "in_place hash eq good (buckets n)" "msize n = msize m" "used (buckets n) = msize m"
      "used (buckets n) + 1 < length (buckets n)" "cmap_lookup n = cmap_lookup m"
    and i: "i < length (buckets n)"
    and p: "probe eq (buckets n) (hash_byte hash k) k (fastrange_uint32 (hash k) (length (buckets n)))
              (length (buckets n)) = Some i"
    and at: "buckets n ! i = None \<and> cmap_lookup m k = None
         \<or> (\<exists>v. buckets n ! i = Some (hash_byte hash k, k, v) \<and> cmap_lookup m k = Some v)"
    by (rule insert_entry_law [OF inv k])
  show ?thesis
  proof (cases "buckets n ! i = None")
    case True
    let ?m = "\<lparr>buckets = (buckets n)[i := Some (hash_byte hash k, k, v)], msize = msize m + 1\<rparr>"
    have "cmap_insert hash eq m k v = Inr ?m"
      using True n(2) by (auto simp: cmap_insert_def e intro!: cmap.equality)
    moreover have "cmap_inv hash eq good ?m"
      using put_in_place [OF n(1) i k p] put_used [OF i] n True by (auto simp: cmap_inv_def)
    moreover have "cmap_lookup ?m = (cmap_lookup m)(k \<mapsto> v)"
      using put_lookup [OF n(1) i k p] True n(5) by (simp add: cmap_lookup_def)
    ultimately show ?thesis using at True by auto
  next
    case False
    then obtain w where "buckets n ! i = Some w" by blast
    then have "cmap_insert hash eq m k v = Inr n" by (simp add: cmap_insert_def e)
    moreover have "cmap_inv hash eq good n" using n by (simp add: cmap_inv_def)
    ultimately show ?thesis using at False n(5) by auto
  qed
qed

lemma init_law: "cmap_inv hash eq good cmap_init" "cmap_lookup cmap_init = Map.empty"
  by (auto simp: cmap_init_def cmap_inv_def in_place_def used_def cmap_lookup_def)

end

section \<open>The keys of the EVM maps\<close>

text \<open>
  \<open>evmc_bytes32_cmp\<close> and \<open>evmc_address_cmp\<close> copy the bytes to strings and compare these with
  \<open>strcmp\<close>; the hash is the low word of the hash of the string. The bytes of a key are a list, of
  length 32 or 20.
\<close>

definition evmc_bytes32_cmp :: "u8 list \<Rightarrow> u8 list \<Rightarrow> int" where
  "evmc_bytes32_cmp a b = cstr_cmp (take 32 a) (take 32 b)"

definition evmc_bytes32_hash :: "u8 list \<Rightarrow> u64" where
  "evmc_bytes32_hash a = ucast (ucast (c_fasthash (take 32 a)) :: u32)"

definition evmc_address_cmp :: "u8 list \<Rightarrow> u8 list \<Rightarrow> int" where
  "evmc_address_cmp a b = cstr_cmp (take 20 a) (take 20 b)"

definition evmc_address_hash :: "u8 list \<Rightarrow> u64" where
  "evmc_address_hash a = ucast (ucast (c_fasthash (take 20 a)) :: u32)"

abbreviation bytes32_eq :: "u8 list \<Rightarrow> u8 list \<Rightarrow> bool" where
  "bytes32_eq a b \<equiv> evmc_bytes32_cmp a b = 0"

abbreviation address_eq :: "u8 list \<Rightarrow> u8 list \<Rightarrow> bool" where
  "address_eq a b \<equiv> evmc_address_cmp a b = 0"

lemma cstr_cmp_zero: "cstr_cmp xs ys = 0 \<longleftrightarrow> takeWhile (\<lambda>b. b \<noteq> 0) xs = takeWhile (\<lambda>b. b \<noteq> 0) ys"
  by (induction xs ys rule: cstr_cmp.induct) auto

text \<open>The strings that \<open>strcmp\<close> tells apart: after the first zero byte only zero bytes follow.\<close>

definition padded :: "nat \<Rightarrow> u8 list \<Rightarrow> bool" where
  "padded n k = (length k = n \<and> list_all (\<lambda>b. b = 0) (dropWhile (\<lambda>b. b \<noteq> 0) k))"

lemma padded_eq:
  assumes "padded n a" and "padded n b" and "takeWhile (\<lambda>b. b \<noteq> 0) a = takeWhile (\<lambda>b. b \<noteq> 0) b"
  shows "a = b"
proof -
  have tail: "dropWhile (\<lambda>b. b \<noteq> 0) k = replicate (n - length (takeWhile (\<lambda>b. b \<noteq> 0) k)) 0"
    if "padded n k" for k :: "u8 list"
  proof -
    have "length (takeWhile (\<lambda>b. b \<noteq> 0) k @ dropWhile (\<lambda>b. b \<noteq> 0) k) = n"
      using that by (simp add: padded_def del: length_append)
    then have "length (dropWhile (\<lambda>b. b \<noteq> 0) k) = n - length (takeWhile (\<lambda>b. b \<noteq> 0) k)"
      unfolding length_append by linarith
    moreover have "b = 0" if "b \<in> set (dropWhile (\<lambda>b. b \<noteq> 0) k)" for b
      using \<open>padded n k\<close> that unfolding padded_def list_all_iff by blast
    ultimately show ?thesis by (rule replicate_eqI)
  qed
  have "dropWhile (\<lambda>b. b \<noteq> 0) a = dropWhile (\<lambda>b. b \<noteq> 0) b"
    using tail [OF assms(1)] tail [OF assms(2)] assms(3) by simp
  then show ?thesis using assms(3) by (metis takeWhile_dropWhile_id)
qed

interpretation storage_keys: hash_keys evmc_bytes32_hash bytes32_eq "padded 32"
proof unfold_locales
  fix k k' :: "u8 list" assume k: "padded 32 k" "padded 32 k'"
  then have "take 32 k = k" "take 32 k' = k'" by (simp_all add: padded_def)
  then show "bytes32_eq k k' \<longleftrightarrow> k = k'"
    using padded_eq [OF k] by (auto simp: evmc_bytes32_cmp_def cstr_cmp_zero)
qed

interpretation account_keys: hash_keys evmc_address_hash address_eq "padded 20"
proof unfold_locales
  fix k k' :: "u8 list" assume k: "padded 20 k" "padded 20 k'"
  then have "take 20 k = k" "take 20 k' = k'" by (simp_all add: padded_def)
  then show "address_eq k k' \<longleftrightarrow> k = k'"
    using padded_eq [OF k] by (auto simp: evmc_address_cmp_def cstr_cmp_zero)
qed

text \<open>
  Claim C10. The storage map is a finite map on the keys that \<open>strcmp\<close> can tell apart: assigning a
  key ends (the probing of the open-addressed table, with the growth and rehash it may trigger,
  always finds a bucket), keeps the invariant, and afterwards that key has the assigned value and
  every other key the value it had before.
\<close>

theorem storage_map_assign:
  assumes "cmap_inv evmc_bytes32_hash bytes32_eq (padded 32) m" and "padded 32 k" and "padded 32 k'"
  shows "\<exists>m'. cmap_insert_or_assign evmc_bytes32_hash bytes32_eq m k v = Inr m' \<and>
           cmap_inv evmc_bytes32_hash bytes32_eq (padded 32) m' \<and>
           cmap_find evmc_bytes32_hash bytes32_eq m' k' =
             (if k' = k then Inr (Some v) else cmap_find evmc_bytes32_hash bytes32_eq m k')"
  using storage_keys.insert_or_assign_law [OF assms(1,2)] storage_keys.find_law assms by fastforce

theorem storage_map_assign_witness:
  "\<exists>m'. cmap_insert_or_assign evmc_bytes32_hash bytes32_eq cmap_init (replicate 32 1) True = Inr m' \<and>
        cmap_find evmc_bytes32_hash bytes32_eq m' (replicate 32 2) = Inr None"
proof -
  have "padded 32 (replicate 32 1)" "padded 32 (replicate 32 2)" by (simp_all add: padded_def)
  moreover have "replicate 32 (2 :: u8) \<noteq> replicate 32 1" by (simp add: numeral_eq_Suc)
  moreover have "cmap_find evmc_bytes32_hash bytes32_eq cmap_init (replicate 32 2) = Inr None"
    by (simp add: cmap_find_def cmap_get_def cmap_init_def)
  ultimately show ?thesis
    using storage_map_assign [OF storage_keys.init_law(1), of "replicate 32 1" "replicate 32 2" True] by auto
qed

lemma slot_hashes:
  "evmc_bytes32_hash (replicate 31 0 @ [1]) = 2792620033"
  "evmc_bytes32_hash (replicate 31 0 @ [4]) = 2580545537"
  "evmc_bytes32_hash (replicate 31 0 @ [2]) = 1290272769"
  by code_simp+

lemma slot_compare:
  "bytes32_eq (replicate 31 0 @ [1]) (replicate 31 0 @ [4])"
  "bytes32_eq (replicate 31 0 @ [1]) (replicate 31 0 @ [1])"
  by (simp_all add: evmc_bytes32_cmp_def cstr_cmp_zero takeWhile_append)

lemma seven_buckets: "replicate 7 None = [None, None, None, None, None, None, None]"
  by (simp add: numeral_eq_Suc)

lemma slot_buckets:
  "fastrange_uint32 2792620033 7 = 4" "fastrange_uint32 2580545537 7 = 4" "fastrange_uint32 1290272769 7 = 2"
  by (simp_all add: fastrange_uint32_def unsigned_ucast_eq take_bit_eq_mod)

text \<open>
  Claim C27. Small storage slots are not told apart. The bytes of slot 1 and slot 4 begin with a zero
  byte, so \<open>strcmp\<close> finds them equal, and the hash byte does not depend on the last byte of the
  key; in a fresh map, whose table has seven buckets after the first insertion, both fall into one
  bucket. Assigning slot 4 after slot 1 leaves a map in which reading slot 1 gives the value of
  slot 4, while slot 2 is absent.
\<close>

theorem storage_slots_alias:
  "bind_o (cmap_insert_or_assign evmc_bytes32_hash bytes32_eq cmap_init (replicate 31 0 @ [1]) (v :: 'v)) (\<lambda>m.
   bind_o (cmap_insert_or_assign evmc_bytes32_hash bytes32_eq m (replicate 31 0 @ [4]) w) (\<lambda>m.
   bind_o (cmap_find evmc_bytes32_hash bytes32_eq m (replicate 31 0 @ [1])) (\<lambda>r1.
   bind_o (cmap_find evmc_bytes32_hash bytes32_eq m (replicate 31 0 @ [2])) (\<lambda>r2.
   Inr (r1, r2, msize m))))) = Inr (Some w, None, 1)"
proof -
  let ?s1 = "replicate 31 0 @ [1] :: u8 list" and ?s2 = "replicate 31 0 @ [2] :: u8 list"
    and ?s4 = "replicate 31 0 @ [4] :: u8 list"
  let ?m1 = "\<lparr>buckets = [None, None, None, None, Some (129, ?s1, v), None, None], msize = 1\<rparr>"
  let ?m2 = "\<lparr>buckets = [None, None, None, None, Some (129, ?s1, w), None, None], msize = 1\<rparr>"
  have bytes: "hash_byte evmc_bytes32_hash ?s1 = 129" "hash_byte evmc_bytes32_hash ?s4 = 129"
    "hash_byte evmc_bytes32_hash ?s2 = 129"
    unfolding hash_byte_def slot_hashes by simp_all
  have seven: "(7 :: nat) = Suc (Suc (Suc (Suc (Suc (Suc (Suc 0))))))" by simp
  note e = cmap_bucket_def slot_hashes bytes slot_buckets [unfolded seven] probe_Suc Let_def hit_def slot_compare
  have "cmap_reserve evmc_bytes32_hash bytes32_eq (cmap_init :: (u8 list, 'v) cmap) 4
      = Inr \<lparr>buckets = [None, None, None, None, None, None, None], msize = 0\<rparr>"
    by (simp add: cmap_reserve_def cmap_init_def Let_def seven_buckets [symmetric])
  then have 1: "cmap_insert_or_assign evmc_bytes32_hash bytes32_eq cmap_init ?s1 v = Inr ?m1"
    unfolding cmap_insert_or_assign_def cmap_insert_entry_def
    by (simp add: cmap_init_def e)
  have 2: "cmap_insert_or_assign evmc_bytes32_hash bytes32_eq ?m1 ?s4 w = Inr ?m2"
    by (simp add: cmap_insert_or_assign_def cmap_insert_entry_def cmap_set_value_def e)
  have 3: "cmap_find evmc_bytes32_hash bytes32_eq ?m2 ?s1 = Inr (Some w)"
    by (simp add: cmap_find_def cmap_get_def cmap_value_def e)
  have 4: "cmap_find evmc_bytes32_hash bytes32_eq ?m2 ?s2 = Inr None"
    by (simp add: cmap_find_def cmap_get_def cmap_value_def e)
  show ?thesis unfolding 1 bind_o_simps 2 3 4 by simp
qed

section \<open>Searches in vectors\<close>

fun cvec_find :: "('a \<Rightarrow> 'a \<Rightarrow> bool) \<Rightarrow> 'a list \<Rightarrow> 'a \<Rightarrow> nat \<Rightarrow> nat" where
  "cvec_find eq [] raw i = i"
| "cvec_find eq (x # xs) raw i = (if eq raw x then i else cvec_find eq xs raw (i + 1))"

text \<open>\<open>_lower_bound\<close> on a vector of integers: the index of a hit, or where the search ends.\<close>

function binary_search_in :: "int list \<Rightarrow> int \<Rightarrow> nat \<Rightarrow> nat \<Rightarrow> nat" where
  "binary_search_in xs raw i1 i2 =
     (if i1 < i2 then
        let mid = i1 + (i2 - i1) div 2
        in if raw = xs ! mid then mid
           else if raw < xs ! mid then binary_search_in xs raw i1 mid
           else binary_search_in xs raw (mid + 1) i2
      else i1)"
  by pat_completeness auto
termination
  by (relation "measure (\<lambda>(xs, raw, i1, i2). i2 - i1)") auto

declare binary_search_in.simps [simp del]

definition cvec_lower_bound :: "int list \<Rightarrow> int \<Rightarrow> nat" where
  "cvec_lower_bound xs raw = binary_search_in xs raw 0 (length xs)"

text \<open>On a sorted vector the search finds the value, or the place where it would be inserted.\<close>

lemma binary_search_bounds:
  "i1 \<le> i2 \<Longrightarrow> i1 \<le> binary_search_in xs raw i1 i2 \<and> binary_search_in xs raw i1 i2 \<le> i2"
proof (induction xs raw i1 i2 rule: binary_search_in.induct)
  case (1 xs raw i1 i2)
  let ?mid = "i1 + (i2 - i1) div 2"
  show ?case
  proof (cases "i1 < i2")
    case True
    then have "i1 \<le> ?mid" "?mid < i2" by linarith+
    with 1(1) [OF True refl] 1(2) [OF True refl] show ?thesis
      using True by (subst (1 2) binary_search_in.simps) (auto simp: Let_def)
  next
    case False
    then show ?thesis using 1(3) by (simp add: binary_search_in.simps)
  qed
qed

lemma binary_search_hit:
  "i1 \<le> i2 \<Longrightarrow> i2 \<le> length xs \<Longrightarrow> sorted xs \<Longrightarrow>
   (\<exists>j. i1 \<le> j \<and> j < i2 \<and> xs ! j = raw) \<Longrightarrow>
   binary_search_in xs raw i1 i2 < i2 \<and> xs ! binary_search_in xs raw i1 i2 = raw"
proof (induction xs raw i1 i2 rule: binary_search_in.induct)
  case (1 xs raw i1 i2)
  let ?mid = "i1 + (i2 - i1) div 2"
  obtain j where j: "i1 \<le> j" "j < i2" "xs ! j = raw" using 1(6) by blast
  then have lt: "i1 < i2" by linarith
  then have mid: "i1 \<le> ?mid" "?mid < i2" by linarith+
  consider "raw = xs ! ?mid" | "raw < xs ! ?mid" | "raw > xs ! ?mid" by linarith
  then show ?case
  proof cases
    case 1
    then show ?thesis using lt mid by (subst (1 2) binary_search_in.simps) (simp add: Let_def)
  next
    case 2
    have "j < ?mid"
    proof (rule ccontr)
      assume "\<not> j < ?mid"
      then have "xs ! ?mid \<le> xs ! j" using 1(4,5) j(2) by (intro sorted_nth_mono) auto
      then show False using 2 j(3) by simp
    qed
    then have "binary_search_in xs raw i1 ?mid < ?mid \<and> xs ! binary_search_in xs raw i1 ?mid = raw"
      using 1(1) [OF lt refl _ 2 mid(1) _ 1(5)] 2 1(4) mid(2) j by fastforce
    then show ?thesis using lt mid 2 by (subst (1 2) binary_search_in.simps) (auto simp: Let_def)
  next
    case 3
    have "?mid < j"
    proof (rule ccontr)
      assume "\<not> ?mid < j"
      then have "xs ! j \<le> xs ! ?mid" using 1(4,5) mid by (intro sorted_nth_mono) auto
      then show False using 3 j(3) by simp
    qed
    then have ex: "\<exists>ja. ?mid + 1 \<le> ja \<and> ja < i2 \<and> xs ! ja = raw"
      using j by (intro exI [of _ j]) simp
    have "binary_search_in xs raw (?mid + 1) i2 < i2 \<and> xs ! binary_search_in xs raw (?mid + 1) i2 = raw"
      using 1(2) [OF lt refl _ _ _ 1(4,5) ex] 3 mid by simp
    then show ?thesis using lt mid 3 by (subst (1 2) binary_search_in.simps) (auto simp: Let_def)
  qed
qed

lemma cvec_lower_bound_hit:
  assumes "sorted xs" and "raw \<in> set xs"
  shows "cvec_lower_bound xs raw < length xs" and "xs ! cvec_lower_bound xs raw = raw"
  using binary_search_hit [of 0 "length xs" xs raw] assms
  by (auto simp: cvec_lower_bound_def in_set_conv_nth)

lemma cvec_lower_bound_le: "cvec_lower_bound xs raw \<le> length xs"
  using binary_search_bounds [of 0 "length xs" xs raw] by (simp add: cvec_lower_bound_def)

end
