(* ===== verification/Host.thy ===== *)
theory Host
  imports Evmc Containers
begin

text \<open>
  The mocked host of src/tscvee/ta/include/mocked_host.h: accounts with their storage maps, the
  records of accesses, calls, logs and self-destructs, and the methods the EVM calls. Every method
  takes the host and returns it updated with its result. The maps are the hash maps of
  \<open>Containers\<close>; dropping and cloning of keys and values have no effect on the model. A field that
  the code may leave uninitialised is an outcome, \<open>Inl Uninitialised\<close> when it was never set.
\<close>

section \<open>Accounts and storage\<close>

record storage_value =
  sv_value :: evmc_bytes32
  sv_dirty :: bool
  sv_access_status :: evmc_access_status

definition storage_value_init :: storage_value where
  "storage_value_init = \<lparr>sv_value = replicate 32 0, sv_dirty = False, sv_access_status = EVMC_ACCESS_COLD\<rparr>"

definition storage_value_init_vd :: "evmc_bytes32 \<Rightarrow> bool \<Rightarrow> storage_value" where
  "storage_value_init_vd value dirty =
     \<lparr>sv_value = value, sv_dirty = dirty, sv_access_status = EVMC_ACCESS_COLD\<rparr>"

definition storage_value_init_vs :: "evmc_bytes32 \<Rightarrow> evmc_access_status \<Rightarrow> storage_value" where
  "storage_value_init_vs value as = \<lparr>sv_value = value, sv_dirty = False, sv_access_status = as\<rparr>"

type_synonym storage_map = "(evmc_bytes32, storage_value) cmap"

record MockedAccount =
  nonce :: int
  acc_code :: "u8 list"
  codehash :: evmc_bytes32
  acc_balance :: evmc_uint256be
  storage :: storage_map

type_synonym account_map = "(evmc_address, MockedAccount) cmap"

definition MockedAccount_init :: MockedAccount where
  "MockedAccount_init = \<lparr>nonce = 0, acc_code = [], codehash = replicate 32 0,
     acc_balance = replicate 32 0, storage = cmap_init\<rparr>"

fun set_balance_bytes :: "u8 list \<Rightarrow> u64 \<Rightarrow> nat \<Rightarrow> nat \<Rightarrow> u8 list" where
  "set_balance_bytes bs x i 0 = bs"
| "set_balance_bytes bs x i (Suc n) =
     set_balance_bytes (bs[32 - 1 - i := ucast (drop_bit (8 * i) x)]) x (i + 1) n"

definition MockedAccount_set_balance :: "MockedAccount \<Rightarrow> u64 \<Rightarrow> MockedAccount" where
  "MockedAccount_set_balance ma x = ma\<lparr>acc_balance := set_balance_bytes (replicate 32 0) x 0 8\<rparr>"

abbreviation storage_get :: "storage_map \<Rightarrow> evmc_bytes32 \<Rightarrow> nat option outcome" where
  "storage_get \<equiv> cmap_get evmc_bytes32_hash bytes32_eq"

abbreviation storage_find :: "storage_map \<Rightarrow> evmc_bytes32 \<Rightarrow> storage_value option outcome" where
  "storage_find \<equiv> cmap_find evmc_bytes32_hash bytes32_eq"

abbreviation account_get :: "account_map \<Rightarrow> evmc_address \<Rightarrow> nat option outcome" where
  "account_get \<equiv> cmap_get evmc_address_hash address_eq"

abbreviation account_find :: "account_map \<Rightarrow> evmc_address \<Rightarrow> MockedAccount option outcome" where
  "account_find \<equiv> cmap_find evmc_address_hash address_eq"

section \<open>The host\<close>

record log_record =
  creator :: evmc_address
  log_data :: "u8 list"
  log_topics :: "evmc_bytes32 list outcome"

definition log_record_init :: log_record where
  "log_record_init = \<lparr>creator = replicate 20 0, log_data = [], log_topics = Inr []\<rparr>"

record selfdestruct_record =
  selfdestructed :: evmc_address
  beneficiary :: evmc_address

definition selfdestruct_record_init :: selfdestruct_record where
  "selfdestruct_record_init = \<lparr>selfdestructed = replicate 20 0, beneficiary = replicate 20 0\<rparr>"

text \<open>The comparisons of the records; \<open>cstr_equals\<close> is \<open>strcmp\<close>, too.\<close>

definition cstr_equals :: "u8 list \<Rightarrow> u8 list \<Rightarrow> bool" where
  "cstr_equals s1 s2 = (cstr_cmp s1 s2 = 0)"

fun topics_differ :: "evmc_bytes32 list \<Rightarrow> evmc_bytes32 list \<Rightarrow> bool" where
  "topics_differ (a # as) (b # bs) = (if evmc_bytes32_cmp a b = 0 then False else topics_differ as bs)"
| "topics_differ as bs = True"

definition log_record_equal :: "log_record \<Rightarrow> log_record \<Rightarrow> bool outcome" where
  "log_record_equal lra lrb =
     (if cstr_equals (creator lra) (creator lrb) \<and> cstr_equals (log_data lra) (log_data lrb) then
        bind_o (log_topics lra) (\<lambda>ta. bind_o (log_topics lrb) (\<lambda>tb.
        if length ta \<noteq> length tb then Inr False else Inr (topics_differ ta tb)))
      else Inr False)"

definition selfdestructed_record_equal :: "selfdestruct_record \<Rightarrow> selfdestruct_record \<Rightarrow> bool" where
  "selfdestructed_record_equal sra srb \<longleftrightarrow> cstr_equals (selfdestructed sra) (selfdestructed srb) \<and>
     cstr_equals (beneficiary sra) (beneficiary srb)"

definition log_record_cmp :: "log_record \<Rightarrow> log_record \<Rightarrow> int outcome" where
  "log_record_cmp a b =
     (let c = evmc_address_cmp (creator a) (creator b)
      in if c \<noteq> 0 then Inr c
         else let d = cstr_cmp (log_data a) (log_data b)
         in if d \<noteq> 0 then Inr d
            else bind_o (log_topics a) (\<lambda>ta. bind_o (log_topics b) (\<lambda>tb.
              if length ta \<noteq> length tb then Inr (int (length ta) - int (length tb)) else Inr 0)))"

definition selfdestruct_record_cmp :: "selfdestruct_record \<Rightarrow> selfdestruct_record \<Rightarrow> int" where
  "selfdestruct_record_cmp a b =
     (let c = evmc_address_cmp (selfdestructed a) (selfdestructed b)
      in if c \<noteq> 0 then c else evmc_address_cmp (beneficiary a) (beneficiary b))"

text \<open>
  The message that a call instruction hands to the host. The instructions leave some of its fields
  unset.
\<close>

record call_message =
  cm_kind :: evmc_call_kind
  cm_flags :: "u32 outcome"
  cm_depth :: int
  cm_gas :: int
  cm_recipient :: "evmc_address outcome"
  cm_sender :: evmc_address
  cm_input :: "u8 list outcome"
  cm_value :: evmc_uint256be
  cm_salt :: "evmc_bytes32 outcome"
  cm_code_address :: "evmc_address outcome"

record MockedHost =
  lr :: log_record
  sr :: selfdestruct_record
  accounts :: account_map
  tx_context :: evmc_tx_context
  block_hash :: evmc_bytes32
  call_result :: evmc_result
  recorded_blockhashes :: "int list"
  recorded_account_accesses :: "evmc_address list"
  max_recorded_account_accesses :: nat
  recorded_calls :: "call_message list"
  max_recorded_calls :: nat
  recorded_logs :: "log_record list"
  recorded_selfdestructs :: "selfdestruct_record list"
  m_recorded_calls_inputs :: "u8 list list"

text \<open>The transaction context is the only field that keeps what the memory of the host held.\<close>

definition MockedHost_init :: "MockedHost \<Rightarrow> MockedHost" where
  "MockedHost_init mockhost = mockhost\<lparr>
     lr := log_record_init, sr := selfdestruct_record_init, accounts := cmap_init,
     tx_context := evmcContext_init (tx_context mockhost), block_hash := replicate 32 0,
     call_result := evmc_result_init, recorded_blockhashes := [],
     recorded_account_accesses := [], max_recorded_account_accesses := 200,
     recorded_calls := [], max_recorded_calls := 100,
     recorded_logs := [], recorded_selfdestructs := [], m_recorded_calls_inputs := []\<rparr>"

text \<open>A host in zeroed memory, as the TA allocates it before the initialisation.\<close>

definition zero_host :: MockedHost where
  "zero_host = \<lparr>lr = log_record_init, sr = selfdestruct_record_init, accounts = cmap_init,
     tx_context = zero_tx_context, block_hash = replicate 32 0, call_result = evmc_result_init,
     recorded_blockhashes = [], recorded_account_accesses = [], max_recorded_account_accesses = 0,
     recorded_calls = [], max_recorded_calls = 0, recorded_logs = [], recorded_selfdestructs = [],
     m_recorded_calls_inputs = []\<rparr>"

section \<open>Methods\<close>

definition record_account_access :: "MockedHost \<Rightarrow> evmc_address \<Rightarrow> MockedHost" where
  "record_account_access h addr =
     (if length (recorded_account_accesses h) < max_recorded_account_accesses h
      then h\<lparr>recorded_account_accesses := recorded_account_accesses h @ [addr]\<rparr> else h)"

definition account_exists :: "MockedHost \<Rightarrow> evmc_address \<Rightarrow> (MockedHost \<times> bool) outcome" where
  "account_exists h addr =
     (let h = record_account_access h addr
      in bind_o (account_get (accounts h) addr) (\<lambda>r. Inr (h, r \<noteq> None)))"

definition get_storage ::
  "MockedHost \<Rightarrow> evmc_address \<Rightarrow> evmc_bytes32 \<Rightarrow> (MockedHost \<times> evmc_bytes32) outcome" where
  "get_storage h addr key =
     (let h = record_account_access h addr
      in bind_o (account_find (accounts h) addr) (\<lambda>acc.
      case acc of None \<Rightarrow> Inr (h, replicate 32 0)
      | Some acc \<Rightarrow> bind_o (storage_find (storage acc) key) (\<lambda>sv.
          case sv of None \<Rightarrow> Inr (h, replicate 32 0) | Some sv \<Rightarrow> Inr (h, sv_value sv))))"

text \<open>Storing through the pointers to an account and to a storage value in it.\<close>

definition put_storage_value :: "MockedHost \<Rightarrow> nat \<Rightarrow> nat \<Rightarrow> storage_value \<Rightarrow> MockedHost outcome" where
  "put_storage_value h i j sv =
     bind_o (cmap_value (accounts h) i) (\<lambda>acc.
     Inr (h\<lparr>accounts := cmap_set_value (accounts h) i (acc\<lparr>storage := cmap_set_value (storage acc) j sv\<rparr>)\<rparr>))"

text \<open>
  \<open>get_mut\<close> returns a null pointer for a missing key, and the code uses the result without a
  test.
\<close>

definition set_storage ::
  "MockedHost \<Rightarrow> evmc_address \<Rightarrow> evmc_bytes32 \<Rightarrow> evmc_bytes32 \<Rightarrow> (MockedHost \<times> evmc_storage_status) outcome" where
  "set_storage h addr key value =
     (let h = record_account_access h addr
      in bind_o (account_get (accounts h) addr) (\<lambda>i. case i of None \<Rightarrow> Inl Null_pointer | Some i \<Rightarrow>
         bind_o (cmap_value (accounts h) i) (\<lambda>old_acc.
         bind_o (storage_get (storage old_acc) key) (\<lambda>j. case j of None \<Rightarrow> Inl Null_pointer | Some j \<Rightarrow>
         bind_o (cmap_value (storage old_acc) j) (\<lambda>old.
           if evmc_bytes32_cmp (sv_value old) value = 0 then Inr (h, EVMC_STORAGE_UNCHANGED)
           else
             let status = (if \<not> sv_dirty old then
                             if b32_zero (sv_value old) then EVMC_STORAGE_ADDED
                             else if \<not> b32_zero value then EVMC_STORAGE_MODIFIED
                             else EVMC_STORAGE_DELETED
                           else EVMC_STORAGE_MODIFIED_AGAIN)
             in bind_o (put_storage_value h i j (old\<lparr>sv_dirty := True, sv_value := value\<rparr>)) (\<lambda>h.
                Inr (h, status)))))))"

definition get_balance :: "MockedHost \<Rightarrow> evmc_address \<Rightarrow> (MockedHost \<times> evmc_uint256be) outcome" where
  "get_balance h addr =
     (let h = record_account_access h addr
      in bind_o (account_find (accounts h) addr) (\<lambda>acc.
      case acc of None \<Rightarrow> Inr (h, replicate 32 0) | Some acc \<Rightarrow> Inr (h, acc_balance acc)))"

definition get_code_size :: "MockedHost \<Rightarrow> evmc_address \<Rightarrow> (MockedHost \<times> nat) outcome" where
  "get_code_size h addr =
     (let h = record_account_access h addr
      in bind_o (account_find (accounts h) addr) (\<lambda>acc.
      case acc of None \<Rightarrow> Inr (h, 0) | Some acc \<Rightarrow> Inr (h, length (acc_code acc))))"

definition get_code_hash :: "MockedHost \<Rightarrow> evmc_address \<Rightarrow> (MockedHost \<times> evmc_bytes32) outcome" where
  "get_code_hash h addr =
     (let h = record_account_access h addr
      in bind_o (account_find (accounts h) addr) (\<lambda>acc.
      case acc of None \<Rightarrow> Inr (h, replicate 32 0) | Some acc \<Rightarrow> Inr (h, codehash acc)))"

text \<open>
  \<open>copy_code\<close> replaces the tail of a clone of the code by the C string in the buffer, the wrong way
  round: the buffer, the bytes of \<open>memory\<close> from \<open>p\<close> on, is only read (up to a zero byte), and the
  clone is dropped. The result is the number of bytes that should have been copied.
\<close>

definition copy_code ::
  "MockedHost \<Rightarrow> evmc_address \<Rightarrow> nat \<Rightarrow> u8 list \<Rightarrow> nat \<Rightarrow> nat \<Rightarrow> (MockedHost \<times> nat) outcome" where
  "copy_code h addr code_offset memory p buffer_size =
     (let h = record_account_access h addr
      in bind_o (account_find (accounts h) addr) (\<lambda>acc.
      case acc of None \<Rightarrow> Inr (h, 0)
      | Some acc \<Rightarrow>
          if code_offset \<ge> length (acc_code acc) then Inr (h, 0)
          else let n = min buffer_size (length (acc_code acc) - code_offset)
               in if n > 0 \<and> 0 \<notin> set (drop p memory) then Inl Out_of_bounds else Inr (h, n)))"

definition selfdestruct :: "MockedHost \<Rightarrow> evmc_address \<Rightarrow> evmc_address \<Rightarrow> MockedHost" where
  "selfdestruct h addr bene =
     (let h = record_account_access h addr
      in h\<lparr>recorded_selfdestructs :=
             recorded_selfdestructs h @ [\<lparr>selfdestructed = addr, beneficiary = bene\<rparr>]\<rparr>)"

definition call :: "MockedHost \<Rightarrow> call_message \<Rightarrow> (MockedHost \<times> evmc_result) outcome" where
  "call h msg =
     bind_o (cm_recipient msg) (\<lambda>to.
     let h = record_account_access h to
     in if length (recorded_calls h) < max_recorded_calls h then
          bind_o (cm_input msg) (\<lambda>input.
          let h = h\<lparr>recorded_calls := recorded_calls h @ [msg]\<rparr>;
              h = (if length input > 0
                   then h\<lparr>m_recorded_calls_inputs := m_recorded_calls_inputs h @ [input]\<rparr> else h)
          in Inr (h, call_result h))
        else Inr (h, call_result h))"

definition get_tx_context :: "MockedHost \<Rightarrow> evmc_tx_context" where
  "get_tx_context h = tx_context h"

definition get_block_hash :: "MockedHost \<Rightarrow> int \<Rightarrow> MockedHost \<times> evmc_bytes32" where
  "get_block_hash h n =
     (let h = h\<lparr>recorded_blockhashes := recorded_blockhashes h @ [n]\<rparr> in (h, block_hash h))"

text \<open>The topics of the new record are pushed to a vector that was not initialised.\<close>

definition emit_log :: "MockedHost \<Rightarrow> evmc_address \<Rightarrow> u8 list \<Rightarrow> evmc_bytes32 list \<Rightarrow> MockedHost outcome" where
  "emit_log h addr data topics =
     (if topics \<noteq> [] then Inl Uninitialised
      else Inr (h\<lparr>recorded_logs := recorded_logs h @
              [\<lparr>creator = addr, log_data = data, log_topics = Inl Uninitialised\<rparr>]\<rparr>))"

definition access_account :: "MockedHost \<Rightarrow> evmc_address \<Rightarrow> MockedHost \<times> evmc_access_status" where
  "access_account h addr =
     (let already_accessed = cvec_find address_eq (recorded_account_accesses h) addr 0
            \<noteq> length (recorded_account_accesses h);
          h = record_account_access h addr;
          addr1 = u64_to_addr 1; addr9 = u64_to_addr 9
      in if evmc_address_cmp addr addr1 \<ge> 0 \<and> evmc_address_cmp addr addr9 \<le> 0 then (h, EVMC_ACCESS_WARM)
         else (h, if already_accessed then EVMC_ACCESS_WARM else EVMC_ACCESS_COLD))"

text \<open>The account, and the storage value in it, are made when they are missing.\<close>

definition with_account :: "MockedHost \<Rightarrow> evmc_address \<Rightarrow> MockedHost outcome" where
  "with_account h addr =
     bind_o (account_get (accounts h) addr) (\<lambda>i. case i of
       None \<Rightarrow> bind_o (cmap_insert evmc_address_hash address_eq (accounts h) addr MockedAccount_init)
                 (\<lambda>accs. Inr (h\<lparr>accounts := accs\<rparr>))
     | Some i \<Rightarrow> Inr h)"

definition with_storage_value :: "storage_map \<Rightarrow> evmc_bytes32 \<Rightarrow> storage_map outcome" where
  "with_storage_value m key =
     bind_o (storage_get m key) (\<lambda>j. case j of
       None \<Rightarrow> cmap_insert evmc_bytes32_hash bytes32_eq m key storage_value_init
     | Some j \<Rightarrow> Inr m)"

definition access_storage ::
  "MockedHost \<Rightarrow> evmc_address \<Rightarrow> evmc_bytes32 \<Rightarrow> (MockedHost \<times> evmc_access_status) outcome" where
  "access_storage h addr key =
     bind_o (with_account h addr) (\<lambda>h.
     bind_o (account_get (accounts h) addr) (\<lambda>i. case i of None \<Rightarrow> Inl Null_pointer | Some i \<Rightarrow>
     bind_o (cmap_value (accounts h) i) (\<lambda>acc.
     bind_o (with_storage_value (storage acc) key) (\<lambda>st.
     bind_o (storage_find st key) (\<lambda>sv. case sv of None \<Rightarrow> Inl Null_pointer | Some sv \<Rightarrow>
     bind_o (cmap_insert_or_assign evmc_bytes32_hash bytes32_eq st key
               (sv\<lparr>sv_access_status := EVMC_ACCESS_WARM\<rparr>)) (\<lambda>st.
     Inr (h\<lparr>accounts := cmap_set_value (accounts h) i (acc\<lparr>storage := st\<rparr>)\<rparr>, sv_access_status sv)))))))"

section \<open>The storage the host promises\<close>

text \<open>
  The host as a map from addresses and keys to values: an account or a key that is missing has
  the value zero. The invariant is that of the maps, the outer one and every storage map in it.
\<close>

definition storage_at :: "MockedHost \<Rightarrow> evmc_address \<Rightarrow> evmc_bytes32 \<Rightarrow> storage_value option" where
  "storage_at h a k = (case cmap_lookup (accounts h) a of None \<Rightarrow> None
     | Some acc \<Rightarrow> cmap_lookup (storage acc) k)"

definition value_at :: "MockedHost \<Rightarrow> evmc_address \<Rightarrow> evmc_bytes32 \<Rightarrow> evmc_bytes32" where
  "value_at h a k = (case storage_at h a k of None \<Rightarrow> replicate 32 0 | Some sv \<Rightarrow> sv_value sv)"

definition host_inv :: "MockedHost \<Rightarrow> bool" where
  "host_inv h \<longleftrightarrow> cmap_inv evmc_address_hash address_eq (padded 20) (accounts h) \<and>
     (\<forall>a acc. cmap_lookup (accounts h) a = Some acc \<longrightarrow>
        cmap_inv evmc_bytes32_hash bytes32_eq (padded 32) (storage acc))"

lemma record_access_fields [simp]:
  "accounts (record_account_access h a) = accounts h"
  "storage_at (record_account_access h a) = storage_at h"
  "value_at (record_account_access h a) = value_at h"
  "host_inv (record_account_access h a) = host_inv h"
  by (auto simp: record_account_access_def storage_at_def value_at_def host_inv_def fun_eq_iff)

lemma host_invD:
  "host_inv h \<Longrightarrow> cmap_inv evmc_address_hash address_eq (padded 20) (accounts h)"
  "host_inv h \<Longrightarrow> cmap_lookup (accounts h) a = Some acc \<Longrightarrow>
     cmap_inv evmc_bytes32_hash bytes32_eq (padded 32) (storage acc)"
  by (auto simp: host_inv_def)

lemma get_storage_law:
  assumes "host_inv h" and "padded 20 a" and "padded 32 k"
  shows "get_storage h a k = Inr (record_account_access h a, value_at h a k)"
proof (cases "cmap_lookup (accounts h) a")
  case None
  then show ?thesis
    using account_keys.find_law [OF host_invD(1) assms(2)] assms(1)
    by (simp add: get_storage_def Let_def value_at_def storage_at_def)
next
  case (Some acc)
  then show ?thesis
    using account_keys.find_law [OF host_invD(1) assms(2)]
      storage_keys.find_law [OF host_invD(2) assms(3)] assms(1)
    by (auto simp: get_storage_def Let_def value_at_def storage_at_def split: option.splits)
qed

text \<open>A store through the pointers that the lookups returned.\<close>

lemma put_storage_law:
  assumes inv: "host_inv h" and a: "padded 20 a"
    and i: "account_get (accounts h) a = Inr (Some i)" and acc: "cmap_lookup (accounts h) a = Some acc"
    and st: "cmap_inv evmc_bytes32_hash bytes32_eq (padded 32) st"
  shows "host_inv (h\<lparr>accounts := cmap_set_value (accounts h) i (acc\<lparr>storage := st\<rparr>)\<rparr>)"
    and "storage_at (h\<lparr>accounts := cmap_set_value (accounts h) i (acc\<lparr>storage := st\<rparr>)\<rparr>) =
           (storage_at h)(a := cmap_lookup st)"
  using account_keys.set_value_law [OF host_invD(1) [OF inv] a i] host_invD(2) [OF inv] st
  by (auto simp: host_inv_def storage_at_def fun_eq_iff)

text \<open>The account that \<open>access_storage\<close> works on.\<close>

lemma with_account_law:
  assumes inv: "host_inv h" and a: "padded 20 a"
  obtains h' acc i where "with_account h a = Inr h'" and "host_inv h'" and "storage_at h' = storage_at h"
    and "account_get (accounts h') a = Inr (Some i)" and "cmap_lookup (accounts h') a = Some acc"
    and "cmap_value (accounts h') i = Inr acc"
    and "recorded_account_accesses h' = recorded_account_accesses h"
proof (cases rule: account_keys.get_value [OF host_invD(1) [OF inv] a])
  case 1
  obtain accs where accs: "cmap_insert evmc_address_hash address_eq (accounts h) a MockedAccount_init = Inr accs"
    "cmap_inv evmc_address_hash address_eq (padded 20) accs"
    "cmap_lookup accs = (cmap_lookup (accounts h))(a \<mapsto> MockedAccount_init)"
    using account_keys.insert_law [OF host_invD(1) [OF inv] a, of MockedAccount_init] 1(2) by auto
  let ?h = "h\<lparr>accounts := accs\<rparr>"
  have "with_account h a = Inr ?h" using 1(1) accs(1) by (simp add: with_account_def)
  moreover have "host_inv ?h"
    using accs(2,3) host_invD(2) [OF inv] storage_keys.init_law(1)
    by (auto simp: host_inv_def MockedAccount_init_def split: if_splits)
  moreover have "storage_at ?h = storage_at h"
    using 1(2) accs(3) storage_keys.init_law(2)
    by (auto simp: storage_at_def fun_eq_iff MockedAccount_init_def)
  moreover obtain i acc where "account_get accs a = Inr (Some i)" "cmap_lookup accs a = Some acc"
    "cmap_value accs i = Inr acc"
    by (cases rule: account_keys.get_value [OF accs(2) a]) (simp_all add: accs(3))
  ultimately show ?thesis using that [of ?h i acc] by simp
next
  case (2 i acc)
  then have "with_account h a = Inr h" by (simp add: with_account_def)
  then show ?thesis using that [of h] 2 inv by blast
qed

lemma with_storage_value_law:
  assumes inv: "cmap_inv evmc_bytes32_hash bytes32_eq (padded 32) st" and k: "padded 32 k"
  obtains st' where "with_storage_value st k = Inr st'"
    and "cmap_inv evmc_bytes32_hash bytes32_eq (padded 32) st'"
    and "cmap_lookup st' = (cmap_lookup st)(k \<mapsto> (case cmap_lookup st k of None \<Rightarrow> storage_value_init | Some sv \<Rightarrow> sv))"
proof (cases rule: storage_keys.get_value [OF inv k])
  case 1
  then show ?thesis
    using that storage_keys.insert_law [OF inv k, of storage_value_init] by (auto simp: with_storage_value_def)
next
  case (2 i sv)
  then have "cmap_lookup st = (cmap_lookup st)(k \<mapsto> sv)" by (auto simp: fun_eq_iff)
  then show ?thesis using that [of st] inv 2 by (simp add: with_storage_value_def)
qed

text \<open>
  Accessing a storage key: the status is the one before, the key is warm afterwards, and the
  values of all keys of all accounts stay the same.
\<close>

definition touch :: "storage_value option \<Rightarrow> storage_value" where
  "touch sv = (case sv of None \<Rightarrow> storage_value_init | Some sv \<Rightarrow> sv)\<lparr>sv_access_status := EVMC_ACCESS_WARM\<rparr>"

definition access_at :: "MockedHost \<Rightarrow> evmc_address \<Rightarrow> evmc_bytes32 \<Rightarrow> evmc_access_status" where
  "access_at h a k = (case storage_at h a k of None \<Rightarrow> EVMC_ACCESS_COLD | Some sv \<Rightarrow> sv_access_status sv)"

lemma access_storage_law:
  assumes inv: "host_inv h" and a: "padded 20 a" and k: "padded 32 k"
  shows "\<exists>h'. access_storage h a k = Inr (h', access_at h a k) \<and> host_inv h' \<and>
           storage_at h' = (storage_at h)(a := (storage_at h a)(k \<mapsto> touch (storage_at h a k))) \<and>
           cmap_lookup (accounts h') a \<noteq> None"
proof -
  obtain g acc i where g: "with_account h a = Inr g" "host_inv g" "storage_at g = storage_at h"
    and i: "account_get (accounts g) a = Inr (Some i)" "cmap_lookup (accounts g) a = Some acc"
      "cmap_value (accounts g) i = Inr acc"
    by (rule with_account_law [OF inv a]) blast
  note st = host_invD(2) [OF g(2) i(2)]
  have at: "storage_at h a = cmap_lookup (storage acc)"
    using i(2) by (simp add: g(3) [symmetric] storage_at_def fun_eq_iff)
  obtain st1 where st1: "with_storage_value (storage acc) k = Inr st1"
    "cmap_inv evmc_bytes32_hash bytes32_eq (padded 32) st1"
    "cmap_lookup st1 = (storage_at h a)(k \<mapsto> (case storage_at h a k of None \<Rightarrow> storage_value_init | Some sv \<Rightarrow> sv))"
    unfolding at by (rule with_storage_value_law [OF st k])
  let ?sv = "case storage_at h a k of None \<Rightarrow> storage_value_init | Some sv \<Rightarrow> sv"
  obtain st2 where st2: "cmap_insert_or_assign evmc_bytes32_hash bytes32_eq st1 k (touch (storage_at h a k)) = Inr st2"
    "cmap_inv evmc_bytes32_hash bytes32_eq (padded 32) st2"
    "cmap_lookup st2 = (cmap_lookup st1)(k \<mapsto> touch (storage_at h a k))"
    using storage_keys.insert_or_assign_law [OF st1(2) k, of "touch (storage_at h a k)"] by blast
  let ?h = "g\<lparr>accounts := cmap_set_value (accounts g) i (acc\<lparr>storage := st2\<rparr>)\<rparr>"
  have find: "storage_find st1 k = Inr (Some ?sv)"
    using storage_keys.find_law [OF st1(2) k] st1(3) by simp
  have "access_at h a k = sv_access_status ?sv"
    by (auto simp: access_at_def storage_value_init_def split: option.splits)
  then have "access_storage h a k = Inr (?h, access_at h a k)"
    using g(1) i st1(1) find st2(1) by (simp add: access_storage_def touch_def)
  moreover have "host_inv ?h" by (rule put_storage_law(1) [OF g(2) a i(1,2) st2(2)])
  moreover have "storage_at ?h = (storage_at h)(a := (storage_at h a)(k \<mapsto> touch (storage_at h a k)))"
    unfolding put_storage_law(2) [OF g(2) a i(1,2) st2(2)] g(3) st2(3) st1(3) fun_upd_upd ..
  moreover have "cmap_lookup (accounts ?h) a \<noteq> None"
    using account_keys.set_value_law(2) [OF host_invD(1) [OF g(2)] a i(1)] by simp
  ultimately show ?thesis by blast
qed

text \<open>The status of a store as EIP-1283 has it, and the entry after \<open>set_storage\<close>.\<close>

definition eip_status :: "storage_value \<Rightarrow> evmc_bytes32 \<Rightarrow> evmc_storage_status" where
  "eip_status old v =
     (if v = sv_value old then EVMC_STORAGE_UNCHANGED
      else if sv_dirty old then EVMC_STORAGE_MODIFIED_AGAIN
      else if sv_value old = replicate 32 0 then EVMC_STORAGE_ADDED
      else if v = replicate 32 0 then EVMC_STORAGE_DELETED else EVMC_STORAGE_MODIFIED)"

definition stored :: "storage_value \<Rightarrow> evmc_bytes32 \<Rightarrow> storage_value" where
  "stored old v = (if evmc_bytes32_cmp (sv_value old) v = 0 then old
     else old\<lparr>sv_dirty := True, sv_value := v\<rparr>)"

lemma bytes32_eq_padded: "padded 32 v \<Longrightarrow> padded 32 w \<Longrightarrow> bytes32_eq v w \<longleftrightarrow> v = w"
  by (rule storage_keys.eq_iff)

lemma padded_length: "padded n v \<Longrightarrow> length v = n"
  by (simp add: padded_def)

lemma set_storage_law:
  assumes inv: "host_inv h" and a: "padded 20 a" and k: "padded 32 k" and old: "storage_at h a k = Some old"
  shows "\<exists>h' st. set_storage h a k v = Inr (h', st) \<and> host_inv h' \<and>
           storage_at h' = (storage_at h)(a := (storage_at h a)(k \<mapsto> stored old v)) \<and>
           (evmc_bytes32_cmp (sv_value old) v = 0 \<longrightarrow> st = EVMC_STORAGE_UNCHANGED) \<and>
           (padded 32 v \<and> padded 32 (sv_value old) \<longrightarrow> st = eip_status old v)"
proof -
  let ?g = "record_account_access h a"
  have inv': "host_inv ?g" using inv by simp
  obtain acc where acc: "cmap_lookup (accounts h) a = Some acc" "cmap_lookup (storage acc) k = Some old"
    using old by (auto simp: storage_at_def split: option.splits)
  obtain i where i: "account_get (accounts h) a = Inr (Some i)" "cmap_value (accounts h) i = Inr acc"
    by (cases rule: account_keys.get_value [OF host_invD(1) [OF inv] a]) (simp_all add: acc(1))
  note st = host_invD(2) [OF inv acc(1)]
  obtain j where j: "storage_get (storage acc) k = Inr (Some j)" "cmap_value (storage acc) j = Inr old"
    by (cases rule: storage_keys.get_value [OF st k]) (simp_all add: acc(2))
  have at: "storage_at h a = cmap_lookup (storage acc)"
    using acc(1) by (simp add: storage_at_def fun_eq_iff)
  show ?thesis
  proof (cases "evmc_bytes32_cmp (sv_value old) v = 0")
    case True
    then have "set_storage h a k v = Inr (?g, EVMC_STORAGE_UNCHANGED)"
      using i j by (simp add: set_storage_def Let_def)
    moreover have "(storage_at h)(a := (storage_at h a)(k \<mapsto> stored old v)) = storage_at h"
      using True old by (auto simp: stored_def fun_eq_iff)
    moreover have "padded 32 v \<Longrightarrow> padded 32 (sv_value old) \<Longrightarrow> eip_status old v = EVMC_STORAGE_UNCHANGED"
      using True bytes32_eq_padded by (auto simp: eip_status_def)
    ultimately show ?thesis using inv by auto
  next
    case False
    let ?st = "cmap_set_value (storage acc) j (old\<lparr>sv_dirty := True, sv_value := v\<rparr>)"
    let ?h = "?g\<lparr>accounts := cmap_set_value (accounts ?g) i (acc\<lparr>storage := ?st\<rparr>)\<rparr>"
    let ?status = "if \<not> sv_dirty old then if b32_zero (sv_value old) then EVMC_STORAGE_ADDED
        else if \<not> b32_zero v then EVMC_STORAGE_MODIFIED else EVMC_STORAGE_DELETED
        else EVMC_STORAGE_MODIFIED_AGAIN"
    note w = storage_keys.set_value_law [OF st k j(1)]
    have set: "set_storage h a k v = Inr (?h, ?status)"
      using False i j by (simp add: set_storage_def Let_def put_storage_value_def)
    have i': "account_get (accounts ?g) a = Inr (Some i)" "cmap_lookup (accounts ?g) a = Some acc"
      using i acc by simp_all
    have "host_inv ?h" by (rule put_storage_law(1) [OF inv' a i' w(1)])
    moreover have "storage_at ?h = (storage_at h)(a := (storage_at h a)(k \<mapsto> stored old v))"
      unfolding put_storage_law(2) [OF inv' a i' w(1)] w(2) at using False by (simp add: stored_def)
    moreover have "?status = eip_status old v" if "padded 32 v" "padded 32 (sv_value old)"
      using False that bytes32_eq_padded [OF that(2,1)]
      by (auto simp: eip_status_def b32_zero_iff padded_length)
    ultimately show ?thesis using set False by auto
  qed
qed

lemma set_storage_missing:
  assumes "host_inv h" and "padded 20 a" and "padded 32 k" and "storage_at h a k = None"
  shows "set_storage h a k v = Inl Null_pointer"
proof (cases rule: account_keys.get_value [OF host_invD(1) [OF assms(1)] assms(2)])
  case 1
  then show ?thesis by (simp add: set_storage_def Let_def)
next
  case (2 i acc)
  then have "cmap_lookup (storage acc) k = None" using assms(4) by (simp add: storage_at_def)
  then show ?thesis
    using 2 by (cases rule: storage_keys.get_value [OF host_invD(2) [OF assms(1) 2(2)] assms(3)])
      (simp_all add: set_storage_def Let_def)
qed

text \<open>
  An access followed by a store, the way SSTORE does it: the store finds the entry.
\<close>

definition store :: "MockedHost \<Rightarrow> evmc_address \<Rightarrow> evmc_bytes32 \<Rightarrow> evmc_bytes32 \<Rightarrow> (MockedHost \<times> evmc_storage_status) outcome" where
  "store h a k v = bind_o (access_storage h a k) (\<lambda>(h, as). set_storage h a k v)"

lemma store_law:
  assumes inv: "host_inv h" and a: "padded 20 a" and k: "padded 32 k"
  shows "\<exists>h' st. store h a k v = Inr (h', st) \<and> host_inv h' \<and>
           storage_at h' = (storage_at h)(a := (storage_at h a)(k \<mapsto> stored (touch (storage_at h a k)) v)) \<and>
           (evmc_bytes32_cmp (value_at h a k) v = 0 \<longrightarrow> st = EVMC_STORAGE_UNCHANGED) \<and>
           (padded 32 v \<and> padded 32 (value_at h a k) \<longrightarrow> st = eip_status (touch (storage_at h a k)) v)"
proof -
  obtain g where g: "access_storage h a k = Inr (g, access_at h a k)" "host_inv g"
    "storage_at g = (storage_at h)(a := (storage_at h a)(k \<mapsto> touch (storage_at h a k)))"
    using access_storage_law [OF assms] by blast
  have at: "storage_at g a k = Some (touch (storage_at h a k))" by (simp add: g(3))
  have v: "sv_value (touch (storage_at h a k)) = value_at h a k"
    by (auto simp: touch_def value_at_def storage_value_init_def split: option.splits)
  show ?thesis using set_storage_law [OF g(2) a k at, of v] g(1,3) by (simp add: store_def v)
qed

lemma value_touch: "sv_value (touch (storage_at h a k)) = value_at h a k"
  by (auto simp: touch_def value_at_def storage_value_init_def split: option.splits)

lemma padded_replicate [simp]: "padded n (replicate n b)"
  by (cases n) (auto simp: padded_def list_all_iff)

text \<open>
  Claim C11. Storing and loading. On addresses, keys and values that \<open>strcmp\<close> tells apart, an access
  and a store of a value followed by a load gives the value; the status of the store is that of
  EIP-1283; the host keeps its invariant, and the values under all other addresses and keys stay.
\<close>

theorem host_store_load:
  assumes "host_inv h" and "padded 20 a" and "padded 32 k" and "padded 32 v" and "padded 32 (value_at h a k)"
  shows "\<exists>g st. store h a k v = Inr (g, st) \<and> host_inv g \<and>
           get_storage g a k = Inr (record_account_access g a, v) \<and>
           st = eip_status (touch (storage_at h a k)) v \<and>
           (\<forall>a' k'. (a', k') \<noteq> (a, k) \<longrightarrow> value_at g a' k' = value_at h a' k')"
proof -
  obtain g st where g: "store h a k v = Inr (g, st)" "host_inv g"
    "storage_at g = (storage_at h)(a := (storage_at h a)(k \<mapsto> stored (touch (storage_at h a k)) v))"
    "st = eip_status (touch (storage_at h a k)) v"
    using store_law [OF assms(1-3), of v] assms(4,5) by blast
  have "value_at g a k = v"
    using bytes32_eq_padded [OF assms(5,4)] value_touch [of h a k]
    by (auto simp: value_at_def [of g] g(3) stored_def)
  moreover have "\<forall>a' k'. (a', k') \<noteq> (a, k) \<longrightarrow> value_at g a' k' = value_at h a' k'"
    by (auto simp: value_at_def g(3))
  ultimately show ?thesis using g get_storage_law [OF g(2) assms(2,3)] by auto
qed

lemma fresh_host: "host_inv (MockedHost_init h)" "storage_at (MockedHost_init h) a k = None"
  "value_at (MockedHost_init h) a k = replicate 32 0"
  by (simp_all add: account_keys.init_law MockedHost_init_def host_inv_def storage_at_def value_at_def)

theorem host_store_load_witness:
  "\<exists>g. store (MockedHost_init zero_host) (replicate 20 1) (replicate 32 2) (replicate 32 3) =
        Inr (g, EVMC_STORAGE_ADDED) \<and>
      get_storage g (replicate 20 1) (replicate 32 2) =
        Inr (record_account_access g (replicate 20 1), replicate 32 3)"
proof -
  have "padded 20 (replicate 20 1)" "padded 32 (replicate 32 2)" "padded 32 (replicate 32 3)"
    "padded 32 (value_at (MockedHost_init zero_host) (replicate 20 1) (replicate 32 2))"
    by (simp_all add: fresh_host)
  moreover have "eip_status (touch (storage_at (MockedHost_init zero_host) (replicate 20 1) (replicate 32 2)))
      (replicate 32 3) = EVMC_STORAGE_ADDED"
    by (simp add: fresh_host touch_def storage_value_init_def eip_status_def)
  ultimately show ?thesis
    using host_store_load [OF fresh_host(1), of "replicate 20 1" "replicate 32 2" "replicate 32 3" zero_host]
    by auto
qed

text \<open>
  Claim C28. A value whose first byte is zero, that is every number below 2^248, cannot be stored
  where the value is zero: the comparison of the values with \<open>strcmp\<close> sees two empty strings, the
  store reports \<open>EVMC_STORAGE_UNCHANGED\<close>, and the value stays zero.
\<close>

theorem small_value_not_stored:
  assumes "host_inv h" and "padded 20 a" and "padded 32 k"
    and "value_at h a k = replicate 32 0" and "hd v = 0" and "length v = 32"
  shows "\<exists>g. store h a k v = Inr (g, EVMC_STORAGE_UNCHANGED) \<and>
           get_storage g a k = Inr (record_account_access g a, replicate 32 0)"
proof -
  obtain g st where g: "store h a k v = Inr (g, st)" "host_inv g"
    "storage_at g = (storage_at h)(a := (storage_at h a)(k \<mapsto> stored (touch (storage_at h a k)) v))"
    "evmc_bytes32_cmp (value_at h a k) v = 0 \<longrightarrow> st = EVMC_STORAGE_UNCHANGED"
    using store_law [OF assms(1-3), of v] by blast
  have "evmc_bytes32_cmp (replicate 32 0) v = 0"
    using assms(5,6) by (cases v) (auto simp: evmc_bytes32_cmp_def cstr_cmp_zero)
  then have "st = EVMC_STORAGE_UNCHANGED" "value_at g a k = replicate 32 0"
    using g(4) value_touch [of h a k] assms(4) by (simp_all add: value_at_def [of g] g(3) stored_def)
  then show ?thesis using g(1) get_storage_law [OF g(2) assms(2,3)] by auto
qed

theorem small_value_not_stored_witness:
  "\<exists>g. store (MockedHost_init zero_host) (replicate 20 1) (replicate 32 0) (replicate 31 0 @ [5]) =
        Inr (g, EVMC_STORAGE_UNCHANGED) \<and>
      get_storage g (replicate 20 1) (replicate 32 0) =
        Inr (record_account_access g (replicate 20 1), replicate 32 0)"
  by (rule small_value_not_stored) (simp_all add: fresh_host)

text \<open>
  Cold and warm storage: an access reports the status the key had, and a missing account
  or key is cold; every later access to it reports warm, and no access changes a value.
\<close>

theorem storage_warms_up:
  assumes "host_inv h" and "padded 20 a" and "padded 32 k"
  shows "\<exists>g g'. access_storage h a k = Inr (g, access_at h a k) \<and>
           access_storage g a k = Inr (g', EVMC_ACCESS_WARM) \<and> host_inv g' \<and>
           (\<forall>a' k'. value_at g' a' k' = value_at h a' k') \<and>
           (\<forall>a' k'. (a', k') \<noteq> (a, k) \<longrightarrow> access_at g' a' k' = access_at h a' k')"
proof -
  obtain g where g: "access_storage h a k = Inr (g, access_at h a k)" "host_inv g"
    "storage_at g = (storage_at h)(a := (storage_at h a)(k \<mapsto> touch (storage_at h a k)))"
    using access_storage_law [OF assms] by blast
  obtain g' where g': "access_storage g a k = Inr (g', access_at g a k)" "host_inv g'"
    "storage_at g' = (storage_at g)(a := (storage_at g a)(k \<mapsto> touch (storage_at g a k)))"
    using access_storage_law [OF g(2) assms(2,3)] by blast
  have "access_at g a k = EVMC_ACCESS_WARM" by (simp add: access_at_def g(3) touch_def)
  moreover have "value_at g' a' k' = value_at h a' k'" for a' k'
    using value_touch [of h a k] by (auto simp: value_at_def g(3) g'(3) touch_def)
  moreover have "(a', k') \<noteq> (a, k) \<longrightarrow> access_at g' a' k' = access_at h a' k'" for a' k'
    by (auto simp: access_at_def g(3) g'(3))
  ultimately show ?thesis using g(1) g'(1,2) by auto
qed

theorem storage_warms_up_witness:
  "\<exists>g g'. access_storage (MockedHost_init zero_host) (replicate 20 1) (replicate 32 0) = Inr (g, EVMC_ACCESS_COLD) \<and>
      access_storage g (replicate 20 1) (replicate 32 0) = Inr (g', EVMC_ACCESS_WARM)"
proof -
  have "access_at (MockedHost_init zero_host) (replicate 20 1) (replicate 32 0) = EVMC_ACCESS_COLD"
    by (simp add: access_at_def fresh_host)
  then show ?thesis
    using storage_warms_up [OF fresh_host(1) [of zero_host], of "replicate 20 1" "replicate 32 0"]
    by auto
qed

lemma cvec_find_bound: "i \<le> cvec_find eq xs x i" "cvec_find eq xs x i \<le> i + length xs"
  "cvec_find eq xs x i = i + length xs \<longleftrightarrow> (\<forall>y \<in> set xs. \<not> eq x y)"
proof (induction xs arbitrary: i)
  case (Cons y ys)
  case 1
  then show ?case using Cons(1) [of "i + 1"] by simp
  case 2
  then show ?case using Cons(2) [of "i + 1"] by simp
  case 3
  then show ?case using Cons(3) [of "i + 1"] Cons(2) [of "i + 1"] by auto
qed simp_all

lemma precompile_range:
  assumes "length a = 20"
  shows "evmc_address_cmp a (u64_to_addr 1) \<ge> 0 \<and> evmc_address_cmp a (u64_to_addr 9) \<le> 0 \<longleftrightarrow> hd a = 0"
proof -
  obtain b bs where a: "a = b # bs" using assms by (cases a) auto
  have "\<exists>cs. take 20 (u64_to_addr v) = 0 # cs" for v
    by (simp add: u64_to_addr_def numeral_eq_Suc)
  then obtain c1 c9 where "take 20 (u64_to_addr 1) = 0 # c1" "take 20 (u64_to_addr 9) = 0 # c9" by meson
  then show ?thesis using a by (simp add: evmc_address_cmp_def word_less_nat_alt unat_eq_0)
qed

text \<open>
  When an account is warm: exactly when its address begins with a zero byte, or \<open>strcmp\<close>
  finds it equal to a recorded one. The test for the precompiled contracts, the addresses 1 to 9,
  takes in every address with a leading zero byte.
\<close>

theorem access_account_status:
  assumes "length a = 20"
  shows "snd (access_account h a) = EVMC_ACCESS_WARM \<longleftrightarrow>
           hd a = 0 \<or> (\<exists>b \<in> set (recorded_account_accesses h). address_eq a b)"
  using precompile_range [OF assms] cvec_find_bound(3) [of address_eq "recorded_account_accesses h" a 0]
  by (auto simp: access_account_def Let_def)

theorem access_account_status_witness:
  "snd (access_account (MockedHost_init zero_host) (0 # replicate 19 7)) = EVMC_ACCESS_WARM \<and>
   snd (access_account (MockedHost_init zero_host) (replicate 20 7)) = EVMC_ACCESS_COLD"
  using access_account_status [of "0 # replicate 19 7" "MockedHost_init zero_host"]
    access_account_status [of "replicate 20 7" "MockedHost_init zero_host"]
  by (cases "snd (access_account (MockedHost_init zero_host) (replicate 20 7))")
    (simp_all add: MockedHost_init_def)

end
