(* ===== verification/Exec_State.thy ===== *)
theory Exec_State
  imports Host
begin

text \<open>
  The state of an execution, src/tscvee/ta/include/execution_state.h, with the view of the stack of
  instructions.h: the EVM memory that grows in pages, the stack space of 1024 slots, and the record
  \<open>ExecutionState\<close>. A pointer into the stack space is the index of the slot, an integer, so that
  the bottom below the first slot is -1; reading or writing a slot outside is undefined. Bytes that
  \<open>TEE_Realloc\<close> adds have no defined value; the model takes zeros, and no operation reads them
  before \<open>Memory_grow\<close> has cleared them. An allocation does not fail in the model.
\<close>

section \<open>Memory\<close>

record Memory =
  page_size :: nat
  m_data :: "u8 list"
  m_size :: nat
  m_capacity :: nat

definition Memory_allocate_capacity :: "Memory \<Rightarrow> Memory" where
  "Memory_allocate_capacity m =
     m\<lparr>m_data := take (m_capacity m) (m_data m) @ replicate (m_capacity m - length (m_data m)) 0\<rparr>"

definition Memory_init :: Memory where
  "Memory_init = Memory_allocate_capacity
     \<lparr>page_size = 4 * 1024, m_data = [], m_size = 0, m_capacity = 4 * 1024\<rparr>"

text \<open>Reading and writing through \<open>Memory_get\<close>, a pointer into the allocated bytes.\<close>

definition mem_read :: "Memory \<Rightarrow> nat \<Rightarrow> nat \<Rightarrow> u8 list outcome" where
  "mem_read m p n = (if n = 0 then Inr [] else if p + n \<le> length (m_data m) then Inr (slice p n (m_data m))
     else Inl Out_of_bounds)"

definition mem_write :: "Memory \<Rightarrow> nat \<Rightarrow> u8 list \<Rightarrow> Memory outcome" where
  "mem_write m p bs = (if bs = [] then Inr m
     else if p + length bs \<le> length (m_data m) then Inr (m\<lparr>m_data := overwrite p bs (m_data m)\<rparr>)
     else Inl Out_of_bounds)"

definition Memory_grow :: "Memory \<Rightarrow> nat \<Rightarrow> Memory outcome" where
  "Memory_grow m new_size =
     bind_o (guard_o Assertion_failed (new_size mod 32 = 0)) (\<lambda>_.
     bind_o (guard_o Assertion_failed (new_size > m_size m)) (\<lambda>_.
     let m = (if new_size > m_capacity m then
                let m = m\<lparr>m_capacity := m_capacity m * 2\<rparr>;
                    m = (if m_capacity m < new_size
                         then m\<lparr>m_capacity := (new_size + (page_size m - 1)) div page_size m * page_size m\<rparr>
                         else m)
                in Memory_allocate_capacity m
              else m)
     in bind_o (mem_write m (m_size m) (replicate (new_size - m_size m) 0)) (\<lambda>m.
        Inr (m\<lparr>m_size := new_size\<rparr>))))"

definition Memory_clear :: "Memory \<Rightarrow> Memory" where
  "Memory_clear m = m\<lparr>m_size := 0\<rparr>"

section \<open>The execution state\<close>

text \<open>The size of a view is an \<open>int\<close>; the size it is given is converted.\<close>

record bytes_view =
  bv_data :: "u8 list"
  bv_size :: int

definition bytes_view_init_v :: "u8 list \<Rightarrow> nat \<Rightarrow> bytes_view" where
  "bytes_view_init_v byte sz = \<lparr>bv_data = byte, bv_size = signed_take_bit 31 (int sz)\<rparr>"

record ExecutionState =
  gas_left :: int
  memory :: Memory
  msg :: evmc_message
  host_ctx :: MockedHost
  rev :: evmc_revision
  return_data :: "u8 list option"
  code :: bytes_view
  status :: evmc_status_code
  output_offset :: nat
  output_size :: nat
  m_tx :: evmc_tx_context
  stack_space :: "uint256_t list"

definition StackSpace_bottom :: int where
  "StackSpace_bottom = - 1"

text \<open>The state in zeroed memory, as \<open>execute\<close> allocates it.\<close>

definition ExecutionState_init_v ::
  "ExecutionState \<Rightarrow> evmc_message \<Rightarrow> evmc_revision \<Rightarrow> MockedHost \<Rightarrow> u8 list \<Rightarrow> nat \<Rightarrow> ExecutionState" where
  "ExecutionState_init_v s message revision host code_data code_size = s\<lparr>
     gas_left := gas_limit message, memory := Memory_init, msg := message, host_ctx := host,
     rev := revision, return_data := None, code := bytes_view_init_v code_data code_size,
     status := EVMC_SUCCESS, output_offset := 0, output_size := 0\<rparr>"

text \<open>
  \<open>ExecutionState_reset\<close> initialises the host it is given, not the copy in the state, and clears
  the transaction context by value, which has no effect.
\<close>

definition ExecutionState_reset ::
  "ExecutionState \<Rightarrow> evmc_message \<Rightarrow> evmc_revision \<Rightarrow> MockedHost \<Rightarrow> u8 list \<Rightarrow> nat \<Rightarrow> ExecutionState \<times> MockedHost" where
  "ExecutionState_reset s message revision host code_data code_size = (s\<lparr>
     gas_left := gas_limit message, memory := Memory_clear (memory s), msg := message,
     rev := revision, return_data := None, code := bytes_view_init_v code_data code_size,
     status := EVMC_SUCCESS, output_offset := 0, output_size := 0,
     m_tx := evmcContext_init (m_tx s)\<rparr>, MockedHost_init host)"

definition ExecutionState_in_static_mode :: "ExecutionState \<Rightarrow> bool" where
  "ExecutionState_in_static_mode s \<longleftrightarrow> flags (msg s) AND of_bool (EVMC_STATIC \<noteq> 0) \<noteq> 0"

definition ExecutionState_get_tx_context :: "ExecutionState \<Rightarrow> ExecutionState \<times> evmc_tx_context" where
  "ExecutionState_get_tx_context s =
     (let s = (if block_timestamp (m_tx s) = 0 then s\<lparr>m_tx := get_tx_context (host_ctx s)\<rparr> else s)
      in (s, m_tx s))"

section \<open>The view of the stack\<close>

definition StackTop_get :: "int \<Rightarrow> int \<Rightarrow> int" where
  "StackTop_get st index = st - index"

definition StackTop_pop :: "int \<Rightarrow> int \<times> int" where
  "StackTop_pop st = (st, st - 1)"

definition load :: "ExecutionState \<Rightarrow> int \<Rightarrow> uint256_t outcome" where
  "load s p = (if 0 \<le> p then read_at (stack_space s) (nat p) else Inl Out_of_bounds)"

definition store_slot :: "ExecutionState \<Rightarrow> int \<Rightarrow> uint256_t \<Rightarrow> ExecutionState outcome" where
  "store_slot s p v =
     (if 0 \<le> p then bind_o (write_at (stack_space s) (nat p) v) (\<lambda>sp. Inr (s\<lparr>stack_space := sp\<rparr>))
      else Inl Out_of_bounds)"

definition StackTop_push :: "int \<Rightarrow> uint256_t \<Rightarrow> ExecutionState \<Rightarrow> ExecutionState outcome" where
  "StackTop_push st v s = store_slot s (st + 1) v"

section \<open>Gas and memory checks\<close>

text \<open>\<open>(state->gas_left -= cost) < 0\<close>: the state with the gas taken, and whether it was enough.\<close>

definition charge :: "int \<Rightarrow> ExecutionState \<Rightarrow> (ExecutionState \<times> bool) outcome" where
  "charge cost s = bind_o (int64 (gas_left s - cost)) (\<lambda>g. Inr (s\<lparr>gas_left := g\<rparr>, 0 \<le> g))"

definition max_buffer_size :: nat where
  "max_buffer_size = 2 ^ 32 - 1"

definition word_size :: nat where
  "word_size = 32"

definition num_words :: "nat \<Rightarrow> int" where
  "num_words size_in_bytes = int ((size_in_bytes + (word_size - 1)) mod 2 ^ 64 div word_size)"

definition memory_cost :: "int \<Rightarrow> int outcome" where
  "memory_cost w = bind_o (int64 (w * w)) (\<lambda>sq. int64 (3 * w + sq div 512))"

definition grow_memory :: "ExecutionState \<Rightarrow> nat \<Rightarrow> (ExecutionState \<times> bool) outcome" where
  "grow_memory s new_size =
     (let new_words = num_words new_size; current_words = int (m_size (memory s) div word_size)
      in bind_o (memory_cost new_words) (\<lambda>new_cost.
         bind_o (memory_cost current_words) (\<lambda>current_cost.
         bind_o (charge (new_cost - current_cost) s) (\<lambda>(s, ok).
         if \<not> ok then Inr (s, False)
         else bind_o (Memory_grow (memory s) (nat new_words * word_size)) (\<lambda>m.
              Inr (s\<lparr>memory := m\<rparr>, True))))))"

definition low :: "uint256_t \<Rightarrow> nat" where
  "low x = unat (lower128 (lower256 x))"

definition fits_64 :: "uint256_t \<Rightarrow> bool" where
  "fits_64 x \<longleftrightarrow> upper128 (upper256 x) OR upper128 (lower256 x) OR lower128 (upper256 x) = 0"

definition check_memory_u64 :: "ExecutionState \<Rightarrow> uint256_t \<Rightarrow> nat \<Rightarrow> (ExecutionState \<times> bool) outcome" where
  "check_memory_u64 s offset sz =
     (if \<not> fits_64 offset \<or> low offset > max_buffer_size then Inr (s, False)
      else let new_size = (low offset + sz) mod 2 ^ 64
           in if new_size > m_size (memory s) then grow_memory s new_size else Inr (s, True))"

definition check_memory_u256 :: "ExecutionState \<Rightarrow> uint256_t \<Rightarrow> uint256_t \<Rightarrow> (ExecutionState \<times> bool) outcome" where
  "check_memory_u256 s offset sz =
     (if zero256 sz then Inr (s, True)
      else if \<not> fits_64 offset \<or> low offset > max_buffer_size then Inr (s, False)
      else check_memory_u64 s offset (low sz))"

section \<open>Laws of the memory\<close>

definition memory_inv :: "Memory \<Rightarrow> bool" where
  "memory_inv m \<longleftrightarrow> page_size m = 4096 \<and> length (m_data m) = m_capacity m \<and> m_size m \<le> m_capacity m \<and>
     m_size m mod 32 = 0"

lemma Memory_init_inv: "memory_inv Memory_init" "m_size Memory_init = 0"
  by (simp_all add: memory_inv_def Memory_init_def Memory_allocate_capacity_def)

lemma round_up: "0 < p \<Longrightarrow> n \<le> (n + (p - 1)) div p * (p :: nat)"
proof -
  assume p: "0 < p"
  have "(n + (p - 1)) div p * p + (n + (p - 1)) mod p = n + (p - 1)" by simp
  moreover have "(n + (p - 1)) mod p \<le> p - 1" using p by (simp add: Suc_leI less_Suc_eq_le [symmetric])
  ultimately show ?thesis by linarith
qed

text \<open>Growing: the old bytes stay, the new ones are zero, and the allocation covers the size.\<close>

lemma Memory_grow_law:
  assumes m: "memory_inv m" and n: "n mod 32 = 0" "m_size m < n"
  shows "\<exists>m'. Memory_grow m n = Inr m' \<and> memory_inv m' \<and> m_size m' = n \<and>
           take n (m_data m') = take (m_size m) (m_data m) @ replicate (n - m_size m) 0"
proof -
  let ?c = "if n > m_capacity m then (if m_capacity m * 2 < n then (n + 4095) div 4096 * 4096 else m_capacity m * 2)
            else m_capacity m"
  let ?d = "m_data m @ replicate (?c - length (m_data m)) 0"
  let ?m = "m\<lparr>m_capacity := ?c, m_data := ?d\<rparr>"
  let ?g = "(if n > m_capacity m then
                let m = m\<lparr>m_capacity := m_capacity m * 2\<rparr>;
                    m = (if m_capacity m < n
                         then m\<lparr>m_capacity := (n + (page_size m - 1)) div page_size m * page_size m\<rparr>
                         else m)
                in Memory_allocate_capacity m
              else m)"
  have c: "n \<le> ?c" "m_capacity m \<le> ?c" using round_up [of 4096 n] by auto
  have len: "length (m_data m) = m_capacity m" "page_size m = 4096" "m_size m \<le> m_capacity m"
    using m by (auto simp: memory_inv_def)
  then have g: "?g = ?m"
    using c(2) by (auto simp: Let_def Memory_allocate_capacity_def)
  have len': "length ?d = ?c" using c(2) len by simp
  let ?z = "replicate (n - m_size m) (0 :: u8)"
  have fits: "m_size m + length ?z \<le> length ?d" unfolding len' using c n by simp
  have w: "mem_write ?m (m_size m) ?z = Inr (?m\<lparr>m_data := overwrite (m_size m) ?z ?d\<rparr>)"
    using fits n(2) by (simp add: mem_write_def)
  have grow: "Memory_grow m n = Inr (?m\<lparr>m_data := overwrite (m_size m) ?z ?d, m_size := n\<rparr>)"
    unfolding Memory_grow_def Let_def [of ?g] g using n w by simp
  have "take n (overwrite (m_size m) ?z ?d) = take (m_size m) (m_data m) @ ?z"
    using n(2) len by (simp add: overwrite_def)
  moreover have "memory_inv (?m\<lparr>m_data := overwrite (m_size m) ?z ?d, m_size := n\<rparr>)"
    using length_overwrite [OF fits] len' c(1) len(2) n(1) by (simp add: memory_inv_def)
  ultimately show ?thesis using grow by auto
qed

section \<open>Laws of the gas and memory checks\<close>

text \<open>The gas of the yellow paper for a memory of \<open>w\<close> words, and the price of an extension.\<close>

definition mem_gas :: "nat \<Rightarrow> int" where
  "mem_gas w = 3 * int w + int w * int w div 512"

definition words :: "nat \<Rightarrow> nat" where
  "words n = (n + 31) div 32"

definition extension_gas :: "ExecutionState \<Rightarrow> nat \<Rightarrow> int" where
  "extension_gas s n = (if m_size (memory s) < n then mem_gas (words n) - mem_gas (m_size (memory s) div 32) else 0)"

text \<open>A memory extended to hold \<open>n\<close> bytes.\<close>

definition extended :: "Memory \<Rightarrow> nat \<Rightarrow> Memory \<Rightarrow> bool" where
  "extended m n m' \<longleftrightarrow> memory_inv m' \<and> n \<le> m_size m' \<and> m_size m' = max (m_size m) (32 * words n) \<and>
     take (m_size m') (m_data m') = take (m_size m) (m_data m) @ replicate (m_size m' - m_size m) 0"

lemma num_words_small: "n < 2 ^ 63 \<Longrightarrow> num_words n = int (words n)"
  by (simp add: num_words_def words_def word_size_def)

lemma square_bound: "w < 2 ^ 30 \<Longrightarrow> int w * int w < 2 ^ 60"
proof -
  assume "w < 2 ^ 30"
  then have "int w < 2 ^ 30" by simp
  then have "int w * int w < 2 ^ 30 * 2 ^ 30" by (intro mult_strict_mono) auto
  then show ?thesis by simp
qed

lemma memory_cost_small: "w < 2 ^ 30 \<Longrightarrow> memory_cost (int w) = Inr (mem_gas w) \<and> 0 \<le> mem_gas w \<and> mem_gas w < 2 ^ 61"
proof -
  assume w: "w < 2 ^ 30"
  have sq: "0 \<le> int w * int w" "int w * int w < 2 ^ 60" using square_bound [OF w] by simp_all
  then have "0 \<le> int w * int w div 512" "int w * int w div 512 < 2 ^ 60"
    by (simp_all add: pos_imp_zdiv_nonneg_iff)
  moreover have "3 * int w < 2 ^ 32" using w by simp
  ultimately show ?thesis using sq by (simp add: memory_cost_def mem_gas_def)
qed

lemma charge_law:
  "- (2 ^ 62) \<le> gas_left s \<Longrightarrow> gas_left s < 2 ^ 63 \<Longrightarrow> 0 \<le> c \<Longrightarrow> c \<le> 2 ^ 62 \<Longrightarrow>
   charge c s = Inr (s\<lparr>gas_left := gas_left s - c\<rparr>, c \<le> gas_left s)"
  by (simp add: charge_def)

lemma mem_gas_mono: "v \<le> w \<Longrightarrow> mem_gas v \<le> mem_gas w"
proof -
  assume vw: "v \<le> w"
  then have "int v * int v \<le> int w * int w" by (intro mult_mono) simp_all
  then have "int v * int v div 512 \<le> int w * int w div 512" by (intro zdiv_mono1) simp_all
  then show ?thesis using vw by (simp add: mem_gas_def)
qed

lemma words_bounds: "n \<le> 32 * words n" "words (32 * v) = v"
  using round_up [of 32 n] by (simp_all add: words_def)

lemma grow_memory_law:
  assumes m: "memory_inv (memory s)" and n: "m_size (memory s) < n" "n < 2 ^ 34"
    and gas: "- (2 ^ 62) \<le> gas_left s" "gas_left s < 2 ^ 63"
  shows "\<exists>m'. extended (memory s) n m' \<and>
     grow_memory s n = Inr (if extension_gas s n \<le> gas_left s
       then (s\<lparr>gas_left := gas_left s - extension_gas s n, memory := m'\<rparr>, True)
       else (s\<lparr>gas_left := gas_left s - extension_gas s n\<rparr>, False))"
proof -
  let ?v = "m_size (memory s) div 32" and ?w = "words n"
  have v: "?v \<le> ?w" "?v < 2 ^ 30" "?w < 2 ^ 30" using n by (auto simp: words_def)
  have num: "num_words n = int ?w" using n(2) by (intro num_words_small) simp
  note cw = memory_cost_small [OF v(3)] and cv = memory_cost_small [OF v(2)]
  have ext: "extension_gas s n = mem_gas ?w - mem_gas ?v" using n(1) by (simp add: extension_gas_def)
  have "0 \<le> extension_gas s n" "extension_gas s n \<le> 2 ^ 62"
    using mem_gas_mono [OF v(1)] cw cv unfolding ext by simp_all
  note ch = charge_law [OF gas this]
  have lt: "m_size (memory s) < 32 * ?w" using n(1) words_bounds(1) [of n] by simp
  obtain m' where m': "Memory_grow (memory s) (32 * ?w) = Inr m'" "memory_inv m'" "m_size m' = 32 * ?w"
    "take (32 * ?w) (m_data m') = take (m_size (memory s)) (m_data (memory s)) @ replicate (32 * ?w - m_size (memory s)) 0"
    using Memory_grow_law [OF m _ lt] by auto
  have "extended (memory s) n m'"
    using m' lt words_bounds(1) [of n] by (simp add: extended_def)
  moreover have "grow_memory s n = Inr (if extension_gas s n \<le> gas_left s
       then (s\<lparr>gas_left := gas_left s - extension_gas s n, memory := m'\<rparr>, True)
       else (s\<lparr>gas_left := gas_left s - extension_gas s n\<rparr>, False))"
    using cw cv ch m'(1)
    by (simp add: grow_memory_def Let_def num word_size_def ext mult.commute)
  ultimately show ?thesis by blast
qed

text \<open>
  A check of a size that does not wrap around: either the offset is too large, or the gas does not
  cover the extension, or the memory holds the bytes afterwards.
\<close>

definition small_offset :: "uint256_t \<Rightarrow> bool" where
  "small_offset x \<longleftrightarrow> fits_64 x \<and> low x \<le> max_buffer_size"

definition extend_to :: "ExecutionState \<Rightarrow> nat \<Rightarrow> (ExecutionState \<times> bool) outcome \<Rightarrow> bool" where
  "extend_to s n r \<longleftrightarrow> (\<exists>m'. extended (memory s) n m' \<and>
     r = Inr (if extension_gas s n \<le> gas_left s
       then (s\<lparr>gas_left := gas_left s - extension_gas s n, memory := m'\<rparr>, True)
       else (s\<lparr>gas_left := gas_left s - extension_gas s n\<rparr>, False)))"

definition state_ok :: "ExecutionState \<Rightarrow> bool" where
  "state_ok s \<longleftrightarrow> memory_inv (memory s) \<and> 0 \<le> gas_left s \<and> gas_left s < 2 ^ 63"

lemma extended_refl: "memory_inv m \<Longrightarrow> n \<le> m_size m \<Longrightarrow> extended m n m"
proof -
  assume m: "memory_inv m" and n: "n \<le> m_size m"
  obtain v where v: "m_size m = 32 * v" using m by (auto simp: memory_inv_def)
  have "words n \<le> words (32 * v)" using n v unfolding words_def by (intro div_le_mono) simp
  then have "32 * words n \<le> m_size m" using v words_bounds(2) [of v] by simp
  then show ?thesis using m n by (simp add: extended_def)
qed

lemma check_memory_u64_law:
  assumes s: "state_ok s" and o: "small_offset x" and n: "n < 2 ^ 33"
  shows "extend_to s (low x + n) (check_memory_u64 s x n)"
proof -
  have lt: "low x + n < 2 ^ 34" using o n by (simp add: small_offset_def max_buffer_size_def)
  have m: "memory_inv (memory s)" "- (2 ^ 62) \<le> gas_left s" "gas_left s < 2 ^ 63"
    using s by (auto simp: state_ok_def)
  show ?thesis
  proof (cases "m_size (memory s) < low x + n")
    case True
    then have "check_memory_u64 s x n = grow_memory s (low x + n)"
      using o lt by (simp add: check_memory_u64_def small_offset_def)
    then show ?thesis using grow_memory_law [OF m(1) True lt m(2,3)] by (simp add: extend_to_def)
  next
    case False
    then have "check_memory_u64 s x n = Inr (s, True)"
      using o lt by (simp add: check_memory_u64_def small_offset_def)
    moreover have "extended (memory s) (low x + n) (memory s)"
      using False m(1) by (intro extended_refl) simp_all
    ultimately show ?thesis
      using False s by (auto simp: extend_to_def extension_gas_def state_ok_def intro!: exI [of _ "memory s"])
  qed
qed

lemma check_memory_u64_reject: "\<not> small_offset x \<Longrightarrow> check_memory_u64 s x n = Inr (s, False)"
  by (auto simp: check_memory_u64_def small_offset_def)

lemma check_memory_u256_cases:
  "check_memory_u256 s x n =
     (if val256 n = 0 then Inr (s, True) else if small_offset x then check_memory_u64 s x (low n) else Inr (s, False))"
  by (auto simp: check_memory_u256_def small_offset_def zero256_val)

lemma low_value: "low x = val256 x mod 2 ^ 64"
  by (simp add: low_def unat_limbs)

lemma fits_64_value: "fits_64 x \<longleftrightarrow> val256 x < 2 ^ 64"
proof -
  have "fits_64 x \<longleftrightarrow> unat (upper128 (upper256 x)) = 0 \<and> unat (upper128 (lower256 x)) = 0 \<and> unat (lower128 (upper256 x)) = 0"
    by (auto simp: fits_64_def unat_eq_0 or_eq_0_iff)
  also have "\<dots> \<longleftrightarrow> val256 x < 2 ^ 64"
  proof -
    have "val256 x = unat (upper128 (upper256 x)) * 2 ^ 192 + unat (lower128 (upper256 x)) * 2 ^ 128 +
        unat (upper128 (lower256 x)) * 2 ^ 64 + unat (lower128 (lower256 x))"
      by (simp add: val256_def val128_def)
    then show ?thesis using unat64_pow [of "lower128 (lower256 x)"] by auto
  qed
  finally show ?thesis .
qed

lemma small_offset_value: "small_offset x \<longleftrightarrow> val256 x < 2 ^ 32"
  by (auto simp: small_offset_def fits_64_value low_value max_buffer_size_def)

text \<open>
  Claim C13. The memory check charges the gas of the yellow paper. With a sound memory and an offset
  below 2^32, checking \<open>n\<close> bytes (fewer than 2^33) at the offset either charges the price of the
  extension and fails because the gas left is negative, or charges it and leaves a memory that holds
  all the bytes, in whole words, in which the old bytes are the same and the new ones are zero. With
  a larger offset it fails and changes nothing.
\<close>

theorem check_memory_spec:
  assumes "state_ok s" and "n < 2 ^ 33"
  shows "if val256 x < 2 ^ 32 then extend_to s (val256 x + n) (check_memory_u64 s x n)
         else check_memory_u64 s x n = Inr (s, False)"
proof (cases "small_offset x")
  case True
  then have "low x = val256 x" by (simp add: small_offset_value low_value)
  then show ?thesis
    using check_memory_u64_law [OF assms(1) True assms(2)] True by (simp add: small_offset_value)
qed (use check_memory_u64_reject in \<open>simp add: small_offset_value\<close>)

definition fresh_state :: "ExecutionState" where
  "fresh_state = \<lparr>gas_left = 0, memory = \<lparr>page_size = 0, m_data = [], m_size = 0, m_capacity = 0\<rparr>,
     msg = \<lparr>kind = EVMC_CALL, flags = 0, depth = 0, gas_limit = 0, recipient = replicate 20 0,
       sender = replicate 20 0, input_data = [], input_size = 0, call_value = replicate 32 0,
       create2_salt = replicate 32 0, code_address = replicate 20 0\<rparr>,
     host_ctx = zero_host, rev = EVMC_FRONTIER, return_data = None,
     code = \<lparr>bv_data = [], bv_size = 0\<rparr>, status = EVMC_SUCCESS, output_offset = 0, output_size = 0,
     m_tx = zero_tx_context, stack_space = replicate 1024 clear256\<rparr>"

definition start_state :: "int \<Rightarrow> ExecutionState" where
  "start_state gas = ExecutionState_init_v fresh_state (msg fresh_state\<lparr>gas_limit := gas\<rparr>) EVMC_LONDON
     (MockedHost_init zero_host) [] 0"

lemma start_state_simps [simp]:
  "gas_left (start_state gas) = gas" "memory (start_state gas) = Memory_init"
  "stack_space (start_state gas) = replicate 1024 clear256" "return_data (start_state gas) = None"
  by (simp_all add: start_state_def ExecutionState_init_v_def fresh_state_def)

lemma start_state_ok: "0 \<le> gas \<Longrightarrow> gas < 2 ^ 63 \<Longrightarrow> state_ok (start_state gas)"
  by (simp add: state_ok_def Memory_init_inv)

theorem check_memory_spec_witness:
  "\<exists>m'. m_size m' = 64 \<and>
     check_memory_u64 (start_state 100) (mk256 0 0 0 10) 32 = Inr ((start_state 100)\<lparr>gas_left := 94, memory := m'\<rparr>, True)"
proof -
  have v: "val256 (mk256 0 0 0 10) = 10" by (simp add: val256_mk256)
  have "extend_to (start_state 100) 42 (check_memory_u64 (start_state 100) (mk256 0 0 0 10) 32)"
    using check_memory_spec [of "start_state 100" 32 "mk256 0 0 0 10"] v start_state_ok [of 100] by simp
  then show ?thesis
    by (auto simp: extend_to_def extended_def extension_gas_def mem_gas_def words_def Memory_init_inv)
qed

text \<open>
  The sum of offset and size is taken modulo 2^64, and the size is not bounded: a size that makes the
  sum wrap around passes the check with the memory as it is and at no charge.
\<close>

lemma check_memory_wraps:
  assumes "val256 x < 2 ^ 32" and "0 < val256 x" and "val256 n = 2 ^ 64 - val256 x"
  shows "check_memory_u256 s x n = Inr (s, True)"
proof -
  have lt: "val256 n < 2 ^ 64" and pos: "0 < val256 n" using assms by simp_all
  have o: "small_offset x" using assms(1) by (simp add: small_offset_value)
  have "low n = val256 n" "low x = val256 x" using lt assms(1) by (simp_all add: low_value)
  then have "(low x + low n) mod 2 ^ 64 = 0" using assms by simp
  then show ?thesis
    using o pos by (simp add: check_memory_u256_cases check_memory_u64_def small_offset_def)
qed

end
