(* ===== verification/Keccak.thy ===== *)
theory Keccak
  imports Prelude
begin

text \<open>
  The permutation \<open>keccakf\<close> of src/tscvee/ta/src/sha3.c, on the list of its 25 lanes, and the
  step mappings of FIPS 202 section 3.2 as the reference. The loops that update \<open>s\<close> in place,
  the walk of \<open>rho\<close> and \<open>pi\<close> through one temporary above all, are shown to compute the mappings,
  and the table of round constants is the one the standard's shift register generates.
\<close>

section \<open>The code\<close>

definition SHA3_ROTL64 :: "u64 \<Rightarrow> nat \<Rightarrow> u64" where
  "SHA3_ROTL64 x y = push_bit y x OR drop_bit (64 - y) x"

definition keccakf_rndc :: "u64 list" where
  "keccakf_rndc =
    [0x0000000000000001, 0x0000000000008082,
     0x800000000000808a, 0x8000000080008000,
     0x000000000000808b, 0x0000000080000001,
     0x8000000080008081, 0x8000000000008009,
     0x000000000000008a, 0x0000000000000088,
     0x0000000080008009, 0x000000008000000a,
     0x000000008000808b, 0x800000000000008b,
     0x8000000000008089, 0x8000000000008003,
     0x8000000000008002, 0x8000000000000080,
     0x000000000000800a, 0x800000008000000a,
     0x8000000080008081, 0x8000000000008080,
     0x0000000080000001, 0x8000000080008008]"

definition keccakf_rotc :: "nat list" where
  "keccakf_rotc = [1, 3, 6, 10, 15, 21, 28, 36, 45, 55, 2, 14, 27, 41, 56, 8, 25, 43, 62,
    18, 39, 61, 20, 44]"

definition keccakf_piln :: "nat list" where
  "keccakf_piln = [10, 7, 11, 17, 18, 3, 5, 16, 8, 21, 24, 4, 15, 23, 19, 13, 12, 2, 20,
    14, 22, 9, 6, 1]"

definition keccak_theta :: "u64 list \<Rightarrow> u64 list" where
  "keccak_theta s =
     (let bc = map (\<lambda>i. s ! i XOR s ! (i + 5) XOR s ! (i + 10) XOR s ! (i + 15) XOR s ! (i + 20)) [0..<5]
      in fold (\<lambda>i s.
           let t = bc ! ((i + 4) mod 5) XOR SHA3_ROTL64 (bc ! ((i + 1) mod 5)) 1
           in fold (\<lambda>j s. s[j + i := s ! (j + i) XOR t]) [0, 5, 10, 15, 20] s) [0..<5] s)"

definition keccak_rho_pi :: "u64 list \<Rightarrow> u64 list" where
  "keccak_rho_pi s =
     snd (fold (\<lambda>i (t, s).
       let j = keccakf_piln ! i; bc0 = s ! j
       in (bc0, s[j := SHA3_ROTL64 t (keccakf_rotc ! i)])) [0..<24] (s ! 1, s))"

definition keccak_chi :: "u64 list \<Rightarrow> u64 list" where
  "keccak_chi s =
     fold (\<lambda>j s.
       let bc = map (\<lambda>i. s ! (j + i)) [0..<5]
       in fold (\<lambda>i s. s[j + i := s ! (j + i) XOR (NOT (bc ! ((i + 1) mod 5)) AND bc ! ((i + 2) mod 5))])
            [0..<5] s) [0, 5, 10, 15, 20] s"

definition keccak_round :: "nat \<Rightarrow> u64 list \<Rightarrow> u64 list" where
  "keccak_round r s =
     (let s = keccak_chi (keccak_rho_pi (keccak_theta s))
      in s[0 := s ! 0 XOR keccakf_rndc ! r])"

definition keccakf :: "u64 list \<Rightarrow> u64 list" where
  "keccakf s = fold keccak_round [0..<24] s"

section \<open>The step mappings of the standard\<close>

text \<open>
  A lane \<open>A[x, y]\<close> is element \<open>x + 5 * y\<close> of the list; \<open>lanes f\<close> is the state with lanes \<open>f x y\<close>.
\<close>

definition lane :: "u64 list \<Rightarrow> nat \<Rightarrow> nat \<Rightarrow> u64" where
  "lane s x y = s ! (x mod 5 + 5 * (y mod 5))"

definition lanes :: "(nat \<Rightarrow> nat \<Rightarrow> u64) \<Rightarrow> u64 list" where
  "lanes f = map (\<lambda>k. f (k mod 5) (k div 5)) [0..<25]"

definition rot :: "nat \<Rightarrow> u64 \<Rightarrow> u64" where
  "rot n w = word_rotl n w"

definition fips_theta :: "u64 list \<Rightarrow> u64 list" where
  "fips_theta s =
     (let C = (\<lambda>x. lane s x 0 XOR lane s x 1 XOR lane s x 2 XOR lane s x 3 XOR lane s x 4);
          D = (\<lambda>x. C (x + 4) XOR rot 1 (C (x + 1)))
      in lanes (\<lambda>x y. lane s x y XOR D x))"

text \<open>The offsets of \<open>rho\<close>: the walk from (1, 0), with (t + 1)(t + 2)/2 at step \<open>t\<close>.\<close>

fun rho_offset :: "nat \<Rightarrow> nat \<Rightarrow> nat \<Rightarrow> nat \<Rightarrow> nat \<Rightarrow> nat" where
  "rho_offset 0 x y u v = 0"
| "rho_offset (Suc n) x y u v =
     (if x = u \<and> y = v then let t = 23 - n in ((t + 1) * (t + 2) div 2) mod 64
      else rho_offset n x y v ((2 * u + 3 * v) mod 5))"

definition fips_rho :: "u64 list \<Rightarrow> u64 list" where
  "fips_rho s = lanes (\<lambda>x y. rot (rho_offset 24 x y 1 0) (lane s x y))"

definition fips_pi :: "u64 list \<Rightarrow> u64 list" where
  "fips_pi s = lanes (\<lambda>x y. lane s (x + 3 * y) x)"

definition fips_chi :: "u64 list \<Rightarrow> u64 list" where
  "fips_chi s = lanes (\<lambda>x y. lane s x y XOR (NOT (lane s (x + 1) y) AND lane s (x + 2) y))"

text \<open>
  The shift register of the round constants: bit 0 is its output, and bit \<open>2 ^ j - 1\<close> of the
  constant of a round is output \<open>j\<close> of the seven outputs the round takes.
\<close>

definition lfsr :: "bool list \<Rightarrow> bool list" where
  "lfsr R = [R ! 7, R ! 0, R ! 1, R ! 2, R ! 3 \<noteq> R ! 7, R ! 4 \<noteq> R ! 7, R ! 5 \<noteq> R ! 7, R ! 6]"

fun constant_bits :: "nat list \<Rightarrow> bool list \<Rightarrow> int" where
  "constant_bits [] R = 0"
| "constant_bits (j # js) R = (if hd R then 2 ^ (2 ^ j - 1) else 0) + constant_bits js (lfsr R)"

fun constants_from :: "nat list \<Rightarrow> bool list \<Rightarrow> int list" where
  "constants_from [] R = []"
| "constants_from (r # rs) R =
     constant_bits [0..<7] R # constants_from rs (fold (\<lambda>_. lfsr) [0..<7] R)"

definition round_constant :: "nat \<Rightarrow> u64" where
  "round_constant r =
     map word_of_int (constants_from [0..<24] [True, False, False, False, False, False, False, False]) ! r"

definition fips_iota :: "nat \<Rightarrow> u64 list \<Rightarrow> u64 list" where
  "fips_iota r s = s[0 := s ! 0 XOR round_constant r]"

definition fips_keccak_f :: "u64 list \<Rightarrow> u64 list" where
  "fips_keccak_f s =
     fold (\<lambda>r s. fips_iota r (fips_chi (fips_pi (fips_rho (fips_theta s))))) [0..<24] s"

section \<open>The code computes the step mappings\<close>

lemma rotl_rot:
  assumes "0 < n" and "n < 64"
  shows "SHA3_ROTL64 w n = rot n w"
  unfolding SHA3_ROTL64_def rot_def
proof (rule bit_word_eqI)
  fix m
  assume "m < LENGTH(64)"
  then have m: "m < 64" by simp
  have "bit (word_rotl n w) m \<longleftrightarrow> m < 64 \<and> bit w ((m + (64 - n mod 64)) mod 64)"
    using bit_word_rotl_iff [of n w m] unfolding len_num0 by simp
  moreover have "(m + (64 - n mod 64)) mod 64 = (if n \<le> m then m - n else m + 64 - n)"
    using assms m by (auto simp: mod_if)
  moreover have "\<not> bit w (64 - n + m)" if "n \<le> m"
    using that assms bit_imp_le_length [of w "64 - n + m"] by auto
  moreover have "m + 64 - n = 64 - n + m" using assms by simp
  ultimately show "bit (push_bit n w OR drop_bit (64 - n) w) m \<longleftrightarrow> bit (word_rotl n w) m"
    using m by (auto simp: bit_or_iff bit_push_bit_iff bit_drop_bit_eq)
qed

lemma upt_5: "[0..<5] = [0, 1, 2, 3, 4]"
  by (simp add: upt_rec)

lemma upt_24: "[0..<24] = [0, 1, 2, 3, 4, 5, 6, 7, 8, 9, 10, 11, 12, 13, 14, 15, 16, 17, 18, 19, 20, 21, 22, 23]"
  by (simp add: upt_rec)

lemma upt_25: "[0..<25] = [0, 1, 2, 3, 4, 5, 6, 7, 8, 9, 10, 11, 12, 13, 14, 15, 16, 17, 18, 19, 20, 21, 22, 23, 24]"
  by (simp add: upt_rec)

lemma lanes_25:
  assumes "length s = 25"
  obtains s0 s1 s2 s3 s4 s5 s6 s7 s8 s9 s10 s11 s12 s13 s14 s15 s16 s17 s18 s19 s20 s21 s22 s23 s24
  where "s = [s0, s1, s2, s3, s4, s5, s6, s7, s8, s9, s10, s11, s12, s13, s14, s15, s16, s17, s18, s19, s20, s21, s22, s23, s24]"
  using that map_nth [of s] assms unfolding assms upt_25 list.map by metis

lemma keccak_chi_fips:
  assumes "length s = 25"
  shows "keccak_chi s = fips_chi s"
  by (rule lanes_25 [OF assms]) (simp add: keccak_chi_def fips_chi_def lanes_def lane_def upt_5 upt_25)

lemma theta_columns:
  assumes "length s = 25"
  shows "fold (\<lambda>i s. fold (\<lambda>j s. s[j + i := s ! (j + i) XOR T i]) [0, 5, 10, 15, 20] s) [0..<5] s =
    lanes (\<lambda>x y. lane s x y XOR T x)"
  by (rule lanes_25 [OF assms]) (simp add: lanes_def lane_def upt_5 upt_25)

lemma keccak_theta_fips:
  assumes "length s = 25"
  shows "keccak_theta s = fips_theta s"
proof -
  let ?C = "\<lambda>x. lane s x 0 XOR lane s x 1 XOR lane s x 2 XOR lane s x 3 XOR lane s x 4"
  let ?bc = "map (\<lambda>i. s ! i XOR s ! (i + 5) XOR s ! (i + 10) XOR s ! (i + 15) XOR s ! (i + 20)) [0..<5]"
  have bc: "?bc ! (i mod 5) = ?C i" for i
    by (simp add: lane_def)
  have "keccak_theta s = lanes (\<lambda>x y. lane s x y XOR (?bc ! ((x + 4) mod 5) XOR SHA3_ROTL64 (?bc ! ((x + 1) mod 5)) 1))"
    unfolding keccak_theta_def Let_def by (rule theta_columns [OF assms])
  then show ?thesis
    unfolding bc fips_theta_def Let_def by (simp add: rotl_rot)
qed

lemma rho_offset_values:
  "rho_offset 24 0 0 (Suc 0) 0 = 0"
  "rho_offset 24 (Suc 0) 0 (Suc 0) 0 = Suc 0"
  "rho_offset 24 2 0 (Suc 0) 0 = 62"
  "rho_offset 24 3 0 (Suc 0) 0 = 28"
  "rho_offset 24 4 0 (Suc 0) 0 = 27"
  "rho_offset 24 0 (Suc 0) (Suc 0) 0 = 36"
  "rho_offset 24 (Suc 0) (Suc 0) (Suc 0) 0 = 44"
  "rho_offset 24 2 (Suc 0) (Suc 0) 0 = 6"
  "rho_offset 24 3 (Suc 0) (Suc 0) 0 = 55"
  "rho_offset 24 4 (Suc 0) (Suc 0) 0 = 20"
  "rho_offset 24 0 2 (Suc 0) 0 = 3"
  "rho_offset 24 (Suc 0) 2 (Suc 0) 0 = 10"
  "rho_offset 24 2 2 (Suc 0) 0 = 43"
  "rho_offset 24 3 2 (Suc 0) 0 = 25"
  "rho_offset 24 4 2 (Suc 0) 0 = 39"
  "rho_offset 24 0 3 (Suc 0) 0 = 41"
  "rho_offset 24 (Suc 0) 3 (Suc 0) 0 = 45"
  "rho_offset 24 2 3 (Suc 0) 0 = 15"
  "rho_offset 24 3 3 (Suc 0) 0 = 21"
  "rho_offset 24 4 3 (Suc 0) 0 = 8"
  "rho_offset 24 0 4 (Suc 0) 0 = 18"
  "rho_offset 24 (Suc 0) 4 (Suc 0) 0 = 2"
  "rho_offset 24 2 4 (Suc 0) 0 = 61"
  "rho_offset 24 3 4 (Suc 0) 0 = 56"
  "rho_offset 24 4 4 (Suc 0) 0 = 14"
  by code_simp+

lemma rot_0 [simp]: "rot 0 w = w"
  unfolding rot_def by (rule bit_word_eqI) (simp add: bit_word_rotl_iff)

lemma keccak_rho_pi_fips:
  assumes "length s = 25"
  shows "keccak_rho_pi s = fips_pi (fips_rho s)"
  by (rule lanes_25 [OF assms])
    (simp add: keccak_rho_pi_def fips_pi_def fips_rho_def lanes_def lane_def upt_24 upt_25
      keccakf_piln_def keccakf_rotc_def rotl_rot rho_offset_values)

lemma upt_7: "[0..<7] = [0, 1, 2, 3, 4, 5, 6]"
  by (simp add: upt_rec)

lemma round_constants:
  "constants_from [0..<24] [True, False, False, False, False, False, False, False] =
    [0x0000000000000001, 0x0000000000008082,
     0x800000000000808a, 0x8000000080008000,
     0x000000000000808b, 0x0000000080000001,
     0x8000000080008081, 0x8000000000008009,
     0x000000000000008a, 0x0000000000000088,
     0x0000000080008009, 0x000000008000000a,
     0x000000008000808b, 0x800000000000008b,
     0x8000000000008089, 0x8000000000008003,
     0x8000000000008002, 0x8000000000000080,
     0x000000000000800a, 0x800000008000000a,
     0x8000000080008081, 0x8000000000008080,
     0x0000000080000001, 0x8000000080008008]"
  by (simp add: upt_24 upt_7 lfsr_def)

lemma round_constant_table: "keccakf_rndc ! r = round_constant r"
  by (simp add: round_constant_def round_constants keccakf_rndc_def)

lemma length_lanes [simp]: "length (lanes f) = 25"
  by (simp add: lanes_def)

lemma keccak_round_fips:
  assumes "length s = 25"
  shows "keccak_round r s = fips_iota r (fips_chi (fips_pi (fips_rho (fips_theta s))))"
proof -
  have "length (fips_theta s) = 25" and "length (fips_pi t) = 25" for t
    by (simp_all add: fips_theta_def fips_pi_def Let_def)
  then have "keccak_chi (keccak_rho_pi (keccak_theta s)) = fips_chi (fips_pi (fips_rho (fips_theta s)))"
    using assms by (simp add: keccak_theta_fips keccak_rho_pi_fips keccak_chi_fips)
  then show ?thesis
    by (simp add: keccak_round_def fips_iota_def round_constant_table Let_def)
qed

lemma length_fips_round: "length (fips_iota r (fips_chi s)) = 25"
  by (simp add: fips_iota_def fips_chi_def)

lemma fold_cong_inv:
  assumes "P s" and "\<And>x s. x \<in> set xs \<Longrightarrow> P s \<Longrightarrow> f x s = g x s \<and> P (g x s)"
  shows "fold f xs s = fold g xs s \<and> P (fold g xs s)"
  using assms by (induction xs arbitrary: s) auto

lemma keccakf_fips_length:
  assumes "length s = 25"
  shows "keccakf s = fips_keccak_f s \<and> length (fips_keccak_f s) = 25"
  unfolding keccakf_def fips_keccak_f_def
proof (rule fold_cong_inv [where P = "\<lambda>s. length s = 25"])
  fix r and t :: "u64 list"
  assume "r \<in> set [0..<24]" and "length t = 25"
  then show "keccak_round r t = fips_iota r (fips_chi (fips_pi (fips_rho (fips_theta t)))) \<and>
      length (fips_iota r (fips_chi (fips_pi (fips_rho (fips_theta t))))) = 25"
    by (simp add: keccak_round_fips length_fips_round)
qed (rule assms)

lemma keccakf_fips: "length s = 25 \<Longrightarrow> keccakf s = fips_keccak_f s"
  using keccakf_fips_length by blast

lemma length_keccakf [simp]: "length s = 25 \<Longrightarrow> length (keccakf s) = 25"
  using keccakf_fips_length [of s] by simp

section \<open>Properties\<close>

text \<open>
  Claim C8. The permutation of sha3.c is Keccak-f[1600] of FIPS 202: its in-place loops compute
  the composition of the standard's step mappings in all 24 rounds, on every state.
\<close>

theorem keccakf_standard:
  assumes "length s = 25"
  shows "keccakf s = fips_keccak_f s"
  by (rule keccakf_fips [OF assms])

lemma keccakf_standard_witness: "keccakf (replicate 25 0) = fips_keccak_f (replicate 25 0)"
  by (rule keccakf_standard) simp

end
