(* ===== verification/Sha3.thy ===== *)
theory Sha3
  imports Keccak Bytes
begin

text \<open>
  The incremental hash of src/tscvee/ta/src/sha3.c. A context keeps the lanes of the sponge, the
  bytes of an unfinished word in \<open>saved\<close> and the position \<open>(wordIndex, byteIndex)\<close>. The
  reference is the sponge of FIPS 202 on the whole message: pad, absorb block by block with the
  standard's permutation, output the first bytes. The lemmas show that feeding a message in any
  pieces and finishing computes the reference hash, with the domain bits of SHA-3 or, when the
  Keccak flag is set, with those of the original Keccak that the EVM uses.
\<close>

section \<open>The code\<close>

record sha3_context =
  saved :: u64
  lanes_of :: "u64 list"
  byteIndex :: nat
  wordIndex :: nat
  capacityWords :: u32

datatype sha3_return_t = SHA3_RETURN_OK | SHA3_RETURN_BAD_PARAMS

definition SHA3_USE_KECCAK_FLAG :: u32 where
  "SHA3_USE_KECCAK_FLAG = 0x80000000"

definition SHA3_CW :: "u32 \<Rightarrow> u32" where
  "SHA3_CW x = x AND NOT SHA3_USE_KECCAK_FLAG"

definition sha3_Init :: "u32 \<Rightarrow> sha3_context option" where
  "sha3_Init bitSize =
     (if bitSize \<noteq> 256 \<and> bitSize \<noteq> 384 \<and> bitSize \<noteq> 512 then None
      else Some \<lparr>saved = 0, lanes_of = replicate 25 0, byteIndex = 0, wordIndex = 0,
                 capacityWords = 2 * bitSize div (8 * 8)\<rparr>)"

definition sha3_Init256 :: "sha3_context option" where
  "sha3_Init256 = sha3_Init 256"

definition sha3_Init384 :: "sha3_context option" where
  "sha3_Init384 = sha3_Init 384"

definition sha3_Init512 :: "sha3_context option" where
  "sha3_Init512 = sha3_Init 512"

definition sha3_SetFlags :: "u32 \<Rightarrow> sha3_context \<Rightarrow> u32 \<times> sha3_context" where
  "sha3_SetFlags flags ctx =
     (let flags = flags AND 1
      in (flags, ctx\<lparr>capacityWords := capacityWords ctx OR (if flags = 1 then SHA3_USE_KECCAK_FLAG else 0)\<rparr>))"

definition rate_words :: "sha3_context \<Rightarrow> nat" where
  "rate_words ctx = 25 - unat (SHA3_CW (capacityWords ctx))"

text \<open>\<open>ctx->saved |= (uint64_t) (*(buf++)) << ((ctx->byteIndex++) * 8)\<close>.\<close>

definition save_byte :: "u8 \<Rightarrow> sha3_context \<Rightarrow> sha3_context" where
  "save_byte b ctx =
     ctx\<lparr>saved := saved ctx OR push_bit (byteIndex ctx * 8) (ucast b), byteIndex := byteIndex ctx + 1\<rparr>"

text \<open>A word is xored into the sponge, which is permuted when the rate is full.\<close>

definition absorb_word :: "u64 \<Rightarrow> sha3_context \<Rightarrow> sha3_context" where
  "absorb_word t ctx =
     (let s = (lanes_of ctx)[wordIndex ctx := lanes_of ctx ! wordIndex ctx XOR t];
          w = wordIndex ctx + 1
      in if w = rate_words ctx then ctx\<lparr>lanes_of := keccakf s, wordIndex := 0\<rparr>
         else ctx\<lparr>lanes_of := s, wordIndex := w\<rparr>)"

definition load_word :: "u8 list \<Rightarrow> u64" where
  "load_word buf =
     ucast (buf ! 0) OR push_bit (8 * 1) (ucast (buf ! 1)) OR push_bit (8 * 2) (ucast (buf ! 2)) OR
     push_bit (8 * 3) (ucast (buf ! 3)) OR push_bit (8 * 4) (ucast (buf ! 4)) OR
     push_bit (8 * 5) (ucast (buf ! 5)) OR push_bit (8 * 6) (ucast (buf ! 6)) OR
     push_bit (8 * 7) (ucast (buf ! 7))"

fun absorb_words :: "nat \<Rightarrow> u8 list \<Rightarrow> sha3_context \<Rightarrow> sha3_context" where
  "absorb_words 0 buf ctx = ctx"
| "absorb_words (Suc n) buf ctx = absorb_words n (drop 8 buf) (absorb_word (load_word buf) ctx)"

text \<open>\<open>buf\<close> is the \<open>len\<close> bytes at \<open>bufIn\<close>.\<close>

definition sha3_Update :: "u8 list \<Rightarrow> sha3_context \<Rightarrow> sha3_context" where
  "sha3_Update buf ctx =
     (let old_tail = (8 - byteIndex ctx) mod 8
      in if length buf < old_tail then fold save_byte buf ctx
         else
           let ctx = (if old_tail \<noteq> 0
                      then let ctx = fold save_byte (take old_tail buf) ctx
                           in absorb_word (saved ctx) (ctx\<lparr>byteIndex := 0, saved := 0\<rparr>)
                      else ctx);
               buf = drop old_tail buf;
               words = length buf div 8
           in fold save_byte (drop (words * 8) buf) (absorb_words words buf ctx))"

definition store_word :: "u64 \<Rightarrow> u8 list" where
  "store_word w =
     (let t1 = ucast w :: u32; t2 = ucast (drop_bit 16 (drop_bit 16 w)) :: u32
      in [ucast t1, ucast (drop_bit 8 t1), ucast (drop_bit 16 t1), ucast (drop_bit 24 t1),
          ucast t2, ucast (drop_bit 8 t2), ucast (drop_bit 16 t2), ucast (drop_bit 24 t2)])"

text \<open>
  The result is the context and the bytes \<open>ctx->u.sb\<close>, which on the little-endian target are the
  lanes themselves.
\<close>

definition sha3_Finalize :: "sha3_context \<Rightarrow> sha3_context \<times> u8 list" where
  "sha3_Finalize ctx =
     (let t = (if capacityWords ctx AND SHA3_USE_KECCAK_FLAG \<noteq> 0
               then push_bit (byteIndex ctx * 8) 1
               else push_bit (byteIndex ctx * 8) (0x02 OR push_bit 2 1));
          s = (lanes_of ctx)[wordIndex ctx := lanes_of ctx ! wordIndex ctx XOR (saved ctx XOR t)];
          l = rate_words ctx - 1;
          s = s[l := s ! l XOR 0x8000000000000000];
          s = keccakf s
      in (ctx\<lparr>lanes_of := s\<rparr>, concat (map store_word s)))"

definition sha3_HashBuffer ::
  "u32 \<Rightarrow> u32 \<Rightarrow> u8 list \<Rightarrow> nat \<Rightarrow> u8 list \<Rightarrow> nat \<Rightarrow> (sha3_return_t \<times> u8 list) outcome" where
  "sha3_HashBuffer bitSize flags inp inBytes out outBytes =
     (case sha3_Init bitSize of None \<Rightarrow> Inr (SHA3_RETURN_BAD_PARAMS, out)
      | Some c \<Rightarrow>
          let (f, c) = sha3_SetFlags flags c
          in if f \<noteq> flags then Inr (SHA3_RETURN_BAD_PARAMS, out)
             else bind_o (guard_o Out_of_bounds (inBytes \<le> length inp)) (\<lambda>_.
               let c = sha3_Update (take inBytes inp) c;
                   h = snd (sha3_Finalize c);
                   n = (if outBytes > unat (bitSize div 8) then unat (bitSize div 8) else outBytes)
               in bind_o (guard_o Out_of_bounds (n \<le> length out)) (\<lambda>_.
                  Inr (SHA3_RETURN_OK, overwrite 0 (take n h) out))))"

section \<open>The sponge of the standard\<close>

definition le_word :: "u8 list \<Rightarrow> u64" where
  "le_word bs = foldr (\<lambda>b w. push_bit 8 w OR ucast b) bs 0"

function words_of :: "u8 list \<Rightarrow> u64 list" where
  "words_of bs = (if bs = [] then [] else le_word (take 8 bs) # words_of (drop 8 bs))"
  by pat_completeness auto
termination by (relation "measure length") auto

declare words_of.simps [simp del]

definition xor_into :: "u64 list \<Rightarrow> u64 list \<Rightarrow> u64 list" where
  "xor_into s ws = map (\<lambda>i. s ! i XOR (if i < length ws then ws ! i else 0)) [0..<25]"

function sponge_absorb :: "nat \<Rightarrow> u64 list \<Rightarrow> u8 list \<Rightarrow> u64 list" where
  "sponge_absorb rate s bs =
     (if rate = 0 \<or> length bs < 8 * rate then s
      else sponge_absorb rate (fips_keccak_f (xor_into s (words_of (take (8 * rate) bs)))) (drop (8 * rate) bs))"
  by pat_completeness auto
termination by (relation "measure (\<lambda>(rate, s, bs). length bs)") auto

declare sponge_absorb.simps [simp del]

definition sponge_pad :: "u8 \<Rightarrow> nat \<Rightarrow> u8 list" where
  "sponge_pad suffix k = (if k = 1 then [suffix OR 0x80] else suffix # replicate (k - 2) 0 @ [0x80])"

definition le_bytes :: "u64 \<Rightarrow> u8 list" where
  "le_bytes w = map (\<lambda>i. ucast (drop_bit (8 * i) w)) [0..<8]"

definition fips_sha3 :: "nat \<Rightarrow> u8 \<Rightarrow> u8 list \<Rightarrow> u8 list" where
  "fips_sha3 bits suffix m =
     (let rate = 25 - 2 * bits div 64; pad = sponge_pad suffix (8 * rate - length m mod (8 * rate))
      in take (bits div 8) (concat (map le_bytes (sponge_absorb rate (replicate 25 0) (m @ pad)))))"

section \<open>Words and bytes\<close>

lemma le_word_Nil [simp]: "le_word [] = 0"
  by (simp add: le_word_def)

lemma le_word_Cons [simp]: "le_word (b # bs) = push_bit 8 (le_word bs) OR ucast b"
  by (simp add: le_word_def)

lemma load_word_le:
  assumes "8 \<le> length bs"
  shows "load_word bs = le_word (take 8 bs)"
proof -
  have "take 8 bs = slice 0 8 bs" by (simp add: slice_def)
  also have "\<dots> = [bs ! 0, bs ! 1, bs ! 2, bs ! 3, bs ! 4, bs ! 5, bs ! 6, bs ! 7]"
    using slice_8 [of 0 bs] assms by (simp add: numeral_2_eq_2)
  finally have t: "take 8 bs = [bs ! 0, bs ! 1, bs ! 2, bs ! 3, bs ! 4, bs ! 5, bs ! 6, bs ! 7]" .
  show ?thesis unfolding t by (simp add: load_word_def push_bit_or ac_simps)
qed

lemma le_word_zeros [simp]: "le_word (replicate n 0) = 0"
  by (induction n) simp_all

lemma le_word_append: "le_word (xs @ ys) = push_bit (8 * length xs) (le_word ys) OR le_word xs"
  by (induction xs) (simp_all add: push_bit_or ac_simps)

lemma store_word_le: "store_word w = le_bytes w"
proof -
  have "[0..<8] = [0, 1, 2, 3, 4, 5, 6, 7]" by (simp add: upt_rec)
  then show ?thesis
    unfolding store_word_def le_bytes_def Let_def
    by (auto intro!: bit_word_eqI simp: bit_simps)
qed

section \<open>Feeding bytes\<close>

text \<open>The same context after one byte, a word being absorbed as soon as it is complete.\<close>

definition absorb_byte :: "u8 \<Rightarrow> sha3_context \<Rightarrow> sha3_context" where
  "absorb_byte b ctx =
     (let c = save_byte b ctx
      in if byteIndex c = 8 then absorb_word (saved c) (c\<lparr>byteIndex := 0, saved := 0\<rparr>) else c)"

lemma save_bytes:
  "fold save_byte bs c =
   c\<lparr>saved := saved c OR push_bit (byteIndex c * 8) (le_word bs), byteIndex := byteIndex c + length bs\<rparr>"
proof (induction bs arbitrary: c)
  case (Cons b bs)
  have "fold save_byte (b # bs) c = (let c' = save_byte b c in
      c'\<lparr>saved := saved c' OR push_bit (byteIndex c' * 8) (le_word bs), byteIndex := byteIndex c' + length bs\<rparr>)"
    by (simp add: Cons.IH Let_def)
  also have "\<dots> = c\<lparr>saved := saved c OR push_bit (byteIndex c * 8) (le_word (b # bs)),
      byteIndex := byteIndex c + length (b # bs)\<rparr>"
    by (simp add: save_byte_def push_bit_or algebra_simps or.assoc or.commute or.left_commute)
  finally show ?case .
qed simp

lemma absorb_bytes_part: "byteIndex c + length bs < 8 \<Longrightarrow> fold absorb_byte bs c = fold save_byte bs c"
proof (induction bs arbitrary: c)
  case (Cons b bs)
  then have "absorb_byte b c = save_byte b c" by (simp add: absorb_byte_def save_byte_def)
  with Cons show ?case by (simp add: save_byte_def)
qed simp

lemma absorb_bytes_word:
  assumes "byteIndex c + length bs = 8" and "bs \<noteq> []"
  shows "fold absorb_byte bs c =
    absorb_word (saved c OR push_bit (byteIndex c * 8) (le_word bs)) (c\<lparr>byteIndex := 0, saved := 0\<rparr>)"
proof -
  obtain ys y where bs: "bs = ys @ [y]" using assms(2) by (cases bs rule: rev_cases) auto
  have "fold absorb_byte bs c = absorb_byte y (fold save_byte ys c)"
    using assms(1) by (simp add: bs absorb_bytes_part)
  moreover have "save_byte y (fold save_byte ys c) = fold save_byte bs c" by (simp add: bs)
  ultimately have "fold absorb_byte bs c =
      (let c' = fold save_byte bs c
       in if byteIndex c' = 8 then absorb_word (saved c') (c'\<lparr>byteIndex := 0, saved := 0\<rparr>) else c')"
    by (simp add: absorb_byte_def)
  then show ?thesis using assms(1) by (simp add: save_bytes)
qed

lemma absorb_word_fields [simp]:
  "byteIndex (absorb_word t c) = byteIndex c" "saved (absorb_word t c) = saved c"
  "capacityWords (absorb_word t c) = capacityWords c" "rate_words (absorb_word t c) = rate_words c"
  by (simp_all add: absorb_word_def Let_def rate_words_def)

definition word_start :: "sha3_context \<Rightarrow> bool" where
  "word_start c \<longleftrightarrow> byteIndex c = 0 \<and> saved c = 0"

lemma reset_word_start: "word_start c \<Longrightarrow> c\<lparr>byteIndex := 0, saved := 0\<rparr> = c"
  by (cases c) (simp add: word_start_def)

lemma word_start_absorb [simp]: "word_start (absorb_word t c) \<longleftrightarrow> word_start c"
  by (simp add: word_start_def)

lemma absorb_8_bytes:
  assumes "word_start c" and "length bs = 8"
  shows "fold absorb_byte bs c = absorb_word (le_word bs) c"
proof -
  have "bs \<noteq> []" using assms(2) by auto
  then show ?thesis
    using absorb_bytes_word [of c bs] assms by (simp add: reset_word_start) (simp add: word_start_def)
qed

lemma word_start_absorb_words [simp]: "word_start (absorb_words n bs c) \<longleftrightarrow> word_start c"
  by (induction n arbitrary: bs c) simp_all

lemma absorb_words_bytes:
  "word_start c \<Longrightarrow> n * 8 \<le> length bs \<Longrightarrow> absorb_words n bs c = fold absorb_byte (take (n * 8) bs) c"
proof (induction n arbitrary: bs c)
  case (Suc n)
  have "take (Suc n * 8) bs = take 8 bs @ take (n * 8) (drop 8 bs)"
    using take_add [of 8 "n * 8" bs] by simp
  with Suc show ?case by (simp add: load_word_le absorb_8_bytes)
qed simp

text \<open>An update is a sequence of bytes, however the message is cut into pieces.\<close>

definition sha3_inv :: "sha3_context \<Rightarrow> bool" where
  "sha3_inv c \<longleftrightarrow> byteIndex c < 8 \<and> take_bit (8 * byteIndex c) (saved c) = saved c \<and>
     length (lanes_of c) = 25 \<and> wordIndex c < rate_words c \<and> rate_words c \<le> 25"

lemma update_word_start:
  assumes "word_start c"
  shows "fold save_byte (drop (length bs div 8 * 8) bs) (absorb_words (length bs div 8) bs c) = fold absorb_byte bs c"
proof -
  let ?n = "length bs div 8" and ?c = "absorb_words (length bs div 8) bs c"
  have c: "?c = fold absorb_byte (take (?n * 8) bs) c"
    by (rule absorb_words_bytes [OF assms]) simp
  have "length (drop (?n * 8) bs) < 8" by (simp add: minus_div_mult_eq_mod)
  then have "fold save_byte (drop (?n * 8) bs) ?c = fold absorb_byte (drop (?n * 8) bs) ?c"
    using assms word_start_absorb_words [of ?n bs c]
    by (intro absorb_bytes_part [symmetric]) (simp add: word_start_def)
  also have "\<dots> = fold absorb_byte bs c"
    unfolding c by (rule fold_take_drop)
  finally show ?thesis .
qed

lemma sha3_Update_bytes:
  assumes "byteIndex c < 8" and "byteIndex c = 0 \<longrightarrow> saved c = 0"
  shows "sha3_Update bs c = fold absorb_byte bs c"
proof (cases "byteIndex c = 0")
  case True
  then show ?thesis
    using assms update_word_start [of c bs] by (simp add: sha3_Update_def word_start_def)
next
  case False
  define k where "k = 8 - byteIndex c"
  have k: "(8 - byteIndex c) mod 8 = k" "0 < k" "byteIndex c + k = 8" using assms False by (simp_all add: k_def)
  show ?thesis
  proof (cases "length bs < k")
    case True
    then show ?thesis using k by (simp add: sha3_Update_def absorb_bytes_part)
  next
    case False
    have t: "byteIndex c + length (take k bs) = 8" "take k bs \<noteq> []" using k False by auto
    let ?c = "fold absorb_byte (take k bs) c"
    have c: "?c = (let c' = fold save_byte (take k bs) c in absorb_word (saved c') (c'\<lparr>byteIndex := 0, saved := 0\<rparr>))"
      using absorb_bytes_word [OF t] by (simp add: save_bytes)
    have "word_start ?c" unfolding c by (simp add: Let_def word_start_def)
    then have "fold absorb_byte (drop k bs) ?c = sha3_Update bs c"
      using False k c update_word_start [of ?c "drop k bs"] by (simp add: sha3_Update_def Let_def)
    then show ?thesis by (simp add: fold_take_drop)
  qed
qed

section \<open>Blocks\<close>

lemma words_of_8: "bs \<noteq> [] \<Longrightarrow> words_of bs = le_word (take 8 bs) # words_of (drop 8 bs)"
  by (simp add: words_of.simps [of bs])

lemma words_of_Nil [simp]: "words_of [] = []"
  by (simp add: words_of.simps)

lemma length_words_of: "length bs = 8 * n \<Longrightarrow> length (words_of bs) = n"
proof (induction n arbitrary: bs)
  case (Suc n)
  then have "bs \<noteq> []" by auto
  with Suc show ?case by (simp add: words_of_8)
qed simp

lemma fold_words_of:
  "word_start c \<Longrightarrow> length bs = 8 * n \<Longrightarrow> fold absorb_byte bs c = fold absorb_word (words_of bs) c"
proof (induction n arbitrary: bs c)
  case (Suc n)
  then have "bs \<noteq> []" by auto
  have "fold absorb_byte bs c = fold absorb_byte (drop 8 bs) (fold absorb_byte (take 8 bs) c)"
    by (rule fold_take_drop [symmetric])
  also have "\<dots> = fold absorb_word (words_of (drop 8 bs)) (absorb_word (le_word (take 8 bs)) c)"
    using Suc by (simp add: absorb_8_bytes)
  finally show ?case using \<open>bs \<noteq> []\<close> by (simp add: words_of_8)
qed simp

text \<open>Words xored in from position \<open>w\<close> on.\<close>

definition xor_at :: "nat \<Rightarrow> u64 list \<Rightarrow> u64 list \<Rightarrow> u64 list" where
  "xor_at w s ws = map (\<lambda>i. s ! i XOR (if w \<le> i \<and> i < w + length ws then ws ! (i - w) else 0)) [0..<25]"

lemma length_xor_at [simp]: "length (xor_at w s ws) = 25"
  by (simp add: xor_at_def)

lemma xor_at_Nil: "length s = 25 \<Longrightarrow> xor_at w s [] = s"
  by (rule nth_equalityI) (auto simp: xor_at_def)

lemma xor_at_snoc:
  "w + length ws < 25 \<Longrightarrow> xor_at w s (ws @ [t]) =
    (xor_at w s ws)[w + length ws := xor_at w s ws ! (w + length ws) XOR t]"
  by (rule nth_equalityI) (auto simp: xor_at_def nth_list_update nth_append less_Suc_eq)

lemma xor_at_into: "xor_at 0 s ws = xor_into s ws"
  by (simp add: xor_at_def xor_into_def)

lemma absorb_words_part:
  "length (lanes_of c) = 25 \<Longrightarrow> wordIndex c + length ws < rate_words c \<Longrightarrow> rate_words c \<le> 25 \<Longrightarrow>
   fold absorb_word ws c =
     c\<lparr>lanes_of := xor_at (wordIndex c) (lanes_of c) ws, wordIndex := wordIndex c + length ws\<rparr>"
proof (induction ws rule: rev_induct)
  case (snoc t ws)
  then show ?case
    by (simp add: absorb_word_def Let_def xor_at_snoc rate_words_def)
qed (simp add: xor_at_Nil)

lemma absorb_words_full:
  assumes "length (lanes_of c) = 25" and "wordIndex c + length ws = rate_words c" and "rate_words c \<le> 25"
    and "ws \<noteq> []"
  shows "fold absorb_word ws c = c\<lparr>lanes_of := keccakf (xor_at (wordIndex c) (lanes_of c) ws), wordIndex := 0\<rparr>"
proof -
  obtain us t where ws: "ws = us @ [t]" using assms(4) by (cases ws rule: rev_cases) auto
  have "fold absorb_word us c =
     c\<lparr>lanes_of := xor_at (wordIndex c) (lanes_of c) us, wordIndex := wordIndex c + length us\<rparr>"
    by (rule absorb_words_part) (use assms ws in simp_all)
  then show ?thesis
    using assms by (simp add: ws absorb_word_def Let_def xor_at_snoc rate_words_def)
qed

definition aligned :: "sha3_context \<Rightarrow> bool" where
  "aligned c \<longleftrightarrow> word_start c \<and> wordIndex c = 0 \<and> length (lanes_of c) = 25 \<and>
     0 < rate_words c \<and> rate_words c \<le> 25"

lemma absorb_block:
  assumes "aligned c" and "length bs = 8 * rate_words c"
  shows "fold absorb_byte bs c = c\<lparr>lanes_of := fips_keccak_f (xor_into (lanes_of c) (words_of bs))\<rparr>"
proof -
  have len: "length (words_of bs) = rate_words c" by (rule length_words_of [OF assms(2)])
  then have "words_of bs \<noteq> []" using assms(1) by (auto simp: aligned_def)
  moreover have "fold absorb_byte bs c = fold absorb_word (words_of bs) c"
    using assms by (intro fold_words_of) (simp_all add: aligned_def)
  ultimately show ?thesis
    using assms(1) len absorb_words_full [of c "words_of bs"]
    by (cases c) (simp add: aligned_def xor_at_into keccakf_fips flip: xor_at_into)
qed

lemma aligned_block: "aligned c \<Longrightarrow> length s = 25 \<Longrightarrow> aligned (c\<lparr>lanes_of := s\<rparr>)"
  by (simp add: aligned_def word_start_def rate_words_def)

lemma length_xor_into [simp]: "length (xor_into s ws) = 25"
  by (simp add: xor_into_def)

lemma absorb_blocks:
  "aligned c \<Longrightarrow> rate = rate_words c \<Longrightarrow> length bs mod (8 * rate) = 0 \<Longrightarrow>
   fold absorb_byte bs c = c\<lparr>lanes_of := sponge_absorb rate (lanes_of c) bs\<rparr>"
proof (induction rate "lanes_of c" bs arbitrary: c rule: sponge_absorb.induct)
  case (1 rate bs)
  show ?case
  proof (cases "length bs < 8 * rate")
    case True
    with "1.prems" have "bs = []" by simp
    then show ?thesis using True by (simp add: sponge_absorb.simps)
  next
    case False
    let ?b = "take (8 * rate) bs"
    let ?s = "fips_keccak_f (xor_into (lanes_of c) (words_of ?b))"
    have pos: "0 < rate" using "1.prems" by (simp add: aligned_def)
    have len: "length ?s = 25" using keccakf_fips_length [of "xor_into (lanes_of c) (words_of ?b)"] by simp
    have "fold absorb_byte bs c = fold absorb_byte (drop (8 * rate) bs) (c\<lparr>lanes_of := ?s\<rparr>)"
      using False "1.prems" by (simp add: absorb_block flip: fold_take_drop [of _ "8 * rate" bs])
    also have "\<dots> = c\<lparr>lanes_of := sponge_absorb rate ?s (drop (8 * rate) bs)\<rparr>"
    proof -
      have "(length bs - 8 * rate) mod (8 * rate) = 0"
        using "1.prems"(3) False le_mod_geq [of "8 * rate" "length bs"] by simp
      then show ?thesis
        using "1.hyps" [of "c\<lparr>lanes_of := ?s\<rparr>"] False pos "1.prems" len
        by (simp add: aligned_block rate_words_def)
    qed
    finally show ?thesis using False pos by (simp add: sponge_absorb.simps [of rate _ bs])
  qed
qed

section \<open>Finishing\<close>

text \<open>What every update keeps: the position and the pending bytes.\<close>

lemma rate_words_update [simp]:
  "rate_words (c\<lparr>lanes_of := s\<rparr>) = rate_words c" "rate_words (c\<lparr>wordIndex := n\<rparr>) = rate_words c"
  "rate_words (c\<lparr>byteIndex := n\<rparr>) = rate_words c" "rate_words (c\<lparr>saved := w\<rparr>) = rate_words c"
  by (simp_all add: rate_words_def)

lemma sha3_inv_byte:
  assumes "sha3_inv c"
  shows "sha3_inv (absorb_byte b c) \<and> rate_words (absorb_byte b c) = rate_words c \<and>
    capacityWords (absorb_byte b c) = capacityWords c \<and>
    8 * wordIndex (absorb_byte b c) + byteIndex (absorb_byte b c) =
      (8 * wordIndex c + byteIndex c + 1) mod (8 * rate_words c)"
proof -
  let ?k = "byteIndex c"
  have low: "take_bit (8 * Suc ?k) (saved c OR push_bit (?k * 8) (ucast b)) =
      saved c OR push_bit (?k * 8) (ucast b)"
  proof (rule bit_word_eqI)
    fix n
    assume "n < LENGTH(64)"
    have "bit (saved c) n \<Longrightarrow> n < 8 * ?k"
      using assms by (metis sha3_inv_def bit_take_bit_iff)
    moreover have "bit (push_bit (?k * 8) (ucast b :: u64)) n \<Longrightarrow> n < 8 * Suc ?k"
      using bit_imp_le_length [of b "n - ?k * 8"] by (auto simp: bit_simps)
    ultimately show "bit (take_bit (8 * Suc ?k) (saved c OR push_bit (?k * 8) (ucast b))) n \<longleftrightarrow>
        bit (saved c OR push_bit (?k * 8) (ucast b)) n"
      by (auto simp: bit_take_bit_iff bit_or_iff)
  qed
  show ?thesis
  proof (cases "?k = 7")
    case False
    then have "absorb_byte b c = save_byte b c" by (simp add: absorb_byte_def save_byte_def)
    moreover have "8 * wordIndex c + ?k + 1 < 8 * rate_words c"
      using assms False by (simp add: sha3_inv_def)
    ultimately show ?thesis
      using assms low False by (auto simp: sha3_inv_def save_byte_def)
  next
    case True
    let ?t = "saved c OR push_bit 56 (ucast b)"
    have b: "absorb_byte b c = absorb_word ?t (c\<lparr>byteIndex := 0, saved := 0\<rparr>)"
      using True by (simp add: absorb_byte_def save_byte_def)
    show ?thesis
    proof (cases "wordIndex c + 1 = rate_words c")
      case True
      then have e: "8 * wordIndex c + 8 = 8 * rate_words c" by simp
      have "(8 * wordIndex c + 8) mod (8 * rate_words c) = 0" unfolding e by simp
      with b True \<open>?k = 7\<close> assms show ?thesis
        by (auto simp: absorb_word_def Let_def sha3_inv_def add.commute)
    next
      case False
      then have "8 * wordIndex c + 8 < 8 * rate_words c" using assms by (simp add: sha3_inv_def)
      with b False \<open>?k = 7\<close> assms show ?thesis
        by (auto simp: absorb_word_def Let_def sha3_inv_def add.commute)
    qed
  qed
qed

lemma sha3_inv_bytes:
  "sha3_inv c \<Longrightarrow> sha3_inv (fold absorb_byte bs c) \<and> rate_words (fold absorb_byte bs c) = rate_words c \<and>
    capacityWords (fold absorb_byte bs c) = capacityWords c \<and>
    8 * wordIndex (fold absorb_byte bs c) + byteIndex (fold absorb_byte bs c) =
      (8 * wordIndex c + byteIndex c + length bs) mod (8 * rate_words c)"
proof (induction bs arbitrary: c)
  case Nil
  then have "8 * wordIndex c + byteIndex c < 8 * rate_words c" by (simp add: sha3_inv_def)
  with Nil show ?case by simp
next
  case (Cons b bs)
  note 1 = sha3_inv_byte [OF Cons.prems, of b]
  then have "8 * wordIndex (fold absorb_byte bs (absorb_byte b c)) + byteIndex (fold absorb_byte bs (absorb_byte b c)) =
      ((8 * wordIndex c + byteIndex c + 1) mod (8 * rate_words c) + length bs) mod (8 * rate_words c)"
    using Cons.IH [of "absorb_byte b c"] by simp
  also have "\<dots> = (8 * wordIndex c + byteIndex c + 1 + length bs) mod (8 * rate_words c)"
    by (rule mod_add_left_eq)
  finally show ?case using 1 Cons.IH [of "absorb_byte b c"] by simp
qed

text \<open>The last word: pending bytes, suffix and final bit do not overlap.\<close>

definition sponge_suffix :: "sha3_context \<Rightarrow> u8" where
  "sponge_suffix c = (if capacityWords c AND SHA3_USE_KECCAK_FLAG \<noteq> 0 then 1 else 6)"

lemma le_word_pad:
  assumes "0 < k" and "k \<le> 8"
  shows "le_word (sponge_pad x k) = ucast x OR push_bit (8 * (k - 1)) 0x80"
proof (cases "k = 1")
  case True
  have "(ucast (x OR 0x80) :: u64) = ucast x OR 0x80"
    by (simp add: unsigned_or_eq)
  with True show ?thesis by (simp add: sponge_pad_def)
next
  case False
  then have "8 * (k - 1) = 8 + 8 * (k - 2)" using assms(1) by simp
  with False show ?thesis
    by (simp add: sponge_pad_def le_word_append or.commute)
qed

lemma top_bit:
  assumes "\<not> bit (v :: u64) 63"
  shows "v OR push_bit 63 1 = v XOR push_bit 63 1"
proof (rule bit_word_eqI)
  fix n
  assume "n < LENGTH(64)"
  have "n = 63" if "63 \<le> n" and "n - 63 = 0" for n :: nat using that by simp
  then show "bit (v OR push_bit 63 1) n \<longleftrightarrow> bit (v XOR push_bit 63 1) n"
    using assms unfolding bit_or_iff bit_xor_iff bit_push_bit_iff bit_1_iff by blast
qed

lemma suffix_disjoint:
  assumes k: "k < 8" and w: "take_bit (8 * k) w = (w :: u64)" and x: "x < (128 :: u8)"
  shows "w OR push_bit (8 * k) (ucast x) = w XOR push_bit (8 * k) (ucast x)"
    and "w OR push_bit (8 * k) (ucast x) OR push_bit 56 0x80 = (w XOR push_bit (8 * k) (ucast x)) XOR 0x8000000000000000"
proof -
  have wb: "bit w n \<Longrightarrow> n < 8 * k" for n using w by (metis bit_take_bit_iff)
  have "x = take_bit 7 x"
  proof -
    have "unat x < 2 ^ 7" using x by (simp add: word_less_nat_alt)
    then show ?thesis by (simp add: word_unat_eq_iff unsigned_take_bit_eq take_bit_nat_eq_self)
  qed
  then have xb: "bit x n \<Longrightarrow> n < 7" for n by (metis bit_take_bit_iff)
  show one: "w OR push_bit (8 * k) (ucast x) = w XOR push_bit (8 * k) (ucast x)"
    by (rule bit_word_eqI) (auto simp: bit_simps dest: wb)
  have top: "push_bit 56 0x80 = (0x8000000000000000 :: u64)" by simp
  have "\<not> bit (w XOR push_bit (8 * k) (ucast x)) 63"
    using wb [of 63] xb [of "63 - 8 * k"] k by (auto simp: bit_simps)
  then have "(w XOR push_bit (8 * k) (ucast x)) OR push_bit 63 1 = (w XOR push_bit (8 * k) (ucast x)) XOR push_bit 63 1"
    by (rule top_bit)
  moreover have "push_bit 63 1 = (0x8000000000000000 :: u64)" by simp
  ultimately show "w OR push_bit (8 * k) (ucast x) OR push_bit 56 0x80 = (w XOR push_bit (8 * k) (ucast x)) XOR 0x8000000000000000"
    unfolding one [symmetric] top by (simp add: or.assoc)
qed

text \<open>
  \<open>sha3_Finalize\<close> has the effect of feeding the padding: up to the end of the block when the
  position is in the last word, or with words of zeros in between.
\<close>

lemma finalize_term:
  "(if capacityWords c AND SHA3_USE_KECCAK_FLAG \<noteq> 0 then push_bit (byteIndex c * 8) 1
    else push_bit (byteIndex c * 8) (0x02 OR push_bit 2 1)) = push_bit (8 * byteIndex c) (ucast (sponge_suffix c) :: u64)"
proof -
  have "(0x02 OR push_bit 2 1 :: u64) = 6" by simp
  then show ?thesis by (simp add: sponge_suffix_def mult.commute)
qed

lemma sponge_suffix_small: "sponge_suffix c < 128"
  by (simp add: sponge_suffix_def)

lemma finish_last_word:
  assumes inv: "sha3_inv c" and last: "wordIndex c = rate_words c - 1"
  shows "lanes_of (fold absorb_byte (sponge_pad (sponge_suffix c) (8 - byteIndex c)) c) =
    lanes_of (fst (sha3_Finalize c))"
proof -
  let ?k = "byteIndex c" and ?x = "sponge_suffix c"
  have k: "?k < 8" "take_bit (8 * ?k) (saved c) = saved c" and w: "wordIndex c + 1 = rate_words c"
    using inv last by (auto simp: sha3_inv_def)
  have len: "length (sponge_pad ?x (8 - ?k)) = 8 - ?k" using k(1) by (auto simp: sponge_pad_def)
  have "push_bit (8 * ?k) (le_word (sponge_pad ?x (8 - ?k))) = push_bit (8 * ?k) (ucast ?x) OR push_bit 56 0x80"
  proof -
    have "8 * ?k + 8 * (8 - ?k - 1) = 56" using k(1) by simp
    then show ?thesis using k(1) by (simp only: le_word_pad push_bit_or push_bit_push_bit)
  qed
  then have word: "saved c OR push_bit (?k * 8) (le_word (sponge_pad ?x (8 - ?k))) =
      (saved c XOR push_bit (8 * ?k) (ucast ?x)) XOR 0x8000000000000000"
    using suffix_disjoint(2) [OF k sponge_suffix_small [of c]] by (simp add: mult.commute or.assoc)
  have "fold absorb_byte (sponge_pad ?x (8 - ?k)) c =
      absorb_word ((saved c XOR push_bit (8 * ?k) (ucast ?x)) XOR 0x8000000000000000) (c\<lparr>byteIndex := 0, saved := 0\<rparr>)"
    using absorb_bytes_word [of c "sponge_pad ?x (8 - ?k)"] len k(1) word by (simp add: sponge_pad_def)
  then show ?thesis
    using w inv last
    by (simp add: sha3_Finalize_def Let_def finalize_term absorb_word_def sha3_inv_def xor.assoc)
qed

lemma absorb_zero_words:
  "length (lanes_of c) = 25 \<Longrightarrow> rate_words c \<le> 25 \<Longrightarrow> wordIndex c + n < rate_words c \<Longrightarrow>
   fold absorb_word (replicate n 0) c = c\<lparr>wordIndex := wordIndex c + n\<rparr>"
proof (induction n arbitrary: c)
  case (Suc n)
  then have "absorb_word 0 c = c\<lparr>wordIndex := wordIndex c + 1\<rparr>"
    by (simp add: absorb_word_def Let_def)
  with Suc show ?case by simp
qed simp

lemma words_of_zeros: "words_of (replicate (8 * n) 0) = replicate n 0"
proof (induction n)
  case (Suc n)
  then show ?case by (simp add: words_of.simps [of "replicate (8 + 8 * n) 0"] min_def)
qed simp

lemma sponge_pad_split:
  assumes "0 < j" and "0 < l"
  shows "sponge_pad x (j + n + l) = (x # replicate (j - 1) 0) @ replicate n 0 @ (replicate (l - 1) 0 @ [0x80])"
proof -
  have "replicate (j - 1) (0 :: u8) @ replicate n 0 @ replicate (l - 1) 0 = replicate (j + n + l - 2) 0"
    using assms by (simp flip: replicate_add)
  then show ?thesis using assms by (simp add: sponge_pad_def)
qed

lemma finish_mid_word:
  assumes inv: "sha3_inv c" and mid: "wordIndex c < rate_words c - 1"
  shows "lanes_of (fold absorb_byte
      (sponge_pad (sponge_suffix c) (8 * rate_words c - (8 * wordIndex c + byteIndex c))) c) =
    lanes_of (fst (sha3_Finalize c))"
proof -
  let ?k = "byteIndex c" and ?x = "sponge_suffix c" and ?w = "wordIndex c" and ?r = "rate_words c"
  have k: "?k < 8" "take_bit (8 * ?k) (saved c) = saved c" and len: "length (lanes_of c) = 25" "?r \<le> 25"
    using inv by (auto simp: sha3_inv_def)
  define n where "n = ?r - 2 - ?w"
  have n: "?r = ?w + n + 2" using mid by (simp add: n_def)
  have "8 * ?r - (8 * ?w + ?k) = (8 - ?k) + 8 * n + 8" using k(1) n by simp
  then have pad: "sponge_pad ?x (8 * ?r - (8 * ?w + ?k)) =
      (?x # replicate (7 - ?k) 0) @ replicate (8 * n) 0 @ (replicate 7 0 @ [0x80])"
    using sponge_pad_split [of "8 - ?k" 8 ?x "8 * n"] k(1) by simp
  let ?t = "saved c XOR push_bit (8 * ?k) (ucast ?x)"
  define c1 where "c1 = c\<lparr>byteIndex := 0, saved := 0, lanes_of := (lanes_of c)[?w := lanes_of c ! ?w XOR ?t],
    wordIndex := ?w + 1\<rparr>"
  have "saved c OR push_bit (?k * 8) (le_word (?x # replicate (7 - ?k) 0)) = ?t"
    using suffix_disjoint(1) [OF k sponge_suffix_small [of c]] by (simp add: mult.commute)
  then have 1: "fold absorb_byte (?x # replicate (7 - ?k) 0) c = c1"
    using absorb_bytes_word [of c "?x # replicate (7 - ?k) 0"] k(1) n
    by (simp add: absorb_word_def Let_def c1_def)
  have c1: "word_start c1" "wordIndex c1 = ?w + 1" "length (lanes_of c1) = 25" "rate_words c1 = ?r"
    using len by (simp_all add: c1_def word_start_def)
  have 2: "fold absorb_byte (replicate (8 * n) 0) c1 = c1\<lparr>wordIndex := ?w + 1 + n\<rparr>"
    using c1 n len fold_words_of [of c1 "replicate (8 * n) 0" n] absorb_zero_words [of c1 n]
    by (simp add: words_of_zeros)
  have "word_start (c1\<lparr>wordIndex := ?w + 1 + n\<rparr>)" using c1(1) by (simp add: word_start_def)
  then have "fold absorb_byte (replicate 7 0 @ [0x80]) (c1\<lparr>wordIndex := ?w + 1 + n\<rparr>) =
      absorb_word (le_word (replicate 7 0 @ [0x80])) (c1\<lparr>wordIndex := ?w + 1 + n\<rparr>)"
    by (rule absorb_8_bytes) simp
  moreover have "le_word (replicate 7 0 @ [0x80]) = 0x8000000000000000"
    by (simp add: le_word_append)
  ultimately have 3: "fold absorb_byte (replicate 7 0 @ [0x80]) (c1\<lparr>wordIndex := ?w + 1 + n\<rparr>) =
      absorb_word 0x8000000000000000 (c1\<lparr>wordIndex := ?w + 1 + n\<rparr>)"
    by simp
  have "fold absorb_byte (sponge_pad ?x (8 * ?r - (8 * ?w + ?k))) c =
      absorb_word 0x8000000000000000 (c1\<lparr>wordIndex := ?w + 1 + n\<rparr>)"
    unfolding pad fold_append3 1 2 3 ..
  moreover have "?w + 1 + n = ?r - 1" using n by simp
  ultimately show ?thesis
    using n by (simp add: absorb_word_def Let_def sha3_Finalize_def finalize_term c1_def)
qed

lemma finish_padding:
  assumes "sha3_inv c"
  shows "lanes_of (fold absorb_byte
      (sponge_pad (sponge_suffix c) (8 * rate_words c - (8 * wordIndex c + byteIndex c))) c) =
    lanes_of (fst (sha3_Finalize c))"
proof (cases "wordIndex c = rate_words c - 1")
  case True
  then have "8 * rate_words c - (8 * wordIndex c + byteIndex c) = 8 - byteIndex c"
    using assms by (auto simp: sha3_inv_def)
  then show ?thesis using finish_last_word [OF assms True] by simp
next
  case False
  then show ?thesis
    using assms by (intro finish_mid_word) (auto simp: sha3_inv_def)
qed

section \<open>The whole hash\<close>

lemma length_sponge_pad: "0 < k \<Longrightarrow> length (sponge_pad x k) = k"
  by (simp add: sponge_pad_def) arith

lemma pad_multiple: "0 < B \<Longrightarrow> (n + (B - n mod B)) mod B = (0 :: nat)"
proof -
  assume "0 < B"
  then have "n mod B \<le> B" by (simp add: less_imp_le)
  then have "(n + (B - n mod B)) mod B = (n mod B + (B - n mod B)) mod B" by (simp only: mod_add_left_eq)
  also have "n mod B + (B - n mod B) = B" using \<open>n mod B \<le> B\<close> by simp
  finally show ?thesis by simp
qed

lemma finalize_message:
  assumes "aligned c" and "lanes_of c = replicate 25 0"
  shows "lanes_of (fst (sha3_Finalize (fold absorb_byte m c))) =
    sponge_absorb (rate_words c) (replicate 25 0)
      (m @ sponge_pad (sponge_suffix c) (8 * rate_words c - length m mod (8 * rate_words c)))"
proof -
  let ?r = "rate_words c" and ?c = "fold absorb_byte m c"
  let ?pad = "sponge_pad (sponge_suffix c) (8 * ?r - length m mod (8 * ?r))"
  have inv: "sha3_inv c" using assms(1) by (simp add: aligned_def sha3_inv_def word_start_def)
  note m = sha3_inv_bytes [OF inv, of m]
  have pos: "0 < 8 * ?r" and start: "wordIndex c = 0" "byteIndex c = 0"
    using assms(1) by (simp_all add: aligned_def word_start_def)
  have "sponge_suffix ?c = sponge_suffix c" using m by (simp add: sponge_suffix_def)
  then have "lanes_of (fst (sha3_Finalize ?c)) = lanes_of (fold absorb_byte ?pad ?c)"
    using finish_padding [of ?c] m start by simp
  also have "fold absorb_byte ?pad ?c = fold absorb_byte (m @ ?pad) c" by simp
  also have "\<dots> = c\<lparr>lanes_of := sponge_absorb ?r (lanes_of c) (m @ ?pad)\<rparr>"
    using assms(1) pad_multiple [OF pos, of "length m"] pos
    by (intro absorb_blocks) (simp_all add: length_sponge_pad)
  finally show ?thesis using assms(2) by simp
qed

text \<open>What an initialised context hashes to, when the message arrives in any pieces.\<close>

lemma capacity_flag:
  assumes "w \<in> {8, 12, 16}"
  shows "SHA3_CW (w OR (if x then SHA3_USE_KECCAK_FLAG else 0)) = w"
    and "(w OR (if x then SHA3_USE_KECCAK_FLAG else 0)) AND SHA3_USE_KECCAK_FLAG \<noteq> 0 \<longleftrightarrow> x"
proof -
  have "\<forall>w\<in>{8, 12, 16}. SHA3_CW (w OR SHA3_USE_KECCAK_FLAG) = w \<and> SHA3_CW (w OR 0) = w \<and>
      (w OR SHA3_USE_KECCAK_FLAG) AND SHA3_USE_KECCAK_FLAG \<noteq> 0 \<and> (w OR 0) AND SHA3_USE_KECCAK_FLAG = 0"
    by code_simp
  with assms have w: "SHA3_CW (w OR SHA3_USE_KECCAK_FLAG) = w" "SHA3_CW (w OR 0) = w"
    "(w OR SHA3_USE_KECCAK_FLAG) AND SHA3_USE_KECCAK_FLAG \<noteq> 0" "(w OR 0) AND SHA3_USE_KECCAK_FLAG = 0"
    by blast+
  show "SHA3_CW (w OR (if x then SHA3_USE_KECCAK_FLAG else 0)) = w"
    using w(1,2) by (cases x) (simp_all only: if_True if_False)
  show "(w OR (if x then SHA3_USE_KECCAK_FLAG else 0)) AND SHA3_USE_KECCAK_FLAG \<noteq> 0 \<longleftrightarrow> x"
    using w(3,4) by (cases x) (simp_all only: if_True if_False simp_thms)
qed

lemma sha3_Init_cases:
  assumes "sha3_Init bitSize = Some c" and "sha3_SetFlags flags c = (f, c')"
  shows "unat bitSize \<in> {256, 384, 512}" and "aligned c'" and "lanes_of c' = replicate 25 0"
    and "rate_words c' = 25 - 2 * unat bitSize div 64"
    and "sponge_suffix c' = (if flags AND 1 = 1 then 1 else 6)" and "f = flags AND 1"
proof -
  have b: "bitSize \<in> {256, 384, 512}" using assms(1) by (auto simp: sha3_Init_def split: if_splits)
  then show "unat bitSize \<in> {256, 384, 512}" by auto
  have cap: "capacityWords c' = 2 * bitSize div 64 OR (if flags AND 1 = 1 then SHA3_USE_KECCAK_FLAG else 0)"
    and f: "f = flags AND 1"
    using assms by (auto simp: sha3_Init_def sha3_SetFlags_def Let_def split: if_splits)
  have w: "2 * bitSize div 64 = of_nat (unat (2 * bitSize div 64))" "unat (2 * bitSize div 64) = 2 * unat bitSize div 64"
    "2 * bitSize div 64 \<in> {8, 12, 16}"
    using b by auto
  note cw = capacity_flag [OF w(3)]
  show r: "rate_words c' = 25 - 2 * unat bitSize div 64"
    unfolding rate_words_def cap cw(1) w(2) ..
  have start: "lanes_of c' = replicate 25 0 \<and> word_start c' \<and> wordIndex c' = 0"
    using assms by (auto simp: sha3_Init_def sha3_SetFlags_def Let_def word_start_def split: if_splits)
  then show "lanes_of c' = replicate 25 0" by simp
  have "0 < rate_words c' \<and> rate_words c' \<le> 25" using b unfolding r by auto
  with start show "aligned c'" by (simp add: aligned_def)
  show "sponge_suffix c' = (if flags AND 1 = 1 then 1 else 6)"
    unfolding sponge_suffix_def cap cw(2) ..
  show "f = flags AND 1" by (rule f)
qed

lemma sha3_Update_pieces:
  assumes "sha3_inv c"
  shows "fold sha3_Update pieces c = fold absorb_byte (concat pieces) c"
  using assms
proof (induction pieces arbitrary: c)
  case (Cons p ps)
  have "byteIndex c = 0 \<longrightarrow> saved c = 0" using Cons.prems by (auto simp: sha3_inv_def)
  then have "sha3_Update p c = fold absorb_byte p c"
    using Cons.prems by (intro sha3_Update_bytes) (simp_all add: sha3_inv_def)
  then show ?case using Cons sha3_inv_bytes [OF Cons.prems, of p] by simp
qed simp

lemma sha3_digest:
  assumes "sha3_Init bitSize = Some c" and "sha3_SetFlags flags c = (f, c')"
  shows "take (unat bitSize div 8) (snd (sha3_Finalize (fold sha3_Update pieces c'))) =
    fips_sha3 (unat bitSize) (if flags AND 1 = 1 then 1 else 6) (concat pieces)"
proof -
  note c = sha3_Init_cases [OF assms]
  have inv: "sha3_inv c'" using c(2) by (simp add: aligned_def sha3_inv_def word_start_def)
  have "snd (sha3_Finalize c) = concat (map le_bytes (lanes_of (fst (sha3_Finalize c))))" for c
  proof -
    have "store_word = le_bytes" by (rule ext) (rule store_word_le)
    then show ?thesis by (simp add: sha3_Finalize_def Let_def)
  qed
  then show ?thesis
    using c by (simp add: sha3_Update_pieces [OF inv] finalize_message fips_sha3_def Let_def)
qed

lemma length_sponge_absorb: "length s = 25 \<Longrightarrow> length (sponge_absorb rate s bs) = 25"
proof (induction rate s bs rule: sponge_absorb.induct)
  case (1 rate s bs)
  then show ?case
    using keccakf_fips_length [of "xor_into s (words_of (take (8 * rate) bs))"]
    by (subst sponge_absorb.simps) auto
qed

lemma length_fips_sha3: "bits div 8 \<le> 200 \<Longrightarrow> length (fips_sha3 bits suffix m) = bits div 8"
proof -
  have "length (concat (map le_bytes ws)) = 8 * length ws" for ws
    by (induction ws) (simp_all add: le_bytes_def)
  then show "bits div 8 \<le> 200 \<Longrightarrow> ?thesis"
    by (simp add: fips_sha3_def Let_def length_sponge_absorb)
qed

section \<open>Properties\<close>

text \<open>
  Claim C9. Hashing in pieces: after initialisation with any of the three sizes and with either
  flag, updates with any sequence of byte strings and a final step give the FIPS 202 sponge hash
  of their concatenation, with suffix 01 (SHA-3) or none (Keccak).
\<close>

theorem sha3_incremental:
  assumes "sha3_Init bitSize = Some c" and "sha3_SetFlags flags c = (f, c')"
  shows "take (unat bitSize div 8) (snd (sha3_Finalize (fold sha3_Update pieces c'))) =
    fips_sha3 (unat bitSize) (if flags AND 1 = 1 then 1 else 6) (concat pieces)"
  by (rule sha3_digest [OF assms])

lemma sha3_incremental_witness:
  "\<exists>c f c'. sha3_Init 256 = Some c \<and> sha3_SetFlags 0 c = (f, c') \<and>
    take 32 (snd (sha3_Finalize (fold sha3_Update [[1, 2, 3], [4]] c'))) = fips_sha3 256 6 [1, 2, 3, 4]"
proof -
  obtain c where c: "sha3_Init 256 = Some c" by (simp add: sha3_Init_def)
  obtain f c' where c': "sha3_SetFlags 0 c = (f, c')" by fastforce
  show ?thesis
    using sha3_incremental [OF c c', of "[[1, 2, 3], [4]]"] c c' by auto
qed

text \<open>
  Claim C26. The one-call hash rejects a size or flag it does not know and leaves the output
  alone; otherwise it stores the hash of the first \<open>inBytes\<close> bytes, cut to the space there is, and
  touches nothing beyond.
\<close>

theorem sha3_HashBuffer_spec:
  assumes "inBytes \<le> length inp" and "outBytes \<le> length out"
  shows "sha3_HashBuffer bitSize flags inp inBytes out outBytes =
    (if unat bitSize \<notin> {256, 384, 512} \<or> flags \<notin> {0, 1} then Inr (SHA3_RETURN_BAD_PARAMS, out)
     else Inr (SHA3_RETURN_OK, overwrite 0
       (take outBytes (fips_sha3 (unat bitSize) (if flags = 1 then 1 else 6) (take inBytes inp))) out))"
proof (cases "sha3_Init bitSize")
  case None
  then have "unat bitSize \<notin> {256, 384, 512}"
    by (auto simp: sha3_Init_def word_unat_eq_iff split: if_splits)
  with None show ?thesis by (simp add: sha3_HashBuffer_def)
next
  case (Some c)
  obtain f c' where f: "sha3_SetFlags flags c = (f, c')" by fastforce
  note c = sha3_Init_cases [OF Some f]
  have "f = flags \<longleftrightarrow> flags \<in> {0, 1}"
  proof -
    have "flags AND 1 = of_bool (odd flags)" by (simp add: and_one_eq mod_2_eq_odd)
    then show ?thesis using c(6) by auto
  qed
  moreover have "unat (bitSize div 8) = unat bitSize div 8" by (simp add: unat_div)
  moreover have "take n (snd (sha3_Finalize (sha3_Update (take inBytes inp) c'))) =
      take n (fips_sha3 (unat bitSize) (if flags AND 1 = 1 then 1 else 6) (take inBytes inp))"
    if "n \<le> unat bitSize div 8" for n
    using arg_cong [OF sha3_digest [OF Some f, of "[take inBytes inp]"], of "take n"] that
    by (simp add: min_absorb1)
  ultimately show ?thesis
    using Some f c(1) assms by (auto simp: sha3_HashBuffer_def Let_def fips_sha3_def)
qed

lemma sha3_HashBuffer_spec_witness:
  "sha3_HashBuffer 256 2 [1] 1 [7] 1 = Inr (SHA3_RETURN_BAD_PARAMS, [7])"
  using sha3_HashBuffer_spec [of 1 "[1]" 1 "[7]" 256 2] by simp

end
