(* ===== verification/Instructions.thy ===== *)
theory Instructions
  imports Exec_State Sha3
begin

text \<open>
  The instruction implementations of src/tscvee/ta/include/instructions.h. An instruction takes the
  stack pointer by value (it moves only its copy; the caller adjusts the height) and the state. A
  void function returns the state, one that returns a status code the state and the code. What the C
  code reads and writes is read and written in the same order here, slots of the stack through the
  pointers it takes.
\<close>

section \<open>Arithmetic and logic\<close>

definition pop :: "int \<Rightarrow> ExecutionState \<Rightarrow> ExecutionState outcome" where
  "pop st s = Inr s"

definition jumpdest :: "int \<Rightarrow> ExecutionState \<Rightarrow> ExecutionState outcome" where
  "jumpdest st s = Inr s"

definition stop :: evmc_status_code where
  "stop = EVMC_SUCCESS"

definition invalid :: evmc_status_code where
  "invalid = EVMC_INVALID_INSTRUCTION"

text \<open>The shape of the instructions that combine the top item with the one below it.\<close>

definition binop :: "(uint256_t \<Rightarrow> uint256_t \<Rightarrow> uint256_t) \<Rightarrow> int \<Rightarrow> ExecutionState \<Rightarrow> ExecutionState outcome" where
  "binop f st s =
     (let (x, st) = StackTop_pop st; y = st
      in bind_o (load s x) (\<lambda>vx. bind_o (load s y) (\<lambda>vy. store_slot s y (copy256 (f vx vy)))))"

definition add :: "int \<Rightarrow> ExecutionState \<Rightarrow> ExecutionState outcome" where
  "add = binop add256"

definition mul :: "int \<Rightarrow> ExecutionState \<Rightarrow> ExecutionState outcome" where
  "mul = binop mul256"

definition sub :: "int \<Rightarrow> ExecutionState \<Rightarrow> ExecutionState outcome" where
  "sub st s =
     (let x = StackTop_get st 0; y = StackTop_get st 1
      in bind_o (load s x) (\<lambda>vx. bind_o (load s y) (\<lambda>vy. store_slot s y (copy256 (minus256 vx vy)))))"

text \<open>A division whose loop does not end has no result.\<close>

definition divmod_o :: "uint256_t \<Rightarrow> uint256_t \<Rightarrow> (uint256_t \<times> uint256_t) outcome" where
  "divmod_o l r = (case divmod256 l r of None \<Rightarrow> Inl No_return | Some qr \<Rightarrow> Inr qr)"

definition div_instr :: "int \<Rightarrow> ExecutionState \<Rightarrow> ExecutionState outcome" where
  "div_instr st s =
     (let tmp = StackTop_get st 1; md = mk256 0 0 0 0
      in bind_o (load s tmp) (\<lambda>d.
         if \<not> zero256 d then
           bind_o (load s (StackTop_get st 0)) (\<lambda>n. bind_o (divmod_o n d) (\<lambda>(target, md).
           store_slot s tmp (copy256 target)))
         else store_slot s tmp (copy256 md)))"

definition sdiv :: "int \<Rightarrow> ExecutionState \<Rightarrow> ExecutionState outcome" where
  "sdiv st s =
     (let tmp = StackTop_get st 1; md = mk256 0 0 0 0
      in bind_o (load s tmp) (\<lambda>d.
         if \<not> zero256 d then
           bind_o (load s (StackTop_get st 0)) (\<lambda>n. bind_o (divmod_o n d) (\<lambda>(target, md).
           store_slot s tmp (copy256 target)))
         else store_slot s tmp (copy256 md)))"

definition mod_instr :: "int \<Rightarrow> ExecutionState \<Rightarrow> ExecutionState outcome" where
  "mod_instr st s =
     (let tmp = StackTop_get st 1; md = mk256 0 0 0 0
      in bind_o (load s tmp) (\<lambda>d.
         bind_o (if \<not> zero256 d then
             bind_o (load s (StackTop_get st 0)) (\<lambda>n. bind_o (divmod_o n d) (\<lambda>(target, md). Inr md))
           else Inr md) (\<lambda>md.
         store_slot s tmp (copy256 md))))"

definition smod :: "int \<Rightarrow> ExecutionState \<Rightarrow> ExecutionState outcome" where
  "smod st s =
     (let tmp = StackTop_get st 1; md = mk256 0 0 0 0
      in bind_o (load s tmp) (\<lambda>d.
         bind_o (if \<not> zero256 d then
             bind_o (load s (StackTop_get st 0)) (\<lambda>n. bind_o (divmod_o n d) (\<lambda>(target, md). Inr md))
           else Inr md) (\<lambda>md.
         store_slot s tmp (copy256 md))))"

text \<open>The quotient, \<open>target2\<close>, is what the code stores.\<close>

definition addmod :: "int \<Rightarrow> ExecutionState \<Rightarrow> ExecutionState outcome" where
  "addmod st s =
     (let (x, st) = StackTop_pop st; (y, st) = StackTop_pop st; m = st; md = mk256 0 0 0 0
      in bind_o (load s m) (\<lambda>vm.
         if \<not> zero256 vm then
           bind_o (load s x) (\<lambda>vx. bind_o (load s y) (\<lambda>vy.
           bind_o (divmod_o (add256 vx vy) vm) (\<lambda>(target2, md).
           store_slot s m (copy256 target2))))
         else store_slot s m (copy256 md)))"

definition mulmod :: "int \<Rightarrow> ExecutionState \<Rightarrow> ExecutionState outcome" where
  "mulmod st s =
     (let x = StackTop_get st 0; y = StackTop_get st 1; m = StackTop_get st 2; md = mk256 0 0 0 0
      in bind_o (load s m) (\<lambda>vm.
         if \<not> zero256 vm then
           bind_o (load s x) (\<lambda>vx. bind_o (load s y) (\<lambda>vy.
           bind_o (divmod_o (mul256 vx vy) vm) (\<lambda>(target2, md).
           store_slot s m (copy256 target2))))
         else store_slot s m (copy256 md)))"

fun clz_loop :: "nat \<Rightarrow> u64 \<Rightarrow> u32 \<Rightarrow> u64 \<times> u32" where
  "clz_loop 0 x n = (x, n)"
| "clz_loop (Suc i) x n =
     (let s = 2 ^ i; hi = drop_bit s x
      in if hi \<noteq> 0 then clz_loop i hi (n - of_nat s) else clz_loop i x n)"

definition clz :: "u64 \<Rightarrow> u32" where
  "clz x = (case clz_loop 6 x 64 of (x, n) \<Rightarrow> n - ucast x)"

definition count_significant_bytes :: "u64 \<Rightarrow> u32" where
  "count_significant_bytes x = (64 - clz x + 7) div 8"

text \<open>The limbs go through a variable of type \<open>unsigned\<close>; the lowest one is not looked at.\<close>

definition csb256 :: "uint256_t \<Rightarrow> u32" where
  "csb256 x =
     (let r64 = count_significant_bytes 64;
          t3 = ucast (upper128 (upper256 x)) :: u32;
          t2 = ucast (lower128 (upper256 x)) :: u32;
          t1 = ucast (upper128 (lower256 x)) :: u32
      in if t3 \<noteq> 0 then count_significant_bytes (ucast t3) + r64 * 3
         else if t2 \<noteq> 0 then count_significant_bytes (ucast t2) + r64 * 2
         else if t1 \<noteq> 0 then count_significant_bytes (ucast t1) + r64
         else count_significant_bytes (ucast t1))"

lemma val256_decrement:
  assumes "0 < val256 x"
  shows "val256 (minus256 x (mk256 0 0 0 1)) = val256 x - 1"
proof -
  have "val256 x + 2 ^ 256 - 1 = (val256 x - 1) + 2 ^ 256" using assms by linarith
  then have "(val256 x + 2 ^ 256 - 1) mod 2 ^ 256 = (val256 x - 1) mod 2 ^ 256"
    by (simp only: mod_add_self2)
  also have "\<dots> = val256 x - 1" using val256_lt [of x] by (intro mod_less) linarith
  finally show ?thesis by (simp add: minus256_val val256_mk256)
qed

text \<open>The loop of \<open>exp_\<close>: the exponent in its slot is counted down while \<open>target\<close> is multiplied.\<close>

function exp_loop :: "uint256_t \<Rightarrow> uint256_t \<Rightarrow> uint256_t \<Rightarrow> uint256_t \<times> uint256_t" where
  "exp_loop base target exponent =
     (if \<not> zero256 exponent then
        exp_loop base (copy256 (mul256 target base)) (copy256 (minus256 exponent (mk256 0 0 0 1)))
      else (target, exponent))"
  by pat_completeness auto
termination
  by (relation "measure (\<lambda>(base, target, exponent). val256 exponent)")
    (simp_all add: zero256_val val256_decrement)

declare exp_loop.simps [simp del]

definition exp_instr :: "int \<Rightarrow> ExecutionState \<Rightarrow> (ExecutionState \<times> evmc_status_code) outcome" where
  "exp_instr st s =
     (let (base, st) = StackTop_pop st; exponent = st
      in bind_o (load s exponent) (\<lambda>e.
         let exponent_significant_bytes = signed_take_bit 31 (uint (csb256 e));
             exponent_cost = (if rev s \<ge> EVMC_SPURIOUS_DRAGON then 50 else 10)
         in bind_o (charge (exponent_significant_bytes * exponent_cost) s) (\<lambda>(s, ok).
            if \<not> ok then Inr (s, EVMC_OUT_OF_GAS)
            else bind_o (load s base) (\<lambda>b.
              let step = mk256 0 0 0 1; target = b
              in if zero256 e then bind_o (store_slot s exponent step) (\<lambda>s. Inr (s, EVMC_SUCCESS))
                 else case exp_loop b target e of (target, e) \<Rightarrow>
                   bind_o (store_slot s exponent e) (\<lambda>s. Inr (s, EVMC_SUCCESS))))))"

text \<open>The limbs of a number by index, from the lowest; another index leaves the pointer unset.\<close>

definition u256_index :: "uint256_t \<Rightarrow> nat \<Rightarrow> u64 outcome" where
  "u256_index x index =
     (if index = 0 then Inr (lower128 (lower256 x))
      else if index = 1 then Inr (upper128 (lower256 x))
      else if index = 2 then Inr (lower128 (upper256 x))
      else if index = 3 then Inr (upper128 (upper256 x))
      else Inl Uninitialised)"

definition u256_index_put :: "uint256_t \<Rightarrow> nat \<Rightarrow> u64 \<Rightarrow> uint256_t outcome" where
  "u256_index_put x index w =
     (if index = 0 then Inr (x\<lparr>lower256 := (lower256 x)\<lparr>lower128 := w\<rparr>\<rparr>)
      else if index = 1 then Inr (x\<lparr>lower256 := (lower256 x)\<lparr>upper128 := w\<rparr>\<rparr>)
      else if index = 2 then Inr (x\<lparr>upper256 := (upper256 x)\<lparr>lower128 := w\<rparr>\<rparr>)
      else if index = 3 then Inr (x\<lparr>upper256 := (upper256 x)\<lparr>upper128 := w\<rparr>\<rparr>)
      else Inl Uninitialised)"

text \<open>
  The last loop of \<open>signextend\<close>, for \<open>n\<close> rounds: it stores to the sign word every time. The sign
  word that was put together before is not stored.
\<close>

fun signextend_loop :: "nat \<Rightarrow> nat \<Rightarrow> u64 \<Rightarrow> uint256_t \<Rightarrow> uint256_t outcome" where
  "signextend_loop 0 sign_word_index sign_ex x = Inr x"
| "signextend_loop (Suc n) sign_word_index sign_ex x =
     bind_o (u256_index_put x sign_word_index sign_ex) (signextend_loop n sign_word_index sign_ex)"

definition signextend :: "int \<Rightarrow> ExecutionState \<Rightarrow> ExecutionState outcome" where
  "signextend st s =
     (let (ext, st) = StackTop_pop st; x = st
      in bind_o (load s ext) (\<lambda>vext.
         if upper128 (upper256 vext) = 0 \<and> lower128 (upper256 vext) = 0 \<and> upper128 (lower256 vext) = 0 \<and>
            lower128 (lower256 vext) < 31 then
           bind_o (load s x) (\<lambda>vx.
           let e = unat (lower128 (lower256 vext)); sign_word_index = e div 8; sign_byte_index = e mod 8
           in bind_o (u256_index vx sign_word_index) (\<lambda>sign_word.
              let sign_byte_offset = sign_byte_index * 8;
                  sign_byte = ucast (drop_bit sign_byte_offset sign_word) :: 8 word;
                  sext_byte = scast sign_byte :: u64;
                  sext = push_bit sign_byte_offset sext_byte;
                  sign_mask = push_bit sign_byte_offset (NOT 0);
                  val = sign_word AND NOT sign_mask;
                  sign_word = sext OR val;
                  sign_ex = drop_bit 8 sext_byte
              in bind_o (signextend_loop (3 - sign_word_index) sign_word_index sign_ex vx) (store_slot s x)))
         else Inr s))"

text \<open>The instructions that store a truth value over the second item.\<close>

definition truth :: "bool \<Rightarrow> uint256_t" where
  "truth b = (if b then mk256 0 0 0 1 else mk256 0 0 0 0)"

definition lt :: "int \<Rightarrow> ExecutionState \<Rightarrow> ExecutionState outcome" where
  "lt = binop (\<lambda>x y. truth (gt256 y x))"

definition gt :: "int \<Rightarrow> ExecutionState \<Rightarrow> ExecutionState outcome" where
  "gt = binop (\<lambda>x y. truth (gt256 x y))"

definition slt :: "int \<Rightarrow> ExecutionState \<Rightarrow> ExecutionState outcome" where
  "slt = binop (\<lambda>x y. truth (gt256 y x))"

definition sgt :: "int \<Rightarrow> ExecutionState \<Rightarrow> ExecutionState outcome" where
  "sgt = binop (\<lambda>x y. truth (gt256 x y))"

definition eq_instr :: "int \<Rightarrow> ExecutionState \<Rightarrow> ExecutionState outcome" where
  "eq_instr st s =
     (let x = StackTop_get st 0; y = StackTop_get st 1
      in bind_o (load s x) (\<lambda>vx. bind_o (load s y) (\<lambda>vy. store_slot s y (truth (equal256 vx vy)))))"

definition iszero :: "int \<Rightarrow> ExecutionState \<Rightarrow> ExecutionState outcome" where
  "iszero st s = bind_o (load s st) (\<lambda>x. store_slot s st (truth (zero256 x)))"

definition and_instr :: "int \<Rightarrow> ExecutionState \<Rightarrow> ExecutionState outcome" where
  "and_instr = binop and256"

definition or_instr :: "int \<Rightarrow> ExecutionState \<Rightarrow> ExecutionState outcome" where
  "or_instr = binop or256"

definition xor_instr :: "int \<Rightarrow> ExecutionState \<Rightarrow> ExecutionState outcome" where
  "xor_instr = binop xor256"

definition not_instr :: "int \<Rightarrow> ExecutionState \<Rightarrow> ExecutionState outcome" where
  "not_instr st s = bind_o (load s st) (\<lambda>x. store_slot s st (copy256 (not256 x)))"

definition byte_instr :: "int \<Rightarrow> ExecutionState \<Rightarrow> ExecutionState outcome" where
  "byte_instr st s =
     (let (n, st) = StackTop_pop st; x = st
      in bind_o (load s n) (\<lambda>vn. bind_o (load s x) (\<lambda>vx.
         let n_valid = (upper128 (upper256 vn) = 0 \<and> lower128 (upper256 vn) = 0 \<and> upper128 (lower256 vn) = 0 \<and>
               lower128 (lower256 vn) < 32);
             byte_mask = (if n_valid then 0xff else 0);
             index = 31 - unat (lower128 (lower256 vn)) mod 32
         in bind_o (u256_index vx (index div 8)) (\<lambda>word.
            let byte = drop_bit (index mod 8 * 8) word AND byte_mask
            in store_slot s x (mk256 0 0 0 byte)))))"

text \<open>The shifts take the low 32 bits of the amount.\<close>

definition shl :: "int \<Rightarrow> ExecutionState \<Rightarrow> ExecutionState outcome" where
  "shl = binop (\<lambda>x y. shiftl256 y (ucast (lower128 (lower256 x))))"

definition shr :: "int \<Rightarrow> ExecutionState \<Rightarrow> ExecutionState outcome" where
  "shr = binop (\<lambda>x y. shiftr256 y (ucast (lower128 (lower256 x))))"

definition sar :: "int \<Rightarrow> ExecutionState \<Rightarrow> ExecutionState outcome" where
  "sar = binop (\<lambda>y x.
     let sign_mask = mk256 0 0 0 0;
         sign_mask = (if upper128 (upper256 x) <s 0 then copy256 (not256 sign_mask) else sign_mask);
         offset = ucast (lower128 (lower256 y));
         target1 = shiftr256 x offset;
         target2 = shiftl256 sign_mask offset
     in add256 target1 target2)"

section \<open>Values the instructions leave on the stack\<close>

definition on_stack :: "ExecutionState \<Rightarrow> int \<Rightarrow> bool" where
  "on_stack s i \<longleftrightarrow> 0 \<le> i \<and> nat i < length (stack_space s)"

definition slot :: "ExecutionState \<Rightarrow> int \<Rightarrow> uint256_t" where
  "slot s i = stack_space s ! nat i"

definition put_slot :: "ExecutionState \<Rightarrow> int \<Rightarrow> uint256_t \<Rightarrow> ExecutionState" where
  "put_slot s i v = s\<lparr>stack_space := (stack_space s)[nat i := v]\<rparr>"

text \<open>The outcome is the state with a number of value \<open>n\<close> in slot \<open>i\<close>, and nothing else changed.\<close>

definition leaves :: "ExecutionState outcome \<Rightarrow> ExecutionState \<Rightarrow> int \<Rightarrow> nat \<Rightarrow> bool" where
  "leaves r s i n \<longleftrightarrow> (\<exists>v. val256 v = n \<and> r = Inr (put_slot s i v))"

lemma load_on [simp]: "on_stack s i \<Longrightarrow> load s i = Inr (slot s i)"
  by (simp add: on_stack_def load_def slot_def)

lemma store_on [simp]: "on_stack s i \<Longrightarrow> store_slot s i v = Inr (put_slot s i v)"
  by (simp add: on_stack_def store_slot_def put_slot_def)

lemma leaves_put [simp]: "val256 v = n \<Longrightarrow> leaves (Inr (put_slot s i v)) s i n"
  by (auto simp: leaves_def)

lemma binop_leaves:
  assumes "on_stack s st" and "on_stack s (st - 1)" and "val256 (f (slot s st) (slot s (st - 1))) = n"
  shows "leaves (binop f st s) s (st - 1) n"
  using assms by (simp add: binop_def StackTop_pop_def Let_def)

lemma divmod_o_law:
  assumes "val256 r \<noteq> 0"
  shows "\<exists>q m. divmod_o l r = Inr (q, m) \<and> val256 q = val256 l div val256 r \<and> val256 m = val256 l mod val256 r"
  using assms div256.divmod_correct [of r l] by (auto simp: divmod_o_def)

lemma truth_val [simp]: "val256 (truth b) = of_bool b"
  by (simp add: truth_def val256_mk256)

lemma zero_literal [simp]: "val256 (mk256 0 0 0 0) = 0" "val256 (mk256 0 0 0 1) = 1"
  by (simp_all add: val256_mk256)

lemma shift_amount: "unat (ucast (lower128 (lower256 x)) :: u32) = val256 x mod 2 ^ 32"
proof -
  have "unat (ucast (lower128 (lower256 x)) :: u32) = val256 x mod 2 ^ 64 mod 2 ^ 32"
    by (simp add: unsigned_ucast_eq take_bit_eq_mod unat_limbs)
  also have "\<dots> = val256 x mod 2 ^ 32" by (simp add: mod_mod_cancel)
  finally show ?thesis .
qed

lemma small_number:
  assumes "n < 2 ^ 64"
  shows "upper128 (upper256 x) = 0 \<and> lower128 (upper256 x) = 0 \<and> upper128 (lower256 x) = 0 \<and>
    lower128 (lower256 x) < of_nat n \<longleftrightarrow> val256 x < n"
proof -
  have "upper128 (upper256 x) = 0 \<and> lower128 (upper256 x) = 0 \<and> upper128 (lower256 x) = 0 \<longleftrightarrow> val256 x < 2 ^ 64"
    unfolding fits_64_value [symmetric] by (auto simp: fits_64_def or_eq_0_iff)
  moreover have "lower128 (lower256 x) < of_nat n \<longleftrightarrow> val256 x mod 2 ^ 64 < n"
    using assms by (simp add: word_less_nat_alt unat_limbs unat_of_nat)
  ultimately show ?thesis using assms by auto
qed

lemma below_31: "upper128 (upper256 x) = 0 \<and> lower128 (upper256 x) = 0 \<and> upper128 (lower256 x) = 0 \<and>
    lower128 (lower256 x) < 31 \<longleftrightarrow> val256 x < 31"
  using small_number [of 31 x] by simp

lemma below_32: "upper128 (upper256 x) = 0 \<and> lower128 (upper256 x) = 0 \<and> upper128 (lower256 x) = 0 \<and>
    lower128 (lower256 x) < 32 \<longleftrightarrow> val256 x < 32"
  using small_number [of 32 x] by simp

lemma u256_index_val:
  "i < 4 \<Longrightarrow> \<exists>w. u256_index x i = Inr w \<and> unat w = val256 x div 2 ^ (64 * i) mod 2 ^ 64"
proof -
  assume "i < 4"
  then have "i = 0 \<or> i = 1 \<or> i = 2 \<or> i = 3" by linarith
  moreover have "val256 x div 2 ^ 192 mod 2 ^ 64 = val256 x div 2 ^ 192"
    using unat_limbs(4) [of x] unat64_pow [of "upper128 (upper256 x)"] by simp
  ultimately show ?thesis by (auto simp: u256_index_def unat_limbs)
qed

lemma byte_of_limb: "r < 8 \<Longrightarrow> (a :: nat) mod 2 ^ 64 div 2 ^ (8 * r) mod 256 = a div 2 ^ (8 * r) mod 256"
proof -
  assume "r < 8"
  then have "8 \<le> 64 - 8 * r" by linarith
  then have "take_bit 8 (drop_bit (8 * r) (take_bit 64 a)) = take_bit 8 (drop_bit (8 * r) a)"
    by (simp add: drop_bit_take_bit min_def)
  then show ?thesis by (simp add: take_bit_eq_mod drop_bit_eq_div)
qed

lemma byte_of_word: "unat (drop_bit k w AND 0xff :: u64) = unat w div 2 ^ k mod 256"
proof -
  have "(0xff :: u64) = mask 8" by (simp add: mask_eq_exp_minus_1)
  then have "unat (drop_bit k w AND 0xff) = take_bit 8 (unat (drop_bit k w))"
    by (simp only: take_bit_eq_mask [symmetric] unsigned_take_bit_eq)
  also have "unat (drop_bit k w) = unat w div 2 ^ k"
    by (simp only: unat_drop_bit_eq) (simp add: drop_bit_eq_div)
  finally show ?thesis by (simp add: take_bit_eq_mod)
qed

lemma negative_word: "(w :: u64) <s 0 \<longleftrightarrow> 2 ^ 63 \<le> unat w"
proof -
  have "w <s 0 \<longleftrightarrow> bit (uint w) 63"
    by (simp add: word_sless_alt sint_uint signed_take_bit_negative_iff)
  also have "\<dots> \<longleftrightarrow> odd (uint w div 2 ^ 63)" by (rule bit_iff_odd)
  also have "uint w div 2 ^ 63 = int (unat w div 2 ^ 63)" by (simp add: zdiv_int)
  finally have sign: "w <s 0 \<longleftrightarrow> odd (unat w div 2 ^ 63)" by simp
  show ?thesis
  proof (cases "unat w < 2 ^ 63")
    case False
    then have "unat w div 2 ^ 63 = 1" using unat64_pow [of w] by (intro div_nat_eqI) simp_all
    then show ?thesis using sign False by simp
  qed (use sign in simp)
qed

lemma top_bit_256: "upper128 (upper256 v) <s 0 \<longleftrightarrow> \<not> val256 v < 2 ^ 255"
proof -
  have "2 ^ 63 \<le> val256 v div 2 ^ 192 \<longleftrightarrow> 2 ^ 63 * 2 ^ 192 \<le> val256 v"
    by (rule less_eq_div_iff_mult_less_eq) simp
  then show ?thesis by (simp add: negative_word unat_limbs not_less)
qed

text \<open>
  Claim C29. The arithmetic instructions replace the second item by the sum or difference modulo
  2^256, the quotient or the remainder, with zero for a division by zero, and change nothing else.
  The signed divisions \<open>sdiv\<close> and \<open>smod\<close> compute the same unsigned quotient and remainder.
\<close>

theorem arithmetic_instructions:
  assumes "on_stack s st" and "on_stack s (st - 1)"
    and x: "val256 (slot s st) = x" and y: "val256 (slot s (st - 1)) = y"
  shows "leaves (add st s) s (st - 1) ((x + y) mod 2 ^ 256) \<and>
    leaves (sub st s) s (st - 1) ((x + 2 ^ 256 - y) mod 2 ^ 256) \<and>
    leaves (div_instr st s) s (st - 1) (if y = 0 then 0 else x div y) \<and>
    leaves (sdiv st s) s (st - 1) (if y = 0 then 0 else x div y) \<and>
    leaves (mod_instr st s) s (st - 1) (if y = 0 then 0 else x mod y) \<and>
    leaves (smod st s) s (st - 1) (if y = 0 then 0 else x mod y)"
proof -
  have law: "\<exists>q m. divmod_o (slot s st) (slot s (st - 1)) = Inr (q, m) \<and> val256 q = x div y \<and> val256 m = x mod y" if "y \<noteq> 0"
    using divmod_o_law [of "slot s (st - 1)" "slot s st"] that x y by simp
  have "leaves (add st s) s (st - 1) ((x + y) mod 2 ^ 256)"
    unfolding add_def using assms by (intro binop_leaves) (simp_all add: add256_val)
  moreover have "leaves (sub st s) s (st - 1) ((x + 2 ^ 256 - y) mod 2 ^ 256)"
    using assms by (simp add: sub_def StackTop_get_def Let_def minus256_val)
  moreover have "leaves (div_instr st s) s (st - 1) (if y = 0 then 0 else x div y)"
    "leaves (sdiv st s) s (st - 1) (if y = 0 then 0 else x div y)"
    "leaves (mod_instr st s) s (st - 1) (if y = 0 then 0 else x mod y)"
    "leaves (smod st s) s (st - 1) (if y = 0 then 0 else x mod y)"
    using assms law
    by (auto simp: div_instr_def sdiv_def mod_instr_def smod_def StackTop_get_def Let_def zero256_val)
  ultimately show ?thesis by simp
qed

text \<open>
  \<open>addmod\<close> and \<open>mulmod\<close> store the quotient of the division by the modulus, not its
  remainder; \<open>addmod\<close> divides the sum already reduced modulo 2^256.
\<close>

theorem modular_instructions:
  assumes "on_stack s st" and "on_stack s (st - 1)" and "on_stack s (st - 2)"
    and "val256 (slot s (st - 2)) = m"
  shows "leaves (addmod st s) s (st - 2)
           (if m = 0 then 0 else (val256 (slot s st) + val256 (slot s (st - 1))) mod 2 ^ 256 div m) \<and>
    leaves (mulmod st s) s (st - 2)
           (if m = 0 then 0 else val256 (mul256 (slot s st) (slot s (st - 1))) div m)"
proof -
  have law: "\<exists>q r. divmod_o l (slot s (st - 2)) = Inr (q, r) \<and> val256 q = val256 l div m" if "m \<noteq> 0" for l
    using divmod_o_law [of "slot s (st - 2)" l] that assms(4) by auto
  have "leaves (addmod st s) s (st - 2)
          (if m = 0 then 0 else (val256 (slot s st) + val256 (slot s (st - 1))) mod 2 ^ 256 div m)"
    using assms law [of "add256 (slot s st) (slot s (st - 1))"]
    by (auto simp: addmod_def StackTop_pop_def Let_def zero256_val add256_val)
  moreover have "leaves (mulmod st s) s (st - 2)
          (if m = 0 then 0 else val256 (mul256 (slot s st) (slot s (st - 1))) div m)"
    using assms law [of "mul256 (slot s st) (slot s (st - 1))"]
    by (auto simp: mulmod_def StackTop_get_def Let_def zero256_val)
  ultimately show ?thesis by simp
qed

text \<open>A state that holds the given numbers on its stack, the last one on top, for the examples.\<close>

definition stacked :: "int \<Rightarrow> uint256_t list \<Rightarrow> ExecutionState" where
  "stacked g vs = (start_state g)\<lparr>stack_space := vs @ replicate (1024 - length vs) clear256\<rparr>"

lemma on_stacked [simp]: "on_stack (stacked g vs) i \<longleftrightarrow> 0 \<le> i \<and> i < max 1024 (int (length vs))"
  by (auto simp: on_stack_def stacked_def)

lemma stacked_simps [simp]: "gas_left (stacked g vs) = g" "memory (stacked g vs) = Memory_init"
  "return_data (stacked g vs) = None"
  by (simp_all add: stacked_def)

lemma slot_stacked [simp]: "0 \<le> i \<Longrightarrow> i < int (length vs) \<Longrightarrow> slot (stacked g vs) i = vs ! nat i"
  by (simp add: slot_def stacked_def nth_append nat_less_iff)

theorem arithmetic_instructions_witness:
  "leaves (smod 1 (stacked 0 [mk256 0 0 0 5, mk256 0 0 0 17])) (stacked 0 [mk256 0 0 0 5, mk256 0 0 0 17]) 0 2"
  using arithmetic_instructions [of "stacked 0 [mk256 0 0 0 5, mk256 0 0 0 17]" 1 17 5]
  by (simp add: val256_mk256)

theorem modular_instructions_witness:
  "leaves (addmod 2 (stacked 0 [mk256 0 0 0 5, mk256 0 0 0 11, mk256 0 0 0 6]))
     (stacked 0 [mk256 0 0 0 5, mk256 0 0 0 11, mk256 0 0 0 6]) 0 3"
  using modular_instructions [of "stacked 0 [mk256 0 0 0 5, mk256 0 0 0 11, mk256 0 0 0 6]" 2 5]
  by (simp add: val256_mk256)

text \<open>
  Claim C30. The comparisons leave one or zero, \<open>slt\<close> and \<open>sgt\<close> comparing without signs like \<open>lt\<close>
  and \<open>gt\<close>; the bitwise instructions work on all 256 bits; \<open>byte\<close> selects a byte counted from the most
  significant one, and gives zero for an index above 31.
\<close>

theorem logic_instructions:
  assumes "on_stack s st" and "on_stack s (st - 1)"
    and x: "val256 (slot s st) = x" and y: "val256 (slot s (st - 1)) = y"
  shows "leaves (lt st s) s (st - 1) (of_bool (x < y)) \<and> leaves (gt st s) s (st - 1) (of_bool (y < x)) \<and>
    leaves (slt st s) s (st - 1) (of_bool (x < y)) \<and> leaves (sgt st s) s (st - 1) (of_bool (y < x)) \<and>
    leaves (eq_instr st s) s (st - 1) (of_bool (x = y)) \<and> leaves (iszero st s) s st (of_bool (x = 0)) \<and>
    leaves (and_instr st s) s (st - 1) (and x y) \<and> leaves (or_instr st s) s (st - 1) (or x y) \<and>
    leaves (xor_instr st s) s (st - 1) (xor x y) \<and> leaves (not_instr st s) s st (2 ^ 256 - 1 - x) \<and>
    leaves (byte_instr st s) s (st - 1) (if x < 32 then y div 256 ^ (31 - x) mod 256 else 0)"
proof -
  have byte: "leaves (byte_instr st s) s (st - 1) (if x < 32 then y div 256 ^ (31 - x) mod 256 else 0)"
  proof -
    define i where "i = 31 - x mod 2 ^ 64 mod 32"
    then have "i div 8 < 4" by linarith
    then obtain w where w: "u256_index (slot s (st - 1)) (i div 8) = Inr w"
      "unat w = y div 2 ^ (64 * (i div 8)) mod 2 ^ 64"
      using u256_index_val [of "i div 8" "slot s (st - 1)"] y by auto
    have "y div 2 ^ (64 * (i div 8)) div 2 ^ (8 * (i mod 8)) = y div 2 ^ (64 * (i div 8) + 8 * (i mod 8))"
      by (simp only: div_mult2_eq power_add)
    moreover have "64 * (i div 8) + 8 * (i mod 8) = 8 * i"
      using div_mult_mod_eq [of i 8] by linarith
    ultimately have "y div 2 ^ (64 * (i div 8)) mod 2 ^ 64 div 2 ^ (8 * (i mod 8)) mod 256 = y div 2 ^ (8 * i) mod 256"
      using byte_of_limb [of "i mod 8" "y div 2 ^ (64 * (i div 8))"] by simp
    then have b: "unat (drop_bit (i mod 8 * 8) w AND 0xff) = y div 256 ^ i mod 256"
      using power_mult [of "2 :: nat" 8 i] unfolding byte_of_word w(2) mult.commute [of "i mod 8" 8] by simp
    have small: "x < 32 \<Longrightarrow> i = 31 - x" by (simp add: i_def)
    have lim: "31 - unat (lower128 (lower256 (slot s st))) mod 32 = i"
      using x by (simp add: unat_limbs i_def)
    have run: "byte_instr st s =
        Inr (put_slot s (st - 1) (mk256 0 0 0 (drop_bit (i mod 8 * 8) w AND (if x < 32 then 0xff else 0))))"
      using assms w(1) unfolding byte_instr_def StackTop_pop_def Let_def by (simp add: below_32 lim)
    show ?thesis
    proof (cases "x < 32")
      case True
      then show ?thesis using run b small [OF True] by (simp add: val256_mk256)
    qed (use run in \<open>simp add: val256_mk256\<close>)
  qed
  note defs = lt_def gt_def slt_def sgt_def and_instr_def or_instr_def xor_instr_def
  have "leaves (lt st s) s (st - 1) (of_bool (x < y))" "leaves (gt st s) s (st - 1) (of_bool (y < x))"
    "leaves (slt st s) s (st - 1) (of_bool (x < y))" "leaves (sgt st s) s (st - 1) (of_bool (y < x))"
    "leaves (and_instr st s) s (st - 1) (and x y)" "leaves (or_instr st s) s (st - 1) (or x y)"
    "leaves (xor_instr st s) s (st - 1) (xor x y)"
    unfolding defs using assms
    by (auto intro!: binop_leaves simp: gt256_val and256_val or256_val xor256_val)
  moreover have "leaves (eq_instr st s) s (st - 1) (of_bool (x = y))" "leaves (iszero st s) s st (of_bool (x = 0))"
    "leaves (not_instr st s) s st (2 ^ 256 - 1 - x)"
    using assms by (simp_all add: eq_instr_def iszero_def not_instr_def StackTop_get_def Let_def
        equal256_val zero256_val not256_val)
  ultimately show ?thesis using byte by blast
qed

theorem logic_instructions_witness:
  "leaves (byte_instr 1 (stacked 0 [mk256 0 0 0 0xABCD, mk256 0 0 0 30])) (stacked 0 [mk256 0 0 0 0xABCD, mk256 0 0 0 30]) 0 0xAB"
  using logic_instructions [of "stacked 0 [mk256 0 0 0 0xABCD, mk256 0 0 0 30]" 1 30 "0xABCD"]
  by (simp add: val256_mk256)

text \<open>
  Claim C31. The shifts take the amount modulo 2^32, so that shifting by 2^32 shifts nothing.
  The arithmetic shift of a number with the top bit set by \<open>n\<close> places adds the ones shifted left by \<open>n\<close>,
  2^256 - 2^n, where they should fill the \<open>n\<close> places from the top.
\<close>

theorem shift_instructions:
  assumes "on_stack s st" and "on_stack s (st - 1)"
    and n: "val256 (slot s st) mod 2 ^ 32 = n" and y: "val256 (slot s (st - 1)) = y"
  shows "leaves (shl st s) s (st - 1) (y * 2 ^ n mod 2 ^ 256) \<and>
    leaves (shr st s) s (st - 1) (y div 2 ^ n) \<and>
    leaves (sar st s) s (st - 1)
      ((y div 2 ^ n + (if y < 2 ^ 255 then 0 else (2 ^ 256 - 1) * 2 ^ n)) mod 2 ^ 256)"
proof -
  have "leaves (shl st s) s (st - 1) (y * 2 ^ n mod 2 ^ 256)" "leaves (shr st s) s (st - 1) (y div 2 ^ n)"
    unfolding shl_def shr_def using assms
    by (auto intro!: binop_leaves simp: val256_shiftl val256_shiftr shift_amount)
  moreover have "leaves (sar st s) s (st - 1)
      ((y div 2 ^ n + (if y < 2 ^ 255 then 0 else (2 ^ 256 - 1) * 2 ^ n)) mod 2 ^ 256)"
    unfolding sar_def using assms
    by (intro binop_leaves)
      (simp_all add: Let_def top_bit_256 add256_val val256_shiftl val256_shiftr shift_amount not256_val mod_add_right_eq)
  ultimately show ?thesis by blast
qed

theorem shift_instructions_witness:
  "leaves (sar 1 (stacked 0 [mk256 (- 1) (- 1) (- 1) (- 1), mk256 0 0 0 1]))
     (stacked 0 [mk256 (- 1) (- 1) (- 1) (- 1), mk256 0 0 0 1]) 0 (2 ^ 255 - 3)"
proof -
  have v: "val256 (mk256 (- 1) (- 1) (- 1) (- 1)) = 2 ^ 256 - 1" "val256 (mk256 0 0 0 1) mod 2 ^ 32 = 1"
    by (simp_all add: val256_mk256 unsigned_minus_1_eq_mask mask_eq_exp_minus_1)
  then show ?thesis
    using shift_instructions [of "stacked 0 [mk256 (- 1) (- 1) (- 1) (- 1), mk256 0 0 0 1]" 1 1 "2 ^ 256 - 1"]
    by simp
qed

lemma u256_index_put_val:
  assumes "i < 4" and w: "u256_index x i = Inr w"
  shows "\<exists>x'. u256_index_put x i v = Inr x' \<and>
    val256 x' + unat w * 2 ^ (64 * i) = val256 x + unat v * 2 ^ (64 * i)"
proof -
  have "i = 0 \<or> i = 1 \<or> i = 2 \<or> i = 3" using assms(1) by linarith
  then show ?thesis using w
    by (auto simp: u256_index_def u256_index_put_def val256_def val128_def algebra_simps)
qed

lemma u256_index_of_put: "u256_index_put x i v = Inr x' \<Longrightarrow> u256_index x' i = Inr v"
  by (auto simp: u256_index_def u256_index_put_def split: if_splits)

lemma signextend_loop_put:
  "u256_index_put x i v = Inr x' \<Longrightarrow> signextend_loop (Suc n) i v x = Inr x'"
proof -
  have twice: "u256_index_put x i v = Inr x' \<Longrightarrow> u256_index_put x' i v = Inr x'" for x x'
    by (auto simp: u256_index_put_def split: if_splits)
  have "u256_index_put x i v = Inr x' \<Longrightarrow> signextend_loop n i v x' = Inr x'" for n x x'
    by (induction n) (auto dest: twice)
  then show "u256_index_put x i v = Inr x' \<Longrightarrow> ?thesis" by simp
qed

lemma put_same [simp]: "on_stack s i \<Longrightarrow> put_slot s i (slot s i) = s"
  by (simp add: put_slot_def slot_def on_stack_def)

lemma fill_8: "drop_bit 8 (scast (b :: 8 word) :: u64) = (if bit b 7 then mask 56 else 0)"
  by (rule bit_word_eqI) (auto simp: bit_simps min_def)

lemma sign_fill:
  "drop_bit 8 (scast (ucast (drop_bit k w) :: 8 word) :: u64) = (if bit w (k + 7) then mask 56 else 0)"
proof -
  have "bit (ucast (drop_bit k w) :: 8 word) 7 \<longleftrightarrow> bit w (k + 7)"
    unfolding bit_unsigned_iff bit_drop_bit_eq by simp
  then show ?thesis unfolding fill_8 by simp
qed

lemma bit_of_limb: "r < 8 \<Longrightarrow> odd ((a :: nat) div 2 ^ (64 * q) mod 2 ^ 64 div 2 ^ (8 * r + 7)) \<longleftrightarrow> odd (a div 2 ^ (8 * (8 * q + r) + 7))"
proof -
  assume "r < 8"
  then have "bit (take_bit 64 (drop_bit (64 * q) a)) (8 * r + 7) \<longleftrightarrow> bit a (64 * q + (8 * r + 7))"
    by (simp add: bit_simps)
  then show ?thesis by (simp add: bit_iff_odd take_bit_eq_mod drop_bit_eq_div add_mult_distrib2 add.assoc)
qed

text \<open>
  Claim C32. \<open>signextend\<close> does not extend a sign. For a byte index of at least 24 it changes nothing; for
  a smaller index it overwrites the 64-bit word that holds the sign byte by 2^56 - 1 or by 0, whether
  the sign is set or not, and leaves the words above it as they are.
\<close>

theorem signextend_effect:
  assumes "on_stack s st" and "on_stack s (st - 1)"
    and b: "val256 (slot s st) = b" and x: "val256 (slot s (st - 1)) = x"
  shows "if b \<ge> 24 then signextend st s = Inr s
    else let word = x div 2 ^ (64 * (b div 8)) mod 2 ^ 64;
             sign = odd (x div 2 ^ (8 * b + 7))
         in leaves (signextend st s) s (st - 1)
              (x - word * 2 ^ (64 * (b div 8)) + (if sign then 2 ^ 56 - 1 else 0) * 2 ^ (64 * (b div 8)))"
proof (cases "b < 31")
  case False
  then show ?thesis
    using assms by (simp add: signextend_def StackTop_pop_def Let_def below_31)
next
  case True
  define q where "q = b div 8"
  define r where "r = b mod 8"
  have low: "unat (lower128 (lower256 (slot s st))) = b" using True b by (simp add: unat_limbs)
  have q4: "q < 4" and r8: "r < 8" and br: "8 * q + r = b" using True by (auto simp: q_def r_def)
  obtain w where w: "u256_index (slot s (st - 1)) q = Inr w" "unat w = x div 2 ^ (64 * q) mod 2 ^ 64"
    using u256_index_val [OF q4, of "slot s (st - 1)"] x by auto
  let ?v = "if bit w (r * 8 + 7) then mask 56 else 0 :: u64"
  have sign: "bit w (r * 8 + 7) \<longleftrightarrow> odd (x div 2 ^ (8 * b + 7))"
  proof -
    have "bit w (r * 8 + 7) \<longleftrightarrow> bit (unat w) (8 * r + 7)" by (simp add: bit_unsigned_iff mult.commute)
    also have "\<dots> \<longleftrightarrow> odd (x div 2 ^ (8 * b + 7))"
      unfolding bit_iff_odd w(2) bit_of_limb [OF r8] br ..
    finally show ?thesis .
  qed
  have run: "signextend st s = bind_o (signextend_loop (3 - q) q ?v (slot s (st - 1))) (store_slot s (st - 1))"
    using assms(1,2) True b w(1)
    by (simp add: signextend_def StackTop_pop_def Let_def below_31 low sign_fill q_def r_def)
  show ?thesis
  proof (cases "q = 3")
    case True
    then show ?thesis using run assms(2) br by simp
  next
    case False
    then obtain n where n: "3 - q = Suc n" using q4 by (cases "3 - q") auto
    obtain x' where x': "u256_index_put (slot s (st - 1)) q ?v = Inr x'"
      "val256 x' + unat w * 2 ^ (64 * q) = x + unat ?v * 2 ^ (64 * q)"
      using u256_index_put_val [OF q4 w(1), of ?v] x by auto
    have "unat w * 2 ^ (64 * q) \<le> x"
    proof -
      have "unat w \<le> x div 2 ^ (64 * q)" unfolding w(2) by (rule mod_less_eq_dividend)
      then show ?thesis by (simp add: less_eq_div_iff_mult_less_eq)
    qed
    then have "val256 x' = x - unat w * 2 ^ (64 * q) + unat ?v * 2 ^ (64 * q)" using x'(2) by linarith
    moreover have "unat ?v = (if odd (x div 2 ^ (8 * b + 7)) then 2 ^ 56 - 1 else 0)"
      unfolding sign by (simp add: mask_eq_exp_minus_1)
    ultimately have "val256 x' = x - x div 2 ^ (64 * (b div 8)) mod 2 ^ 64 * 2 ^ (64 * (b div 8)) +
        (if odd (x div 2 ^ (8 * b + 7)) then 2 ^ 56 - 1 else 0) * 2 ^ (64 * (b div 8))"
      by (simp only: w(2) q_def)
    moreover have "signextend st s = Inr (put_slot s (st - 1) x')"
      using run assms(2) signextend_loop_put [OF x'(1), of n] by (simp only: n bind_o_simps store_on)
    moreover have "\<not> b \<ge> 24" using False q4 br r8 by linarith
    ultimately show ?thesis by (simp only: Let_def leaves_put if_False)
  qed
qed

theorem signextend_effect_witness:
  "leaves (signextend 1 (stacked 0 [mk256 0 0 0 0x80, mk256 0 0 0 0])) (stacked 0 [mk256 0 0 0 0x80, mk256 0 0 0 0]) 0 (2 ^ 56 - 1)"
  using signextend_effect [of "stacked 0 [mk256 0 0 0 0x80, mk256 0 0 0 0]" 1 0 "0x80"]
  by (simp add: val256_mk256)

lemma exp_loop_exponent: "val256 (snd (exp_loop b t e)) = 0"
proof (induction b t e rule: exp_loop.induct)
  case (1 base target exponent)
  then show ?case
    by (subst exp_loop.simps) (auto simp: zero256_val)
qed

lemma csb256_bound: "0 \<le> signed_take_bit 31 (uint (csb256 e)) \<and> signed_take_bit 31 (uint (csb256 e)) < 2 ^ 31"
proof -
  have small: "unat (count_significant_bytes x) < 2 ^ 29" for x
  proof -
    have "unat (count_significant_bytes x) = unat (64 - clz x + 7) div 8"
      by (simp add: count_significant_bytes_def unat_div)
    also have "\<dots> < 2 ^ 29" using unsigned_less [of "64 - clz x + 7"] by (simp add: div_less_iff_less_mult)
    finally show ?thesis .
  qed
  have sum: "unat (a + r * 3) < 2 ^ 31" "unat (a + r * 2) < 2 ^ 31" "unat (a + r) < 2 ^ 31" "unat a < 2 ^ 31"
    if "unat a < 2 ^ 29" "unat r < 2 ^ 29" for a r :: u32
    using that by (simp_all add: unat_word_ariths)
  have ifs: "unat a < n \<Longrightarrow> unat b < n \<Longrightarrow> unat (if P then a else b) < n" for P n and a b :: u32
    by simp
  have "unat (csb256 e) < 2 ^ 31"
    unfolding csb256_def Let_def by (intro ifs sum [OF small small])
  then have "int (unat (csb256 e)) < int (2 ^ 31)" by (simp only: of_nat_less_iff)
  then have lt: "uint (csb256 e) < 2 ^ 31" by simp
  moreover have ge: "0 \<le> uint (csb256 e)" by simp
  moreover have "signed_take_bit 31 (uint (csb256 e)) = uint (csb256 e)"
    by (rule signed_take_bit_int_eq_self) (use lt ge in linarith)+
  ultimately show ?thesis by (simp only:)
qed

text \<open>
  Claim C33. \<open>exp\<close> computes no power. When the gas covers the cost of the exponent's bytes, it leaves
  one for the exponent zero, and zero for every other exponent, since the counted-down exponent is
  the slot of the result and the product is dropped. The loop ends for every exponent.
\<close>

theorem exp_result:
  assumes "on_stack s st" and "on_stack s (st - 1)" and "0 \<le> gas_left s" and "gas_left s < 2 ^ 63"
    and "cost = signed_take_bit 31 (uint (csb256 (slot s (st - 1)))) * (if EVMC_SPURIOUS_DRAGON \<le> rev s then 50 else 10)"
    and "s' = s\<lparr>gas_left := gas_left s - cost\<rparr>"
  shows "if gas_left s < cost then exp_instr st s = Inr (s', EVMC_OUT_OF_GAS)
    else \<exists>v. exp_instr st s = Inr (put_slot s' (st - 1) v, EVMC_SUCCESS) \<and>
             val256 v = of_bool (val256 (slot s (st - 1)) = 0)"
proof -
  let ?e = "slot s (st - 1)" and ?b = "slot s st"
  have c: "0 \<le> cost" "cost \<le> 2 ^ 62" using csb256_bound [of ?e] assms(5) by auto
  have ch: "charge cost s = Inr (s', cost \<le> gas_left s)"
    using charge_law [of s cost] c assms(3,4,6) by simp
  have on: "on_stack s' st" "on_stack s' (st - 1)" "slot s' st = ?b"
    using assms(1,2,6) by (simp_all add: on_stack_def slot_def)
  show ?thesis
  proof (cases "gas_left s < cost")
    case True
    then show ?thesis
      using assms(2) ch by (simp add: exp_instr_def StackTop_pop_def Let_def flip: assms(5))
  next
    case False
    then have "exp_instr st s = Inr (put_slot s' (st - 1)
        (if zero256 ?e then mk256 0 0 0 1 else snd (exp_loop ?b ?b ?e)), EVMC_SUCCESS)"
      using assms(2) ch on
      by (simp add: exp_instr_def StackTop_pop_def Let_def split_beta flip: assms(5))
    then show ?thesis
      using False exp_loop_exponent [of ?b ?b ?e] by (auto simp: zero256_val)
  qed
qed

theorem exp_result_witness:
  "\<exists>v s'. exp_instr 1 (stacked 100 [mk256 0 0 0 3, mk256 0 0 0 2]) = Inr (put_slot s' 0 v, EVMC_SUCCESS) \<and> val256 v = 0"
proof -
  have "csb256 (mk256 0 0 0 3) = 0" by code_simp
  then show ?thesis
    using exp_result [of "stacked 100 [mk256 0 0 0 3, mk256 0 0 0 2]" 1 0]
    by (auto simp: val256_mk256)
qed

end
