(* ===== verification/Hex.thy ===== *)
theory Hex
  imports Bytes
begin

text \<open>
  Hexadecimal text of src/tscvee/ta/include/hex_helpers.h: \<open>from_hex_digit\<close>, \<open>from_hex\<close> and
  \<open>hex\<close>, over character buffers that end with a NUL; \<open>strlen\<close> is the C library's. A \<open>size_t\<close>
  is 64 bits wide.
\<close>

section \<open>The code\<close>

fun strlen :: "u8 list \<Rightarrow> nat outcome" where
  "strlen [] = Inl Out_of_bounds"
| "strlen (c # cs) = (if c = 0 then Inr 0 else bind_o (strlen cs) (\<lambda>n. Inr (Suc n)))"

definition from_hex_digit :: "u8 \<Rightarrow> int" where
  "from_hex_digit h =
     (if 48 \<le> h \<and> h \<le> 57 then uint h - 48
      else if 97 \<le> h \<and> h \<le> 102 then uint h - 97 + 10
      else if 65 \<le> h \<and> h \<le> 70 then uint h - 65 + 10
      else - 1)"

definition from_hex_byte :: "u8 \<Rightarrow> u8 \<Rightarrow> u8" where
  "from_hex_byte c d =
     (let r0 = word_of_int (from_hex_digit c); r1 = word_of_int (from_hex_digit d)
      in push_bit 4 r0 + r1)"

function from_hex_loop :: "u8 list \<Rightarrow> nat \<Rightarrow> nat \<Rightarrow> nat \<Rightarrow> u8 list \<Rightarrow> u8 list outcome" where
  "from_hex_loop hex hex_begin limit i res =
     (if i < limit then
        bind_o (read_at hex i) (\<lambda>c. bind_o (read_at hex (i + 1)) (\<lambda>d.
        bind_o (write_at res ((i - hex_begin) div 2) (from_hex_byte c d)) (\<lambda>res.
        from_hex_loop hex hex_begin limit (i + 2) res)))
      else Inr res)"
  by pat_completeness auto
termination
  by (relation "measure (\<lambda>(hex, hex_begin, limit, i, res). limit - i)") auto

declare from_hex_loop.simps [simp del]

definition from_hex :: "u8 list \<Rightarrow> u8 list \<Rightarrow> u8 list outcome" where
  "from_hex hex res =
     bind_o (strlen hex) (\<lambda>n.
     let hex_begin = (if 2 \<le> n \<and> hex ! 0 = 48 \<and> hex ! 1 = 120 then 2 else 0);
         limit = unat (of_nat n - 1 :: u64)
     in from_hex_loop hex hex_begin limit hex_begin res)"

definition hex_chars :: "u8 list" where
  "hex_chars = [48, 49, 50, 51, 52, 53, 54, 55, 56, 57, 97, 98, 99, 100, 101, 102]"

text \<open>\<open>n\<close> is the number of rounds left.\<close>

fun hex_loop :: "u8 list \<Rightarrow> nat \<Rightarrow> nat \<Rightarrow> u8 list \<Rightarrow> u8 list outcome" where
  "hex_loop data 0 i out = Inr out"
| "hex_loop data (Suc n) i out =
     bind_o (read_at data i) (\<lambda>b.
     bind_o (read_at hex_chars (unat (drop_bit 4 b))) (\<lambda>c.
     bind_o (write_at out (i * 2 + 2) c) (\<lambda>out.
     bind_o (read_at hex_chars (unat (b AND 0xF))) (\<lambda>c.
     bind_o (write_at out (i * 2 + 3) c) (\<lambda>out.
     hex_loop data n (i + 1) out)))))"

definition hex :: "u8 list \<Rightarrow> nat \<Rightarrow> u8 list \<Rightarrow> u8 list outcome" where
  "hex data n out =
     bind_o (write_at out 0 48) (\<lambda>out. bind_o (write_at out 1 120) (\<lambda>out. hex_loop data n 0 out))"

section \<open>What they compute\<close>

fun unhex :: "u8 list \<Rightarrow> u8 list" where
  "unhex (c # d # cs) = from_hex_byte c d # unhex cs"
| "unhex cs = []"

definition strip0x :: "u8 list \<Rightarrow> u8 list" where
  "strip0x cs = (if take 2 cs = [48, 120] then drop 2 cs else cs)"

definition hex_byte :: "u8 \<Rightarrow> u8 list" where
  "hex_byte b = [hex_chars ! unat (drop_bit 4 b), hex_chars ! unat (b AND 0xF)]"

lemma strlen_ok: "0 \<notin> set cs \<Longrightarrow> strlen (cs @ 0 # zs) = Inr (length cs)"
  by (induction cs) auto

lemma strlen_Inr_iff: "strlen s = Inr n \<longleftrightarrow> (\<exists>cs zs. s = cs @ 0 # zs \<and> 0 \<notin> set cs \<and> length cs = n)"
proof (induction s arbitrary: n)
  case (Cons c s)
  show ?case
  proof (cases "c = 0")
    case True
    have "n = 0" if "c # s = cs @ 0 # zs" "0 \<notin> set cs" "length cs = n" for cs zs
      using that True by (cases cs) auto
    moreover have "\<exists>cs zs. c # s = cs @ 0 # zs \<and> 0 \<notin> set cs \<and> length cs = 0"
      using True by (intro exI [of _ "[]"] exI [of _ s]) simp
    ultimately show ?thesis using True by auto
  next
    case False
    have "(\<exists>cs zs. c # s = cs @ 0 # zs \<and> 0 \<notin> set cs \<and> length cs = n) \<longleftrightarrow>
        (\<exists>m cs zs. n = Suc m \<and> s = cs @ 0 # zs \<and> 0 \<notin> set cs \<and> length cs = m)"
    proof
      assume "\<exists>cs zs. c # s = cs @ 0 # zs \<and> 0 \<notin> set cs \<and> length cs = n"
      then obtain cs zs where "c # s = cs @ 0 # zs" "0 \<notin> set cs" "length cs = n" by blast
      with False show "\<exists>m cs zs. n = Suc m \<and> s = cs @ 0 # zs \<and> 0 \<notin> set cs \<and> length cs = m"
        by (cases cs) auto
    next
      assume "\<exists>m cs zs. n = Suc m \<and> s = cs @ 0 # zs \<and> 0 \<notin> set cs \<and> length cs = m"
      then obtain cs zs where "s = cs @ 0 # zs" "0 \<notin> set cs" "n = Suc (length cs)" by blast
      with False show "\<exists>cs zs. c # s = cs @ 0 # zs \<and> 0 \<notin> set cs \<and> length cs = n"
        by (intro exI [of _ "c # cs"] exI [of _ zs]) auto
    qed
    with False Cons show ?thesis by (auto simp: bind_o_Inr_iff)
  qed
qed simp

lemma length_unhex: "length (unhex cs) = length cs div 2"
  by (induction cs rule: unhex.induct) auto

lemma from_hex_loop_ok:
  assumes "length pre = b + 2 * length ys" and "length ys + length (unhex cs) \<le> length (ys @ zs)"
    and "limit = length pre + length cs - 1" and "cs = [] \<longrightarrow> limit \<le> length pre"
  shows "from_hex_loop (pre @ cs @ rest) b limit (length pre) (ys @ zs) =
    Inr (ys @ unhex cs @ drop (length (unhex cs)) zs)"
  using assms
proof (induction cs arbitrary: pre ys zs rule: unhex.induct)
  case (1 c d cs)
  obtain z zs' where z: "zs = z # zs'" using "1.prems"(2) by (cases zs) auto
  have "from_hex_loop ((pre @ [c, d]) @ cs @ rest) b limit (length (pre @ [c, d])) ((ys @ [from_hex_byte c d]) @ zs')
    = Inr ((ys @ [from_hex_byte c d]) @ unhex cs @ drop (length (unhex cs)) zs')"
    by (rule "1.IH") (use "1.prems" z in auto)
  moreover have "from_hex_loop (pre @ (c # d # cs) @ rest) b limit (length pre) (ys @ zs) =
      from_hex_loop ((pre @ [c, d]) @ cs @ rest) b limit (length (pre @ [c, d])) ((ys @ [from_hex_byte c d]) @ zs')"
    using "1.prems" by (subst from_hex_loop.simps) (simp add: nth_append z list_update_append)
  ultimately show ?case using z by simp
qed (auto simp: from_hex_loop.simps)

lemma from_hex_text:
  assumes cs: "cs \<noteq> []" "0 \<notin> set cs" and len: "length cs < 2 ^ 64"
    and room: "length (unhex (strip0x cs)) \<le> length res"
  shows "from_hex (cs @ 0 # rest) res = Inr (overwrite 0 (unhex (strip0x cs)) res)"
proof -
  define b where "b = (if take 2 cs = [48, 120] then 2 else 0 :: nat)"
  have split: "cs = take b cs @ strip0x cs" "length (take b cs) = b"
  proof -
    show "cs = take b cs @ strip0x cs"
      by (metis b_def strip0x_def append_take_drop_id drop0 take0 append_Nil)
    show "length (take b cs) = b"
    proof (cases "take 2 cs = [48, 120]")
      case True
      then have "length (take 2 cs) = 2" by (simp only:) simp
      then show ?thesis by (simp add: b_def)
    qed (simp add: b_def)
  qed
  have b: "b = (if 2 \<le> length cs \<and> (cs @ 0 # rest) ! 0 = 48 \<and> (cs @ 0 # rest) ! 1 = 120 then 2 else 0)"
    by (cases cs rule: remdups_adj.cases) (auto simp: b_def)
  have "1 \<le> (of_nat (length cs) :: u64)"
    using cs len by (simp add: word_le_nat_alt unsigned_of_nat take_bit_nat_eq_self Suc_le_eq)
  then have "unat (of_nat (length cs) - 1 :: u64) = length cs - 1"
    using len by (simp add: unat_sub unsigned_of_nat take_bit_nat_eq_self)
  then have "from_hex (cs @ 0 # rest) res = from_hex_loop (cs @ 0 # rest) b (length cs - 1) b res"
    unfolding from_hex_def strlen_ok [OF cs(2)] b by (simp add: Let_def)
  also have "\<dots> = from_hex_loop (take b cs @ strip0x cs @ 0 # rest) b (length cs - 1) (length (take b cs)) ([] @ res)"
    using split by (metis append.assoc append_Nil)
  also have "\<dots> = Inr ([] @ unhex (strip0x cs) @ drop (length (unhex (strip0x cs))) res)"
  proof (rule from_hex_loop_ok)
    show "length cs - 1 = length (take b cs) + length (strip0x cs) - 1"
      using split by (metis length_append)
    then show "strip0x cs = [] \<longrightarrow> length cs - 1 \<le> length (take b cs)"
      by (metis add_0_right diff_le_self list.size(3))
  qed (use split room in simp_all)
  finally show ?thesis by (simp add: overwrite_def)
qed

lemma nibbles: "unat (drop_bit 4 (b :: u8)) < 16" "unat (b AND 0xF :: u8) < 16"
proof -
  show "unat (drop_bit 4 b) < 16"
    using unat8_lt [of b] by (simp add: unat_drop_bit less_mult_imp_div_less)
  have "(0xF :: u8) = mask 4" by (simp add: mask_eq_exp_minus_1)
  then have "b AND 0xF = take_bit 4 b" by (simp add: take_bit_eq_mask)
  then have "unat (b AND 0xF) = unat b mod 2 ^ 4"
    by (metis take_bit_eq_mod unsigned_take_bit_eq)
  then show "unat (b AND 0xF :: u8) < 16" by simp
qed

lemma length_hex_text: "length (concat (map hex_byte bs)) = 2 * length bs"
  by (induction bs) (simp_all add: hex_byte_def)

lemma hex_loop_ok:
  "i + n \<le> length data \<Longrightarrow> 2 * (i + n) + 2 \<le> length out \<Longrightarrow>
   hex_loop data n i out = Inr (overwrite (2 * i + 2) (concat (map hex_byte (slice i n data))) out)"
proof (induction n arbitrary: i out)
  case (Suc n)
  define h l where "h = hex_chars ! unat (drop_bit 4 (data ! i))" and "l = hex_chars ! unat (data ! i AND 0xF)"
  have len: "length hex_chars = 16" by (simp add: hex_chars_def)
  have "hex_loop data (Suc n) i out = hex_loop data n (i + 1) (out[i * 2 + 2 := h, i * 2 + 3 := l])"
    using Suc.prems nibbles [of "data ! i"] by (simp add: h_def l_def len)
  also have "\<dots> = Inr (overwrite (2 * (i + 1) + 2) (concat (map hex_byte (slice (i + 1) n data)))
      (out[i * 2 + 2 := h, i * 2 + 3 := l]))"
    by (rule Suc.IH) (use Suc.prems in simp_all)
  also have "out[i * 2 + 2 := h, i * 2 + 3 := l] = overwrite (2 * i + 2) [h, l] out"
    using Suc.prems overwrite_after [of "2 * i + 2" "[h]" "[l]" out]
    by (simp add: overwrite_Cons mult.commute numeral_3_eq_3)
  also have "overwrite (2 * (i + 1) + 2) (concat (map hex_byte (slice (i + 1) n data))) \<dots> =
      overwrite (2 * i + 2) ([h, l] @ concat (map hex_byte (slice (i + 1) n data))) out"
    using overwrite_after [of "2 * i + 2" "[h, l]" "concat (map hex_byte (slice (i + 1) n data))" out] Suc.prems
    by (simp add: length_hex_text)
  finally show ?case
    using Suc.prems by (simp add: slice_Suc hex_byte_def [of "data ! i"] h_def l_def)
qed (simp add: slice_def)

lemma unhex_concat: "(\<And>b. b \<in> set bs \<Longrightarrow> \<exists>c d. f b = [c, d] \<and> from_hex_byte c d = b) \<Longrightarrow> unhex (concat (map f bs)) = bs"
proof (induction bs)
  case (Cons b bs)
  from Cons.prems [of b] obtain c d where "f b = [c, d]" "from_hex_byte c d = b" by auto
  with Cons show ?case by simp
qed simp

lemma from_hex_digit_chars: "n < 16 \<Longrightarrow> from_hex_digit (hex_chars ! n) = int n"
proof -
  assume n: "n < 16"
  have "map from_hex_digit hex_chars = [0, 1, 2, 3, 4, 5, 6, 7, 8, 9, 10, 11, 12, 13, 14, 15]"
    by code_simp
  also have "\<dots> = map int [0..<16]" by (simp add: upt_rec)
  finally have "map from_hex_digit hex_chars ! n = map int [0..<16] ! n" by simp
  moreover have "length hex_chars = 16" by (simp add: hex_chars_def)
  ultimately show ?thesis using n by (simp only: nth_map length_upt nth_upt)
qed

lemma hex_chars_nz: "n < 16 \<Longrightarrow> hex_chars ! n \<noteq> 0"
proof -
  assume "n < 16"
  then have "n \<in> {0, 1, 2, 3, 4, 5, 6, 7, 8, 9, 10, 11, 12, 13, 14, 15}"
    unfolding insert_iff empty_iff by arith
  then show ?thesis by (auto simp: hex_chars_def)
qed

lemma from_hex_byte_hex: "from_hex_byte (hex_chars ! unat (drop_bit 4 b)) (hex_chars ! unat (b AND 0xF)) = b"
proof -
  have "(0xF :: u8) = mask 4" by (simp add: mask_eq_exp_minus_1)
  then have "push_bit 4 (drop_bit 4 b) + (b AND 0xF) = b"
    by (simp only: take_bit_eq_mask [symmetric] bits_ident)
  then show ?thesis
    using nibbles [of b] by (simp add: from_hex_byte_def from_hex_digit_chars)
qed

lemma hex_byte_back: "\<exists>c d. hex_byte b = [c, d] \<and> from_hex_byte c d = b"
  using from_hex_byte_hex [of b] by (simp add: hex_byte_def)

lemma hex_byte_nz: "0 \<notin> set (hex_byte b)"
  using nibbles [of b] hex_chars_nz [of "unat (drop_bit 4 b)"] hex_chars_nz [of "unat (b AND 0xF)"]
  by (auto simp: hex_byte_def)

lemma hex_ok:
  assumes "n \<le> length data" and "2 * n + 2 \<le> length out"
  shows "hex data n out = Inr (overwrite 0 ([48, 120] @ concat (map hex_byte (take n data))) out)"
proof -
  have "0 < length out" and "1 < length out" using assms(2) by linarith+
  then have "hex data n out = hex_loop data n 0 (out[0 := 48, 1 := 120])"
    by (simp add: hex_def)
  also have "\<dots> = Inr (overwrite 2 (concat (map hex_byte (take n data))) (out[0 := 48, 1 := 120]))"
    using hex_loop_ok [of 0 n data "out[0 := 48, 1 := 120]"] assms by (simp add: slice_def numeral_2_eq_2)
  also have "out[0 := 48, 1 := 120] = overwrite 0 [48, 120] out"
    using \<open>1 < length out\<close> by (cases out; cases "tl out") (auto simp: overwrite_def)
  also have "overwrite 2 (concat (map hex_byte (take n data))) \<dots> =
      overwrite 0 ([48, 120] @ concat (map hex_byte (take n data))) out"
    using overwrite_after [of 0 "[48, 120]" "concat (map hex_byte (take n data))" out] assms
    by (simp add: length_hex_text numeral_2_eq_2)
  finally show ?thesis .
qed

section \<open>Properties\<close>

text \<open>
  Claim C25. Printing bytes with \<open>hex\<close> and reading the text with \<open>from_hex\<close> gives the bytes back,
  for every byte string (the caller supplies the NUL, which \<open>hex\<close> does not write).
\<close>

theorem hex_roundtrip:
  assumes "length bs \<le> length res" and "length bs < 2 ^ 62"
  shows "\<exists>txt. hex bs (length bs) (replicate (2 * length bs + 3) 0) = Inr (txt @ [0]) \<and>
    length txt = 2 * length bs + 2 \<and> from_hex (txt @ [0]) res = Inr (bs @ drop (length bs) res)"
proof -
  define body where "body = concat (map hex_byte bs)"
  have len: "length body = 2 * length bs" by (simp add: body_def length_hex_text)
  have "hex bs (length bs) (replicate (2 * length bs + 3) 0) = Inr ((48 # 120 # body) @ [0])"
    by (subst hex_ok) (simp_all add: overwrite_def body_def [symmetric] len)
  moreover have "0 \<notin> set (48 # 120 # body)"
    using hex_byte_nz by (auto simp: body_def)
  moreover have "unhex body = bs"
    unfolding body_def by (rule unhex_concat) (rule hex_byte_back)
  then have "unhex (strip0x (48 # 120 # body)) = bs" by (simp add: strip0x_def)
  moreover have "length (48 # 120 # body) < 2 ^ 64" using assms(2) by (simp add: len)
  ultimately show ?thesis
    using from_hex_text [of "48 # 120 # body" res "[]"] assms(1) len
    by (intro exI [of _ "48 # 120 # body"]) (simp add: overwrite_def)
qed

lemma hex_roundtrip_witness:
  "\<exists>txt. hex [0xBE, 0xEF] 2 (replicate 7 0) = Inr (txt @ [0]) \<and> length txt = 6 \<and>
    from_hex (txt @ [0]) [1, 2, 3] = Inr [0xBE, 0xEF, 3]"
  using hex_roundtrip [of "[0xBE, 0xEF]" "[1, 2, 3]"] by (simp flip: numeral_2_eq_2)

text \<open>
  What \<open>from_hex\<close> makes of any non-empty string: it drops a \<open>0x\<close> prefix, combines the
  characters in pairs, leaves out an unpaired last one, and never reports a character that is no
  digit, which counts as the byte 0xFF.
\<close>

theorem from_hex_any_text:
  assumes "cs \<noteq> []" and "0 \<notin> set cs" and "length cs < 2 ^ 64" and "length cs div 2 \<le> length res"
  shows "from_hex (cs @ [0]) res = Inr (overwrite 0 (unhex (strip0x cs)) res)"
proof (rule from_hex_text)
  show "length (unhex (strip0x cs)) \<le> length res"
    using assms(4) by (auto simp: length_unhex strip0x_def)
qed (use assms in auto)

lemma from_hex_any_text_witness:
  "from_hex [122, 122, 49, 0] [7, 7] = Inr [0xEF, 7]"
proof -
  have "from_hex_byte 122 122 = 0xEF" by code_simp
  then show ?thesis
    using from_hex_any_text [of "[122, 122, 49]" "[7, 7]"] by (simp add: strip0x_def overwrite_def)
qed

end
