(* ===== verification/State_Instructions.thy ===== *)
theory State_Instructions
  imports Instructions Hex
begin

text \<open>
  The instructions of src/tscvee/ta/include/instructions.h that read or change more than the stack:
  the hash of memory, the context of the transaction and of the message, memory, storage, and the
  instructions that push, duplicate and swap. The data of a message is read through its pointer and
  its separate size.
\<close>

section \<open>Shared steps\<close>

text \<open>\<open>if (!check) return EVMC_OUT_OF_GAS;\<close>\<close>

definition checked ::
  "(ExecutionState \<times> bool) outcome \<Rightarrow> (ExecutionState \<Rightarrow> (ExecutionState \<times> evmc_status_code) outcome)
     \<Rightarrow> (ExecutionState \<times> evmc_status_code) outcome" where
  "checked r k = bind_o r (\<lambda>(s, ok). if \<not> ok then Inr (s, EVMC_OUT_OF_GAS) else k s)"

definition succeed :: "ExecutionState outcome \<Rightarrow> (ExecutionState \<times> evmc_status_code) outcome" where
  "succeed r = bind_o r (\<lambda>s. Inr (s, EVMC_SUCCESS))"

definition cold_sload_cost :: int where
  "cold_sload_cost = 2100"

definition cold_account_access_cost :: int where
  "cold_account_access_cost = 2600"

definition warm_storage_read_cost :: int where
  "warm_storage_read_cost = 100"

definition additional_cold_account_access_cost :: int where
  "additional_cold_account_access_cost = cold_account_access_cost - warm_storage_read_cost"

definition cold_account :: "int \<Rightarrow> evmc_address \<Rightarrow> ExecutionState \<Rightarrow> (ExecutionState \<times> bool) outcome" where
  "cold_account cost addr s =
     (if rev s \<ge> EVMC_BERLIN then
        case access_account (host_ctx s) addr of (h, access) \<Rightarrow>
          let s = s\<lparr>host_ctx := h\<rparr>
          in if access = EVMC_ACCESS_COLD then charge cost s else Inr (s, True)
      else Inr (s, True))"

text \<open>An address and the 32 bytes of a number; every byte of the local array is written.\<close>

definition u256_address :: "uint256_t \<Rightarrow> evmc_address outcome" where
  "u256_address x = u256_to_u8_20 x (replicate 20 0) 0"

definition u256_bytes :: "uint256_t \<Rightarrow> evmc_bytes32 outcome" where
  "u256_bytes x = u256_to_u8_32 x (replicate 32 0) 0"

definition u256_key :: "uint256_t \<Rightarrow> evmc_bytes32 outcome" where
  "u256_key x = (if \<not> zero256 x then u256_bytes x else Inr (replicate 32 0))"

definition read_range :: "'a list \<Rightarrow> nat \<Rightarrow> nat \<Rightarrow> 'a list outcome" where
  "read_range xs p n = (if n = 0 then Inr [] else if p + n \<le> length xs then Inr (slice p n xs) else Inl Out_of_bounds)"

text \<open>The bytes of a local array of which some may not have been written.\<close>

definition initialised :: "'a option list \<Rightarrow> 'a list outcome" where
  "initialised xs = (if None \<in> set xs then Inl Uninitialised else Inr (map the xs))"

definition push_bytes :: "int \<Rightarrow> u8 list outcome \<Rightarrow> ExecutionState \<Rightarrow> ExecutionState outcome" where
  "push_bytes st bytes s = bind_o bytes (\<lambda>bs. bind_o (readu256BE bs 0) (\<lambda>target. StackTop_push st target s))"

definition push_u64 :: "int \<Rightarrow> u64 \<Rightarrow> ExecutionState \<Rightarrow> ExecutionState outcome" where
  "push_u64 st w s = StackTop_push st (mk256 0 0 0 w) s"

section \<open>Hash\<close>

text \<open>Only \<open>w\<close> bytes, the number of words, go into the hash, which is SHA-3's.\<close>

definition keccak256 :: "int \<Rightarrow> ExecutionState \<Rightarrow> (ExecutionState \<times> evmc_status_code) outcome" where
  "keccak256 st s =
     (let (index, st) = StackTop_pop st; sz = st
      in bind_o (load s index) (\<lambda>vi. bind_o (load s sz) (\<lambda>vs.
         checked (check_memory_u256 s vi vs) (\<lambda>s.
         let i = low vi; n = low vs; w = num_words n; cost = w * 6
         in checked (charge cost s) (\<lambda>s.
            bind_o (read_range (m_data (memory s)) i (nat w)) (\<lambda>data.
            case sha3_Init256 of None \<Rightarrow> Inl Uninitialised
            | Some c \<Rightarrow>
                let c = sha3_Update data c; hash = snd (sha3_Finalize c)
                in bind_o (read_range hash 0 32) (\<lambda>hash_value.
                   bind_o (readu256BE hash_value 0) (\<lambda>v. succeed (store_slot s sz v)))))))))"

section \<open>The message and the transaction\<close>

text \<open>The bytes are copied through a pointer that is not set.\<close>

definition address :: "int \<Rightarrow> ExecutionState \<Rightarrow> ExecutionState outcome" where
  "address st s = Inl Uninitialised"

definition balance :: "int \<Rightarrow> ExecutionState \<Rightarrow> (ExecutionState \<times> evmc_status_code) outcome" where
  "balance st s =
     bind_o (load s st) (\<lambda>x. bind_o (u256_address x) (\<lambda>addr.
     checked (cold_account additional_cold_account_access_cost addr s) (\<lambda>s.
     bind_o (get_balance (host_ctx s) addr) (\<lambda>(h, res).
     let s = s\<lparr>host_ctx := h\<rparr>
     in bind_o (readu256BE res 0) (\<lambda>v. succeed (store_slot s st v))))))"

text \<open>An address behind the first twelve bytes of an array, of which the code clears others.\<close>

definition address_word :: "evmc_address \<Rightarrow> u8 list outcome" where
  "address_word addr =
     (let res = replicate 20 None @ replicate 12 (Some 0);
          res = take 12 res @ map Some (take 20 addr)
      in initialised res)"

definition origin :: "int \<Rightarrow> ExecutionState \<Rightarrow> ExecutionState outcome" where
  "origin st s = push_bytes st (address_word (tx_origin (get_tx_context (host_ctx s)))) s"

definition caller :: "int \<Rightarrow> ExecutionState \<Rightarrow> ExecutionState outcome" where
  "caller st s = push_bytes st (Inr (replicate 12 0 @ take 20 (sender (msg s)))) s"

definition callvalue :: "int \<Rightarrow> ExecutionState \<Rightarrow> ExecutionState outcome" where
  "callvalue st s = push_bytes st (Inr (take 32 (call_value (msg s)))) s"

definition calldataload :: "int \<Rightarrow> ExecutionState \<Rightarrow> ExecutionState outcome" where
  "calldataload st s =
     (let index = st; in_size = mk256 0 0 0 (of_nat (input_size (msg s)))
      in bind_o (load s index) (\<lambda>vi.
         if gt256 vi in_size then store_slot s index (mk256 0 0 0 0)
         else
           let begin = low vi; ende = min ((begin + 32) mod 2 ^ 64) (input_size (msg s));
               n = (ende + 2 ^ 64 - begin) mod 2 ^ 64
           in bind_o (guard_o Out_of_bounds (n \<le> 32)) (\<lambda>_.
              bind_o (read_range (input_data (msg s)) begin n) (\<lambda>data.
              bind_o (readu256BE (data @ replicate (32 - n) 0) 0) (\<lambda>v. store_slot s index v)))))"

definition calldatasize :: "int \<Rightarrow> ExecutionState \<Rightarrow> ExecutionState outcome" where
  "calldatasize st s = push_u64 st (of_nat (input_size (msg s))) s"

text \<open>The end of the copy instructions: bytes are moved to memory, and the rest is cleared.\<close>

definition copy_and_clear ::
  "u8 list \<Rightarrow> nat \<Rightarrow> nat \<Rightarrow> nat \<Rightarrow> nat \<Rightarrow> ExecutionState \<Rightarrow> ExecutionState outcome" where
  "copy_and_clear bytes src dst copy_size n s =
     bind_o (if copy_size > 0 then bind_o (read_range bytes src copy_size) (mem_write (memory s) dst)
             else Inr (memory s)) (\<lambda>m.
     bind_o (if n - copy_size > 0 then mem_write m (dst + copy_size) (replicate (n - copy_size) 0)
             else Inr m) (\<lambda>m.
     Inr (s\<lparr>memory := m\<rparr>)))"

definition calldatacopy :: "int \<Rightarrow> ExecutionState \<Rightarrow> (ExecutionState \<times> evmc_status_code) outcome" where
  "calldatacopy st s =
     (let (mem_index, st) = StackTop_pop st; (input_index, st) = StackTop_pop st; (sz, st) = StackTop_pop st
      in bind_o (load s mem_index) (\<lambda>vm. bind_o (load s sz) (\<lambda>vs.
         checked (check_memory_u256 s vm vs) (\<lambda>s.
         bind_o (load s input_index) (\<lambda>vi.
         let dst = low vm; src = min (input_size (msg s)) (low vi); n = low vs;
             copy_size = min n (input_size (msg s) - src); copy_cost = num_words n * 3
         in checked (charge copy_cost s) (\<lambda>s.
            succeed (copy_and_clear (input_data (msg s)) src dst copy_size n s)))))))"

definition codesize :: "int \<Rightarrow> ExecutionState \<Rightarrow> ExecutionState outcome" where
  "codesize st s = push_u64 st (of_int (bv_size (code s))) s"

text \<open>\<open>codecopy\<close> uses the check for fixed sizes, which does not let a zero size pass.\<close>

definition codecopy :: "int \<Rightarrow> ExecutionState \<Rightarrow> (ExecutionState \<times> evmc_status_code) outcome" where
  "codecopy st s =
     (let (mem_index, st) = StackTop_pop st; (input_index, st) = StackTop_pop st; (sz, st) = StackTop_pop st
      in bind_o (load s mem_index) (\<lambda>vm. bind_o (load s sz) (\<lambda>vs.
         checked (check_memory_u64 s vm (low vs)) (\<lambda>s.
         bind_o (load s input_index) (\<lambda>vi.
         let code_size = unat (of_int (bv_size (code s)) :: u64);
             dst = low vm; src = min code_size (low vi); n = low vs;
             copy_size = min n (code_size - src); copy_cost = num_words n * 3
         in checked (charge copy_cost s) (\<lambda>s.
            succeed (copy_and_clear (bv_data (code s)) src dst copy_size n s)))))))"

definition gasprice :: "int \<Rightarrow> ExecutionState \<Rightarrow> ExecutionState outcome" where
  "gasprice st s = push_bytes st (Inr (tx_gas_price (get_tx_context (host_ctx s)))) s"

definition extcodesize :: "int \<Rightarrow> ExecutionState \<Rightarrow> (ExecutionState \<times> evmc_status_code) outcome" where
  "extcodesize st s =
     bind_o (load s st) (\<lambda>x. bind_o (u256_address x) (\<lambda>addr.
     checked (cold_account additional_cold_account_access_cost addr s) (\<lambda>s.
     bind_o (get_code_size (host_ctx s) addr) (\<lambda>(h, res).
     let s = s\<lparr>host_ctx := h\<rparr>
     in succeed (store_slot s st (copy256 (mk256 0 0 0 (of_nat res))))))))"

definition extcodecopy :: "int \<Rightarrow> ExecutionState \<Rightarrow> (ExecutionState \<times> evmc_status_code) outcome" where
  "extcodecopy st s =
     (let (tmp, st) = StackTop_pop st
      in bind_o (load s tmp) (\<lambda>vt. bind_o (u256_address vt) (\<lambda>addr.
         let (mem_index, st) = StackTop_pop st; (input_index, st) = StackTop_pop st; (sz, st) = StackTop_pop st
         in bind_o (load s mem_index) (\<lambda>vm. bind_o (load s sz) (\<lambda>vs.
            checked (check_memory_u256 s vm vs) (\<lambda>s.
            let n = low vs; copy_cost = num_words n * 3
            in checked (charge copy_cost s) (\<lambda>s.
               checked (cold_account additional_cold_account_access_cost addr s) (\<lambda>s.
               if n > 0 then
                 bind_o (load s input_index) (\<lambda>vi.
                 let src = min (2 ^ 32 - 1) (low vi); dst = low vm
                 in bind_o (copy_code (host_ctx s) addr src (m_data (memory s)) dst n) (\<lambda>(h, num_bytes_copied).
                    let s = s\<lparr>host_ctx := h\<rparr>; num_bytes_to_clear = n - num_bytes_copied
                    in if num_bytes_to_clear > 0 then
                         bind_o (mem_write (memory s) (dst + num_bytes_copied) (replicate num_bytes_to_clear 0)) (\<lambda>m.
                         Inr (s\<lparr>memory := m\<rparr>, EVMC_SUCCESS))
                       else Inr (s, EVMC_SUCCESS)))
               else Inr (s, EVMC_SUCCESS)))))))))"

text \<open>\<open>strlen(state->return_data)\<close>.\<close>

definition return_data_size :: "ExecutionState \<Rightarrow> nat outcome" where
  "return_data_size s = (case return_data s of None \<Rightarrow> Inl Null_pointer | Some bs \<Rightarrow> strlen bs)"

definition returndatasize :: "int \<Rightarrow> ExecutionState \<Rightarrow> ExecutionState outcome" where
  "returndatasize st s = bind_o (return_data_size s) (\<lambda>n. push_u64 st (of_nat n) s)"

definition returndatacopy :: "int \<Rightarrow> ExecutionState \<Rightarrow> (ExecutionState \<times> evmc_status_code) outcome" where
  "returndatacopy st s =
     (let (mem_index, st) = StackTop_pop st; (input_index, st) = StackTop_pop st; (sz, st) = StackTop_pop st
      in bind_o (load s mem_index) (\<lambda>vm. bind_o (load s sz) (\<lambda>vs.
         checked (check_memory_u256 s vm vs) (\<lambda>s.
         let dst = low vm; n = low vs
         in bind_o (return_data_size s) (\<lambda>len. bind_o (load s input_index) (\<lambda>vi.
            if len < low vi then Inr (s, EVMC_INVALID_MEMORY_ACCESS)
            else let src = low vi
              in if (src + n) mod 2 ^ 64 > len then Inr (s, EVMC_INVALID_MEMORY_ACCESS)
                 else checked (charge (num_words n * 3) s) (\<lambda>s.
                   if n > 0 then
                     case return_data s of None \<Rightarrow> Inl Null_pointer
                     | Some bs \<Rightarrow> bind_o (read_range bs src n) (\<lambda>data.
                         bind_o (mem_write (memory s) dst data) (\<lambda>m. Inr (s\<lparr>memory := m\<rparr>, EVMC_SUCCESS)))
                   else Inr (s, EVMC_SUCCESS))))))))"

definition extcodehash :: "int \<Rightarrow> ExecutionState \<Rightarrow> (ExecutionState \<times> evmc_status_code) outcome" where
  "extcodehash st s =
     bind_o (load s st) (\<lambda>x. bind_o (u256_address x) (\<lambda>addr.
     checked (cold_account additional_cold_account_access_cost addr s) (\<lambda>s.
     bind_o (get_code_hash (host_ctx s) addr) (\<lambda>(h, hash).
     let s = s\<lparr>host_ctx := h\<rparr>
     in bind_o (readu256BE hash 0) (\<lambda>v. succeed (store_slot s st v))))))"

definition blockhash :: "int \<Rightarrow> ExecutionState \<Rightarrow> ExecutionState outcome" where
  "blockhash st s =
     (let upper_bound = block_number (get_tx_context (host_ctx s))
      in bind_o (load s st) (\<lambda>v. bind_o (int64 (upper_bound - 256)) (\<lambda>d.
         let lower_bound = (if d > 0 then d else 0);
             n = sint (lower128 (lower256 v));
             (h, header) = (if gt256 v (mk256 0 0 0 (of_int upper_bound)) \<and> n \<ge> lower_bound
               then get_block_hash (host_ctx s) n else (host_ctx s, replicate 32 0));
             s = s\<lparr>host_ctx := h\<rparr>
         in bind_o (readu256BE header 0) (store_slot s st))))"

definition coinbase :: "int \<Rightarrow> ExecutionState \<Rightarrow> ExecutionState outcome" where
  "coinbase st s = push_bytes st (address_word (block_coinbase (get_tx_context (host_ctx s)))) s"

definition timestamp :: "int \<Rightarrow> ExecutionState \<Rightarrow> ExecutionState outcome" where
  "timestamp st s = push_u64 st (of_int (block_timestamp (get_tx_context (host_ctx s)))) s"

definition number :: "int \<Rightarrow> ExecutionState \<Rightarrow> ExecutionState outcome" where
  "number st s = push_u64 st (of_int (block_number (get_tx_context (host_ctx s)))) s"

definition difficulty :: "int \<Rightarrow> ExecutionState \<Rightarrow> ExecutionState outcome" where
  "difficulty st s = Inr s"

definition gaslimit :: "int \<Rightarrow> ExecutionState \<Rightarrow> ExecutionState outcome" where
  "gaslimit st s = push_u64 st (of_int (block_gas_limit (get_tx_context (host_ctx s)))) s"

definition chainid :: "int \<Rightarrow> ExecutionState \<Rightarrow> ExecutionState outcome" where
  "chainid st s = push_bytes st (Inr (chain_id (get_tx_context (host_ctx s)))) s"

definition selfbalance :: "int \<Rightarrow> ExecutionState \<Rightarrow> ExecutionState outcome" where
  "selfbalance st s =
     bind_o (get_balance (host_ctx s) (recipient (msg s))) (\<lambda>(h, bal).
     push_bytes st (Inr bal) (s\<lparr>host_ctx := h\<rparr>))"

definition basefee :: "int \<Rightarrow> ExecutionState \<Rightarrow> ExecutionState outcome" where
  "basefee st s = push_bytes st (Inr (block_base_fee (get_tx_context (host_ctx s)))) s"

section \<open>Memory and storage\<close>

definition mload :: "int \<Rightarrow> ExecutionState \<Rightarrow> (ExecutionState \<times> evmc_status_code) outcome" where
  "mload st s =
     bind_o (load s st) (\<lambda>vi.
     checked (check_memory_u64 s vi 32) (\<lambda>s.
     bind_o (read_range (m_data (memory s)) (low vi) 32) (\<lambda>data.
     bind_o (readu256BE data 0) (\<lambda>v. succeed (store_slot s st v)))))"

definition mstore :: "int \<Rightarrow> ExecutionState \<Rightarrow> (ExecutionState \<times> evmc_status_code) outcome" where
  "mstore st s =
     (let (index, st) = StackTop_pop st; (val, st) = StackTop_pop st
      in bind_o (load s index) (\<lambda>vi.
         checked (check_memory_u64 s vi 32) (\<lambda>s.
         bind_o (load s val) (\<lambda>vv. bind_o (u256_bytes vv) (\<lambda>out.
         bind_o (mem_write (memory s) (low vi) out) (\<lambda>m. Inr (s\<lparr>memory := m\<rparr>, EVMC_SUCCESS)))))))"

definition mstore8 :: "int \<Rightarrow> ExecutionState \<Rightarrow> (ExecutionState \<times> evmc_status_code) outcome" where
  "mstore8 st s =
     (let (index, st) = StackTop_pop st; (val, st) = StackTop_pop st
      in bind_o (load s index) (\<lambda>vi.
         checked (check_memory_u64 s vi 32) (\<lambda>s.
         bind_o (load s val) (\<lambda>vv. bind_o (u256_to_u8_8 vv (replicate 8 0) 0) (\<lambda>out.
         bind_o (mem_write (memory s) (low vi) out) (\<lambda>m. Inr (s\<lparr>memory := m\<rparr>, EVMC_SUCCESS)))))))"

text \<open>\<open>rev >= EVMC_BERLIN && access_storage(...) == EVMC_ACCESS_COLD\<close>.\<close>

definition cold_storage :: "evmc_bytes32 \<Rightarrow> ExecutionState \<Rightarrow> (ExecutionState \<times> bool) outcome" where
  "cold_storage key s =
     (if rev s \<ge> EVMC_BERLIN then
        bind_o (access_storage (host_ctx s) (recipient (msg s)) key) (\<lambda>(h, access).
        Inr (s\<lparr>host_ctx := h\<rparr>, access = EVMC_ACCESS_COLD))
      else Inr (s, False))"

definition sload :: "int \<Rightarrow> ExecutionState \<Rightarrow> (ExecutionState \<times> evmc_status_code) outcome" where
  "sload st s =
     bind_o (load s st) (\<lambda>x. bind_o (u256_key x) (\<lambda>key.
     checked (bind_o (cold_storage key s) (\<lambda>(s, cold).
         if cold then charge (cold_sload_cost - warm_storage_read_cost) s else Inr (s, True))) (\<lambda>s.
     bind_o (get_storage (host_ctx s) (recipient (msg s)) key) (\<lambda>(h, data).
     let s = s\<lparr>host_ctx := h\<rparr>
     in bind_o (readu256BE data 0) (\<lambda>v. succeed (store_slot s st v))))))"

definition sstore_cost :: "evmc_revision \<Rightarrow> int \<Rightarrow> evmc_storage_status \<Rightarrow> int" where
  "sstore_cost r cost change =
     (case change of
        EVMC_STORAGE_ADDED \<Rightarrow> cost + 20000
      | EVMC_STORAGE_MODIFIED \<Rightarrow> if r \<ge> EVMC_BERLIN then cost + (5000 - cold_sload_cost) else 5000
      | EVMC_STORAGE_DELETED \<Rightarrow> if r \<ge> EVMC_BERLIN then cost + (5000 - cold_sload_cost) else 5000
      | _ \<Rightarrow> if r \<ge> EVMC_BERLIN then cost + warm_storage_read_cost
             else if r = EVMC_ISTANBUL then 800
             else if r = EVMC_CONSTANTINOPLE then 200
             else 5000)"

definition sstore :: "int \<Rightarrow> ExecutionState \<Rightarrow> (ExecutionState \<times> evmc_status_code) outcome" where
  "sstore st s =
     (if ExecutionState_in_static_mode s then Inr (s, EVMC_STATIC_MODE_VIOLATION)
      else if rev s \<ge> EVMC_ISTANBUL \<and> gas_left s \<le> 2300 then Inr (s, EVMC_OUT_OF_GAS)
      else
        let (x, st) = StackTop_pop st
        in bind_o (load s x) (\<lambda>vx. bind_o (u256_key vx) (\<lambda>key.
           let (x, st) = StackTop_pop st
           in bind_o (load s x) (\<lambda>vx. bind_o (u256_key vx) (\<lambda>val.
              bind_o (cold_storage key s) (\<lambda>(s, cold).
              let cost = (if cold then cold_sload_cost else 0)
              in bind_o (set_storage (host_ctx s) (recipient (msg s)) key val) (\<lambda>(h, change).
                 let s = s\<lparr>host_ctx := h\<rparr>; cost = sstore_cost (rev s) cost change
                 in checked (charge cost s) (\<lambda>s. Inr (s, EVMC_SUCCESS)))))))))"

definition pc :: "int \<Rightarrow> ExecutionState \<Rightarrow> nat \<Rightarrow> (ExecutionState \<times> nat) outcome" where
  "pc st s pos = bind_o (push_u64 st (of_nat pos) s) (\<lambda>s. Inr (s, pos + 1))"

definition msize :: "int \<Rightarrow> ExecutionState \<Rightarrow> ExecutionState outcome" where
  "msize st s = push_u64 st (of_nat (m_size (memory s))) s"

definition gas :: "int \<Rightarrow> ExecutionState \<Rightarrow> ExecutionState outcome" where
  "gas st s = push_u64 st (of_int (gas_left s)) s"

definition push0 :: "int \<Rightarrow> ExecutionState \<Rightarrow> ExecutionState outcome" where
  "push0 st s = push_u64 st 0 s"

text \<open>\<open>dup1\<close> to \<open>dup16\<close> and \<open>swap1\<close> to \<open>swap16\<close>, by their number.\<close>

definition dup :: "nat \<Rightarrow> int \<Rightarrow> ExecutionState \<Rightarrow> ExecutionState outcome" where
  "dup n st s = bind_o (load s (StackTop_get st (int n - 1))) (\<lambda>tmp. StackTop_push st tmp s)"

definition swap :: "nat \<Rightarrow> int \<Rightarrow> ExecutionState \<Rightarrow> ExecutionState outcome" where
  "swap n st s =
     bind_o (load s st) (\<lambda>tmp. bind_o (load s (StackTop_get st (int n))) (\<lambda>v.
     bind_o (store_slot s st v) (\<lambda>s. store_slot s (StackTop_get st (int n)) tmp)))"

section \<open>Laws of the steps\<close>

lemma checked_simps [simp]:
  "checked (Inr (s, True)) k = k s" "checked (Inr (s, False)) k = Inr (s, EVMC_OUT_OF_GAS)"
  "checked (Inl e) k = Inl e"
  by (simp_all add: checked_def)

lemma succeed_simps [simp]: "succeed (Inr s) = Inr (s, EVMC_SUCCESS)" "succeed (Inl e) = Inl e"
  by (simp_all add: succeed_def)

lemma overwrite_all: "length xs = length ys \<Longrightarrow> overwrite 0 ys xs = ys"
  by (simp add: overwrite_def)

lemma u256_bytes_law [simp]: "u256_bytes x = Inr (be_bytes 32 (val256 x))"
  by (simp add: u256_bytes_def u256_to_u8_32_ok overwrite_all)

lemma u256_address_law [simp]: "u256_address x = Inr (be_bytes 20 (val256 x))"
  by (simp add: u256_address_def u256_to_u8_20_ok overwrite_all)

lemma be_bytes_0: "be_bytes n 0 = replicate n 0"
  by (induction n) (simp_all add: replicate_append_same)

lemma u256_key_law [simp]: "u256_key x = Inr (be_bytes 32 (val256 x))"
  by (simp add: u256_key_def zero256_val be_bytes_0)

lemma readu256BE_32:
  assumes "length bs = 32" and "be_val bs = val256 v"
  shows "readu256BE bs 0 = Inr v"
  using readu256BE_ok [of 0 bs] assms by (auto simp: slice_def val256_inj)

lemma readu256BE_whole: "length bs = 32 \<Longrightarrow> \<exists>v. readu256BE bs 0 = Inr v \<and> val256 v = be_val bs"
  using readu256BE_ok [of 0 bs] by (simp add: slice_def)

lemma readu256BE_be_bytes [simp]: "readu256BE (be_bytes 32 (val256 v)) 0 = Inr v"
  using val256_lt [of v] by (intro readu256BE_32) (simp_all add: be_val_bytes)

lemma put_slot_simps [simp]:
  "memory (put_slot s i v) = memory s" "gas_left (put_slot s i v) = gas_left s"
  "host_ctx (put_slot s i v) = host_ctx s" "msg (put_slot s i v) = msg s" "rev (put_slot s i v) = rev s"
  "on_stack (put_slot s i v) j \<longleftrightarrow> on_stack s j"
  by (simp_all add: put_slot_def on_stack_def)

lemma slot_put [simp]: "on_stack s i \<Longrightarrow> on_stack s j \<Longrightarrow> slot (put_slot s i v) j = (if i = j then v else slot s j)"
  by (auto simp: slot_def put_slot_def on_stack_def)

lemma slot_state_simps [simp]:
  "on_stack (s\<lparr>gas_left := g\<rparr>) i \<longleftrightarrow> on_stack s i" "on_stack (s\<lparr>memory := m\<rparr>) i \<longleftrightarrow> on_stack s i"
  "on_stack (s\<lparr>host_ctx := h\<rparr>) i \<longleftrightarrow> on_stack s i"
  "slot (s\<lparr>gas_left := g\<rparr>) i = slot s i" "slot (s\<lparr>memory := m\<rparr>) i = slot s i"
  "slot (s\<lparr>host_ctx := h\<rparr>) i = slot s i"
  by (simp_all add: on_stack_def slot_def)

lemma extension_gas_nonneg: "0 \<le> extension_gas s n"
proof (cases "m_size (memory s) < n")
  case True
  then have "m_size (memory s) div 32 \<le> words n" unfolding words_def by (intro div_le_mono) simp
  then show ?thesis using mem_gas_mono [of "m_size (memory s) div 32" "words n"] True by (simp add: extension_gas_def)
qed (simp add: extension_gas_def)

lemma check_held:
  assumes "val256 x = i" and "i < 2 ^ 32" and "n < 2 ^ 33" and "i + n \<le> m_size (memory s)"
  shows "check_memory_u64 s x n = Inr (s, True)"
proof -
  have "small_offset x" "low x = i" using assms(1,2) by (simp_all add: small_offset_value low_value)
  then show ?thesis using assms(2-4) by (simp add: check_memory_u64_def small_offset_def)
qed

text \<open>A memory check that the gas covers, of \<open>n\<close> bytes from \<open>i\<close> on.\<close>

lemma check_covered:
  assumes "state_ok s" and "val256 x = i" and "i < 2 ^ 32" and "n < 2 ^ 33"
    and "extension_gas s (i + n) \<le> gas_left s"
  shows "\<exists>m'. extended (memory s) (i + n) m' \<and>
    check_memory_u64 s x n = Inr (s\<lparr>gas_left := gas_left s - extension_gas s (i + n), memory := m'\<rparr>, True)"
proof -
  have o: "small_offset x" "low x = i" using assms(2,3) by (simp_all add: small_offset_value low_value)
  then show ?thesis using check_memory_u64_law [OF assms(1) o(1) assms(4)] assms(5) by (simp add: extend_to_def)
qed

lemma extended_bytes:
  assumes "extended m n m'"
  shows "m_size m' \<le> length (m_data m')"
    and "j < m_size m' \<Longrightarrow> m_data m' ! j = (if j < m_size m then m_data m ! j else 0)"
proof -
  have e: "take (m_size m') (m_data m') = take (m_size m) (m_data m) @ replicate (m_size m' - m_size m) 0"
    and le: "m_size m \<le> m_size m'" and inv: "memory_inv m'"
    using assms by (auto simp: extended_def)
  show len: "m_size m' \<le> length (m_data m')" using inv by (simp add: memory_inv_def)
  have "length (take (m_size m') (m_data m')) = length (take (m_size m) (m_data m) @ replicate (m_size m' - m_size m) (0 :: u8))"
    using e by simp
  then have m: "m_size m \<le> length (m_data m)" using len le by (auto simp: min_def split: if_splits)
  assume j: "j < m_size m'"
  then have "m_data m' ! j = take (m_size m') (m_data m') ! j" by simp
  also have "\<dots> = (if j < m_size m then m_data m ! j else 0)" unfolding e using j m by (simp add: nth_append min_def)
  finally show "m_data m' ! j = (if j < m_size m then m_data m ! j else 0)" .
qed

text \<open>Bytes written inside the memory: they are there, and all the others stay.\<close>

lemma written:
  assumes m: "memory_inv m" and fits: "p + length bs \<le> m_size m"
  shows "\<exists>m'. mem_write m p bs = Inr m' \<and> memory_inv m' \<and> m_size m' = m_size m \<and>
    slice p (length bs) (m_data m') = bs \<and>
    (\<forall>j. j < p \<or> p + length bs \<le> j \<longrightarrow> m_data m' ! j = m_data m ! j)"
proof -
  have len: "p + length bs \<le> length (m_data m)" using m fits by (simp add: memory_inv_def)
  have w: "mem_write m p bs = Inr (m\<lparr>m_data := overwrite p bs (m_data m)\<rparr>)"
    using len by (simp add: mem_write_def)
  have rest: "overwrite p bs (m_data m) ! j = m_data m ! j" if "j < p \<or> p + length bs \<le> j" for j
    using that len by (auto simp: overwrite_def nth_append)
  show ?thesis
    using w rest m len by (auto simp: memory_inv_def slice_overwrite)
qed

text \<open>
  Claim C14. Storing to memory and loading. \<open>mstore\<close> at an offset below 2^32 that the gas covers
  extends the memory to hold the 32 bytes, writes the big-endian bytes of the value there and leaves
  every other byte (new ones are zero); \<open>mload\<close> of the same offset then puts the value on the stack,
  at no further charge.
\<close>

theorem mstore_mload:
  assumes "state_ok s" and "on_stack s st" and "on_stack s (st - 1)"
    and i: "val256 (slot s st) = i" "i < 2 ^ 32" and "extension_gas s (i + 32) \<le> gas_left s"
  shows "\<exists>m'. let s' = s\<lparr>gas_left := gas_left s - extension_gas s (i + 32), memory := m'\<rparr> in
    mstore st s = Inr (s', EVMC_SUCCESS) \<and> memory_inv m' \<and> m_size m' = max (m_size (memory s)) (32 * words (i + 32)) \<and>
    slice i 32 (m_data m') = be_bytes 32 (val256 (slot s (st - 1))) \<and>
    (\<forall>j < m_size m'. j < i \<or> i + 32 \<le> j \<longrightarrow>
       m_data m' ! j = (if j < m_size (memory s) then m_data (memory s) ! j else 0)) \<and>
    (\<forall>t. on_stack s t \<and> val256 (slot s t) = i \<longrightarrow> mload t s' = Inr (put_slot s' t (slot s (st - 1)), EVMC_SUCCESS))"
proof -
  let ?v = "slot s (st - 1)" and ?g = "gas_left s - extension_gas s (i + 32)"
  obtain m where m: "extended (memory s) (i + 32) m"
    "check_memory_u64 s (slot s st) 32 = Inr (s\<lparr>gas_left := ?g, memory := m\<rparr>, True)"
    using check_covered [OF assms(1) i, of 32] assms(6) by auto
  have inv: "memory_inv m" "i + 32 \<le> m_size m" "m_size m = max (m_size (memory s)) (32 * words (i + 32))"
    using m(1) by (auto simp: extended_def)
  obtain m' where m': "mem_write m i (be_bytes 32 (val256 ?v)) = Inr m'" "memory_inv m'" "m_size m' = m_size m"
    "slice i 32 (m_data m') = be_bytes 32 (val256 ?v)"
    "\<And>j. j < i \<or> i + 32 \<le> j \<Longrightarrow> m_data m' ! j = m_data m ! j"
    using written [OF inv(1), of i "be_bytes 32 (val256 ?v)"] inv(2) by auto
  let ?s = "s\<lparr>gas_left := ?g, memory := m'\<rparr>"
  have low: "low (slot s t) = i" if "val256 (slot s t) = i" for t using that i(2) by (simp add: low_value)
  have store: "mstore st s = Inr (?s, EVMC_SUCCESS)"
    using assms(2,3) m(2) m'(1) low [OF i(1)] by (simp add: mstore_def StackTop_pop_def)
  have load: "mload t ?s = Inr (put_slot ?s t ?v, EVMC_SUCCESS)" if t: "on_stack s t" "val256 (slot s t) = i" for t
  proof -
    have "check_memory_u64 ?s (slot s t) 32 = Inr (?s, True)"
      using check_held [OF t(2) i(2), of 32 ?s] inv(2) m'(3) by simp
    moreover have "read_range (m_data m') i 32 = Inr (be_bytes 32 (val256 ?v))"
      using m'(2-4) inv(2) by (simp add: read_range_def memory_inv_def)
    ultimately show ?thesis using t low [OF t(2)] by (simp add: mload_def)
  qed
  show ?thesis
    using store m'(2-5) inv(3) load extended_bytes(2) [OF m(1)]
    by (intro exI [of _ m']) (simp add: Let_def)
qed

theorem mstore_mload_witness:
  "\<exists>s'. mstore 1 (stacked 20 [mk256 0 0 0 7, mk256 0 0 0 10]) = Inr (s', EVMC_SUCCESS) \<and>
     mload 1 s' = Inr (put_slot s' 1 (mk256 0 0 0 7), EVMC_SUCCESS)"
proof -
  have "state_ok (stacked 20 vs)" for vs by (simp add: state_ok_def Memory_init_inv)
  moreover have "extension_gas (stacked 20 [mk256 0 0 0 7, mk256 0 0 0 10]) 42 = 6"
    by (simp add: extension_gas_def Memory_init_inv words_def mem_gas_def)
  ultimately show ?thesis
    using mstore_mload [of "stacked 20 [mk256 0 0 0 7, mk256 0 0 0 10]" 1 10]
    by (auto simp: val256_mk256 Let_def)
qed

lemma be_bytes_last: "be_bytes (Suc n) v ! n = of_nat v"
  by (simp add: nth_append)



text \<open>
  Claim C35. \<open>keccak256\<close> of \<open>n > 0\<close> bytes at \<open>i\<close> hashes only the first \<open>words n\<close> of them, one byte for
  every 32-byte word of the range, and pads as SHA-3 does (suffix 01) rather than as Keccak; the
  result replaces the size on the stack and the gas pays for the memory and six for every word.
\<close>

theorem keccak256_hashes_words:
  assumes "state_ok s" and "on_stack s st" and "on_stack s (st - 1)"
    and i: "val256 (slot s st) = i" "i < 2 ^ 32" and n: "val256 (slot s (st - 1)) = n" "0 < n" "n < 2 ^ 33"
    and gas: "extension_gas s (i + n) + 6 * int (words n) \<le> gas_left s"
  shows "\<exists>m' v. extended (memory s) (i + n) m' \<and>
    keccak256 st s = Inr (put_slot (s\<lparr>gas_left := gas_left s - extension_gas s (i + n) - 6 * int (words n),
      memory := m'\<rparr>) (st - 1) v, EVMC_SUCCESS) \<and>
    val256 v = be_val (fips_sha3 256 6 (slice i (words n) (m_data m')))"
proof -
  let ?e = "extension_gas s (i + n)" and ?w = "words n"
  have "?e \<le> gas_left s" using gas by simp
  then obtain m' where m': "extended (memory s) (i + n) m'"
    "check_memory_u64 s (slot s st) n = Inr (s\<lparr>gas_left := gas_left s - ?e, memory := m'\<rparr>, True)"
    using check_covered [OF assms(1) i n(3)] by auto
  have o: "low (slot s st) = i" "low (slot s (st - 1)) = n" "small_offset (slot s st)"
    using i n by (simp_all add: low_value small_offset_value)
  have chk: "check_memory_u256 s (slot s st) (slot s (st - 1)) = Inr (s\<lparr>gas_left := gas_left s - ?e, memory := m'\<rparr>, True)"
    using m'(2) o n by (simp add: check_memory_u256_cases)
  have w: "num_words n = int ?w" "?w \<le> n" "?w < 2 ^ 29"
    using n by (auto simp: num_words_small words_def)
  have g: "0 \<le> gas_left s - ?e" "gas_left s - ?e < 2 ^ 63"
    using gas assms(1) extension_gas_nonneg [of s "i + n"] by (auto simp: state_ok_def)
  then have ch: "charge (int ?w * 6) (s\<lparr>gas_left := gas_left s - ?e, memory := m'\<rparr>) =
      Inr (s\<lparr>gas_left := gas_left s - ?e - 6 * int ?w, memory := m'\<rparr>, True)"
    using w(3) gas by (simp add: charge_def)
  have "i + n \<le> m_size m'" using m'(1) by (simp add: extended_def)
  then have "i + ?w \<le> length (m_data m')"
    using w(2) extended_bytes(1) [OF m'(1)] by linarith
  then have data: "read_range (m_data m') i ?w = Inr (slice i ?w (m_data m'))"
    by (simp add: read_range_def slice_def)
  obtain c where c: "sha3_Init256 = Some c" "sha3_Init 256 = Some c" by (simp add: sha3_Init256_def sha3_Init_def)
  let ?h = "snd (sha3_Finalize (sha3_Update (slice i ?w (m_data m')) c))"
  have "sha3_SetFlags 0 c = (0, c)" by (simp add: sha3_SetFlags_def)
  then have digest: "take 32 ?h = fips_sha3 256 6 (slice i ?w (m_data m'))"
    using sha3_digest [OF c(2), of 0 0 c "[slice i ?w (m_data m')]"] by simp
  then have "length (take 32 ?h) = 32" by (simp add: length_fips_sha3)
  then have len: "32 \<le> length ?h" by (simp add: min_def split: if_splits)
  then have hv: "read_range ?h 0 32 = Inr (take 32 ?h)" by (simp add: read_range_def slice_def)
  obtain v where v: "readu256BE (take 32 ?h) 0 = Inr v" "val256 v = be_val (take 32 ?h)"
    using readu256BE_ok [of 0 "take 32 ?h"] len by (auto simp: slice_def)
  have "keccak256 st s = Inr (put_slot (s\<lparr>gas_left := gas_left s - ?e - 6 * int ?w, memory := m'\<rparr>) (st - 1) v, EVMC_SUCCESS)"
    using assms(2,3) chk w(1) ch data hv v(1) o
    by (simp add: keccak256_def StackTop_pop_def Let_def c(1))
  then show ?thesis using m'(1) v(2) digest by auto
qed

theorem keccak256_hashes_words_witness:
  "\<exists>s v. keccak256 1 (stacked 100 [mk256 0 0 0 33, mk256 0 0 0 0]) = Inr (put_slot s 0 v, EVMC_SUCCESS) \<and>
     val256 v = be_val (fips_sha3 256 6 [0, 0])"
proof -
  let ?s = "stacked 100 [mk256 0 0 0 33, mk256 0 0 0 0]"
  have "state_ok ?s" by (simp add: state_ok_def Memory_init_inv)
  moreover have "extension_gas ?s 33 = 6" "words 33 = 2"
    by (simp_all add: extension_gas_def Memory_init_inv words_def mem_gas_def)
  ultimately obtain m' v where m': "extended Memory_init 33 m'" "\<exists>t. keccak256 1 ?s = Inr (put_slot t 0 v, EVMC_SUCCESS)"
    "val256 v = be_val (fips_sha3 256 6 (slice 0 2 (m_data m')))"
    using keccak256_hashes_words [of ?s 1 0 33] by (auto simp: val256_mk256)
  have "2 \<le> m_size m'" using m'(1) by (simp add: extended_def)
  moreover have "take (m_size m') (m_data m') = take 0 (m_data Memory_init) @ replicate (m_size m' - 0) 0"
    using m'(1) unfolding extended_def Memory_init_inv by blast
  then have "take (m_size m') (m_data m') = replicate (m_size m') 0" by simp
  ultimately have "take 2 (m_data m') = take 2 (replicate (m_size m') 0)"
    by (metis min.absorb1 take_take)
  also have "\<dots> = [0, 0]" using \<open>2 \<le> m_size m'\<close> by (simp add: min_def numeral_2_eq_2)
  finally show ?thesis using m' by (auto simp: slice_def)
qed

text \<open>The price of a store from Berlin on: that of the access, and that of the change.\<close>

definition store_gas :: "MockedHost \<Rightarrow> evmc_address \<Rightarrow> evmc_bytes32 \<Rightarrow> evmc_bytes32 \<Rightarrow> int" where
  "store_gas h a k v = (if access_at h a k = EVMC_ACCESS_COLD then 2100 else 0) +
     (case eip_status (touch (storage_at h a k)) v of
        EVMC_STORAGE_ADDED \<Rightarrow> 20000 | EVMC_STORAGE_MODIFIED \<Rightarrow> 2900 | EVMC_STORAGE_DELETED \<Rightarrow> 2900 | _ \<Rightarrow> 100)"

lemma store_gas_bounds: "100 \<le> store_gas h a k v" "store_gas h a k v \<le> 22100"
  by (auto simp: store_gas_def split: evmc_storage_status.splits)


lemma stacked_context [simp]:
  "rev (stacked g vs) = EVMC_LONDON" "host_ctx (stacked g vs) = MockedHost_init zero_host"
  "recipient (msg (stacked g vs)) = replicate 20 0" "\<not> ExecutionState_in_static_mode (stacked g vs)"
  by (simp_all add: stacked_def start_state_def ExecutionState_init_v_def fresh_state_def
      ExecutionState_in_static_mode_def)


text \<open>
  \<open>dup\<close> copies the item \<open>n - 1\<close> places below the top above it; \<open>swap\<close> exchanges the top
  with the item \<open>n\<close> places below, and doing so twice restores the state.
\<close>

theorem dup_swap:
  assumes "on_stack s st" and "on_stack s (st - int n)"
  shows "(on_stack s (st + 1) \<longrightarrow> dup (Suc n) st s = Inr (put_slot s (st + 1) (slot s (st - int n)))) \<and>
    swap n st s = Inr (put_slot (put_slot s st (slot s (st - int n))) (st - int n) (slot s st)) \<and>
    bind_o (swap n st s) (swap n st) = Inr s"
proof -
  let ?b = "st - int n"
  have dup: "on_stack s (st + 1) \<Longrightarrow> dup (Suc n) st s = Inr (put_slot s (st + 1) (slot s ?b))"
    using assms by (simp add: dup_def StackTop_get_def StackTop_push_def)
  have swap: "swap n st t = Inr (put_slot (put_slot t st (slot t ?b)) ?b (slot t st))"
    if "on_stack t st" "on_stack t ?b" for t
    using that by (simp add: swap_def StackTop_get_def)
  let ?t = "put_slot (put_slot s st (slot s ?b)) ?b (slot s st)"
  have "put_slot (put_slot ?t st (slot ?t ?b)) ?b (slot ?t st) = s"
  proof (cases "n = 0")
    case False
    then have ne: "nat st \<noteq> nat ?b" using assms by (auto simp: on_stack_def)
    show ?thesis
      using assms ne by (simp add: put_slot_def slot_def on_stack_def list_update_swap [OF ne])
  qed (use assms in \<open>simp add: put_slot_def slot_def on_stack_def\<close>)
  then show ?thesis using assms dup swap [of s] swap [of ?t] by simp
qed

theorem dup_swap_witness:
  "bind_o (swap 1 1 (stacked 0 [mk256 0 0 0 1, mk256 0 0 0 2])) (swap 1 1) = Inr (stacked 0 [mk256 0 0 0 1, mk256 0 0 0 2])"
  by (rule dup_swap [THEN conjunct2, THEN conjunct2]) simp_all

text \<open>
  \<open>calldataload\<close> reads 32 bytes of the message's data as a big-endian number, with zero bytes
  after the end of the data, for every index up to 2^256 - 1.
\<close>

theorem calldataload_value:
  assumes "on_stack s st" and "input_size (msg s) = length (input_data (msg s))"
    and "length (input_data (msg s)) < 2 ^ 63"
  shows "leaves (calldataload st s) s st
    (be_val (take 32 (drop (val256 (slot s st)) (input_data (msg s)) @ replicate 32 0)))"
proof -
  let ?d = "input_data (msg s)" and ?x = "val256 (slot s st)"
  have sz: "val256 (mk256 0 0 0 (of_nat (length ?d))) = length ?d"
    using assms(3) by (simp add: val256_mk256 unat_of_nat)
  show ?thesis
  proof (cases "?x > length ?d")
    case True
    then have "leaves (calldataload st s) s st 0"
      using assms sz by (simp add: calldataload_def Let_def gt256_val)
    moreover have "be_val (replicate 32 0) = 0" using be_val_bytes [of 32 0] by (simp add: be_bytes_0)
    ultimately show ?thesis using True by simp
  next
    case False
    let ?n = "min 32 (length ?d - ?x)"
    have x: "low (slot s st) = ?x" using False assms(3) by (simp add: low_value)
    have e: "min ((?x + 32) mod 2 ^ 64) (length ?d) = ?x + ?n"
    proof -
      have "min (X + 32) L = X + min 32 (L - X)" if "X \<le> L" for X L :: nat
        using le_Suc_ex [OF that] by (auto simp: min_def)
      then show ?thesis using False assms(3) by simp
    qed
    have n: "(?x + ?n + 2 ^ 64 - ?x) mod 2 ^ 64 = ?n" by simp
    have data: "read_range ?d ?x ?n = Inr (slice ?x ?n ?d)"
    proof -
      have "?x + ?n \<le> length ?d" using False by linarith
      then show ?thesis by (simp add: read_range_def slice_def)
    qed
    have bytes: "slice ?x ?n ?d @ replicate (32 - ?n) 0 = take 32 (drop ?x ?d @ replicate 32 0)"
      by (auto simp: slice_def min_def)
    have "length (take 32 (drop ?x ?d @ replicate 32 0)) = 32" by simp
    then obtain v where v: "readu256BE (take 32 (drop ?x ?d @ replicate 32 0)) 0 = Inr v"
      "val256 v = be_val (take 32 (drop ?x ?d @ replicate 32 0))"
      using readu256BE_whole by blast
    have "calldataload st s = Inr (put_slot s st v)"
      unfolding calldataload_def Let_def load_on [OF assms(1)] bind_o_simps assms(2) x e n
      using assms(1) False sz v(1) data by (simp add: gt256_val bytes del: take_append)
    then show ?thesis using v(2) by simp
  qed
qed

theorem calldataload_value_witness:
  "leaves (calldataload 0 (stacked 0 [mk256 1 0 0 0])) (stacked 0 [mk256 1 0 0 0]) 0 0"
proof -
  have "input_size (msg (stacked 0 vs)) = 0" "input_data (msg (stacked 0 vs)) = []" for vs
    by (simp_all add: stacked_def start_state_def ExecutionState_init_v_def fresh_state_def)
  moreover have "be_val (replicate 32 0) = 0" using be_val_bytes [of 32 0] by (simp add: be_bytes_0)
  ultimately show ?thesis using calldataload_value [of "stacked 0 [mk256 1 0 0 0]" 0] by simp
qed

text \<open>
  Instructions without a defined result: \<open>address\<close> copies through an unset pointer, \<open>origin\<close> and
  \<open>coinbase\<close> read twelve bytes they never set, and \<open>returndatasize\<close> takes the length of a null pointer
  whenever there is no return data. And \<open>blockhash\<close> of a block up to the current one is zero, since it
  asks the host only for blocks in the future.
\<close>

theorem undefined_context:
  assumes "on_stack s st"
  shows "address st s = Inl Uninitialised \<and> origin st s = Inl Uninitialised \<and> coinbase st s = Inl Uninitialised \<and>
    (return_data s = None \<longrightarrow> returndatasize st s = Inl Null_pointer) \<and>
    (0 \<le> block_number (tx_context (host_ctx s)) \<and> block_number (tx_context (host_ctx s)) < 2 ^ 63 \<and>
     int (val256 (slot s st)) \<le> block_number (tx_context (host_ctx s)) \<longrightarrow> leaves (blockhash st s) s st 0)"
proof -
  have un: "address_word a = Inl Uninitialised" for a
  proof -
    have "None \<in> set (take 12 (replicate 20 None @ replicate 12 (Some 0)) @ map Some (take 20 a))"
      by (simp add: numeral_eq_Suc)
    then show ?thesis unfolding address_word_def initialised_def Let_def by simp
  qed
  have hash: "leaves (blockhash st s) s st 0"
    if b: "0 \<le> b" "b < 2 ^ 63" "int (val256 (slot s st)) \<le> b" and eq: "block_number (tx_context (host_ctx s)) = b" for b
  proof -
    have "uint (of_int b :: u64) = b" using b(1,2) by (simp add: uint_word_of_int)
    then have "unat (of_int b :: u64) = nat b" by (simp only: unat_eq_nat_uint)
    then have "val256 (mk256 0 0 0 (of_int b)) = nat b" by (simp add: val256_mk256)
    then have ngt: "\<not> gt256 (slot s st) (mk256 0 0 0 (of_int b))"
      using b by (simp add: gt256_val)
    have "readu256BE (replicate 32 0) 0 = Inr (mk256 0 0 0 0)"
      using readu256BE_be_bytes [of "mk256 0 0 0 0"] by (simp add: be_bytes_0)
    then show ?thesis
      using assms b ngt by (simp add: blockhash_def Let_def get_tx_context_def eq)
  qed
  have "address st s = Inl Uninitialised" "origin st s = Inl Uninitialised" "coinbase st s = Inl Uninitialised"
    "return_data s = None \<longrightarrow> returndatasize st s = Inl Null_pointer"
    by (simp_all add: address_def origin_def coinbase_def push_bytes_def un returndatasize_def return_data_size_def)
  then show ?thesis using hash by blast
qed

theorem undefined_context_witness:
  "leaves (blockhash 0 (stacked 0 [mk256 0 0 0 0])) (stacked 0 [mk256 0 0 0 0]) 0 0 \<and>
   returndatasize 0 (stacked 0 [mk256 0 0 0 0]) = Inl Null_pointer"
  using undefined_context [of "stacked 0 [mk256 0 0 0 0]" 0]
  by (simp add: MockedHost_init_def zero_host_def zero_tx_context_def evmcContext_init_def)

end
