(* ===== verification/Calls.thy ===== *)
theory Calls
  imports State_Instructions
begin

text \<open>
  The instructions of src/tscvee/ta/include/instructions.h that log, end the execution, call and
  create. Their operands are read through the slots they point to at the moment the code reads them:
  the code pushes a result before it has used all its operands, and the push overwrites one of them.
  A field of a message that the code does not set has no value.
\<close>

section \<open>Logs\<close>

text \<open>The vector of topics is not initialised before the first push.\<close>

definition cvec_b32_push :: "evmc_bytes32 list outcome \<Rightarrow> evmc_bytes32 \<Rightarrow> evmc_bytes32 list outcome" where
  "cvec_b32_push topics topic = bind_o topics (\<lambda>ts. Inr (ts @ [topic]))"

fun log_topics :: "nat \<Rightarrow> int \<Rightarrow> evmc_bytes32 list outcome \<Rightarrow> ExecutionState \<Rightarrow> evmc_bytes32 list outcome" where
  "log_topics 0 st topics s = topics"
| "log_topics (Suc n) st topics s =
     (let (tmp, st) = StackTop_pop st
      in bind_o (load s tmp) (\<lambda>v. bind_o (u256_bytes v) (\<lambda>topic.
         bind_o (cvec_b32_push topics topic) (\<lambda>ts. log_topics n st (Inr ts) s))))"

definition log_cost :: "uint256_t \<Rightarrow> int outcome" where
  "log_cost vs = int64 (sint (lower128 (lower256 vs)) * 8)"

definition log0 :: "int \<Rightarrow> ExecutionState \<Rightarrow> (ExecutionState \<times> evmc_status_code) outcome" where
  "log0 st s =
     (if ExecutionState_in_static_mode s then Inr (s, EVMC_STATIC_MODE_VIOLATION)
      else let (offset, st) = StackTop_pop st; (sz, st) = StackTop_pop st
        in bind_o (load s offset) (\<lambda>vo. bind_o (load s sz) (\<lambda>vs.
           checked (check_memory_u256 s vo vs) (\<lambda>s.
           let p = low vo; n = low vs
           in bind_o (log_cost vs) (\<lambda>cost. checked (charge cost s) (\<lambda>s.
              bind_o (read_range (m_data (memory s)) p n) (\<lambda>data.
              bind_o (emit_log (host_ctx s) (recipient (msg s)) data []) (\<lambda>h.
              Inr (s\<lparr>host_ctx := h\<rparr>, EVMC_SUCCESS)))))))))"

text \<open>\<open>log1\<close> to \<open>log4\<close>, by the number of topics.\<close>

definition log_n :: "nat \<Rightarrow> int \<Rightarrow> ExecutionState \<Rightarrow> (ExecutionState \<times> evmc_status_code) outcome" where
  "log_n n st s =
     (if flags (msg s) AND 1 \<noteq> 0 then Inr (s, EVMC_STATIC_MODE_VIOLATION)
      else let (offset, st) = StackTop_pop st; (sz, st) = StackTop_pop st
        in bind_o (load s offset) (\<lambda>vo. bind_o (load s sz) (\<lambda>vs.
           checked (check_memory_u64 s vo (low vs)) (\<lambda>s.
           let p = low vo; k = low vs
           in bind_o (log_cost vs) (\<lambda>cost. checked (charge cost s) (\<lambda>s.
              bind_o (log_topics n st (Inl Uninitialised) s) (\<lambda>topics.
              bind_o (read_range (m_data (memory s)) p k) (\<lambda>data.
              bind_o (emit_log (host_ctx s) (recipient (msg s)) data topics) (\<lambda>h.
              Inr (s\<lparr>host_ctx := h\<rparr>, EVMC_SUCCESS))))))))))"

section \<open>Ending the execution\<close>

definition set_output :: "evmc_status_code \<Rightarrow> int \<Rightarrow> ExecutionState \<Rightarrow> (ExecutionState \<times> evmc_status_code) outcome" where
  "set_output result st s =
     (let offset = StackTop_get st 0; sz = StackTop_get st 1
      in bind_o (load s offset) (\<lambda>vo. bind_o (load s sz) (\<lambda>vs.
         checked (check_memory_u256 s vo vs) (\<lambda>s.
         let s = s\<lparr>output_size := low vs\<rparr>;
             s = (if output_size s \<noteq> 0 then s\<lparr>output_offset := low vo\<rparr> else s)
         in Inr (s, result)))))"

definition return_instr :: "int \<Rightarrow> ExecutionState \<Rightarrow> (ExecutionState \<times> evmc_status_code) outcome" where
  "return_instr = set_output EVMC_SUCCESS"

definition revert :: "int \<Rightarrow> ExecutionState \<Rightarrow> (ExecutionState \<times> evmc_status_code) outcome" where
  "revert = set_output EVMC_REVERT"

text \<open>The out-of-gas status of the last charge is overwritten by the success at the end.\<close>

definition selfdestruct_instr :: "int \<Rightarrow> ExecutionState \<Rightarrow> (ExecutionState \<times> evmc_status_code) outcome" where
  "selfdestruct_instr st s =
     (if ExecutionState_in_static_mode s then Inr (s, EVMC_STATIC_MODE_VIOLATION)
      else bind_o (load s (StackTop_get st 0)) (\<lambda>tmp. bind_o (u256_address tmp) (\<lambda>ben.
        checked (cold_account cold_account_access_cost ben s) (\<lambda>s.
        bind_o (if rev s \<ge> EVMC_TANGERINE_WHISTLE then
            bind_o (get_balance (host_ctx s) (recipient (msg s))) (\<lambda>(h, b).
            let s = s\<lparr>host_ctx := h\<rparr>
            in bind_o (readu256BE b 0) (\<lambda>bal.
               if rev s = EVMC_TANGERINE_WHISTLE \<or> lower128 (lower256 bal) \<noteq> 0 then
                 bind_o (account_exists (host_ctx s) ben) (\<lambda>(h, ex).
                 let s = s\<lparr>host_ctx := h\<rparr>
                 in if \<not> ex then bind_o (charge 25000 s) (\<lambda>(s, ok). Inr s) else Inr s)
               else Inr s))
          else Inr s) (\<lambda>s.
        Inr (s\<lparr>host_ctx := selfdestruct (host_ctx s) (recipient (msg s)) ben\<rparr>, EVMC_SUCCESS))))))"

section \<open>Calls\<close>

text \<open>\<open>g - g / 64\<close>, with C's division, which truncates.\<close>

definition all_but_64th :: "int \<Rightarrow> int" where
  "all_but_64th g = g - (if 0 \<le> g then g div 64 else - (- g div 64))"

text \<open>The cold access, and the checks of the two ranges; the operands are read when they are checked.\<close>

definition call_checks ::
  "evmc_address \<Rightarrow> int \<Rightarrow> int \<Rightarrow> int \<Rightarrow> int \<Rightarrow> ExecutionState
     \<Rightarrow> (ExecutionState \<Rightarrow> (ExecutionState \<times> evmc_status_code) outcome) \<Rightarrow> (ExecutionState \<times> evmc_status_code) outcome" where
  "call_checks dst in_offset in_size out_offset out_size s k =
     checked (cold_account additional_cold_account_access_cost dst s) (\<lambda>s.
     bind_o (load s in_offset) (\<lambda>io. bind_o (load s in_size) (\<lambda>is.
     checked (check_memory_u256 s io is) (\<lambda>s.
     bind_o (load s out_offset) (\<lambda>oo. bind_o (load s out_size) (\<lambda>os.
     checked (check_memory_u256 s oo os) k))))))"

text \<open>The input of the message; its pointer and its size are not set when the size is zero.\<close>

definition call_input :: "int \<Rightarrow> int \<Rightarrow> ExecutionState \<Rightarrow> u8 list outcome outcome" where
  "call_input in_offset in_size s =
     bind_o (load s in_size) (\<lambda>is.
     if low is > 0 then
       bind_o (load s in_offset) (\<lambda>io. Inr (read_range (m_data (memory s)) (low io) (low is)))
     else Inr (Inl Uninitialised))"

text \<open>
  After the host has answered: the output is copied byte by byte to \<open>return_data\<close>, which was set to a
  null pointer, the status goes to the slot on top, and the output to memory.
\<close>

definition call_result_step ::
  "int \<Rightarrow> int \<Rightarrow> int \<Rightarrow> int \<Rightarrow> evmc_result \<Rightarrow> ExecutionState \<Rightarrow> (ExecutionState \<times> evmc_status_code) outcome" where
  "call_result_step msg_gas out_offset out_size st result s =
     bind_o (guard_o Null_pointer (result_output_size result = 0 \<or> return_data s \<noteq> None)) (\<lambda>_.
     bind_o (store_slot s st (truth (status_code result = EVMC_SUCCESS))) (\<lambda>s.
     bind_o (load s out_size) (\<lambda>os.
     let copy_size = min (low os) (result_output_size result)
     in bind_o (if copy_size > 0 then
             bind_o (load s out_offset) (\<lambda>oo. case output_data result of None \<Rightarrow> Inl Null_pointer
             | Some bs \<Rightarrow> bind_o (read_range bs 0 copy_size) (mem_write (memory s) (low oo)))
           else Inr (memory s)) (\<lambda>m.
        let s = s\<lparr>memory := m\<rparr>
        in bind_o (int64 (msg_gas - result_gas_left result)) (\<lambda>gas_used.
           bind_o (int64 (gas_left s - gas_used)) (\<lambda>g. Inr (s\<lparr>gas_left := g\<rparr>, EVMC_SUCCESS)))))))"

text \<open>The end of the four calls, from the gas of the message on.\<close>

definition call_tail ::
  "bool \<Rightarrow> (ExecutionState \<Rightarrow> uint256_t outcome) \<Rightarrow> int \<Rightarrow> int \<Rightarrow> int \<Rightarrow> int \<Rightarrow> call_message
     \<Rightarrow> ExecutionState \<Rightarrow> (ExecutionState \<times> evmc_status_code) outcome" where
  "call_tail has_value read_value gas_slot out_offset out_size st m s =
     bind_o (load s gas_slot) (\<lambda>vg.
     let g = 2 ^ 63 - 1; gas_arg = sint (lower128 (lower256 vg));
         g = (if gas_arg < g then gas_arg else g);
         tangerine = (rev s \<ge> EVMC_TANGERINE_WHISTLE);
         g = (if tangerine then min g (all_but_64th (gas_left s)) else g)
     in if \<not> tangerine \<and> g > gas_left s then Inr (s, EVMC_OUT_OF_GAS)
        else bind_o (if has_value then bind_o (int64 (g + 2300)) (\<lambda>g. bind_o (int64 (gas_left s + 2300)) (\<lambda>l.
                 Inr (g, s\<lparr>gas_left := l\<rparr>)))
               else Inr (g, s)) (\<lambda>(g, s).
          let s = s\<lparr>return_data := None\<rparr>
          in if depth (msg s) \<ge> 1024 then Inr (s, EVMC_SUCCESS)
             else bind_o (get_balance (host_ctx s) (recipient (msg s))) (\<lambda>(h, b).
               let s = s\<lparr>host_ctx := h\<rparr>
               in bind_o (readu256BE b 0) (\<lambda>target. bind_o (read_value s) (\<lambda>v.
                  if has_value \<and> gt256 v target then Inr (s, EVMC_SUCCESS)
                  else bind_o (call (host_ctx s) (m\<lparr>cm_gas := g\<rparr>)) (\<lambda>(h, result).
                    call_result_step g out_offset out_size st result (s\<lparr>host_ctx := h\<rparr>)))))))"

text \<open>The message; its gas is set in \<open>call_tail\<close>, its salt is not set.\<close>

definition call_msg ::
  "evmc_call_kind \<Rightarrow> u32 \<Rightarrow> int \<Rightarrow> evmc_address \<Rightarrow> evmc_address \<Rightarrow> u8 list outcome \<Rightarrow> evmc_uint256be \<Rightarrow> evmc_address
     \<Rightarrow> call_message" where
  "call_msg k fl d to from input v code_addr =
     \<lparr>cm_kind = k, cm_flags = Inr fl, cm_depth = d, cm_gas = 2 ^ 63 - 1, cm_recipient = Inr to, cm_sender = from,
      cm_input = input, cm_value = v, cm_salt = Inl Uninitialised, cm_code_address = Inr code_addr\<rparr>"

definition call_instr :: "int \<Rightarrow> ExecutionState \<Rightarrow> (ExecutionState \<times> evmc_status_code) outcome" where
  "call_instr st s =
     (let (gas_slot, st) = StackTop_pop st; (tmp, st) = StackTop_pop st
      in bind_o (load s tmp) (\<lambda>vt. bind_o (u256_address vt) (\<lambda>dst.
         let (val, st) = StackTop_pop st
         in bind_o (load s val) (\<lambda>vv.
            let has_value = zero256 vv;
                (in_offset, st) = StackTop_pop st; (in_size, st) = StackTop_pop st;
                (out_offset, st) = StackTop_pop st; (out_size, st) = StackTop_pop st
            in bind_o (StackTop_push st (mk256 0 0 0 0) s) (\<lambda>s.
               let st = st + 1
               in call_checks dst in_offset in_size out_offset out_size s (\<lambda>s.
                  bind_o (load s val) (\<lambda>vv. bind_o (u256_bytes vv) (\<lambda>vb.
                  bind_o (call_input in_offset in_size s) (\<lambda>input.
                  let m = call_msg EVMC_CALL (flags (msg s)) (depth (msg s) + 1) dst (recipient (msg s)) input vb dst;
                      cost = (if has_value then 9000 else 0)
                  in if has_value \<and> ExecutionState_in_static_mode s then Inr (s, EVMC_STATIC_MODE_VIOLATION)
                     else bind_o (if has_value \<or> rev s < EVMC_SPURIOUS_DRAGON then
                          bind_o (account_exists (host_ctx s) dst) (\<lambda>(h, ex).
                          Inr (s\<lparr>host_ctx := h\<rparr>, if ex then cost else cost + 25000))
                        else Inr (s, cost)) (\<lambda>(s, cost).
                       checked (charge cost s) (\<lambda>s.
                       call_tail has_value (\<lambda>s. load s val) gas_slot out_offset out_size st m s)))))))))))"

text \<open>The three other calls have no value on the stack or do not look at it to decide what to charge.\<close>

definition staticcall :: "int \<Rightarrow> ExecutionState \<Rightarrow> (ExecutionState \<times> evmc_status_code) outcome" where
  "staticcall st s =
     (let (gas_slot, st) = StackTop_pop st; (tmp, st) = StackTop_pop st
      in bind_o (load s tmp) (\<lambda>vt. bind_o (u256_address vt) (\<lambda>dst.
         let vv = mk256 0 0 0 0; has_value = zero256 vv;
             (in_offset, st) = StackTop_pop st; (in_size, st) = StackTop_pop st;
             (out_offset, st) = StackTop_pop st; (out_size, st) = StackTop_pop st
         in bind_o (StackTop_push st (mk256 0 0 0 0) s) (\<lambda>s.
            let st = st + 1
            in call_checks dst in_offset in_size out_offset out_size s (\<lambda>s.
               bind_o (u256_bytes vv) (\<lambda>vb.
               bind_o (call_input in_offset in_size s) (\<lambda>input.
               let m = call_msg EVMC_CALL EVMC_STATIC (depth (msg s) + 1) dst (recipient (msg s)) input vb dst;
                   cost = (if has_value then 9000 else 0)
               in checked (charge cost s)
                    (call_tail has_value (\<lambda>s. Inr vv) gas_slot out_offset out_size st m))))))))"

definition delegatecall :: "int \<Rightarrow> ExecutionState \<Rightarrow> (ExecutionState \<times> evmc_status_code) outcome" where
  "delegatecall st s =
     (let (gas_slot, st) = StackTop_pop st; (tmp, st) = StackTop_pop st
      in bind_o (load s tmp) (\<lambda>vt. bind_o (u256_address vt) (\<lambda>dst.
         let vv = mk256 0 0 0 0; has_value = zero256 vv;
             (in_offset, st) = StackTop_pop st; (in_size, st) = StackTop_pop st;
             (out_offset, st) = StackTop_pop st; (out_size, st) = StackTop_pop st
         in bind_o (StackTop_push st (mk256 0 0 0 0) s) (\<lambda>s.
            let st = st + 1
            in call_checks dst in_offset in_size out_offset out_size s (\<lambda>s.
               bind_o (call_input in_offset in_size s) (\<lambda>input.
               let m = call_msg EVMC_DELEGATECALL (flags (msg s)) (depth (msg s) + 1) (recipient (msg s))
                         (sender (msg s)) input (call_value (msg s)) dst;
                   cost = (if has_value then 9000 else 0)
               in checked (charge cost s)
                    (call_tail has_value (\<lambda>s. Inr vv) gas_slot out_offset out_size st m)))))))"

definition callcode :: "int \<Rightarrow> ExecutionState \<Rightarrow> (ExecutionState \<times> evmc_status_code) outcome" where
  "callcode st s =
     (let (gas_slot, st) = StackTop_pop st; (tmp, st) = StackTop_pop st
      in bind_o (load s tmp) (\<lambda>vt. bind_o (u256_address vt) (\<lambda>dst.
         let (val, st) = StackTop_pop st
         in bind_o (load s val) (\<lambda>vv.
            let has_value = zero256 vv;
                (in_offset, st) = StackTop_pop st; (in_size, st) = StackTop_pop st;
                (out_offset, st) = StackTop_pop st; (out_size, st) = StackTop_pop st
            in bind_o (StackTop_push st (mk256 0 0 0 0) s) (\<lambda>s.
               let st = st + 1
               in call_checks dst in_offset in_size out_offset out_size s (\<lambda>s.
                  bind_o (load s val) (\<lambda>vv. bind_o (u256_bytes vv) (\<lambda>vb.
                  bind_o (call_input in_offset in_size s) (\<lambda>input.
                  let m = call_msg EVMC_CALLCODE (flags (msg s)) (depth (msg s) + 1) (recipient (msg s))
                            (recipient (msg s)) input vb dst;
                      cost = (if has_value then 9000 else 0)
                  in checked (charge cost s)
                       (call_tail has_value (\<lambda>s. load s val) gas_slot out_offset out_size st m))))))))))"

section \<open>Creates\<close>

text \<open>
  The end of the two creates, from the push of the salt on. The message gets no recipient, no flags
  and no code address, and its input is moved through a pointer that is not set.
\<close>

definition create_tail ::
  "evmc_call_kind \<Rightarrow> uint256_t \<Rightarrow> int \<Rightarrow> int \<Rightarrow> int \<Rightarrow> int \<Rightarrow> ExecutionState \<Rightarrow> (ExecutionState \<times> evmc_status_code) outcome" where
  "create_tail k salt endowment code_offset code_size st s =
     bind_o (StackTop_push st salt s) (\<lambda>s.
     let st = st + 1; s = s\<lparr>return_data := None\<rparr>
     in if depth (msg s) \<ge> 1024 then Inr (s, EVMC_SUCCESS)
        else bind_o (get_balance (host_ctx s) (recipient (msg s))) (\<lambda>(h, b).
          let s = s\<lparr>host_ctx := h\<rparr>
          in bind_o (readu256BE b 0) (\<lambda>tmp. bind_o (load s endowment) (\<lambda>ve.
             if \<not> zero256 ve \<and> gt256 ve tmp then Inr (s, EVMC_SUCCESS)
             else
               let g = gas_left s; g = (if rev s \<ge> EVMC_TANGERINE_WHISTLE then all_but_64th g else g)
               in bind_o (load s code_size) (\<lambda>vs.
                  bind_o (if low vs > 0 then Inl Uninitialised else Inr (Inl Uninitialised)) (\<lambda>input.
                  bind_o (u256_bytes salt) (\<lambda>sb. bind_o (u256_bytes ve) (\<lambda>vb.
                  let m = \<lparr>cm_kind = k, cm_flags = Inl Uninitialised, cm_depth = depth (msg s) + 1, cm_gas = g,
                        cm_recipient = Inl Uninitialised, cm_sender = recipient (msg s), cm_input = input,
                        cm_value = vb, cm_salt = Inr sb, cm_code_address = Inl Uninitialised\<rparr>
                  in bind_o (call (host_ctx s) m) (\<lambda>(h, result).
                     let s = s\<lparr>host_ctx := h\<rparr>
                     in bind_o (int64 (g - result_gas_left result)) (\<lambda>used.
                        bind_o (int64 (gas_left s - used)) (\<lambda>l.
                        let s = s\<lparr>gas_left := l\<rparr>
                        in bind_o (guard_o Null_pointer (result_output_size result = 0 \<or> return_data s \<noteq> None)) (\<lambda>_.
                           if status_code result = EVMC_SUCCESS then
                             succeed (push_bytes st (address_word (create_address result)) s)
                           else Inr (s, EVMC_SUCCESS)))))))))))))"

definition create :: "int \<Rightarrow> ExecutionState \<Rightarrow> (ExecutionState \<times> evmc_status_code) outcome" where
  "create st s =
     (if ExecutionState_in_static_mode s then Inr (s, EVMC_STATIC_MODE_VIOLATION)
      else let (endowment, st) = StackTop_pop st; (code_offset, st) = StackTop_pop st; (code_size, st) = StackTop_pop st
        in bind_o (load s code_offset) (\<lambda>vo. bind_o (load s code_size) (\<lambda>vs.
           checked (check_memory_u256 s vo vs)
             (create_tail EVMC_CREATE (mk256 0 0 0 0) endowment code_offset code_size st))))"

definition create2 :: "int \<Rightarrow> ExecutionState \<Rightarrow> (ExecutionState \<times> evmc_status_code) outcome" where
  "create2 st s =
     (if ExecutionState_in_static_mode s then Inr (s, EVMC_STATIC_MODE_VIOLATION)
      else let (endowment, st) = StackTop_pop st; (code_offset, st) = StackTop_pop st; (code_size, st) = StackTop_pop st
        in bind_o (load s code_offset) (\<lambda>vo. bind_o (load s code_size) (\<lambda>vs.
           checked (check_memory_u256 s vo vs) (\<lambda>s.
           let (p, st) = StackTop_pop st
           in bind_o (load s p) (\<lambda>salt. bind_o (load s code_size) (\<lambda>vs.
              let salt_cost = num_words (low vs) * 6;
                  s = s\<lparr>gas_left := signed_take_bit 63 (gas_left s - salt_cost)\<rparr>
              in if gas_left s < 0 then Inr (s, EVMC_OUT_OF_GAS)
                 else create_tail EVMC_CREATE2 salt endowment code_offset code_size st s))))))"

section \<open>Laws\<close>

lemma on_between: "on_stack s st \<Longrightarrow> on_stack s (st - int n) \<Longrightarrow> k \<le> n \<Longrightarrow> on_stack s (st - int k)"
  by (auto simp: on_stack_def)

lemma put_put [simp]: "put_slot (put_slot s i v) i w = put_slot s i w"
  by (simp add: put_slot_def)

lemma slot_return_data [simp]:
  "on_stack (s\<lparr>return_data := r\<rparr>) i \<longleftrightarrow> on_stack s i" "slot (s\<lparr>return_data := r\<rparr>) i = slot s i"
  by (simp_all add: on_stack_def slot_def)

lemma sint_small: "unat (w :: u64) = n \<Longrightarrow> n < 2 ^ 63 \<Longrightarrow> sint w = int n"
proof -
  assume w: "unat w = n" and n: "n < 2 ^ 63"
  then have u: "uint w = int n" by (simp only: uint_nat)
  have "int n < 2 ^ 63" using n by simp
  then have "signed_take_bit 63 (int n) = int n" by (intro signed_take_bit_int_eq_self) simp_all
  then show "sint w = int n" by (simp add: sint_uint u)
qed

lemma static_put [simp]: "ExecutionState_in_static_mode (put_slot s i v) = ExecutionState_in_static_mode s"
  by (simp add: ExecutionState_in_static_mode_def)

text \<open>
  Claim C36. The size of the output that a caller asks for is overwritten before it is read, by the zero
  that the calls push to assume failure: in the slot of the size, the stack of the result begins. So
  none of the four calls depends on the size, and no output range is checked or filled.
\<close>

theorem calls_ignore_output_size:
  assumes "on_stack s st" and "on_stack s (st - 6)"
  shows "call_instr st (put_slot s (st - 6) v) = call_instr st s \<and>
    callcode st (put_slot s (st - 6) v) = callcode st s \<and>
    staticcall st (put_slot s (st - 5) v) = staticcall st s \<and>
    delegatecall st (put_slot s (st - 5) v) = delegatecall st s"
proof -
  have on: "on_stack s (st - 1)" "on_stack s (st - 2)" "on_stack s (st - 5)"
    using on_between [of s st 6 1] on_between [of s st 6 2] on_between [of s st 6 5] assms by simp_all
  note steps = StackTop_pop_def StackTop_push_def Let_def
  have "call_instr st (put_slot s (st - 6) v) = call_instr st s"
    using assms on by (simp add: call_instr_def steps)
  moreover have "callcode st (put_slot s (st - 6) v) = callcode st s"
    using assms on by (simp add: callcode_def steps)
  moreover have "staticcall st (put_slot s (st - 5) v) = staticcall st s"
    using assms on by (simp add: staticcall_def steps)
  moreover have "delegatecall st (put_slot s (st - 5) v) = delegatecall st s"
    using assms on by (simp add: delegatecall_def steps)
  ultimately show ?thesis by blast
qed

text \<open>The steps before a host call do not touch the host.\<close>

lemma checked_Inr_iff:
  "checked r k = Inr (s', c) \<longleftrightarrow>
     (\<exists>t. r = Inr (t, True) \<and> k t = Inr (s', c)) \<or> (r = Inr (s', False) \<and> c = EVMC_OUT_OF_GAS)"
  by (auto simp: checked_def cres split: if_splits prod.splits)

lemma charge_frame: "charge c s = Inr (s', b) \<Longrightarrow> host_ctx s' = host_ctx s"
  by (auto simp: charge_def cres)

lemma grow_memory_frame: "grow_memory s n = Inr (s', b) \<Longrightarrow> host_ctx s' = host_ctx s"
  by (auto simp: grow_memory_def Let_def cres split: if_splits dest: charge_frame)

lemma check_memory_frame:
  "check_memory_u64 s x n = Inr (s', b) \<Longrightarrow> host_ctx s' = host_ctx s"
  "check_memory_u256 s x y = Inr (s', b) \<Longrightarrow> host_ctx s' = host_ctx s"
proof -
  show u64: "check_memory_u64 s x n = Inr (s', b) \<Longrightarrow> host_ctx s' = host_ctx s" for n
    by (auto simp: check_memory_u64_def Let_def split: if_splits dest: grow_memory_frame)
  show "check_memory_u256 s x y = Inr (s', b) \<Longrightarrow> host_ctx s' = host_ctx s"
    by (auto simp: check_memory_u256_def split: if_splits dest: u64)
qed

lemma get_balance_frame: "get_balance h a = Inr (h', b) \<Longrightarrow> recorded_calls h' = recorded_calls h"
  by (auto simp: get_balance_def record_account_access_def Let_def cres split: option.splits if_splits)

lemma store_slot_frame: "store_slot s p v = Inr s' \<Longrightarrow> host_ctx s' = host_ctx s"
  by (auto simp: store_slot_def cres split: if_splits)

lemma create_tail_no_call:
  assumes "create_tail k salt e co cs st s = Inr (s', c)"
  shows "recorded_calls (host_ctx s') = recorded_calls (host_ctx s) \<and> c = EVMC_SUCCESS"
  using assms
  by (auto simp: create_tail_def StackTop_push_def Let_def call_def cres split: if_splits
      dest!: store_slot_frame get_balance_frame)



theorem calls_ignore_output_size_witness:
  "call_instr 6 (put_slot (stacked 0 []) 0 (mk256 0 0 0 64)) = call_instr 6 (stacked 0 [])"
  using calls_ignore_output_size [of "stacked 0 []" 6 "mk256 0 0 0 64"] by simp


text \<open>
  Claim C38. \<open>log0\<close>, outside static mode and with gas for the memory and eight for every byte, records
  the recipient and the bytes of the range. No log with topics is ever recorded: an outcome of \<open>log1\<close>
  to \<open>log4\<close> that is defined is not a success and leaves the records.
\<close>

theorem log_instructions:
  assumes "on_stack s st" and "on_stack s (st - 1)" and "state_ok s" and "\<not> ExecutionState_in_static_mode s"
    and i: "val256 (slot s st) = i" "i < 2 ^ 32" and n: "val256 (slot s (st - 1)) = n" "0 < n" "n < 2 ^ 33"
    and gas: "extension_gas s (i + n) + 8 * int n \<le> gas_left s"
  shows "(\<exists>m. extended (memory s) (i + n) m \<and> log0 st s = Inr
      (s\<lparr>gas_left := gas_left s - extension_gas s (i + n) - 8 * int n, memory := m,
         host_ctx := (host_ctx s)\<lparr>recorded_logs := recorded_logs (host_ctx s) @
           [\<lparr>creator = recipient (msg s), log_data = slice i n (m_data m), log_topics = Inl Uninitialised\<rparr>]\<rparr>\<rparr>,
       EVMC_SUCCESS)) \<and>
    (\<forall>k s' c. 0 < k \<longrightarrow> log_n k st s = Inr (s', c) \<longrightarrow> c \<noteq> EVMC_SUCCESS \<and> host_ctx s' = host_ctx s)"
proof -
  let ?e = "extension_gas s (i + n)"
  have topics: "log_topics k st (Inl Uninitialised) t = Inr ts \<Longrightarrow> k = 0" for k st t ts
    by (cases k) (auto simp: Let_def StackTop_pop_def cvec_b32_push_def cres)
  have never: "log_n k st s = Inr (s', c) \<Longrightarrow> 0 < k \<Longrightarrow> c \<noteq> EVMC_SUCCESS \<and> host_ctx s' = host_ctx s" for k s' c
    by (auto simp: log_n_def Let_def StackTop_pop_def cres checked_Inr_iff split: if_splits
        dest!: topics check_memory_frame charge_frame)
  have "?e \<le> gas_left s" using gas by simp
  then obtain m where m: "extended (memory s) (i + n) m"
    "check_memory_u64 s (slot s st) n = Inr (s\<lparr>gas_left := gas_left s - ?e, memory := m\<rparr>, True)"
    using check_covered [OF assms(3) i n(3)] by auto
  have o: "low (slot s st) = i" "low (slot s (st - 1)) = n" "small_offset (slot s st)"
    using i n by (simp_all add: low_value small_offset_value)
  have chk: "check_memory_u256 s (slot s st) (slot s (st - 1)) = Inr (s\<lparr>gas_left := gas_left s - ?e, memory := m\<rparr>, True)"
    using m(2) o n by (simp add: check_memory_u256_cases)
  have "sint (lower128 (lower256 (slot s (st - 1)))) = int n"
    using o(2) n(3) by (intro sint_small) (simp_all add: low_def)
  then have cost: "log_cost (slot s (st - 1)) = Inr (8 * int n)"
    using n(3) by (simp add: log_cost_def)
  have "gas_left s - ?e < 2 ^ 63"
    using assms(3) extension_gas_nonneg [of s "i + n"] by (simp add: state_ok_def)
  then have ch: "charge (8 * int n) (s\<lparr>gas_left := gas_left s - ?e, memory := m\<rparr>) =
      Inr (s\<lparr>gas_left := gas_left s - ?e - 8 * int n, memory := m\<rparr>, True)"
    using gas n(3) by (simp add: charge_def)
  have "i + n \<le> m_size m" using m(1) by (simp add: extended_def)
  then have "i + n \<le> length (m_data m)" using extended_bytes(1) [OF m(1)] by linarith
  then have data: "read_range (m_data m) i n = Inr (slice i n (m_data m))" by (simp add: read_range_def slice_def)
  have "log0 st s = Inr
      (s\<lparr>gas_left := gas_left s - ?e - 8 * int n, memory := m,
         host_ctx := (host_ctx s)\<lparr>recorded_logs := recorded_logs (host_ctx s) @
           [\<lparr>creator = recipient (msg s), log_data = slice i n (m_data m), log_topics = Inl Uninitialised\<rparr>]\<rparr>\<rparr>,
       EVMC_SUCCESS)"
    using assms(1,2,4) chk cost ch data o
    by (simp add: log0_def StackTop_pop_def Let_def emit_log_def)
  then show ?thesis using m(1) never by blast
qed

theorem log_instructions_witness:
  "\<exists>m. log0 1 (stacked 20 [mk256 0 0 0 1, mk256 0 0 0 0]) = Inr
      ((stacked 20 [mk256 0 0 0 1, mk256 0 0 0 0])\<lparr>gas_left := 9, memory := m,
         host_ctx := (MockedHost_init zero_host)\<lparr>recorded_logs :=
           [\<lparr>creator = replicate 20 0, log_data = slice 0 1 (m_data m), log_topics = Inl Uninitialised\<rparr>]\<rparr>\<rparr>, EVMC_SUCCESS)"
proof -
  let ?s = "stacked 20 [mk256 0 0 0 1, mk256 0 0 0 0]"
  have "state_ok ?s" by (simp add: state_ok_def Memory_init_inv)
  moreover have "extension_gas ?s 1 = 3"
    by (simp add: extension_gas_def Memory_init_inv words_def mem_gas_def)
  moreover have "recorded_logs (MockedHost_init zero_host) = []" by (simp add: MockedHost_init_def)
  ultimately show ?thesis using log_instructions [of ?s 1 0 1] by auto
qed

lemma rev_update [simp]: "slot (s\<lparr>rev := r\<rparr>) i = slot s i" "on_stack (s\<lparr>rev := r\<rparr>) i \<longleftrightarrow> on_stack s i"
  by (simp_all add: slot_def on_stack_def)


text \<open>
  Claim C20. \<open>return\<close> and \<open>revert\<close> keep the range of the output. When the gas covers the memory, the range
  lies inside the memory; but for a size that makes offset and size wrap around the range is kept as
  well, at no charge, although it ends far outside the memory that the output is later copied from.
\<close>

theorem return_output:
  assumes "on_stack s st" and "on_stack s (st - 1)" and "state_ok s"
    and i: "val256 (slot s st) = i" "0 < i" "i < 2 ^ 32" and n: "val256 (slot s (st - 1)) = n" "0 < n"
  shows "(n < 2 ^ 33 \<and> extension_gas s (i + n) \<le> gas_left s \<longrightarrow>
      (\<exists>s'. return_instr st s = Inr (s', EVMC_SUCCESS) \<and> revert st s = Inr (s', EVMC_REVERT) \<and>
         output_offset s' = i \<and> output_size s' = n \<and> i + n \<le> m_size (memory s') \<and> memory_inv (memory s') \<and>
         gas_left s' = gas_left s - extension_gas s (i + n))) \<and>
    (n = 2 ^ 64 - i \<longrightarrow>
      return_instr st s = Inr (s\<lparr>output_offset := i, output_size := n\<rparr>, EVMC_SUCCESS) \<and>
      revert st s = Inr (s\<lparr>output_offset := i, output_size := n\<rparr>, EVMC_REVERT))"
proof -
  have o: "low (slot s st) = i" "small_offset (slot s st)" using i by (simp_all add: low_value small_offset_value)
  have "\<exists>s'. return_instr st s = Inr (s', EVMC_SUCCESS) \<and> revert st s = Inr (s', EVMC_REVERT) \<and>
         output_offset s' = i \<and> output_size s' = n \<and> i + n \<le> m_size (memory s') \<and> memory_inv (memory s') \<and>
         gas_left s' = gas_left s - extension_gas s (i + n)"
    if lt: "n < 2 ^ 33" "extension_gas s (i + n) \<le> gas_left s"
  proof -
    obtain m where m: "extended (memory s) (i + n) m"
      "check_memory_u64 s (slot s st) n = Inr (s\<lparr>gas_left := gas_left s - extension_gas s (i + n), memory := m\<rparr>, True)"
      using check_covered [OF assms(3) i(1,3) lt] by auto
    have "low (slot s (st - 1)) = n" using n lt(1) by (simp add: low_value)
    then show ?thesis
      using m assms(1,2) n o
      by (simp add: return_instr_def revert_def set_output_def StackTop_get_def Let_def check_memory_u256_cases extended_def)
  qed
  moreover have "return_instr st s = Inr (s\<lparr>output_offset := i, output_size := n\<rparr>, EVMC_SUCCESS) \<and>
      revert st s = Inr (s\<lparr>output_offset := i, output_size := n\<rparr>, EVMC_REVERT)" if wrap: "n = 2 ^ 64 - i"
  proof -
    have "check_memory_u256 s (slot s st) (slot s (st - 1)) = Inr (s, True)"
      using check_memory_wraps [of "slot s st" "slot s (st - 1)" s] i n wrap by simp
    moreover have "low (slot s (st - 1)) = n" using n(1) wrap i(2) by (simp add: low_value)
    ultimately show ?thesis
      using assms(1,2) n(2) o by (simp add: return_instr_def revert_def set_output_def StackTop_get_def Let_def)
  qed
  ultimately show ?thesis by blast
qed

theorem return_output_witness:
  "return_instr 1 (stacked 0 [mk256 0 0 0 (2 ^ 64 - 32), mk256 0 0 0 32]) =
     Inr ((stacked 0 [mk256 0 0 0 (2 ^ 64 - 32), mk256 0 0 0 32])\<lparr>output_offset := 32, output_size := 2 ^ 64 - 32\<rparr>, EVMC_SUCCESS)"
proof -
  have "state_ok (stacked 0 vs)" for vs by (simp add: state_ok_def Memory_init_inv)
  moreover have "val256 (mk256 0 0 0 (2 ^ 64 - 32)) = 2 ^ 64 - 32" by (simp add: val256_mk256)
  ultimately show ?thesis
    using return_output [of "stacked 0 [mk256 0 0 0 (2 ^ 64 - 32), mk256 0 0 0 32]" 1 32 "2 ^ 64 - 32"]
    by (simp add: val256_mk256)
qed

end
