(* ===== verification/Opcodes.thy ===== *)
theory Opcodes
  imports Main
begin

text \<open>
  The opcodes of src/tscvee/ta/include/opcode.h, by the names and numbers of the enumeration.
\<close>

abbreviation (input) OP_STOP :: nat where "OP_STOP \<equiv> 0"
abbreviation (input) OP_ADD :: nat where "OP_ADD \<equiv> 1"
abbreviation (input) OP_MUL :: nat where "OP_MUL \<equiv> 2"
abbreviation (input) OP_SUB :: nat where "OP_SUB \<equiv> 3"
abbreviation (input) OP_DIV :: nat where "OP_DIV \<equiv> 4"
abbreviation (input) OP_SDIV :: nat where "OP_SDIV \<equiv> 5"
abbreviation (input) OP_MOD :: nat where "OP_MOD \<equiv> 6"
abbreviation (input) OP_SMOD :: nat where "OP_SMOD \<equiv> 7"
abbreviation (input) OP_ADDMOD :: nat where "OP_ADDMOD \<equiv> 8"
abbreviation (input) OP_MULMOD :: nat where "OP_MULMOD \<equiv> 9"
abbreviation (input) OP_EXP :: nat where "OP_EXP \<equiv> 10"
abbreviation (input) OP_SIGNEXTEND :: nat where "OP_SIGNEXTEND \<equiv> 11"
abbreviation (input) OP_LT :: nat where "OP_LT \<equiv> 16"
abbreviation (input) OP_GT :: nat where "OP_GT \<equiv> 17"
abbreviation (input) OP_SLT :: nat where "OP_SLT \<equiv> 18"
abbreviation (input) OP_SGT :: nat where "OP_SGT \<equiv> 19"
abbreviation (input) OP_EQ :: nat where "OP_EQ \<equiv> 20"
abbreviation (input) OP_ISZERO :: nat where "OP_ISZERO \<equiv> 21"
abbreviation (input) OP_AND :: nat where "OP_AND \<equiv> 22"
abbreviation (input) OP_OR :: nat where "OP_OR \<equiv> 23"
abbreviation (input) OP_XOR :: nat where "OP_XOR \<equiv> 24"
abbreviation (input) OP_NOT :: nat where "OP_NOT \<equiv> 25"
abbreviation (input) OP_BYTE :: nat where "OP_BYTE \<equiv> 26"
abbreviation (input) OP_SHL :: nat where "OP_SHL \<equiv> 27"
abbreviation (input) OP_SHR :: nat where "OP_SHR \<equiv> 28"
abbreviation (input) OP_SAR :: nat where "OP_SAR \<equiv> 29"
abbreviation (input) OP_KECCAK256 :: nat where "OP_KECCAK256 \<equiv> 32"
abbreviation (input) OP_ADDRESS :: nat where "OP_ADDRESS \<equiv> 48"
abbreviation (input) OP_BALANCE :: nat where "OP_BALANCE \<equiv> 49"
abbreviation (input) OP_ORIGIN :: nat where "OP_ORIGIN \<equiv> 50"
abbreviation (input) OP_CALLER :: nat where "OP_CALLER \<equiv> 51"
abbreviation (input) OP_CALLVALUE :: nat where "OP_CALLVALUE \<equiv> 52"
abbreviation (input) OP_CALLDATALOAD :: nat where "OP_CALLDATALOAD \<equiv> 53"
abbreviation (input) OP_CALLDATASIZE :: nat where "OP_CALLDATASIZE \<equiv> 54"
abbreviation (input) OP_CALLDATACOPY :: nat where "OP_CALLDATACOPY \<equiv> 55"
abbreviation (input) OP_CODESIZE :: nat where "OP_CODESIZE \<equiv> 56"
abbreviation (input) OP_CODECOPY :: nat where "OP_CODECOPY \<equiv> 57"
abbreviation (input) OP_GASPRICE :: nat where "OP_GASPRICE \<equiv> 58"
abbreviation (input) OP_EXTCODESIZE :: nat where "OP_EXTCODESIZE \<equiv> 59"
abbreviation (input) OP_EXTCODECOPY :: nat where "OP_EXTCODECOPY \<equiv> 60"
abbreviation (input) OP_RETURNDATASIZE :: nat where "OP_RETURNDATASIZE \<equiv> 61"
abbreviation (input) OP_RETURNDATACOPY :: nat where "OP_RETURNDATACOPY \<equiv> 62"
abbreviation (input) OP_EXTCODEHASH :: nat where "OP_EXTCODEHASH \<equiv> 63"
abbreviation (input) OP_BLOCKHASH :: nat where "OP_BLOCKHASH \<equiv> 64"
abbreviation (input) OP_COINBASE :: nat where "OP_COINBASE \<equiv> 65"
abbreviation (input) OP_TIMESTAMP :: nat where "OP_TIMESTAMP \<equiv> 66"
abbreviation (input) OP_NUMBER :: nat where "OP_NUMBER \<equiv> 67"
abbreviation (input) OP_PREVRANDAO :: nat where "OP_PREVRANDAO \<equiv> 68"
abbreviation (input) OP_DIFFICULTY :: nat where "OP_DIFFICULTY \<equiv> 68"
abbreviation (input) OP_RANDOM :: nat where "OP_RANDOM \<equiv> 68"
abbreviation (input) OP_GASLIMIT :: nat where "OP_GASLIMIT \<equiv> 69"
abbreviation (input) OP_CHAINID :: nat where "OP_CHAINID \<equiv> 70"
abbreviation (input) OP_SELFBALANCE :: nat where "OP_SELFBALANCE \<equiv> 71"
abbreviation (input) OP_BASEFEE :: nat where "OP_BASEFEE \<equiv> 72"
abbreviation (input) OP_POP :: nat where "OP_POP \<equiv> 80"
abbreviation (input) OP_MLOAD :: nat where "OP_MLOAD \<equiv> 81"
abbreviation (input) OP_MSTORE :: nat where "OP_MSTORE \<equiv> 82"
abbreviation (input) OP_MSTORE8 :: nat where "OP_MSTORE8 \<equiv> 83"
abbreviation (input) OP_SLOAD :: nat where "OP_SLOAD \<equiv> 84"
abbreviation (input) OP_SSTORE :: nat where "OP_SSTORE \<equiv> 85"
abbreviation (input) OP_JUMP :: nat where "OP_JUMP \<equiv> 86"
abbreviation (input) OP_JUMPI :: nat where "OP_JUMPI \<equiv> 87"
abbreviation (input) OP_PC :: nat where "OP_PC \<equiv> 88"
abbreviation (input) OP_MSIZE :: nat where "OP_MSIZE \<equiv> 89"
abbreviation (input) OP_GAS :: nat where "OP_GAS \<equiv> 90"
abbreviation (input) OP_JUMPDEST :: nat where "OP_JUMPDEST \<equiv> 91"
abbreviation (input) OP_PUSH0 :: nat where "OP_PUSH0 \<equiv> 95"
abbreviation (input) OP_PUSH1 :: nat where "OP_PUSH1 \<equiv> 96"
abbreviation (input) OP_PUSH2 :: nat where "OP_PUSH2 \<equiv> 97"
abbreviation (input) OP_PUSH3 :: nat where "OP_PUSH3 \<equiv> 98"
abbreviation (input) OP_PUSH4 :: nat where "OP_PUSH4 \<equiv> 99"
abbreviation (input) OP_PUSH5 :: nat where "OP_PUSH5 \<equiv> 100"
abbreviation (input) OP_PUSH6 :: nat where "OP_PUSH6 \<equiv> 101"
abbreviation (input) OP_PUSH7 :: nat where "OP_PUSH7 \<equiv> 102"
abbreviation (input) OP_PUSH8 :: nat where "OP_PUSH8 \<equiv> 103"
abbreviation (input) OP_PUSH9 :: nat where "OP_PUSH9 \<equiv> 104"
abbreviation (input) OP_PUSH10 :: nat where "OP_PUSH10 \<equiv> 105"
abbreviation (input) OP_PUSH11 :: nat where "OP_PUSH11 \<equiv> 106"
abbreviation (input) OP_PUSH12 :: nat where "OP_PUSH12 \<equiv> 107"
abbreviation (input) OP_PUSH13 :: nat where "OP_PUSH13 \<equiv> 108"
abbreviation (input) OP_PUSH14 :: nat where "OP_PUSH14 \<equiv> 109"
abbreviation (input) OP_PUSH15 :: nat where "OP_PUSH15 \<equiv> 110"
abbreviation (input) OP_PUSH16 :: nat where "OP_PUSH16 \<equiv> 111"
abbreviation (input) OP_PUSH17 :: nat where "OP_PUSH17 \<equiv> 112"
abbreviation (input) OP_PUSH18 :: nat where "OP_PUSH18 \<equiv> 113"
abbreviation (input) OP_PUSH19 :: nat where "OP_PUSH19 \<equiv> 114"
abbreviation (input) OP_PUSH20 :: nat where "OP_PUSH20 \<equiv> 115"
abbreviation (input) OP_PUSH21 :: nat where "OP_PUSH21 \<equiv> 116"
abbreviation (input) OP_PUSH22 :: nat where "OP_PUSH22 \<equiv> 117"
abbreviation (input) OP_PUSH23 :: nat where "OP_PUSH23 \<equiv> 118"
abbreviation (input) OP_PUSH24 :: nat where "OP_PUSH24 \<equiv> 119"
abbreviation (input) OP_PUSH25 :: nat where "OP_PUSH25 \<equiv> 120"
abbreviation (input) OP_PUSH26 :: nat where "OP_PUSH26 \<equiv> 121"
abbreviation (input) OP_PUSH27 :: nat where "OP_PUSH27 \<equiv> 122"
abbreviation (input) OP_PUSH28 :: nat where "OP_PUSH28 \<equiv> 123"
abbreviation (input) OP_PUSH29 :: nat where "OP_PUSH29 \<equiv> 124"
abbreviation (input) OP_PUSH30 :: nat where "OP_PUSH30 \<equiv> 125"
abbreviation (input) OP_PUSH31 :: nat where "OP_PUSH31 \<equiv> 126"
abbreviation (input) OP_PUSH32 :: nat where "OP_PUSH32 \<equiv> 127"
abbreviation (input) OP_DUP1 :: nat where "OP_DUP1 \<equiv> 128"
abbreviation (input) OP_DUP2 :: nat where "OP_DUP2 \<equiv> 129"
abbreviation (input) OP_DUP3 :: nat where "OP_DUP3 \<equiv> 130"
abbreviation (input) OP_DUP4 :: nat where "OP_DUP4 \<equiv> 131"
abbreviation (input) OP_DUP5 :: nat where "OP_DUP5 \<equiv> 132"
abbreviation (input) OP_DUP6 :: nat where "OP_DUP6 \<equiv> 133"
abbreviation (input) OP_DUP7 :: nat where "OP_DUP7 \<equiv> 134"
abbreviation (input) OP_DUP8 :: nat where "OP_DUP8 \<equiv> 135"
abbreviation (input) OP_DUP9 :: nat where "OP_DUP9 \<equiv> 136"
abbreviation (input) OP_DUP10 :: nat where "OP_DUP10 \<equiv> 137"
abbreviation (input) OP_DUP11 :: nat where "OP_DUP11 \<equiv> 138"
abbreviation (input) OP_DUP12 :: nat where "OP_DUP12 \<equiv> 139"
abbreviation (input) OP_DUP13 :: nat where "OP_DUP13 \<equiv> 140"
abbreviation (input) OP_DUP14 :: nat where "OP_DUP14 \<equiv> 141"
abbreviation (input) OP_DUP15 :: nat where "OP_DUP15 \<equiv> 142"
abbreviation (input) OP_DUP16 :: nat where "OP_DUP16 \<equiv> 143"
abbreviation (input) OP_SWAP1 :: nat where "OP_SWAP1 \<equiv> 144"
abbreviation (input) OP_SWAP2 :: nat where "OP_SWAP2 \<equiv> 145"
abbreviation (input) OP_SWAP3 :: nat where "OP_SWAP3 \<equiv> 146"
abbreviation (input) OP_SWAP4 :: nat where "OP_SWAP4 \<equiv> 147"
abbreviation (input) OP_SWAP5 :: nat where "OP_SWAP5 \<equiv> 148"
abbreviation (input) OP_SWAP6 :: nat where "OP_SWAP6 \<equiv> 149"
abbreviation (input) OP_SWAP7 :: nat where "OP_SWAP7 \<equiv> 150"
abbreviation (input) OP_SWAP8 :: nat where "OP_SWAP8 \<equiv> 151"
abbreviation (input) OP_SWAP9 :: nat where "OP_SWAP9 \<equiv> 152"
abbreviation (input) OP_SWAP10 :: nat where "OP_SWAP10 \<equiv> 153"
abbreviation (input) OP_SWAP11 :: nat where "OP_SWAP11 \<equiv> 154"
abbreviation (input) OP_SWAP12 :: nat where "OP_SWAP12 \<equiv> 155"
abbreviation (input) OP_SWAP13 :: nat where "OP_SWAP13 \<equiv> 156"
abbreviation (input) OP_SWAP14 :: nat where "OP_SWAP14 \<equiv> 157"
abbreviation (input) OP_SWAP15 :: nat where "OP_SWAP15 \<equiv> 158"
abbreviation (input) OP_SWAP16 :: nat where "OP_SWAP16 \<equiv> 159"
abbreviation (input) OP_LOG0 :: nat where "OP_LOG0 \<equiv> 160"
abbreviation (input) OP_LOG1 :: nat where "OP_LOG1 \<equiv> 161"
abbreviation (input) OP_LOG2 :: nat where "OP_LOG2 \<equiv> 162"
abbreviation (input) OP_LOG3 :: nat where "OP_LOG3 \<equiv> 163"
abbreviation (input) OP_LOG4 :: nat where "OP_LOG4 \<equiv> 164"
abbreviation (input) OP_CREATE :: nat where "OP_CREATE \<equiv> 240"
abbreviation (input) OP_CALL :: nat where "OP_CALL \<equiv> 241"
abbreviation (input) OP_CALLCODE :: nat where "OP_CALLCODE \<equiv> 242"
abbreviation (input) OP_RETURN :: nat where "OP_RETURN \<equiv> 243"
abbreviation (input) OP_DELEGATECALL :: nat where "OP_DELEGATECALL \<equiv> 244"
abbreviation (input) OP_CREATE2 :: nat where "OP_CREATE2 \<equiv> 245"
abbreviation (input) OP_STATICCALL :: nat where "OP_STATICCALL \<equiv> 250"
abbreviation (input) OP_REVERT :: nat where "OP_REVERT \<equiv> 253"
abbreviation (input) OP_INVALID :: nat where "OP_INVALID \<equiv> 254"
abbreviation (input) OP_SELFDESTRUCT :: nat where "OP_SELFDESTRUCT \<equiv> 255"

end
