(* ===== verification/Metrics.thy ===== *)
theory Metrics
  imports Main
begin

text \<open>
  The reference the tables are compared with: the metrics of the EVM instructions, by revision, of
  src/evmone/evmc/lib/instructions/instruction_metrics.c. An entry is the gas cost, the stack height
  required and the change of the stack height; an undefined instruction costs nothing.
\<close>

type_synonym evmc_instruction_metrics = "int \<times> int \<times> int"

abbreviation (input) UNDEF :: int where "UNDEF \<equiv> 0"
abbreviation (input) ZERO :: int where "ZERO \<equiv> 0"
abbreviation (input) BASE :: int where "BASE \<equiv> 2"
abbreviation (input) VERYLOW :: int where "VERYLOW \<equiv> 3"
abbreviation (input) LOW :: int where "LOW \<equiv> 5"
abbreviation (input) MID :: int where "MID \<equiv> 8"
abbreviation (input) HIGH :: int where "HIGH \<equiv> 10"
abbreviation (input) WARM_STORAGE_READ_COST :: int where "WARM_STORAGE_READ_COST \<equiv> 100"

definition cancun_metrics :: "evmc_instruction_metrics list" where
  "cancun_metrics =
    [(ZERO, 0, 0), (VERYLOW, 2, - 1), (LOW, 2, - 1), (VERYLOW, 2, - 1), (LOW, 2, - 1), (LOW, 2, - 1),
     (LOW, 2, - 1), (LOW, 2, - 1), (MID, 3, - 2), (MID, 3, - 2), (HIGH, 2, - 1), (LOW, 2, - 1), (UNDEF, 0, 0),
     (UNDEF, 0, 0), (UNDEF, 0, 0), (UNDEF, 0, 0), (VERYLOW, 2, - 1), (VERYLOW, 2, - 1), (VERYLOW, 2, - 1),
     (VERYLOW, 2, - 1), (VERYLOW, 2, - 1), (VERYLOW, 1, 0), (VERYLOW, 2, - 1), (VERYLOW, 2, - 1),
     (VERYLOW, 2, - 1), (VERYLOW, 1, 0), (VERYLOW, 2, - 1), (VERYLOW, 2, - 1), (VERYLOW, 2, - 1),
     (VERYLOW, 2, - 1), (UNDEF, 0, 0), (UNDEF, 0, 0), (30, 2, - 1), (UNDEF, 0, 0), (UNDEF, 0, 0), (UNDEF, 0, 0),
     (UNDEF, 0, 0), (UNDEF, 0, 0), (UNDEF, 0, 0), (UNDEF, 0, 0), (UNDEF, 0, 0), (UNDEF, 0, 0), (UNDEF, 0, 0),
     (UNDEF, 0, 0), (UNDEF, 0, 0), (UNDEF, 0, 0), (UNDEF, 0, 0), (UNDEF, 0, 0), (BASE, 0, 1),
     (WARM_STORAGE_READ_COST, 1, 0), (BASE, 0, 1), (BASE, 0, 1), (BASE, 0, 1), (VERYLOW, 1, 0), (BASE, 0, 1),
     (VERYLOW, 3, - 3), (BASE, 0, 1), (VERYLOW, 3, - 3), (BASE, 0, 1), (WARM_STORAGE_READ_COST, 1, 0),
     (WARM_STORAGE_READ_COST, 4, - 4), (BASE, 0, 1), (VERYLOW, 3, - 3), (WARM_STORAGE_READ_COST, 1, 0),
     (20, 1, 0), (BASE, 0, 1), (BASE, 0, 1), (BASE, 0, 1), (BASE, 0, 1), (BASE, 0, 1), (BASE, 0, 1),
     (LOW, 0, 1), (BASE, 0, 1), (UNDEF, 0, 0), (UNDEF, 0, 0), (UNDEF, 0, 0), (UNDEF, 0, 0), (UNDEF, 0, 0),
     (UNDEF, 0, 0), (UNDEF, 0, 0), (BASE, 1, - 1), (VERYLOW, 1, 0), (VERYLOW, 2, - 2), (VERYLOW, 2, - 2),
     (WARM_STORAGE_READ_COST, 1, 0), (0, 2, - 2), (MID, 1, - 1), (HIGH, 2, - 2), (BASE, 0, 1), (BASE, 0, 1),
     (BASE, 0, 1), (1, 0, 0), (UNDEF, 0, 0), (UNDEF, 0, 0), (UNDEF, 0, 0), (BASE, 0, 1), (VERYLOW, 0, 1),
     (VERYLOW, 0, 1), (VERYLOW, 0, 1), (VERYLOW, 0, 1), (VERYLOW, 0, 1), (VERYLOW, 0, 1), (VERYLOW, 0, 1),
     (VERYLOW, 0, 1), (VERYLOW, 0, 1), (VERYLOW, 0, 1), (VERYLOW, 0, 1), (VERYLOW, 0, 1), (VERYLOW, 0, 1),
     (VERYLOW, 0, 1), (VERYLOW, 0, 1), (VERYLOW, 0, 1), (VERYLOW, 0, 1), (VERYLOW, 0, 1), (VERYLOW, 0, 1),
     (VERYLOW, 0, 1), (VERYLOW, 0, 1), (VERYLOW, 0, 1), (VERYLOW, 0, 1), (VERYLOW, 0, 1), (VERYLOW, 0, 1),
     (VERYLOW, 0, 1), (VERYLOW, 0, 1), (VERYLOW, 0, 1), (VERYLOW, 0, 1), (VERYLOW, 0, 1), (VERYLOW, 0, 1),
     (VERYLOW, 0, 1), (VERYLOW, 1, 1), (VERYLOW, 2, 1), (VERYLOW, 3, 1), (VERYLOW, 4, 1), (VERYLOW, 5, 1),
     (VERYLOW, 6, 1), (VERYLOW, 7, 1), (VERYLOW, 8, 1), (VERYLOW, 9, 1), (VERYLOW, 10, 1), (VERYLOW, 11, 1),
     (VERYLOW, 12, 1), (VERYLOW, 13, 1), (VERYLOW, 14, 1), (VERYLOW, 15, 1), (VERYLOW, 16, 1), (VERYLOW, 2, 0),
     (VERYLOW, 3, 0), (VERYLOW, 4, 0), (VERYLOW, 5, 0), (VERYLOW, 6, 0), (VERYLOW, 7, 0), (VERYLOW, 8, 0),
     (VERYLOW, 9, 0), (VERYLOW, 10, 0), (VERYLOW, 11, 0), (VERYLOW, 12, 0), (VERYLOW, 13, 0), (VERYLOW, 14, 0),
     (VERYLOW, 15, 0), (VERYLOW, 16, 0), (VERYLOW, 17, 0), (1 * 375, 2, - 2), (2 * 375, 3, - 3),
     (3 * 375, 4, - 4), (4 * 375, 5, - 5), (5 * 375, 6, - 6), (UNDEF, 0, 0), (UNDEF, 0, 0), (UNDEF, 0, 0),
     (UNDEF, 0, 0), (UNDEF, 0, 0), (UNDEF, 0, 0), (UNDEF, 0, 0), (UNDEF, 0, 0), (UNDEF, 0, 0), (UNDEF, 0, 0),
     (UNDEF, 0, 0), (UNDEF, 0, 0), (UNDEF, 0, 0), (UNDEF, 0, 0), (UNDEF, 0, 0), (UNDEF, 0, 0), (UNDEF, 0, 0),
     (UNDEF, 0, 0), (UNDEF, 0, 0), (UNDEF, 0, 0), (UNDEF, 0, 0), (UNDEF, 0, 0), (UNDEF, 0, 0), (UNDEF, 0, 0),
     (UNDEF, 0, 0), (UNDEF, 0, 0), (UNDEF, 0, 0), (UNDEF, 0, 0), (UNDEF, 0, 0), (UNDEF, 0, 0), (UNDEF, 0, 0),
     (UNDEF, 0, 0), (UNDEF, 0, 0), (UNDEF, 0, 0), (UNDEF, 0, 0), (UNDEF, 0, 0), (UNDEF, 0, 0), (UNDEF, 0, 0),
     (UNDEF, 0, 0), (UNDEF, 0, 0), (UNDEF, 0, 0), (UNDEF, 0, 0), (UNDEF, 0, 0), (UNDEF, 0, 0), (UNDEF, 0, 0),
     (UNDEF, 0, 0), (UNDEF, 0, 0), (UNDEF, 0, 0), (UNDEF, 0, 0), (UNDEF, 0, 0), (UNDEF, 0, 0), (UNDEF, 0, 0),
     (UNDEF, 0, 0), (UNDEF, 0, 0), (UNDEF, 0, 0), (UNDEF, 0, 0), (UNDEF, 0, 0), (UNDEF, 0, 0), (UNDEF, 0, 0),
     (UNDEF, 0, 0), (UNDEF, 0, 0), (UNDEF, 0, 0), (UNDEF, 0, 0), (UNDEF, 0, 0), (UNDEF, 0, 0), (UNDEF, 0, 0),
     (UNDEF, 0, 0), (UNDEF, 0, 0), (UNDEF, 0, 0), (UNDEF, 0, 0), (UNDEF, 0, 0), (UNDEF, 0, 0), (UNDEF, 0, 0),
     (UNDEF, 0, 0), (UNDEF, 0, 0), (32000, 3, - 2), (WARM_STORAGE_READ_COST, 7, - 6),
     (WARM_STORAGE_READ_COST, 7, - 6), (ZERO, 2, - 2), (WARM_STORAGE_READ_COST, 6, - 5), (32000, 4, - 3),
     (UNDEF, 0, 0), (UNDEF, 0, 0), (UNDEF, 0, 0), (UNDEF, 0, 0), (WARM_STORAGE_READ_COST, 6, - 5),
     (UNDEF, 0, 0), (UNDEF, 0, 0), (ZERO, 2, - 2), (ZERO, 0, 0), (5000, 1, - 1)]"

definition shanghai_metrics :: "evmc_instruction_metrics list" where
  "shanghai_metrics =
    [(ZERO, 0, 0), (VERYLOW, 2, - 1), (LOW, 2, - 1), (VERYLOW, 2, - 1), (LOW, 2, - 1), (LOW, 2, - 1),
     (LOW, 2, - 1), (LOW, 2, - 1), (MID, 3, - 2), (MID, 3, - 2), (HIGH, 2, - 1), (LOW, 2, - 1), (UNDEF, 0, 0),
     (UNDEF, 0, 0), (UNDEF, 0, 0), (UNDEF, 0, 0), (VERYLOW, 2, - 1), (VERYLOW, 2, - 1), (VERYLOW, 2, - 1),
     (VERYLOW, 2, - 1), (VERYLOW, 2, - 1), (VERYLOW, 1, 0), (VERYLOW, 2, - 1), (VERYLOW, 2, - 1),
     (VERYLOW, 2, - 1), (VERYLOW, 1, 0), (VERYLOW, 2, - 1), (VERYLOW, 2, - 1), (VERYLOW, 2, - 1),
     (VERYLOW, 2, - 1), (UNDEF, 0, 0), (UNDEF, 0, 0), (30, 2, - 1), (UNDEF, 0, 0), (UNDEF, 0, 0), (UNDEF, 0, 0),
     (UNDEF, 0, 0), (UNDEF, 0, 0), (UNDEF, 0, 0), (UNDEF, 0, 0), (UNDEF, 0, 0), (UNDEF, 0, 0), (UNDEF, 0, 0),
     (UNDEF, 0, 0), (UNDEF, 0, 0), (UNDEF, 0, 0), (UNDEF, 0, 0), (UNDEF, 0, 0), (BASE, 0, 1),
     (WARM_STORAGE_READ_COST, 1, 0), (BASE, 0, 1), (BASE, 0, 1), (BASE, 0, 1), (VERYLOW, 1, 0), (BASE, 0, 1),
     (VERYLOW, 3, - 3), (BASE, 0, 1), (VERYLOW, 3, - 3), (BASE, 0, 1), (WARM_STORAGE_READ_COST, 1, 0),
     (WARM_STORAGE_READ_COST, 4, - 4), (BASE, 0, 1), (VERYLOW, 3, - 3), (WARM_STORAGE_READ_COST, 1, 0),
     (20, 1, 0), (BASE, 0, 1), (BASE, 0, 1), (BASE, 0, 1), (BASE, 0, 1), (BASE, 0, 1), (BASE, 0, 1),
     (LOW, 0, 1), (BASE, 0, 1), (UNDEF, 0, 0), (UNDEF, 0, 0), (UNDEF, 0, 0), (UNDEF, 0, 0), (UNDEF, 0, 0),
     (UNDEF, 0, 0), (UNDEF, 0, 0), (BASE, 1, - 1), (VERYLOW, 1, 0), (VERYLOW, 2, - 2), (VERYLOW, 2, - 2),
     (WARM_STORAGE_READ_COST, 1, 0), (0, 2, - 2), (MID, 1, - 1), (HIGH, 2, - 2), (BASE, 0, 1), (BASE, 0, 1),
     (BASE, 0, 1), (1, 0, 0), (UNDEF, 0, 0), (UNDEF, 0, 0), (UNDEF, 0, 0), (BASE, 0, 1), (VERYLOW, 0, 1),
     (VERYLOW, 0, 1), (VERYLOW, 0, 1), (VERYLOW, 0, 1), (VERYLOW, 0, 1), (VERYLOW, 0, 1), (VERYLOW, 0, 1),
     (VERYLOW, 0, 1), (VERYLOW, 0, 1), (VERYLOW, 0, 1), (VERYLOW, 0, 1), (VERYLOW, 0, 1), (VERYLOW, 0, 1),
     (VERYLOW, 0, 1), (VERYLOW, 0, 1), (VERYLOW, 0, 1), (VERYLOW, 0, 1), (VERYLOW, 0, 1), (VERYLOW, 0, 1),
     (VERYLOW, 0, 1), (VERYLOW, 0, 1), (VERYLOW, 0, 1), (VERYLOW, 0, 1), (VERYLOW, 0, 1), (VERYLOW, 0, 1),
     (VERYLOW, 0, 1), (VERYLOW, 0, 1), (VERYLOW, 0, 1), (VERYLOW, 0, 1), (VERYLOW, 0, 1), (VERYLOW, 0, 1),
     (VERYLOW, 0, 1), (VERYLOW, 1, 1), (VERYLOW, 2, 1), (VERYLOW, 3, 1), (VERYLOW, 4, 1), (VERYLOW, 5, 1),
     (VERYLOW, 6, 1), (VERYLOW, 7, 1), (VERYLOW, 8, 1), (VERYLOW, 9, 1), (VERYLOW, 10, 1), (VERYLOW, 11, 1),
     (VERYLOW, 12, 1), (VERYLOW, 13, 1), (VERYLOW, 14, 1), (VERYLOW, 15, 1), (VERYLOW, 16, 1), (VERYLOW, 2, 0),
     (VERYLOW, 3, 0), (VERYLOW, 4, 0), (VERYLOW, 5, 0), (VERYLOW, 6, 0), (VERYLOW, 7, 0), (VERYLOW, 8, 0),
     (VERYLOW, 9, 0), (VERYLOW, 10, 0), (VERYLOW, 11, 0), (VERYLOW, 12, 0), (VERYLOW, 13, 0), (VERYLOW, 14, 0),
     (VERYLOW, 15, 0), (VERYLOW, 16, 0), (VERYLOW, 17, 0), (1 * 375, 2, - 2), (2 * 375, 3, - 3),
     (3 * 375, 4, - 4), (4 * 375, 5, - 5), (5 * 375, 6, - 6), (UNDEF, 0, 0), (UNDEF, 0, 0), (UNDEF, 0, 0),
     (UNDEF, 0, 0), (UNDEF, 0, 0), (UNDEF, 0, 0), (UNDEF, 0, 0), (UNDEF, 0, 0), (UNDEF, 0, 0), (UNDEF, 0, 0),
     (UNDEF, 0, 0), (UNDEF, 0, 0), (UNDEF, 0, 0), (UNDEF, 0, 0), (UNDEF, 0, 0), (UNDEF, 0, 0), (UNDEF, 0, 0),
     (UNDEF, 0, 0), (UNDEF, 0, 0), (UNDEF, 0, 0), (UNDEF, 0, 0), (UNDEF, 0, 0), (UNDEF, 0, 0), (UNDEF, 0, 0),
     (UNDEF, 0, 0), (UNDEF, 0, 0), (UNDEF, 0, 0), (UNDEF, 0, 0), (UNDEF, 0, 0), (UNDEF, 0, 0), (UNDEF, 0, 0),
     (UNDEF, 0, 0), (UNDEF, 0, 0), (UNDEF, 0, 0), (UNDEF, 0, 0), (UNDEF, 0, 0), (UNDEF, 0, 0), (UNDEF, 0, 0),
     (UNDEF, 0, 0), (UNDEF, 0, 0), (UNDEF, 0, 0), (UNDEF, 0, 0), (UNDEF, 0, 0), (UNDEF, 0, 0), (UNDEF, 0, 0),
     (UNDEF, 0, 0), (UNDEF, 0, 0), (UNDEF, 0, 0), (UNDEF, 0, 0), (UNDEF, 0, 0), (UNDEF, 0, 0), (UNDEF, 0, 0),
     (UNDEF, 0, 0), (UNDEF, 0, 0), (UNDEF, 0, 0), (UNDEF, 0, 0), (UNDEF, 0, 0), (UNDEF, 0, 0), (UNDEF, 0, 0),
     (UNDEF, 0, 0), (UNDEF, 0, 0), (UNDEF, 0, 0), (UNDEF, 0, 0), (UNDEF, 0, 0), (UNDEF, 0, 0), (UNDEF, 0, 0),
     (UNDEF, 0, 0), (UNDEF, 0, 0), (UNDEF, 0, 0), (UNDEF, 0, 0), (UNDEF, 0, 0), (UNDEF, 0, 0), (UNDEF, 0, 0),
     (UNDEF, 0, 0), (UNDEF, 0, 0), (32000, 3, - 2), (WARM_STORAGE_READ_COST, 7, - 6),
     (WARM_STORAGE_READ_COST, 7, - 6), (ZERO, 2, - 2), (WARM_STORAGE_READ_COST, 6, - 5), (32000, 4, - 3),
     (UNDEF, 0, 0), (UNDEF, 0, 0), (UNDEF, 0, 0), (UNDEF, 0, 0), (WARM_STORAGE_READ_COST, 6, - 5),
     (UNDEF, 0, 0), (UNDEF, 0, 0), (ZERO, 2, - 2), (ZERO, 0, 0), (5000, 1, - 1)]"

definition london_metrics :: "evmc_instruction_metrics list" where
  "london_metrics =
    [(ZERO, 0, 0), (VERYLOW, 2, - 1), (LOW, 2, - 1), (VERYLOW, 2, - 1), (LOW, 2, - 1), (LOW, 2, - 1),
     (LOW, 2, - 1), (LOW, 2, - 1), (MID, 3, - 2), (MID, 3, - 2), (HIGH, 2, - 1), (LOW, 2, - 1), (UNDEF, 0, 0),
     (UNDEF, 0, 0), (UNDEF, 0, 0), (UNDEF, 0, 0), (VERYLOW, 2, - 1), (VERYLOW, 2, - 1), (VERYLOW, 2, - 1),
     (VERYLOW, 2, - 1), (VERYLOW, 2, - 1), (VERYLOW, 1, 0), (VERYLOW, 2, - 1), (VERYLOW, 2, - 1),
     (VERYLOW, 2, - 1), (VERYLOW, 1, 0), (VERYLOW, 2, - 1), (VERYLOW, 2, - 1), (VERYLOW, 2, - 1),
     (VERYLOW, 2, - 1), (UNDEF, 0, 0), (UNDEF, 0, 0), (30, 2, - 1), (UNDEF, 0, 0), (UNDEF, 0, 0), (UNDEF, 0, 0),
     (UNDEF, 0, 0), (UNDEF, 0, 0), (UNDEF, 0, 0), (UNDEF, 0, 0), (UNDEF, 0, 0), (UNDEF, 0, 0), (UNDEF, 0, 0),
     (UNDEF, 0, 0), (UNDEF, 0, 0), (UNDEF, 0, 0), (UNDEF, 0, 0), (UNDEF, 0, 0), (BASE, 0, 1),
     (WARM_STORAGE_READ_COST, 1, 0), (BASE, 0, 1), (BASE, 0, 1), (BASE, 0, 1), (VERYLOW, 1, 0), (BASE, 0, 1),
     (VERYLOW, 3, - 3), (BASE, 0, 1), (VERYLOW, 3, - 3), (BASE, 0, 1), (WARM_STORAGE_READ_COST, 1, 0),
     (WARM_STORAGE_READ_COST, 4, - 4), (BASE, 0, 1), (VERYLOW, 3, - 3), (WARM_STORAGE_READ_COST, 1, 0),
     (20, 1, 0), (BASE, 0, 1), (BASE, 0, 1), (BASE, 0, 1), (BASE, 0, 1), (BASE, 0, 1), (BASE, 0, 1),
     (LOW, 0, 1), (BASE, 0, 1), (UNDEF, 0, 0), (UNDEF, 0, 0), (UNDEF, 0, 0), (UNDEF, 0, 0), (UNDEF, 0, 0),
     (UNDEF, 0, 0), (UNDEF, 0, 0), (BASE, 1, - 1), (VERYLOW, 1, 0), (VERYLOW, 2, - 2), (VERYLOW, 2, - 2),
     (WARM_STORAGE_READ_COST, 1, 0), (0, 2, - 2), (MID, 1, - 1), (HIGH, 2, - 2), (BASE, 0, 1), (BASE, 0, 1),
     (BASE, 0, 1), (1, 0, 0), (UNDEF, 0, 0), (UNDEF, 0, 0), (UNDEF, 0, 0), (UNDEF, 0, 0), (VERYLOW, 0, 1),
     (VERYLOW, 0, 1), (VERYLOW, 0, 1), (VERYLOW, 0, 1), (VERYLOW, 0, 1), (VERYLOW, 0, 1), (VERYLOW, 0, 1),
     (VERYLOW, 0, 1), (VERYLOW, 0, 1), (VERYLOW, 0, 1), (VERYLOW, 0, 1), (VERYLOW, 0, 1), (VERYLOW, 0, 1),
     (VERYLOW, 0, 1), (VERYLOW, 0, 1), (VERYLOW, 0, 1), (VERYLOW, 0, 1), (VERYLOW, 0, 1), (VERYLOW, 0, 1),
     (VERYLOW, 0, 1), (VERYLOW, 0, 1), (VERYLOW, 0, 1), (VERYLOW, 0, 1), (VERYLOW, 0, 1), (VERYLOW, 0, 1),
     (VERYLOW, 0, 1), (VERYLOW, 0, 1), (VERYLOW, 0, 1), (VERYLOW, 0, 1), (VERYLOW, 0, 1), (VERYLOW, 0, 1),
     (VERYLOW, 0, 1), (VERYLOW, 1, 1), (VERYLOW, 2, 1), (VERYLOW, 3, 1), (VERYLOW, 4, 1), (VERYLOW, 5, 1),
     (VERYLOW, 6, 1), (VERYLOW, 7, 1), (VERYLOW, 8, 1), (VERYLOW, 9, 1), (VERYLOW, 10, 1), (VERYLOW, 11, 1),
     (VERYLOW, 12, 1), (VERYLOW, 13, 1), (VERYLOW, 14, 1), (VERYLOW, 15, 1), (VERYLOW, 16, 1), (VERYLOW, 2, 0),
     (VERYLOW, 3, 0), (VERYLOW, 4, 0), (VERYLOW, 5, 0), (VERYLOW, 6, 0), (VERYLOW, 7, 0), (VERYLOW, 8, 0),
     (VERYLOW, 9, 0), (VERYLOW, 10, 0), (VERYLOW, 11, 0), (VERYLOW, 12, 0), (VERYLOW, 13, 0), (VERYLOW, 14, 0),
     (VERYLOW, 15, 0), (VERYLOW, 16, 0), (VERYLOW, 17, 0), (1 * 375, 2, - 2), (2 * 375, 3, - 3),
     (3 * 375, 4, - 4), (4 * 375, 5, - 5), (5 * 375, 6, - 6), (UNDEF, 0, 0), (UNDEF, 0, 0), (UNDEF, 0, 0),
     (UNDEF, 0, 0), (UNDEF, 0, 0), (UNDEF, 0, 0), (UNDEF, 0, 0), (UNDEF, 0, 0), (UNDEF, 0, 0), (UNDEF, 0, 0),
     (UNDEF, 0, 0), (UNDEF, 0, 0), (UNDEF, 0, 0), (UNDEF, 0, 0), (UNDEF, 0, 0), (UNDEF, 0, 0), (UNDEF, 0, 0),
     (UNDEF, 0, 0), (UNDEF, 0, 0), (UNDEF, 0, 0), (UNDEF, 0, 0), (UNDEF, 0, 0), (UNDEF, 0, 0), (UNDEF, 0, 0),
     (UNDEF, 0, 0), (UNDEF, 0, 0), (UNDEF, 0, 0), (UNDEF, 0, 0), (UNDEF, 0, 0), (UNDEF, 0, 0), (UNDEF, 0, 0),
     (UNDEF, 0, 0), (UNDEF, 0, 0), (UNDEF, 0, 0), (UNDEF, 0, 0), (UNDEF, 0, 0), (UNDEF, 0, 0), (UNDEF, 0, 0),
     (UNDEF, 0, 0), (UNDEF, 0, 0), (UNDEF, 0, 0), (UNDEF, 0, 0), (UNDEF, 0, 0), (UNDEF, 0, 0), (UNDEF, 0, 0),
     (UNDEF, 0, 0), (UNDEF, 0, 0), (UNDEF, 0, 0), (UNDEF, 0, 0), (UNDEF, 0, 0), (UNDEF, 0, 0), (UNDEF, 0, 0),
     (UNDEF, 0, 0), (UNDEF, 0, 0), (UNDEF, 0, 0), (UNDEF, 0, 0), (UNDEF, 0, 0), (UNDEF, 0, 0), (UNDEF, 0, 0),
     (UNDEF, 0, 0), (UNDEF, 0, 0), (UNDEF, 0, 0), (UNDEF, 0, 0), (UNDEF, 0, 0), (UNDEF, 0, 0), (UNDEF, 0, 0),
     (UNDEF, 0, 0), (UNDEF, 0, 0), (UNDEF, 0, 0), (UNDEF, 0, 0), (UNDEF, 0, 0), (UNDEF, 0, 0), (UNDEF, 0, 0),
     (UNDEF, 0, 0), (UNDEF, 0, 0), (32000, 3, - 2), (WARM_STORAGE_READ_COST, 7, - 6),
     (WARM_STORAGE_READ_COST, 7, - 6), (ZERO, 2, - 2), (WARM_STORAGE_READ_COST, 6, - 5), (32000, 4, - 3),
     (UNDEF, 0, 0), (UNDEF, 0, 0), (UNDEF, 0, 0), (UNDEF, 0, 0), (WARM_STORAGE_READ_COST, 6, - 5),
     (UNDEF, 0, 0), (UNDEF, 0, 0), (ZERO, 2, - 2), (ZERO, 0, 0), (5000, 1, - 1)]"

definition berlin_metrics :: "evmc_instruction_metrics list" where
  "berlin_metrics =
    [(ZERO, 0, 0), (VERYLOW, 2, - 1), (LOW, 2, - 1), (VERYLOW, 2, - 1), (LOW, 2, - 1), (LOW, 2, - 1),
     (LOW, 2, - 1), (LOW, 2, - 1), (MID, 3, - 2), (MID, 3, - 2), (HIGH, 2, - 1), (LOW, 2, - 1), (UNDEF, 0, 0),
     (UNDEF, 0, 0), (UNDEF, 0, 0), (UNDEF, 0, 0), (VERYLOW, 2, - 1), (VERYLOW, 2, - 1), (VERYLOW, 2, - 1),
     (VERYLOW, 2, - 1), (VERYLOW, 2, - 1), (VERYLOW, 1, 0), (VERYLOW, 2, - 1), (VERYLOW, 2, - 1),
     (VERYLOW, 2, - 1), (VERYLOW, 1, 0), (VERYLOW, 2, - 1), (VERYLOW, 2, - 1), (VERYLOW, 2, - 1),
     (VERYLOW, 2, - 1), (UNDEF, 0, 0), (UNDEF, 0, 0), (30, 2, - 1), (UNDEF, 0, 0), (UNDEF, 0, 0), (UNDEF, 0, 0),
     (UNDEF, 0, 0), (UNDEF, 0, 0), (UNDEF, 0, 0), (UNDEF, 0, 0), (UNDEF, 0, 0), (UNDEF, 0, 0), (UNDEF, 0, 0),
     (UNDEF, 0, 0), (UNDEF, 0, 0), (UNDEF, 0, 0), (UNDEF, 0, 0), (UNDEF, 0, 0), (BASE, 0, 1),
     (WARM_STORAGE_READ_COST, 1, 0), (BASE, 0, 1), (BASE, 0, 1), (BASE, 0, 1), (VERYLOW, 1, 0), (BASE, 0, 1),
     (VERYLOW, 3, - 3), (BASE, 0, 1), (VERYLOW, 3, - 3), (BASE, 0, 1), (WARM_STORAGE_READ_COST, 1, 0),
     (WARM_STORAGE_READ_COST, 4, - 4), (BASE, 0, 1), (VERYLOW, 3, - 3), (WARM_STORAGE_READ_COST, 1, 0),
     (20, 1, 0), (BASE, 0, 1), (BASE, 0, 1), (BASE, 0, 1), (BASE, 0, 1), (BASE, 0, 1), (BASE, 0, 1),
     (LOW, 0, 1), (UNDEF, 0, 0), (UNDEF, 0, 0), (UNDEF, 0, 0), (UNDEF, 0, 0), (UNDEF, 0, 0), (UNDEF, 0, 0),
     (UNDEF, 0, 0), (UNDEF, 0, 0), (BASE, 1, - 1), (VERYLOW, 1, 0), (VERYLOW, 2, - 2), (VERYLOW, 2, - 2),
     (WARM_STORAGE_READ_COST, 1, 0), (0, 2, - 2), (MID, 1, - 1), (HIGH, 2, - 2), (BASE, 0, 1), (BASE, 0, 1),
     (BASE, 0, 1), (1, 0, 0), (UNDEF, 0, 0), (UNDEF, 0, 0), (UNDEF, 0, 0), (UNDEF, 0, 0), (VERYLOW, 0, 1),
     (VERYLOW, 0, 1), (VERYLOW, 0, 1), (VERYLOW, 0, 1), (VERYLOW, 0, 1), (VERYLOW, 0, 1), (VERYLOW, 0, 1),
     (VERYLOW, 0, 1), (VERYLOW, 0, 1), (VERYLOW, 0, 1), (VERYLOW, 0, 1), (VERYLOW, 0, 1), (VERYLOW, 0, 1),
     (VERYLOW, 0, 1), (VERYLOW, 0, 1), (VERYLOW, 0, 1), (VERYLOW, 0, 1), (VERYLOW, 0, 1), (VERYLOW, 0, 1),
     (VERYLOW, 0, 1), (VERYLOW, 0, 1), (VERYLOW, 0, 1), (VERYLOW, 0, 1), (VERYLOW, 0, 1), (VERYLOW, 0, 1),
     (VERYLOW, 0, 1), (VERYLOW, 0, 1), (VERYLOW, 0, 1), (VERYLOW, 0, 1), (VERYLOW, 0, 1), (VERYLOW, 0, 1),
     (VERYLOW, 0, 1), (VERYLOW, 1, 1), (VERYLOW, 2, 1), (VERYLOW, 3, 1), (VERYLOW, 4, 1), (VERYLOW, 5, 1),
     (VERYLOW, 6, 1), (VERYLOW, 7, 1), (VERYLOW, 8, 1), (VERYLOW, 9, 1), (VERYLOW, 10, 1), (VERYLOW, 11, 1),
     (VERYLOW, 12, 1), (VERYLOW, 13, 1), (VERYLOW, 14, 1), (VERYLOW, 15, 1), (VERYLOW, 16, 1), (VERYLOW, 2, 0),
     (VERYLOW, 3, 0), (VERYLOW, 4, 0), (VERYLOW, 5, 0), (VERYLOW, 6, 0), (VERYLOW, 7, 0), (VERYLOW, 8, 0),
     (VERYLOW, 9, 0), (VERYLOW, 10, 0), (VERYLOW, 11, 0), (VERYLOW, 12, 0), (VERYLOW, 13, 0), (VERYLOW, 14, 0),
     (VERYLOW, 15, 0), (VERYLOW, 16, 0), (VERYLOW, 17, 0), (1 * 375, 2, - 2), (2 * 375, 3, - 3),
     (3 * 375, 4, - 4), (4 * 375, 5, - 5), (5 * 375, 6, - 6), (UNDEF, 0, 0), (UNDEF, 0, 0), (UNDEF, 0, 0),
     (UNDEF, 0, 0), (UNDEF, 0, 0), (UNDEF, 0, 0), (UNDEF, 0, 0), (UNDEF, 0, 0), (UNDEF, 0, 0), (UNDEF, 0, 0),
     (UNDEF, 0, 0), (UNDEF, 0, 0), (UNDEF, 0, 0), (UNDEF, 0, 0), (UNDEF, 0, 0), (UNDEF, 0, 0), (UNDEF, 0, 0),
     (UNDEF, 0, 0), (UNDEF, 0, 0), (UNDEF, 0, 0), (UNDEF, 0, 0), (UNDEF, 0, 0), (UNDEF, 0, 0), (UNDEF, 0, 0),
     (UNDEF, 0, 0), (UNDEF, 0, 0), (UNDEF, 0, 0), (UNDEF, 0, 0), (UNDEF, 0, 0), (UNDEF, 0, 0), (UNDEF, 0, 0),
     (UNDEF, 0, 0), (UNDEF, 0, 0), (UNDEF, 0, 0), (UNDEF, 0, 0), (UNDEF, 0, 0), (UNDEF, 0, 0), (UNDEF, 0, 0),
     (UNDEF, 0, 0), (UNDEF, 0, 0), (UNDEF, 0, 0), (UNDEF, 0, 0), (UNDEF, 0, 0), (UNDEF, 0, 0), (UNDEF, 0, 0),
     (UNDEF, 0, 0), (UNDEF, 0, 0), (UNDEF, 0, 0), (UNDEF, 0, 0), (UNDEF, 0, 0), (UNDEF, 0, 0), (UNDEF, 0, 0),
     (UNDEF, 0, 0), (UNDEF, 0, 0), (UNDEF, 0, 0), (UNDEF, 0, 0), (UNDEF, 0, 0), (UNDEF, 0, 0), (UNDEF, 0, 0),
     (UNDEF, 0, 0), (UNDEF, 0, 0), (UNDEF, 0, 0), (UNDEF, 0, 0), (UNDEF, 0, 0), (UNDEF, 0, 0), (UNDEF, 0, 0),
     (UNDEF, 0, 0), (UNDEF, 0, 0), (UNDEF, 0, 0), (UNDEF, 0, 0), (UNDEF, 0, 0), (UNDEF, 0, 0), (UNDEF, 0, 0),
     (UNDEF, 0, 0), (UNDEF, 0, 0), (32000, 3, - 2), (WARM_STORAGE_READ_COST, 7, - 6),
     (WARM_STORAGE_READ_COST, 7, - 6), (ZERO, 2, - 2), (WARM_STORAGE_READ_COST, 6, - 5), (32000, 4, - 3),
     (UNDEF, 0, 0), (UNDEF, 0, 0), (UNDEF, 0, 0), (UNDEF, 0, 0), (WARM_STORAGE_READ_COST, 6, - 5),
     (UNDEF, 0, 0), (UNDEF, 0, 0), (ZERO, 2, - 2), (ZERO, 0, 0), (5000, 1, - 1)]"

definition istanbul_metrics :: "evmc_instruction_metrics list" where
  "istanbul_metrics =
    [(ZERO, 0, 0), (VERYLOW, 2, - 1), (LOW, 2, - 1), (VERYLOW, 2, - 1), (LOW, 2, - 1), (LOW, 2, - 1),
     (LOW, 2, - 1), (LOW, 2, - 1), (MID, 3, - 2), (MID, 3, - 2), (HIGH, 2, - 1), (LOW, 2, - 1), (UNDEF, 0, 0),
     (UNDEF, 0, 0), (UNDEF, 0, 0), (UNDEF, 0, 0), (VERYLOW, 2, - 1), (VERYLOW, 2, - 1), (VERYLOW, 2, - 1),
     (VERYLOW, 2, - 1), (VERYLOW, 2, - 1), (VERYLOW, 1, 0), (VERYLOW, 2, - 1), (VERYLOW, 2, - 1),
     (VERYLOW, 2, - 1), (VERYLOW, 1, 0), (VERYLOW, 2, - 1), (VERYLOW, 2, - 1), (VERYLOW, 2, - 1),
     (VERYLOW, 2, - 1), (UNDEF, 0, 0), (UNDEF, 0, 0), (30, 2, - 1), (UNDEF, 0, 0), (UNDEF, 0, 0), (UNDEF, 0, 0),
     (UNDEF, 0, 0), (UNDEF, 0, 0), (UNDEF, 0, 0), (UNDEF, 0, 0), (UNDEF, 0, 0), (UNDEF, 0, 0), (UNDEF, 0, 0),
     (UNDEF, 0, 0), (UNDEF, 0, 0), (UNDEF, 0, 0), (UNDEF, 0, 0), (UNDEF, 0, 0), (BASE, 0, 1), (700, 1, 0),
     (BASE, 0, 1), (BASE, 0, 1), (BASE, 0, 1), (VERYLOW, 1, 0), (BASE, 0, 1), (VERYLOW, 3, - 3), (BASE, 0, 1),
     (VERYLOW, 3, - 3), (BASE, 0, 1), (700, 1, 0), (700, 4, - 4), (BASE, 0, 1), (VERYLOW, 3, - 3), (700, 1, 0),
     (20, 1, 0), (BASE, 0, 1), (BASE, 0, 1), (BASE, 0, 1), (BASE, 0, 1), (BASE, 0, 1), (BASE, 0, 1),
     (LOW, 0, 1), (UNDEF, 0, 0), (UNDEF, 0, 0), (UNDEF, 0, 0), (UNDEF, 0, 0), (UNDEF, 0, 0), (UNDEF, 0, 0),
     (UNDEF, 0, 0), (UNDEF, 0, 0), (BASE, 1, - 1), (VERYLOW, 1, 0), (VERYLOW, 2, - 2), (VERYLOW, 2, - 2),
     (800, 1, 0), (0, 2, - 2), (MID, 1, - 1), (HIGH, 2, - 2), (BASE, 0, 1), (BASE, 0, 1), (BASE, 0, 1),
     (1, 0, 0), (UNDEF, 0, 0), (UNDEF, 0, 0), (UNDEF, 0, 0), (UNDEF, 0, 0), (VERYLOW, 0, 1), (VERYLOW, 0, 1),
     (VERYLOW, 0, 1), (VERYLOW, 0, 1), (VERYLOW, 0, 1), (VERYLOW, 0, 1), (VERYLOW, 0, 1), (VERYLOW, 0, 1),
     (VERYLOW, 0, 1), (VERYLOW, 0, 1), (VERYLOW, 0, 1), (VERYLOW, 0, 1), (VERYLOW, 0, 1), (VERYLOW, 0, 1),
     (VERYLOW, 0, 1), (VERYLOW, 0, 1), (VERYLOW, 0, 1), (VERYLOW, 0, 1), (VERYLOW, 0, 1), (VERYLOW, 0, 1),
     (VERYLOW, 0, 1), (VERYLOW, 0, 1), (VERYLOW, 0, 1), (VERYLOW, 0, 1), (VERYLOW, 0, 1), (VERYLOW, 0, 1),
     (VERYLOW, 0, 1), (VERYLOW, 0, 1), (VERYLOW, 0, 1), (VERYLOW, 0, 1), (VERYLOW, 0, 1), (VERYLOW, 0, 1),
     (VERYLOW, 1, 1), (VERYLOW, 2, 1), (VERYLOW, 3, 1), (VERYLOW, 4, 1), (VERYLOW, 5, 1), (VERYLOW, 6, 1),
     (VERYLOW, 7, 1), (VERYLOW, 8, 1), (VERYLOW, 9, 1), (VERYLOW, 10, 1), (VERYLOW, 11, 1), (VERYLOW, 12, 1),
     (VERYLOW, 13, 1), (VERYLOW, 14, 1), (VERYLOW, 15, 1), (VERYLOW, 16, 1), (VERYLOW, 2, 0), (VERYLOW, 3, 0),
     (VERYLOW, 4, 0), (VERYLOW, 5, 0), (VERYLOW, 6, 0), (VERYLOW, 7, 0), (VERYLOW, 8, 0), (VERYLOW, 9, 0),
     (VERYLOW, 10, 0), (VERYLOW, 11, 0), (VERYLOW, 12, 0), (VERYLOW, 13, 0), (VERYLOW, 14, 0), (VERYLOW, 15, 0),
     (VERYLOW, 16, 0), (VERYLOW, 17, 0), (1 * 375, 2, - 2), (2 * 375, 3, - 3), (3 * 375, 4, - 4),
     (4 * 375, 5, - 5), (5 * 375, 6, - 6), (UNDEF, 0, 0), (UNDEF, 0, 0), (UNDEF, 0, 0), (UNDEF, 0, 0),
     (UNDEF, 0, 0), (UNDEF, 0, 0), (UNDEF, 0, 0), (UNDEF, 0, 0), (UNDEF, 0, 0), (UNDEF, 0, 0), (UNDEF, 0, 0),
     (UNDEF, 0, 0), (UNDEF, 0, 0), (UNDEF, 0, 0), (UNDEF, 0, 0), (UNDEF, 0, 0), (UNDEF, 0, 0), (UNDEF, 0, 0),
     (UNDEF, 0, 0), (UNDEF, 0, 0), (UNDEF, 0, 0), (UNDEF, 0, 0), (UNDEF, 0, 0), (UNDEF, 0, 0), (UNDEF, 0, 0),
     (UNDEF, 0, 0), (UNDEF, 0, 0), (UNDEF, 0, 0), (UNDEF, 0, 0), (UNDEF, 0, 0), (UNDEF, 0, 0), (UNDEF, 0, 0),
     (UNDEF, 0, 0), (UNDEF, 0, 0), (UNDEF, 0, 0), (UNDEF, 0, 0), (UNDEF, 0, 0), (UNDEF, 0, 0), (UNDEF, 0, 0),
     (UNDEF, 0, 0), (UNDEF, 0, 0), (UNDEF, 0, 0), (UNDEF, 0, 0), (UNDEF, 0, 0), (UNDEF, 0, 0), (UNDEF, 0, 0),
     (UNDEF, 0, 0), (UNDEF, 0, 0), (UNDEF, 0, 0), (UNDEF, 0, 0), (UNDEF, 0, 0), (UNDEF, 0, 0), (UNDEF, 0, 0),
     (UNDEF, 0, 0), (UNDEF, 0, 0), (UNDEF, 0, 0), (UNDEF, 0, 0), (UNDEF, 0, 0), (UNDEF, 0, 0), (UNDEF, 0, 0),
     (UNDEF, 0, 0), (UNDEF, 0, 0), (UNDEF, 0, 0), (UNDEF, 0, 0), (UNDEF, 0, 0), (UNDEF, 0, 0), (UNDEF, 0, 0),
     (UNDEF, 0, 0), (UNDEF, 0, 0), (UNDEF, 0, 0), (UNDEF, 0, 0), (UNDEF, 0, 0), (UNDEF, 0, 0), (UNDEF, 0, 0),
     (UNDEF, 0, 0), (32000, 3, - 2), (700, 7, - 6), (700, 7, - 6), (ZERO, 2, - 2), (700, 6, - 5),
     (32000, 4, - 3), (UNDEF, 0, 0), (UNDEF, 0, 0), (UNDEF, 0, 0), (UNDEF, 0, 0), (700, 6, - 5), (UNDEF, 0, 0),
     (UNDEF, 0, 0), (ZERO, 2, - 2), (ZERO, 0, 0), (5000, 1, - 1)]"

definition constantinople_metrics :: "evmc_instruction_metrics list" where
  "constantinople_metrics =
    [(ZERO, 0, 0), (VERYLOW, 2, - 1), (LOW, 2, - 1), (VERYLOW, 2, - 1), (LOW, 2, - 1), (LOW, 2, - 1),
     (LOW, 2, - 1), (LOW, 2, - 1), (MID, 3, - 2), (MID, 3, - 2), (HIGH, 2, - 1), (LOW, 2, - 1), (UNDEF, 0, 0),
     (UNDEF, 0, 0), (UNDEF, 0, 0), (UNDEF, 0, 0), (VERYLOW, 2, - 1), (VERYLOW, 2, - 1), (VERYLOW, 2, - 1),
     (VERYLOW, 2, - 1), (VERYLOW, 2, - 1), (VERYLOW, 1, 0), (VERYLOW, 2, - 1), (VERYLOW, 2, - 1),
     (VERYLOW, 2, - 1), (VERYLOW, 1, 0), (VERYLOW, 2, - 1), (VERYLOW, 2, - 1), (VERYLOW, 2, - 1),
     (VERYLOW, 2, - 1), (UNDEF, 0, 0), (UNDEF, 0, 0), (30, 2, - 1), (UNDEF, 0, 0), (UNDEF, 0, 0), (UNDEF, 0, 0),
     (UNDEF, 0, 0), (UNDEF, 0, 0), (UNDEF, 0, 0), (UNDEF, 0, 0), (UNDEF, 0, 0), (UNDEF, 0, 0), (UNDEF, 0, 0),
     (UNDEF, 0, 0), (UNDEF, 0, 0), (UNDEF, 0, 0), (UNDEF, 0, 0), (UNDEF, 0, 0), (BASE, 0, 1), (400, 1, 0),
     (BASE, 0, 1), (BASE, 0, 1), (BASE, 0, 1), (VERYLOW, 1, 0), (BASE, 0, 1), (VERYLOW, 3, - 3), (BASE, 0, 1),
     (VERYLOW, 3, - 3), (BASE, 0, 1), (700, 1, 0), (700, 4, - 4), (BASE, 0, 1), (VERYLOW, 3, - 3), (400, 1, 0),
     (20, 1, 0), (BASE, 0, 1), (BASE, 0, 1), (BASE, 0, 1), (BASE, 0, 1), (BASE, 0, 1), (UNDEF, 0, 0),
     (UNDEF, 0, 0), (UNDEF, 0, 0), (UNDEF, 0, 0), (UNDEF, 0, 0), (UNDEF, 0, 0), (UNDEF, 0, 0), (UNDEF, 0, 0),
     (UNDEF, 0, 0), (UNDEF, 0, 0), (BASE, 1, - 1), (VERYLOW, 1, 0), (VERYLOW, 2, - 2), (VERYLOW, 2, - 2),
     (200, 1, 0), (0, 2, - 2), (MID, 1, - 1), (HIGH, 2, - 2), (BASE, 0, 1), (BASE, 0, 1), (BASE, 0, 1),
     (1, 0, 0), (UNDEF, 0, 0), (UNDEF, 0, 0), (UNDEF, 0, 0), (UNDEF, 0, 0), (VERYLOW, 0, 1), (VERYLOW, 0, 1),
     (VERYLOW, 0, 1), (VERYLOW, 0, 1), (VERYLOW, 0, 1), (VERYLOW, 0, 1), (VERYLOW, 0, 1), (VERYLOW, 0, 1),
     (VERYLOW, 0, 1), (VERYLOW, 0, 1), (VERYLOW, 0, 1), (VERYLOW, 0, 1), (VERYLOW, 0, 1), (VERYLOW, 0, 1),
     (VERYLOW, 0, 1), (VERYLOW, 0, 1), (VERYLOW, 0, 1), (VERYLOW, 0, 1), (VERYLOW, 0, 1), (VERYLOW, 0, 1),
     (VERYLOW, 0, 1), (VERYLOW, 0, 1), (VERYLOW, 0, 1), (VERYLOW, 0, 1), (VERYLOW, 0, 1), (VERYLOW, 0, 1),
     (VERYLOW, 0, 1), (VERYLOW, 0, 1), (VERYLOW, 0, 1), (VERYLOW, 0, 1), (VERYLOW, 0, 1), (VERYLOW, 0, 1),
     (VERYLOW, 1, 1), (VERYLOW, 2, 1), (VERYLOW, 3, 1), (VERYLOW, 4, 1), (VERYLOW, 5, 1), (VERYLOW, 6, 1),
     (VERYLOW, 7, 1), (VERYLOW, 8, 1), (VERYLOW, 9, 1), (VERYLOW, 10, 1), (VERYLOW, 11, 1), (VERYLOW, 12, 1),
     (VERYLOW, 13, 1), (VERYLOW, 14, 1), (VERYLOW, 15, 1), (VERYLOW, 16, 1), (VERYLOW, 2, 0), (VERYLOW, 3, 0),
     (VERYLOW, 4, 0), (VERYLOW, 5, 0), (VERYLOW, 6, 0), (VERYLOW, 7, 0), (VERYLOW, 8, 0), (VERYLOW, 9, 0),
     (VERYLOW, 10, 0), (VERYLOW, 11, 0), (VERYLOW, 12, 0), (VERYLOW, 13, 0), (VERYLOW, 14, 0), (VERYLOW, 15, 0),
     (VERYLOW, 16, 0), (VERYLOW, 17, 0), (1 * 375, 2, - 2), (2 * 375, 3, - 3), (3 * 375, 4, - 4),
     (4 * 375, 5, - 5), (5 * 375, 6, - 6), (UNDEF, 0, 0), (UNDEF, 0, 0), (UNDEF, 0, 0), (UNDEF, 0, 0),
     (UNDEF, 0, 0), (UNDEF, 0, 0), (UNDEF, 0, 0), (UNDEF, 0, 0), (UNDEF, 0, 0), (UNDEF, 0, 0), (UNDEF, 0, 0),
     (UNDEF, 0, 0), (UNDEF, 0, 0), (UNDEF, 0, 0), (UNDEF, 0, 0), (UNDEF, 0, 0), (UNDEF, 0, 0), (UNDEF, 0, 0),
     (UNDEF, 0, 0), (UNDEF, 0, 0), (UNDEF, 0, 0), (UNDEF, 0, 0), (UNDEF, 0, 0), (UNDEF, 0, 0), (UNDEF, 0, 0),
     (UNDEF, 0, 0), (UNDEF, 0, 0), (UNDEF, 0, 0), (UNDEF, 0, 0), (UNDEF, 0, 0), (UNDEF, 0, 0), (UNDEF, 0, 0),
     (UNDEF, 0, 0), (UNDEF, 0, 0), (UNDEF, 0, 0), (UNDEF, 0, 0), (UNDEF, 0, 0), (UNDEF, 0, 0), (UNDEF, 0, 0),
     (UNDEF, 0, 0), (UNDEF, 0, 0), (UNDEF, 0, 0), (UNDEF, 0, 0), (UNDEF, 0, 0), (UNDEF, 0, 0), (UNDEF, 0, 0),
     (UNDEF, 0, 0), (UNDEF, 0, 0), (UNDEF, 0, 0), (UNDEF, 0, 0), (UNDEF, 0, 0), (UNDEF, 0, 0), (UNDEF, 0, 0),
     (UNDEF, 0, 0), (UNDEF, 0, 0), (UNDEF, 0, 0), (UNDEF, 0, 0), (UNDEF, 0, 0), (UNDEF, 0, 0), (UNDEF, 0, 0),
     (UNDEF, 0, 0), (UNDEF, 0, 0), (UNDEF, 0, 0), (UNDEF, 0, 0), (UNDEF, 0, 0), (UNDEF, 0, 0), (UNDEF, 0, 0),
     (UNDEF, 0, 0), (UNDEF, 0, 0), (UNDEF, 0, 0), (UNDEF, 0, 0), (UNDEF, 0, 0), (UNDEF, 0, 0), (UNDEF, 0, 0),
     (UNDEF, 0, 0), (32000, 3, - 2), (700, 7, - 6), (700, 7, - 6), (ZERO, 2, - 2), (700, 6, - 5),
     (32000, 4, - 3), (UNDEF, 0, 0), (UNDEF, 0, 0), (UNDEF, 0, 0), (UNDEF, 0, 0), (700, 6, - 5), (UNDEF, 0, 0),
     (UNDEF, 0, 0), (ZERO, 2, - 2), (ZERO, 0, 0), (5000, 1, - 1)]"

definition byzantium_metrics :: "evmc_instruction_metrics list" where
  "byzantium_metrics =
    [(ZERO, 0, 0), (VERYLOW, 2, - 1), (LOW, 2, - 1), (VERYLOW, 2, - 1), (LOW, 2, - 1), (LOW, 2, - 1),
     (LOW, 2, - 1), (LOW, 2, - 1), (MID, 3, - 2), (MID, 3, - 2), (HIGH, 2, - 1), (LOW, 2, - 1), (UNDEF, 0, 0),
     (UNDEF, 0, 0), (UNDEF, 0, 0), (UNDEF, 0, 0), (VERYLOW, 2, - 1), (VERYLOW, 2, - 1), (VERYLOW, 2, - 1),
     (VERYLOW, 2, - 1), (VERYLOW, 2, - 1), (VERYLOW, 1, 0), (VERYLOW, 2, - 1), (VERYLOW, 2, - 1),
     (VERYLOW, 2, - 1), (VERYLOW, 1, 0), (VERYLOW, 2, - 1), (UNDEF, 0, 0), (UNDEF, 0, 0), (UNDEF, 0, 0),
     (UNDEF, 0, 0), (UNDEF, 0, 0), (30, 2, - 1), (UNDEF, 0, 0), (UNDEF, 0, 0), (UNDEF, 0, 0), (UNDEF, 0, 0),
     (UNDEF, 0, 0), (UNDEF, 0, 0), (UNDEF, 0, 0), (UNDEF, 0, 0), (UNDEF, 0, 0), (UNDEF, 0, 0), (UNDEF, 0, 0),
     (UNDEF, 0, 0), (UNDEF, 0, 0), (UNDEF, 0, 0), (UNDEF, 0, 0), (BASE, 0, 1), (400, 1, 0), (BASE, 0, 1),
     (BASE, 0, 1), (BASE, 0, 1), (VERYLOW, 1, 0), (BASE, 0, 1), (VERYLOW, 3, - 3), (BASE, 0, 1),
     (VERYLOW, 3, - 3), (BASE, 0, 1), (700, 1, 0), (700, 4, - 4), (BASE, 0, 1), (VERYLOW, 3, - 3),
     (UNDEF, 0, 0), (20, 1, 0), (BASE, 0, 1), (BASE, 0, 1), (BASE, 0, 1), (BASE, 0, 1), (BASE, 0, 1),
     (UNDEF, 0, 0), (UNDEF, 0, 0), (UNDEF, 0, 0), (UNDEF, 0, 0), (UNDEF, 0, 0), (UNDEF, 0, 0), (UNDEF, 0, 0),
     (UNDEF, 0, 0), (UNDEF, 0, 0), (UNDEF, 0, 0), (BASE, 1, - 1), (VERYLOW, 1, 0), (VERYLOW, 2, - 2),
     (VERYLOW, 2, - 2), (200, 1, 0), (0, 2, - 2), (MID, 1, - 1), (HIGH, 2, - 2), (BASE, 0, 1), (BASE, 0, 1),
     (BASE, 0, 1), (1, 0, 0), (UNDEF, 0, 0), (UNDEF, 0, 0), (UNDEF, 0, 0), (UNDEF, 0, 0), (VERYLOW, 0, 1),
     (VERYLOW, 0, 1), (VERYLOW, 0, 1), (VERYLOW, 0, 1), (VERYLOW, 0, 1), (VERYLOW, 0, 1), (VERYLOW, 0, 1),
     (VERYLOW, 0, 1), (VERYLOW, 0, 1), (VERYLOW, 0, 1), (VERYLOW, 0, 1), (VERYLOW, 0, 1), (VERYLOW, 0, 1),
     (VERYLOW, 0, 1), (VERYLOW, 0, 1), (VERYLOW, 0, 1), (VERYLOW, 0, 1), (VERYLOW, 0, 1), (VERYLOW, 0, 1),
     (VERYLOW, 0, 1), (VERYLOW, 0, 1), (VERYLOW, 0, 1), (VERYLOW, 0, 1), (VERYLOW, 0, 1), (VERYLOW, 0, 1),
     (VERYLOW, 0, 1), (VERYLOW, 0, 1), (VERYLOW, 0, 1), (VERYLOW, 0, 1), (VERYLOW, 0, 1), (VERYLOW, 0, 1),
     (VERYLOW, 0, 1), (VERYLOW, 1, 1), (VERYLOW, 2, 1), (VERYLOW, 3, 1), (VERYLOW, 4, 1), (VERYLOW, 5, 1),
     (VERYLOW, 6, 1), (VERYLOW, 7, 1), (VERYLOW, 8, 1), (VERYLOW, 9, 1), (VERYLOW, 10, 1), (VERYLOW, 11, 1),
     (VERYLOW, 12, 1), (VERYLOW, 13, 1), (VERYLOW, 14, 1), (VERYLOW, 15, 1), (VERYLOW, 16, 1), (VERYLOW, 2, 0),
     (VERYLOW, 3, 0), (VERYLOW, 4, 0), (VERYLOW, 5, 0), (VERYLOW, 6, 0), (VERYLOW, 7, 0), (VERYLOW, 8, 0),
     (VERYLOW, 9, 0), (VERYLOW, 10, 0), (VERYLOW, 11, 0), (VERYLOW, 12, 0), (VERYLOW, 13, 0), (VERYLOW, 14, 0),
     (VERYLOW, 15, 0), (VERYLOW, 16, 0), (VERYLOW, 17, 0), (1 * 375, 2, - 2), (2 * 375, 3, - 3),
     (3 * 375, 4, - 4), (4 * 375, 5, - 5), (5 * 375, 6, - 6), (UNDEF, 0, 0), (UNDEF, 0, 0), (UNDEF, 0, 0),
     (UNDEF, 0, 0), (UNDEF, 0, 0), (UNDEF, 0, 0), (UNDEF, 0, 0), (UNDEF, 0, 0), (UNDEF, 0, 0), (UNDEF, 0, 0),
     (UNDEF, 0, 0), (UNDEF, 0, 0), (UNDEF, 0, 0), (UNDEF, 0, 0), (UNDEF, 0, 0), (UNDEF, 0, 0), (UNDEF, 0, 0),
     (UNDEF, 0, 0), (UNDEF, 0, 0), (UNDEF, 0, 0), (UNDEF, 0, 0), (UNDEF, 0, 0), (UNDEF, 0, 0), (UNDEF, 0, 0),
     (UNDEF, 0, 0), (UNDEF, 0, 0), (UNDEF, 0, 0), (UNDEF, 0, 0), (UNDEF, 0, 0), (UNDEF, 0, 0), (UNDEF, 0, 0),
     (UNDEF, 0, 0), (UNDEF, 0, 0), (UNDEF, 0, 0), (UNDEF, 0, 0), (UNDEF, 0, 0), (UNDEF, 0, 0), (UNDEF, 0, 0),
     (UNDEF, 0, 0), (UNDEF, 0, 0), (UNDEF, 0, 0), (UNDEF, 0, 0), (UNDEF, 0, 0), (UNDEF, 0, 0), (UNDEF, 0, 0),
     (UNDEF, 0, 0), (UNDEF, 0, 0), (UNDEF, 0, 0), (UNDEF, 0, 0), (UNDEF, 0, 0), (UNDEF, 0, 0), (UNDEF, 0, 0),
     (UNDEF, 0, 0), (UNDEF, 0, 0), (UNDEF, 0, 0), (UNDEF, 0, 0), (UNDEF, 0, 0), (UNDEF, 0, 0), (UNDEF, 0, 0),
     (UNDEF, 0, 0), (UNDEF, 0, 0), (UNDEF, 0, 0), (UNDEF, 0, 0), (UNDEF, 0, 0), (UNDEF, 0, 0), (UNDEF, 0, 0),
     (UNDEF, 0, 0), (UNDEF, 0, 0), (UNDEF, 0, 0), (UNDEF, 0, 0), (UNDEF, 0, 0), (UNDEF, 0, 0), (UNDEF, 0, 0),
     (UNDEF, 0, 0), (UNDEF, 0, 0), (32000, 3, - 2), (700, 7, - 6), (700, 7, - 6), (ZERO, 2, - 2), (700, 6, - 5),
     (UNDEF, 0, 0), (UNDEF, 0, 0), (UNDEF, 0, 0), (UNDEF, 0, 0), (UNDEF, 0, 0), (700, 6, - 5), (UNDEF, 0, 0),
     (UNDEF, 0, 0), (ZERO, 2, - 2), (ZERO, 0, 0), (5000, 1, - 1)]"

definition tangerine_whistle_metrics :: "evmc_instruction_metrics list" where
  "tangerine_whistle_metrics =
    [(ZERO, 0, 0), (VERYLOW, 2, - 1), (LOW, 2, - 1), (VERYLOW, 2, - 1), (LOW, 2, - 1), (LOW, 2, - 1),
     (LOW, 2, - 1), (LOW, 2, - 1), (MID, 3, - 2), (MID, 3, - 2), (HIGH, 2, - 1), (LOW, 2, - 1), (UNDEF, 0, 0),
     (UNDEF, 0, 0), (UNDEF, 0, 0), (UNDEF, 0, 0), (VERYLOW, 2, - 1), (VERYLOW, 2, - 1), (VERYLOW, 2, - 1),
     (VERYLOW, 2, - 1), (VERYLOW, 2, - 1), (VERYLOW, 1, 0), (VERYLOW, 2, - 1), (VERYLOW, 2, - 1),
     (VERYLOW, 2, - 1), (VERYLOW, 1, 0), (VERYLOW, 2, - 1), (UNDEF, 0, 0), (UNDEF, 0, 0), (UNDEF, 0, 0),
     (UNDEF, 0, 0), (UNDEF, 0, 0), (30, 2, - 1), (UNDEF, 0, 0), (UNDEF, 0, 0), (UNDEF, 0, 0), (UNDEF, 0, 0),
     (UNDEF, 0, 0), (UNDEF, 0, 0), (UNDEF, 0, 0), (UNDEF, 0, 0), (UNDEF, 0, 0), (UNDEF, 0, 0), (UNDEF, 0, 0),
     (UNDEF, 0, 0), (UNDEF, 0, 0), (UNDEF, 0, 0), (UNDEF, 0, 0), (BASE, 0, 1), (400, 1, 0), (BASE, 0, 1),
     (BASE, 0, 1), (BASE, 0, 1), (VERYLOW, 1, 0), (BASE, 0, 1), (VERYLOW, 3, - 3), (BASE, 0, 1),
     (VERYLOW, 3, - 3), (BASE, 0, 1), (700, 1, 0), (700, 4, - 4), (UNDEF, 0, 0), (UNDEF, 0, 0), (UNDEF, 0, 0),
     (20, 1, 0), (BASE, 0, 1), (BASE, 0, 1), (BASE, 0, 1), (BASE, 0, 1), (BASE, 0, 1), (UNDEF, 0, 0),
     (UNDEF, 0, 0), (UNDEF, 0, 0), (UNDEF, 0, 0), (UNDEF, 0, 0), (UNDEF, 0, 0), (UNDEF, 0, 0), (UNDEF, 0, 0),
     (UNDEF, 0, 0), (UNDEF, 0, 0), (BASE, 1, - 1), (VERYLOW, 1, 0), (VERYLOW, 2, - 2), (VERYLOW, 2, - 2),
     (200, 1, 0), (0, 2, - 2), (MID, 1, - 1), (HIGH, 2, - 2), (BASE, 0, 1), (BASE, 0, 1), (BASE, 0, 1),
     (1, 0, 0), (UNDEF, 0, 0), (UNDEF, 0, 0), (UNDEF, 0, 0), (UNDEF, 0, 0), (VERYLOW, 0, 1), (VERYLOW, 0, 1),
     (VERYLOW, 0, 1), (VERYLOW, 0, 1), (VERYLOW, 0, 1), (VERYLOW, 0, 1), (VERYLOW, 0, 1), (VERYLOW, 0, 1),
     (VERYLOW, 0, 1), (VERYLOW, 0, 1), (VERYLOW, 0, 1), (VERYLOW, 0, 1), (VERYLOW, 0, 1), (VERYLOW, 0, 1),
     (VERYLOW, 0, 1), (VERYLOW, 0, 1), (VERYLOW, 0, 1), (VERYLOW, 0, 1), (VERYLOW, 0, 1), (VERYLOW, 0, 1),
     (VERYLOW, 0, 1), (VERYLOW, 0, 1), (VERYLOW, 0, 1), (VERYLOW, 0, 1), (VERYLOW, 0, 1), (VERYLOW, 0, 1),
     (VERYLOW, 0, 1), (VERYLOW, 0, 1), (VERYLOW, 0, 1), (VERYLOW, 0, 1), (VERYLOW, 0, 1), (VERYLOW, 0, 1),
     (VERYLOW, 1, 1), (VERYLOW, 2, 1), (VERYLOW, 3, 1), (VERYLOW, 4, 1), (VERYLOW, 5, 1), (VERYLOW, 6, 1),
     (VERYLOW, 7, 1), (VERYLOW, 8, 1), (VERYLOW, 9, 1), (VERYLOW, 10, 1), (VERYLOW, 11, 1), (VERYLOW, 12, 1),
     (VERYLOW, 13, 1), (VERYLOW, 14, 1), (VERYLOW, 15, 1), (VERYLOW, 16, 1), (VERYLOW, 2, 0), (VERYLOW, 3, 0),
     (VERYLOW, 4, 0), (VERYLOW, 5, 0), (VERYLOW, 6, 0), (VERYLOW, 7, 0), (VERYLOW, 8, 0), (VERYLOW, 9, 0),
     (VERYLOW, 10, 0), (VERYLOW, 11, 0), (VERYLOW, 12, 0), (VERYLOW, 13, 0), (VERYLOW, 14, 0), (VERYLOW, 15, 0),
     (VERYLOW, 16, 0), (VERYLOW, 17, 0), (1 * 375, 2, - 2), (2 * 375, 3, - 3), (3 * 375, 4, - 4),
     (4 * 375, 5, - 5), (5 * 375, 6, - 6), (UNDEF, 0, 0), (UNDEF, 0, 0), (UNDEF, 0, 0), (UNDEF, 0, 0),
     (UNDEF, 0, 0), (UNDEF, 0, 0), (UNDEF, 0, 0), (UNDEF, 0, 0), (UNDEF, 0, 0), (UNDEF, 0, 0), (UNDEF, 0, 0),
     (UNDEF, 0, 0), (UNDEF, 0, 0), (UNDEF, 0, 0), (UNDEF, 0, 0), (UNDEF, 0, 0), (UNDEF, 0, 0), (UNDEF, 0, 0),
     (UNDEF, 0, 0), (UNDEF, 0, 0), (UNDEF, 0, 0), (UNDEF, 0, 0), (UNDEF, 0, 0), (UNDEF, 0, 0), (UNDEF, 0, 0),
     (UNDEF, 0, 0), (UNDEF, 0, 0), (UNDEF, 0, 0), (UNDEF, 0, 0), (UNDEF, 0, 0), (UNDEF, 0, 0), (UNDEF, 0, 0),
     (UNDEF, 0, 0), (UNDEF, 0, 0), (UNDEF, 0, 0), (UNDEF, 0, 0), (UNDEF, 0, 0), (UNDEF, 0, 0), (UNDEF, 0, 0),
     (UNDEF, 0, 0), (UNDEF, 0, 0), (UNDEF, 0, 0), (UNDEF, 0, 0), (UNDEF, 0, 0), (UNDEF, 0, 0), (UNDEF, 0, 0),
     (UNDEF, 0, 0), (UNDEF, 0, 0), (UNDEF, 0, 0), (UNDEF, 0, 0), (UNDEF, 0, 0), (UNDEF, 0, 0), (UNDEF, 0, 0),
     (UNDEF, 0, 0), (UNDEF, 0, 0), (UNDEF, 0, 0), (UNDEF, 0, 0), (UNDEF, 0, 0), (UNDEF, 0, 0), (UNDEF, 0, 0),
     (UNDEF, 0, 0), (UNDEF, 0, 0), (UNDEF, 0, 0), (UNDEF, 0, 0), (UNDEF, 0, 0), (UNDEF, 0, 0), (UNDEF, 0, 0),
     (UNDEF, 0, 0), (UNDEF, 0, 0), (UNDEF, 0, 0), (UNDEF, 0, 0), (UNDEF, 0, 0), (UNDEF, 0, 0), (UNDEF, 0, 0),
     (UNDEF, 0, 0), (32000, 3, - 2), (700, 7, - 6), (700, 7, - 6), (ZERO, 2, - 2), (700, 6, - 5), (UNDEF, 0, 0),
     (UNDEF, 0, 0), (UNDEF, 0, 0), (UNDEF, 0, 0), (UNDEF, 0, 0), (UNDEF, 0, 0), (UNDEF, 0, 0), (UNDEF, 0, 0),
     (UNDEF, 0, 0), (ZERO, 0, 0), (5000, 1, - 1)]"

definition homestead_metrics :: "evmc_instruction_metrics list" where
  "homestead_metrics =
    [(ZERO, 0, 0), (VERYLOW, 2, - 1), (LOW, 2, - 1), (VERYLOW, 2, - 1), (LOW, 2, - 1), (LOW, 2, - 1),
     (LOW, 2, - 1), (LOW, 2, - 1), (MID, 3, - 2), (MID, 3, - 2), (HIGH, 2, - 1), (LOW, 2, - 1), (UNDEF, 0, 0),
     (UNDEF, 0, 0), (UNDEF, 0, 0), (UNDEF, 0, 0), (VERYLOW, 2, - 1), (VERYLOW, 2, - 1), (VERYLOW, 2, - 1),
     (VERYLOW, 2, - 1), (VERYLOW, 2, - 1), (VERYLOW, 1, 0), (VERYLOW, 2, - 1), (VERYLOW, 2, - 1),
     (VERYLOW, 2, - 1), (VERYLOW, 1, 0), (VERYLOW, 2, - 1), (UNDEF, 0, 0), (UNDEF, 0, 0), (UNDEF, 0, 0),
     (UNDEF, 0, 0), (UNDEF, 0, 0), (30, 2, - 1), (UNDEF, 0, 0), (UNDEF, 0, 0), (UNDEF, 0, 0), (UNDEF, 0, 0),
     (UNDEF, 0, 0), (UNDEF, 0, 0), (UNDEF, 0, 0), (UNDEF, 0, 0), (UNDEF, 0, 0), (UNDEF, 0, 0), (UNDEF, 0, 0),
     (UNDEF, 0, 0), (UNDEF, 0, 0), (UNDEF, 0, 0), (UNDEF, 0, 0), (BASE, 0, 1), (20, 1, 0), (BASE, 0, 1),
     (BASE, 0, 1), (BASE, 0, 1), (VERYLOW, 1, 0), (BASE, 0, 1), (VERYLOW, 3, - 3), (BASE, 0, 1),
     (VERYLOW, 3, - 3), (BASE, 0, 1), (20, 1, 0), (20, 4, - 4), (UNDEF, 0, 0), (UNDEF, 0, 0), (UNDEF, 0, 0),
     (20, 1, 0), (BASE, 0, 1), (BASE, 0, 1), (BASE, 0, 1), (BASE, 0, 1), (BASE, 0, 1), (UNDEF, 0, 0),
     (UNDEF, 0, 0), (UNDEF, 0, 0), (UNDEF, 0, 0), (UNDEF, 0, 0), (UNDEF, 0, 0), (UNDEF, 0, 0), (UNDEF, 0, 0),
     (UNDEF, 0, 0), (UNDEF, 0, 0), (BASE, 1, - 1), (VERYLOW, 1, 0), (VERYLOW, 2, - 2), (VERYLOW, 2, - 2),
     (50, 1, 0), (0, 2, - 2), (MID, 1, - 1), (HIGH, 2, - 2), (BASE, 0, 1), (BASE, 0, 1), (BASE, 0, 1),
     (1, 0, 0), (UNDEF, 0, 0), (UNDEF, 0, 0), (UNDEF, 0, 0), (UNDEF, 0, 0), (VERYLOW, 0, 1), (VERYLOW, 0, 1),
     (VERYLOW, 0, 1), (VERYLOW, 0, 1), (VERYLOW, 0, 1), (VERYLOW, 0, 1), (VERYLOW, 0, 1), (VERYLOW, 0, 1),
     (VERYLOW, 0, 1), (VERYLOW, 0, 1), (VERYLOW, 0, 1), (VERYLOW, 0, 1), (VERYLOW, 0, 1), (VERYLOW, 0, 1),
     (VERYLOW, 0, 1), (VERYLOW, 0, 1), (VERYLOW, 0, 1), (VERYLOW, 0, 1), (VERYLOW, 0, 1), (VERYLOW, 0, 1),
     (VERYLOW, 0, 1), (VERYLOW, 0, 1), (VERYLOW, 0, 1), (VERYLOW, 0, 1), (VERYLOW, 0, 1), (VERYLOW, 0, 1),
     (VERYLOW, 0, 1), (VERYLOW, 0, 1), (VERYLOW, 0, 1), (VERYLOW, 0, 1), (VERYLOW, 0, 1), (VERYLOW, 0, 1),
     (VERYLOW, 1, 1), (VERYLOW, 2, 1), (VERYLOW, 3, 1), (VERYLOW, 4, 1), (VERYLOW, 5, 1), (VERYLOW, 6, 1),
     (VERYLOW, 7, 1), (VERYLOW, 8, 1), (VERYLOW, 9, 1), (VERYLOW, 10, 1), (VERYLOW, 11, 1), (VERYLOW, 12, 1),
     (VERYLOW, 13, 1), (VERYLOW, 14, 1), (VERYLOW, 15, 1), (VERYLOW, 16, 1), (VERYLOW, 2, 0), (VERYLOW, 3, 0),
     (VERYLOW, 4, 0), (VERYLOW, 5, 0), (VERYLOW, 6, 0), (VERYLOW, 7, 0), (VERYLOW, 8, 0), (VERYLOW, 9, 0),
     (VERYLOW, 10, 0), (VERYLOW, 11, 0), (VERYLOW, 12, 0), (VERYLOW, 13, 0), (VERYLOW, 14, 0), (VERYLOW, 15, 0),
     (VERYLOW, 16, 0), (VERYLOW, 17, 0), (1 * 375, 2, - 2), (2 * 375, 3, - 3), (3 * 375, 4, - 4),
     (4 * 375, 5, - 5), (5 * 375, 6, - 6), (UNDEF, 0, 0), (UNDEF, 0, 0), (UNDEF, 0, 0), (UNDEF, 0, 0),
     (UNDEF, 0, 0), (UNDEF, 0, 0), (UNDEF, 0, 0), (UNDEF, 0, 0), (UNDEF, 0, 0), (UNDEF, 0, 0), (UNDEF, 0, 0),
     (UNDEF, 0, 0), (UNDEF, 0, 0), (UNDEF, 0, 0), (UNDEF, 0, 0), (UNDEF, 0, 0), (UNDEF, 0, 0), (UNDEF, 0, 0),
     (UNDEF, 0, 0), (UNDEF, 0, 0), (UNDEF, 0, 0), (UNDEF, 0, 0), (UNDEF, 0, 0), (UNDEF, 0, 0), (UNDEF, 0, 0),
     (UNDEF, 0, 0), (UNDEF, 0, 0), (UNDEF, 0, 0), (UNDEF, 0, 0), (UNDEF, 0, 0), (UNDEF, 0, 0), (UNDEF, 0, 0),
     (UNDEF, 0, 0), (UNDEF, 0, 0), (UNDEF, 0, 0), (UNDEF, 0, 0), (UNDEF, 0, 0), (UNDEF, 0, 0), (UNDEF, 0, 0),
     (UNDEF, 0, 0), (UNDEF, 0, 0), (UNDEF, 0, 0), (UNDEF, 0, 0), (UNDEF, 0, 0), (UNDEF, 0, 0), (UNDEF, 0, 0),
     (UNDEF, 0, 0), (UNDEF, 0, 0), (UNDEF, 0, 0), (UNDEF, 0, 0), (UNDEF, 0, 0), (UNDEF, 0, 0), (UNDEF, 0, 0),
     (UNDEF, 0, 0), (UNDEF, 0, 0), (UNDEF, 0, 0), (UNDEF, 0, 0), (UNDEF, 0, 0), (UNDEF, 0, 0), (UNDEF, 0, 0),
     (UNDEF, 0, 0), (UNDEF, 0, 0), (UNDEF, 0, 0), (UNDEF, 0, 0), (UNDEF, 0, 0), (UNDEF, 0, 0), (UNDEF, 0, 0),
     (UNDEF, 0, 0), (UNDEF, 0, 0), (UNDEF, 0, 0), (UNDEF, 0, 0), (UNDEF, 0, 0), (UNDEF, 0, 0), (UNDEF, 0, 0),
     (UNDEF, 0, 0), (32000, 3, - 2), (40, 7, - 6), (40, 7, - 6), (ZERO, 2, - 2), (40, 6, - 5), (UNDEF, 0, 0),
     (UNDEF, 0, 0), (UNDEF, 0, 0), (UNDEF, 0, 0), (UNDEF, 0, 0), (UNDEF, 0, 0), (UNDEF, 0, 0), (UNDEF, 0, 0),
     (UNDEF, 0, 0), (ZERO, 0, 0), (ZERO, 1, - 1)]"

definition frontier_metrics :: "evmc_instruction_metrics list" where
  "frontier_metrics =
    [(ZERO, 0, 0), (VERYLOW, 2, - 1), (LOW, 2, - 1), (VERYLOW, 2, - 1), (LOW, 2, - 1), (LOW, 2, - 1),
     (LOW, 2, - 1), (LOW, 2, - 1), (MID, 3, - 2), (MID, 3, - 2), (HIGH, 2, - 1), (LOW, 2, - 1), (UNDEF, 0, 0),
     (UNDEF, 0, 0), (UNDEF, 0, 0), (UNDEF, 0, 0), (VERYLOW, 2, - 1), (VERYLOW, 2, - 1), (VERYLOW, 2, - 1),
     (VERYLOW, 2, - 1), (VERYLOW, 2, - 1), (VERYLOW, 1, 0), (VERYLOW, 2, - 1), (VERYLOW, 2, - 1),
     (VERYLOW, 2, - 1), (VERYLOW, 1, 0), (VERYLOW, 2, - 1), (UNDEF, 0, 0), (UNDEF, 0, 0), (UNDEF, 0, 0),
     (UNDEF, 0, 0), (UNDEF, 0, 0), (30, 2, - 1), (UNDEF, 0, 0), (UNDEF, 0, 0), (UNDEF, 0, 0), (UNDEF, 0, 0),
     (UNDEF, 0, 0), (UNDEF, 0, 0), (UNDEF, 0, 0), (UNDEF, 0, 0), (UNDEF, 0, 0), (UNDEF, 0, 0), (UNDEF, 0, 0),
     (UNDEF, 0, 0), (UNDEF, 0, 0), (UNDEF, 0, 0), (UNDEF, 0, 0), (BASE, 0, 1), (20, 1, 0), (BASE, 0, 1),
     (BASE, 0, 1), (BASE, 0, 1), (VERYLOW, 1, 0), (BASE, 0, 1), (VERYLOW, 3, - 3), (BASE, 0, 1),
     (VERYLOW, 3, - 3), (BASE, 0, 1), (20, 1, 0), (20, 4, - 4), (UNDEF, 0, 0), (UNDEF, 0, 0), (UNDEF, 0, 0),
     (20, 1, 0), (BASE, 0, 1), (BASE, 0, 1), (BASE, 0, 1), (BASE, 0, 1), (BASE, 0, 1), (UNDEF, 0, 0),
     (UNDEF, 0, 0), (UNDEF, 0, 0), (UNDEF, 0, 0), (UNDEF, 0, 0), (UNDEF, 0, 0), (UNDEF, 0, 0), (UNDEF, 0, 0),
     (UNDEF, 0, 0), (UNDEF, 0, 0), (BASE, 1, - 1), (VERYLOW, 1, 0), (VERYLOW, 2, - 2), (VERYLOW, 2, - 2),
     (50, 1, 0), (0, 2, - 2), (MID, 1, - 1), (HIGH, 2, - 2), (BASE, 0, 1), (BASE, 0, 1), (BASE, 0, 1),
     (1, 0, 0), (UNDEF, 0, 0), (UNDEF, 0, 0), (UNDEF, 0, 0), (UNDEF, 0, 0), (VERYLOW, 0, 1), (VERYLOW, 0, 1),
     (VERYLOW, 0, 1), (VERYLOW, 0, 1), (VERYLOW, 0, 1), (VERYLOW, 0, 1), (VERYLOW, 0, 1), (VERYLOW, 0, 1),
     (VERYLOW, 0, 1), (VERYLOW, 0, 1), (VERYLOW, 0, 1), (VERYLOW, 0, 1), (VERYLOW, 0, 1), (VERYLOW, 0, 1),
     (VERYLOW, 0, 1), (VERYLOW, 0, 1), (VERYLOW, 0, 1), (VERYLOW, 0, 1), (VERYLOW, 0, 1), (VERYLOW, 0, 1),
     (VERYLOW, 0, 1), (VERYLOW, 0, 1), (VERYLOW, 0, 1), (VERYLOW, 0, 1), (VERYLOW, 0, 1), (VERYLOW, 0, 1),
     (VERYLOW, 0, 1), (VERYLOW, 0, 1), (VERYLOW, 0, 1), (VERYLOW, 0, 1), (VERYLOW, 0, 1), (VERYLOW, 0, 1),
     (VERYLOW, 1, 1), (VERYLOW, 2, 1), (VERYLOW, 3, 1), (VERYLOW, 4, 1), (VERYLOW, 5, 1), (VERYLOW, 6, 1),
     (VERYLOW, 7, 1), (VERYLOW, 8, 1), (VERYLOW, 9, 1), (VERYLOW, 10, 1), (VERYLOW, 11, 1), (VERYLOW, 12, 1),
     (VERYLOW, 13, 1), (VERYLOW, 14, 1), (VERYLOW, 15, 1), (VERYLOW, 16, 1), (VERYLOW, 2, 0), (VERYLOW, 3, 0),
     (VERYLOW, 4, 0), (VERYLOW, 5, 0), (VERYLOW, 6, 0), (VERYLOW, 7, 0), (VERYLOW, 8, 0), (VERYLOW, 9, 0),
     (VERYLOW, 10, 0), (VERYLOW, 11, 0), (VERYLOW, 12, 0), (VERYLOW, 13, 0), (VERYLOW, 14, 0), (VERYLOW, 15, 0),
     (VERYLOW, 16, 0), (VERYLOW, 17, 0), (1 * 375, 2, - 2), (2 * 375, 3, - 3), (3 * 375, 4, - 4),
     (4 * 375, 5, - 5), (5 * 375, 6, - 6), (UNDEF, 0, 0), (UNDEF, 0, 0), (UNDEF, 0, 0), (UNDEF, 0, 0),
     (UNDEF, 0, 0), (UNDEF, 0, 0), (UNDEF, 0, 0), (UNDEF, 0, 0), (UNDEF, 0, 0), (UNDEF, 0, 0), (UNDEF, 0, 0),
     (UNDEF, 0, 0), (UNDEF, 0, 0), (UNDEF, 0, 0), (UNDEF, 0, 0), (UNDEF, 0, 0), (UNDEF, 0, 0), (UNDEF, 0, 0),
     (UNDEF, 0, 0), (UNDEF, 0, 0), (UNDEF, 0, 0), (UNDEF, 0, 0), (UNDEF, 0, 0), (UNDEF, 0, 0), (UNDEF, 0, 0),
     (UNDEF, 0, 0), (UNDEF, 0, 0), (UNDEF, 0, 0), (UNDEF, 0, 0), (UNDEF, 0, 0), (UNDEF, 0, 0), (UNDEF, 0, 0),
     (UNDEF, 0, 0), (UNDEF, 0, 0), (UNDEF, 0, 0), (UNDEF, 0, 0), (UNDEF, 0, 0), (UNDEF, 0, 0), (UNDEF, 0, 0),
     (UNDEF, 0, 0), (UNDEF, 0, 0), (UNDEF, 0, 0), (UNDEF, 0, 0), (UNDEF, 0, 0), (UNDEF, 0, 0), (UNDEF, 0, 0),
     (UNDEF, 0, 0), (UNDEF, 0, 0), (UNDEF, 0, 0), (UNDEF, 0, 0), (UNDEF, 0, 0), (UNDEF, 0, 0), (UNDEF, 0, 0),
     (UNDEF, 0, 0), (UNDEF, 0, 0), (UNDEF, 0, 0), (UNDEF, 0, 0), (UNDEF, 0, 0), (UNDEF, 0, 0), (UNDEF, 0, 0),
     (UNDEF, 0, 0), (UNDEF, 0, 0), (UNDEF, 0, 0), (UNDEF, 0, 0), (UNDEF, 0, 0), (UNDEF, 0, 0), (UNDEF, 0, 0),
     (UNDEF, 0, 0), (UNDEF, 0, 0), (UNDEF, 0, 0), (UNDEF, 0, 0), (UNDEF, 0, 0), (UNDEF, 0, 0), (UNDEF, 0, 0),
     (UNDEF, 0, 0), (32000, 3, - 2), (40, 7, - 6), (40, 7, - 6), (ZERO, 2, - 2), (UNDEF, 0, 0), (UNDEF, 0, 0),
     (UNDEF, 0, 0), (UNDEF, 0, 0), (UNDEF, 0, 0), (UNDEF, 0, 0), (UNDEF, 0, 0), (UNDEF, 0, 0), (UNDEF, 0, 0),
     (UNDEF, 0, 0), (ZERO, 0, 0), (ZERO, 1, - 1)]"

end
