(* ===== verification/Tables.thy ===== *)
theory Tables
  imports State_Instructions Opcodes Metrics
begin

text \<open>
  The tables of src/tscvee/ta/include/instructions_traits.h: the gas costs of the opcodes by revision
  and the stack heights the opcodes require and change.
\<close>

section \<open>Gas costs\<close>

definition undefined_cost :: int where
  "undefined_cost = - 1"

text \<open>A sequence of assignments to the elements of a row.\<close>

fun assign :: "(nat \<times> 'a) list \<Rightarrow> 'a list \<Rightarrow> 'a list" where
  "assign [] row = row"
| "assign ((op, v) # ps) row = assign ps (row[op := v])"

definition frontier_costs :: "(nat \<times> int) list" where
  "frontier_costs =
     [(OP_STOP, 0), (OP_ADD, 3), (OP_MUL, 5), (OP_SUB, 3), (OP_DIV, 5), (OP_SDIV, 5), (OP_MOD, 5),
        (OP_SMOD, 5), (OP_ADDMOD, 8), (OP_MULMOD, 8), (OP_EXP, 10), (OP_SIGNEXTEND, 5), (OP_LT, 3),
        (OP_GT, 3), (OP_SLT, 3), (OP_SGT, 3), (OP_EQ, 3), (OP_ISZERO, 3), (OP_AND, 3), (OP_OR, 3),
        (OP_XOR, 3), (OP_NOT, 3), (OP_BYTE, 3), (OP_KECCAK256, 30), (OP_ADDRESS, 2), (OP_BALANCE, 20),
        (OP_ORIGIN, 2), (OP_CALLER, 2), (OP_CALLVALUE, 2), (OP_CALLDATALOAD, 3), (OP_CALLDATASIZE, 2),
        (OP_CALLDATACOPY, 3), (OP_CODESIZE, 2), (OP_CODECOPY, 3), (OP_GASPRICE, 2), (OP_EXTCODESIZE, 20),
        (OP_EXTCODECOPY, 20), (OP_BLOCKHASH, 20), (OP_COINBASE, 2), (OP_TIMESTAMP, 2), (OP_NUMBER, 2),
        (OP_DIFFICULTY, 2), (OP_GASLIMIT, 2), (OP_POP, 2), (OP_MLOAD, 3), (OP_MSTORE, 3), (OP_SLOAD, 50),
        (OP_SSTORE, 0), (OP_JUMP, 8), (OP_JUMPI, 10), (OP_PC, 2), (OP_MSIZE, 2), (OP_GAS, 2),
        (OP_JUMPDEST, 1)] @
     map (\<lambda>op. (op, 3)) [OP_PUSH1..<OP_PUSH32 + 1] @
     map (\<lambda>op. (op, 3)) [OP_DUP1..<OP_DUP16 + 1] @
     map (\<lambda>op. (op, 3)) [OP_SWAP1..<OP_SWAP16 + 1] @
     map (\<lambda>op. (op, (int op - int OP_LOG0 + 1) * 375)) [OP_LOG0..<OP_LOG4 + 1] @
     [(OP_CREATE, 32000), (OP_CALL, 40), (OP_CALLCODE, 40), (OP_RETURN, 0), (OP_INVALID, 0),
        (OP_SELFDESTRUCT, 0)]"

definition homestead_costs :: "(nat \<times> int) list" where
  "homestead_costs =
     [(OP_DELEGATECALL, 40)]"

definition tangerine_whistle_costs :: "(nat \<times> int) list" where
  "tangerine_whistle_costs =
     [(OP_BALANCE, 400), (OP_EXTCODESIZE, 700), (OP_EXTCODECOPY, 700), (OP_SLOAD, 200), (OP_CALL, 700),
        (OP_CALLCODE, 700), (OP_DELEGATECALL, 700), (OP_SELFDESTRUCT, 5000)]"

definition byzantium_costs :: "(nat \<times> int) list" where
  "byzantium_costs =
     [(OP_RETURNDATASIZE, 2), (OP_RETURNDATACOPY, 3), (OP_STATICCALL, 700), (OP_REVERT, 0)]"

definition constantinople_costs :: "(nat \<times> int) list" where
  "constantinople_costs =
     [(OP_SHL, 3), (OP_SHR, 3), (OP_SAR, 3), (OP_EXTCODEHASH, 400), (OP_CREATE2, 32000)]"

definition istanbul_costs :: "(nat \<times> int) list" where
  "istanbul_costs =
     [(OP_BALANCE, 700), (OP_CHAINID, 2), (OP_EXTCODEHASH, 700), (OP_SELFBALANCE, 5), (OP_SLOAD, 800)]"

definition berlin_costs :: "(nat \<times> int) list" where
  "berlin_costs =
     [(OP_EXTCODESIZE, warm_storage_read_cost), (OP_EXTCODECOPY, warm_storage_read_cost),
        (OP_EXTCODEHASH, warm_storage_read_cost), (OP_BALANCE, warm_storage_read_cost),
        (OP_CALL, warm_storage_read_cost), (OP_CALLCODE, warm_storage_read_cost),
        (OP_DELEGATECALL, warm_storage_read_cost), (OP_STATICCALL, warm_storage_read_cost),
        (OP_SLOAD, warm_storage_read_cost)]"

definition london_costs :: "(nat \<times> int) list" where
  "london_costs =
     [(OP_BASEFEE, 2)]"

definition shanghai_costs :: "(nat \<times> int) list" where
  "shanghai_costs =
     [(OP_PUSH0, 2)]"

text \<open>A row is copied from the one before it and changed.\<close>

definition next_row :: "evmc_revision \<Rightarrow> evmc_revision \<Rightarrow> (nat \<times> int) list \<Rightarrow> int list list \<Rightarrow> int list list outcome" where
  "next_row dst src changes gc =
     bind_o (read_at gc (rev_number src)) (\<lambda>row. write_at gc (rev_number dst) (assign changes row))"

text \<open>
  The array of the code has twelve rows, from \<open>EVMC_FRONTIER\<close> to \<open>EVMC_SHANGHAI\<close>; the last copy is to a
  thirteenth.
\<close>

definition GasCostTable_init :: "int list list \<Rightarrow> int list list outcome" where
  "GasCostTable_init gc =
     bind_o (write_at gc (rev_number EVMC_FRONTIER) (assign frontier_costs (replicate 256 undefined_cost))) (\<lambda>gc.
     bind_o (next_row EVMC_HOMESTEAD EVMC_FRONTIER homestead_costs gc) (\<lambda>gc.
     bind_o (next_row EVMC_TANGERINE_WHISTLE EVMC_HOMESTEAD tangerine_whistle_costs gc) (\<lambda>gc.
     bind_o (next_row EVMC_SPURIOUS_DRAGON EVMC_TANGERINE_WHISTLE [] gc) (\<lambda>gc.
     bind_o (next_row EVMC_BYZANTIUM EVMC_SPURIOUS_DRAGON byzantium_costs gc) (\<lambda>gc.
     bind_o (next_row EVMC_CONSTANTINOPLE EVMC_BYZANTIUM constantinople_costs gc) (\<lambda>gc.
     bind_o (next_row EVMC_PETERSBURG EVMC_CONSTANTINOPLE [] gc) (\<lambda>gc.
     bind_o (next_row EVMC_ISTANBUL EVMC_PETERSBURG istanbul_costs gc) (\<lambda>gc.
     bind_o (next_row EVMC_BERLIN EVMC_ISTANBUL berlin_costs gc) (\<lambda>gc.
     bind_o (next_row EVMC_LONDON EVMC_BERLIN london_costs gc) (\<lambda>gc.
     bind_o (next_row EVMC_PARIS EVMC_LONDON [] gc) (\<lambda>gc.
     bind_o (next_row EVMC_SHANGHAI EVMC_PARIS shanghai_costs gc) (\<lambda>gc.
     bind_o (next_row EVMC_CANCUN EVMC_SHANGHAI [] gc) (\<lambda>gc.
     Inr gc)))))))))))))"

section \<open>Traits\<close>

record Traits =
  trait_name :: "string option"
  stack_height_required :: int
  stack_height_change :: int
  since :: evmc_revision

definition Traits_init :: Traits where
  "Traits_init = \<lparr>trait_name = None, stack_height_required = 0, stack_height_change = 0, since = EVMC_LONDON\<rparr>"

definition makeTrait :: "string \<Rightarrow> int \<Rightarrow> int \<Rightarrow> evmc_revision \<Rightarrow> Traits" where
  "makeTrait nm req change rv = \<lparr>trait_name = Some nm, stack_height_required = req, stack_height_change = change, since = rv\<rparr>"

definition traits_entries :: "(nat \<times> Traits) list" where
  "traits_entries =
    [(OP_STOP, makeTrait ''STOP'' 0 0 EVMC_FRONTIER),
     (OP_ADD, makeTrait ''ADD'' 2 (- 1) EVMC_FRONTIER),
     (OP_MUL, makeTrait ''MUL'' 2 (- 1) EVMC_FRONTIER),
     (OP_SUB, makeTrait ''SUB'' 2 (- 1) EVMC_FRONTIER),
     (OP_DIV, makeTrait ''DIV'' 2 (- 1) EVMC_FRONTIER),
     (OP_SDIV, makeTrait ''SDIV'' 2 (- 1) EVMC_FRONTIER),
     (OP_MOD, makeTrait ''MOD'' 2 (- 1) EVMC_FRONTIER),
     (OP_SMOD, makeTrait ''SMOD'' 2 (- 1) EVMC_FRONTIER),
     (OP_ADDMOD, makeTrait ''ADDMOD'' 3 (- 2) EVMC_FRONTIER),
     (OP_MULMOD, makeTrait ''MULMOD'' 3 (- 2) EVMC_FRONTIER),
     (OP_EXP, makeTrait ''EXP'' 2 (- 1) EVMC_FRONTIER),
     (OP_SIGNEXTEND, makeTrait ''SIGNEXTEND'' 2 (- 1) EVMC_FRONTIER),
     (OP_LT, makeTrait ''LT'' 2 (- 1) EVMC_FRONTIER),
     (OP_GT, makeTrait ''GT'' 2 (- 1) EVMC_FRONTIER),
     (OP_SLT, makeTrait ''SLT'' 2 (- 1) EVMC_FRONTIER),
     (OP_SGT, makeTrait ''SGT'' 2 (- 1) EVMC_FRONTIER),
     (OP_EQ, makeTrait ''EQ'' 2 (- 1) EVMC_FRONTIER),
     (OP_ISZERO, makeTrait ''ISZERO'' 1 0 EVMC_FRONTIER),
     (OP_AND, makeTrait ''AND'' 2 (- 1) EVMC_FRONTIER),
     (OP_OR, makeTrait ''OR'' 2 (- 1) EVMC_FRONTIER),
     (OP_XOR, makeTrait ''XOR'' 2 (- 1) EVMC_FRONTIER),
     (OP_NOT, makeTrait ''NOT'' 1 0 EVMC_FRONTIER),
     (OP_BYTE, makeTrait ''BYTE'' 2 (- 1) EVMC_FRONTIER),
     (OP_SHL, makeTrait ''SHL'' 2 (- 1) EVMC_CONSTANTINOPLE),
     (OP_SHR, makeTrait ''SHR'' 2 (- 1) EVMC_CONSTANTINOPLE),
     (OP_SAR, makeTrait ''SAR'' 2 (- 1) EVMC_CONSTANTINOPLE),
     (OP_KECCAK256, makeTrait ''KECCAK256'' 2 (- 1) EVMC_FRONTIER),
     (OP_ADDRESS, makeTrait ''ADDRESS'' 0 1 EVMC_FRONTIER),
     (OP_BALANCE, makeTrait ''BALANCE'' 1 0 EVMC_FRONTIER),
     (OP_ORIGIN, makeTrait ''ORIGIN'' 0 1 EVMC_FRONTIER),
     (OP_CALLER, makeTrait ''CALLER'' 0 1 EVMC_FRONTIER),
     (OP_CALLVALUE, makeTrait ''CALLVALUE'' 0 1 EVMC_FRONTIER),
     (OP_CALLDATALOAD, makeTrait ''CALLDATALOAD'' 1 0 EVMC_FRONTIER),
     (OP_CALLDATASIZE, makeTrait ''CALLDATASIZE'' 0 1 EVMC_FRONTIER),
     (OP_CALLDATACOPY, makeTrait ''CALLDATACOPY'' 3 (- 3) EVMC_FRONTIER),
     (OP_CODESIZE, makeTrait ''CODESIZE'' 0 1 EVMC_FRONTIER),
     (OP_CODECOPY, makeTrait ''CODECOPY'' 3 (- 3) EVMC_FRONTIER),
     (OP_GASPRICE, makeTrait ''GASPRICE'' 0 1 EVMC_FRONTIER),
     (OP_EXTCODESIZE, makeTrait ''EXTCODESIZE'' 1 0 EVMC_FRONTIER),
     (OP_EXTCODECOPY, makeTrait ''EXTCODECOPY'' 4 (- 4) EVMC_FRONTIER),
     (OP_RETURNDATASIZE, makeTrait ''RETURNDATASIZE'' 0 1 EVMC_BYZANTIUM),
     (OP_RETURNDATACOPY, makeTrait ''RETURNDATACOPY'' 3 (- 3) EVMC_BYZANTIUM),
     (OP_EXTCODEHASH, makeTrait ''EXTCODEHASH'' 1 0 EVMC_CONSTANTINOPLE),
     (OP_BLOCKHASH, makeTrait ''BLOCKHASH'' 1 0 EVMC_FRONTIER),
     (OP_COINBASE, makeTrait ''COINBASE'' 0 1 EVMC_FRONTIER),
     (OP_TIMESTAMP, makeTrait ''TIMESTAMP'' 0 1 EVMC_FRONTIER),
     (OP_NUMBER, makeTrait ''NUMBER'' 0 1 EVMC_FRONTIER),
     (OP_DIFFICULTY, makeTrait ''DIFFICULTY'' 0 1 EVMC_FRONTIER),
     (OP_GASLIMIT, makeTrait ''GASLIMIT'' 0 1 EVMC_FRONTIER),
     (OP_CHAINID, makeTrait ''CHAINID'' 0 1 EVMC_ISTANBUL),
     (OP_SELFBALANCE, makeTrait ''SELFBALANCE'' 0 1 EVMC_ISTANBUL),
     (OP_BASEFEE, makeTrait ''BASEFEE'' 0 1 EVMC_LONDON),
     (OP_POP, makeTrait ''POP'' 1 (- 1) EVMC_FRONTIER),
     (OP_MLOAD, makeTrait ''MLOAD'' 1 0 EVMC_FRONTIER),
     (OP_MSTORE, makeTrait ''MSTORE'' 2 (- 2) EVMC_FRONTIER),
     (OP_MSTORE8, makeTrait ''MSTORE8'' 2 (- 2) EVMC_FRONTIER),
     (OP_SLOAD, makeTrait ''SLOAD'' 1 0 EVMC_FRONTIER),
     (OP_SSTORE, makeTrait ''SSTORE'' 2 (- 2) EVMC_FRONTIER),
     (OP_JUMP, makeTrait ''JUMP'' 1 (- 1) EVMC_FRONTIER),
     (OP_JUMPI, makeTrait ''JUMPI'' 2 (- 2) EVMC_FRONTIER),
     (OP_PC, makeTrait ''PC'' 0 1 EVMC_FRONTIER),
     (OP_MSIZE, makeTrait ''MSIZE'' 0 1 EVMC_FRONTIER),
     (OP_GAS, makeTrait ''GAS'' 0 1 EVMC_FRONTIER),
     (OP_JUMPDEST, makeTrait ''JUMPDEST'' 0 0 EVMC_FRONTIER),
     (OP_PUSH0, makeTrait ''PUSH0'' 0 1 EVMC_SHANGHAI),
     (OP_PUSH1, makeTrait ''PUSH1'' 0 1 EVMC_FRONTIER),
     (OP_PUSH2, makeTrait ''PUSH2'' 0 1 EVMC_FRONTIER),
     (OP_PUSH3, makeTrait ''PUSH3'' 0 1 EVMC_FRONTIER),
     (OP_PUSH4, makeTrait ''PUSH4'' 0 1 EVMC_FRONTIER),
     (OP_PUSH5, makeTrait ''PUSH5'' 0 1 EVMC_FRONTIER),
     (OP_PUSH6, makeTrait ''PUSH6'' 0 1 EVMC_FRONTIER),
     (OP_PUSH7, makeTrait ''PUSH7'' 0 1 EVMC_FRONTIER),
     (OP_PUSH8, makeTrait ''PUSH8'' 0 1 EVMC_FRONTIER),
     (OP_PUSH9, makeTrait ''PUSH9'' 0 1 EVMC_FRONTIER),
     (OP_PUSH10, makeTrait ''PUSH10'' 0 1 EVMC_FRONTIER),
     (OP_PUSH11, makeTrait ''PUSH11'' 0 1 EVMC_FRONTIER),
     (OP_PUSH12, makeTrait ''PUSH12'' 0 1 EVMC_FRONTIER),
     (OP_PUSH13, makeTrait ''PUSH13'' 0 1 EVMC_FRONTIER),
     (OP_PUSH14, makeTrait ''PUSH14'' 0 1 EVMC_FRONTIER),
     (OP_PUSH15, makeTrait ''PUSH15'' 0 1 EVMC_FRONTIER),
     (OP_PUSH16, makeTrait ''PUSH16'' 0 1 EVMC_FRONTIER),
     (OP_PUSH17, makeTrait ''PUSH17'' 0 1 EVMC_FRONTIER),
     (OP_PUSH18, makeTrait ''PUSH18'' 0 1 EVMC_FRONTIER),
     (OP_PUSH19, makeTrait ''PUSH19'' 0 1 EVMC_FRONTIER),
     (OP_PUSH20, makeTrait ''PUSH20'' 0 1 EVMC_FRONTIER),
     (OP_PUSH21, makeTrait ''PUSH21'' 0 1 EVMC_FRONTIER),
     (OP_PUSH22, makeTrait ''PUSH22'' 0 1 EVMC_FRONTIER),
     (OP_PUSH23, makeTrait ''PUSH23'' 0 1 EVMC_FRONTIER),
     (OP_PUSH24, makeTrait ''PUSH24'' 0 1 EVMC_FRONTIER),
     (OP_PUSH25, makeTrait ''PUSH25'' 0 1 EVMC_FRONTIER),
     (OP_PUSH26, makeTrait ''PUSH26'' 0 1 EVMC_FRONTIER),
     (OP_PUSH27, makeTrait ''PUSH27'' 0 1 EVMC_FRONTIER),
     (OP_PUSH28, makeTrait ''PUSH28'' 0 1 EVMC_FRONTIER),
     (OP_PUSH29, makeTrait ''PUSH29'' 0 1 EVMC_FRONTIER),
     (OP_PUSH30, makeTrait ''PUSH30'' 0 1 EVMC_FRONTIER),
     (OP_PUSH31, makeTrait ''PUSH31'' 0 1 EVMC_FRONTIER),
     (OP_PUSH32, makeTrait ''PUSH32'' 0 1 EVMC_FRONTIER),
     (OP_DUP1, makeTrait ''DUP1'' 1 1 EVMC_FRONTIER),
     (OP_DUP2, makeTrait ''DUP2'' 2 1 EVMC_FRONTIER),
     (OP_DUP3, makeTrait ''DUP3'' 3 1 EVMC_FRONTIER),
     (OP_DUP4, makeTrait ''DUP4'' 4 1 EVMC_FRONTIER),
     (OP_DUP5, makeTrait ''DUP5'' 5 1 EVMC_FRONTIER),
     (OP_DUP6, makeTrait ''DUP6'' 6 1 EVMC_FRONTIER),
     (OP_DUP7, makeTrait ''DUP7'' 7 1 EVMC_FRONTIER),
     (OP_DUP8, makeTrait ''DUP8'' 8 1 EVMC_FRONTIER),
     (OP_DUP9, makeTrait ''DUP9'' 9 1 EVMC_FRONTIER),
     (OP_DUP10, makeTrait ''DUP10'' 10 1 EVMC_FRONTIER),
     (OP_DUP11, makeTrait ''DUP11'' 11 1 EVMC_FRONTIER),
     (OP_DUP12, makeTrait ''DUP12'' 12 1 EVMC_FRONTIER),
     (OP_DUP13, makeTrait ''DUP13'' 13 1 EVMC_FRONTIER),
     (OP_DUP14, makeTrait ''DUP14'' 14 1 EVMC_FRONTIER),
     (OP_DUP15, makeTrait ''DUP15'' 15 1 EVMC_FRONTIER),
     (OP_DUP16, makeTrait ''DUP16'' 16 1 EVMC_FRONTIER),
     (OP_SWAP1, makeTrait ''SWAP1'' 2 0 EVMC_FRONTIER),
     (OP_SWAP2, makeTrait ''SWAP2'' 3 0 EVMC_FRONTIER),
     (OP_SWAP3, makeTrait ''SWAP3'' 4 0 EVMC_FRONTIER),
     (OP_SWAP4, makeTrait ''SWAP4'' 5 0 EVMC_FRONTIER),
     (OP_SWAP5, makeTrait ''SWAP5'' 6 0 EVMC_FRONTIER),
     (OP_SWAP6, makeTrait ''SWAP6'' 7 0 EVMC_FRONTIER),
     (OP_SWAP7, makeTrait ''SWAP7'' 8 0 EVMC_FRONTIER),
     (OP_SWAP8, makeTrait ''SWAP8'' 9 0 EVMC_FRONTIER),
     (OP_SWAP9, makeTrait ''SWAP9'' 10 0 EVMC_FRONTIER),
     (OP_SWAP10, makeTrait ''SWAP10'' 11 0 EVMC_FRONTIER),
     (OP_SWAP11, makeTrait ''SWAP11'' 12 0 EVMC_FRONTIER),
     (OP_SWAP12, makeTrait ''SWAP12'' 13 0 EVMC_FRONTIER),
     (OP_SWAP13, makeTrait ''SWAP13'' 14 0 EVMC_FRONTIER),
     (OP_SWAP14, makeTrait ''SWAP14'' 15 0 EVMC_FRONTIER),
     (OP_SWAP15, makeTrait ''SWAP15'' 16 0 EVMC_FRONTIER),
     (OP_SWAP16, makeTrait ''SWAP16'' 17 0 EVMC_FRONTIER),
     (OP_LOG0, makeTrait ''LOG0'' 2 (- 2) EVMC_FRONTIER),
     (OP_LOG1, makeTrait ''LOG1'' 3 (- 3) EVMC_FRONTIER),
     (OP_LOG2, makeTrait ''LOG2'' 4 (- 4) EVMC_FRONTIER),
     (OP_LOG3, makeTrait ''LOG3'' 5 (- 5) EVMC_FRONTIER),
     (OP_LOG4, makeTrait ''LOG4'' 6 (- 6) EVMC_FRONTIER),
     (OP_CREATE, makeTrait ''CREATE'' 3 (- 2) EVMC_FRONTIER),
     (OP_CALL, makeTrait ''CALL'' 7 (- 6) EVMC_FRONTIER),
     (OP_CALLCODE, makeTrait ''CALLCODE'' 7 (- 6) EVMC_FRONTIER),
     (OP_RETURN, makeTrait ''RETURN'' 2 (- 2) EVMC_FRONTIER),
     (OP_DELEGATECALL, makeTrait ''DELEGATECALL'' 6 (- 5) EVMC_HOMESTEAD),
     (OP_CREATE2, makeTrait ''CREATE2'' 4 (- 3) EVMC_CONSTANTINOPLE),
     (OP_STATICCALL, makeTrait ''STATICCALL'' 6 (- 5) EVMC_BYZANTIUM),
     (OP_REVERT, makeTrait ''REVERT'' 2 (- 2) EVMC_BYZANTIUM),
     (OP_INVALID, makeTrait ''INVALID'' 0 0 EVMC_FRONTIER),
     (OP_SELFDESTRUCT, makeTrait ''SELFDESTRUCT'' 1 (- 1) EVMC_FRONTIER)]"

definition TraitsTable_init :: "Traits list \<Rightarrow> Traits list" where
  "TraitsTable_init t = assign traits_entries t"

text \<open>The table of the traits is a global variable and starts with zeros.\<close>

definition zero_traits :: Traits where
  "zero_traits = \<lparr>trait_name = None, stack_height_required = 0, stack_height_change = 0, since = EVMC_FRONTIER\<rparr>"

section \<open>The reference\<close>

fun evmc_get_instruction_metrics_table :: "evmc_revision \<Rightarrow> evmc_instruction_metrics list" where
  "evmc_get_instruction_metrics_table EVMC_CANCUN = cancun_metrics"
| "evmc_get_instruction_metrics_table EVMC_SHANGHAI = shanghai_metrics"
| "evmc_get_instruction_metrics_table EVMC_PARIS = london_metrics"
| "evmc_get_instruction_metrics_table EVMC_LONDON = london_metrics"
| "evmc_get_instruction_metrics_table EVMC_BERLIN = berlin_metrics"
| "evmc_get_instruction_metrics_table EVMC_ISTANBUL = istanbul_metrics"
| "evmc_get_instruction_metrics_table EVMC_PETERSBURG = constantinople_metrics"
| "evmc_get_instruction_metrics_table EVMC_CONSTANTINOPLE = constantinople_metrics"
| "evmc_get_instruction_metrics_table EVMC_BYZANTIUM = byzantium_metrics"
| "evmc_get_instruction_metrics_table EVMC_SPURIOUS_DRAGON = tangerine_whistle_metrics"
| "evmc_get_instruction_metrics_table EVMC_TANGERINE_WHISTLE = tangerine_whistle_metrics"
| "evmc_get_instruction_metrics_table EVMC_HOMESTEAD = homestead_metrics"
| "evmc_get_instruction_metrics_table EVMC_FRONTIER = frontier_metrics"

text \<open>The row of a revision, as the changes add up.\<close>

function gas_row :: "evmc_revision \<Rightarrow> int list" where
  "gas_row EVMC_FRONTIER = assign frontier_costs (replicate 256 undefined_cost)"
| "gas_row EVMC_HOMESTEAD = assign homestead_costs (gas_row EVMC_FRONTIER)"
| "gas_row EVMC_TANGERINE_WHISTLE = assign tangerine_whistle_costs (gas_row EVMC_HOMESTEAD)"
| "gas_row EVMC_SPURIOUS_DRAGON = gas_row EVMC_TANGERINE_WHISTLE"
| "gas_row EVMC_BYZANTIUM = assign byzantium_costs (gas_row EVMC_SPURIOUS_DRAGON)"
| "gas_row EVMC_CONSTANTINOPLE = assign constantinople_costs (gas_row EVMC_BYZANTIUM)"
| "gas_row EVMC_PETERSBURG = gas_row EVMC_CONSTANTINOPLE"
| "gas_row EVMC_ISTANBUL = assign istanbul_costs (gas_row EVMC_PETERSBURG)"
| "gas_row EVMC_BERLIN = assign berlin_costs (gas_row EVMC_ISTANBUL)"
| "gas_row EVMC_LONDON = assign london_costs (gas_row EVMC_BERLIN)"
| "gas_row EVMC_PARIS = gas_row EVMC_LONDON"
| "gas_row EVMC_SHANGHAI = assign shanghai_costs (gas_row EVMC_PARIS)"
| "gas_row EVMC_CANCUN = gas_row EVMC_SHANGHAI"
  by (metis (full_types) rev_number.cases) simp_all
termination by (relation "measure rev_number") simp_all

lemma length_assign [simp]: "length (assign ps row) = length row"
  by (induction ps row rule: assign.induct) simp_all

lemma length_gas_row [simp]: "length (gas_row r) = 256"
  by (induction r rule: gas_row.induct) simp_all

text \<open>With a row for every revision the initialisation fills them; with twelve it leaves the array.\<close>

definition gas_rows :: "int list list" where
  "gas_rows = map gas_row
     [EVMC_FRONTIER, EVMC_HOMESTEAD, EVMC_TANGERINE_WHISTLE, EVMC_SPURIOUS_DRAGON, EVMC_BYZANTIUM,
      EVMC_CONSTANTINOPLE, EVMC_PETERSBURG, EVMC_ISTANBUL, EVMC_BERLIN, EVMC_LONDON, EVMC_PARIS,
      EVMC_SHANGHAI, EVMC_CANCUN]"

lemma GasCostTable_init_rows:
  "length gc = 13 \<Longrightarrow> GasCostTable_init gc = Inr gas_rows"
proof -
  assume "length gc = 13"
  then obtain a b c d e f g h i j k l m where gc: "gc = [a, b, c, d, e, f, g, h, i, j, k, l, m]"
    by (auto simp: numeral_eq_Suc length_Suc_conv)
  show ?thesis by (simp add: gc GasCostTable_init_def next_row_def gas_rows_def)
qed

lemma GasCostTable_init_out: "length gc = 12 \<Longrightarrow> GasCostTable_init gc = Inl Out_of_bounds"
proof -
  assume "length gc = 12"
  then obtain a b c d e f g h i j k l where gc: "gc = [a, b, c, d, e, f, g, h, i, j, k, l]"
    by (auto simp: numeral_eq_Suc length_Suc_conv)
  show ?thesis by (simp add: gc GasCostTable_init_def next_row_def write_at_def)
qed

lemma nth_gas_rows: "gas_rows ! rev_number r = gas_row r"
  by (cases r) (simp_all add: gas_rows_def)

declare gas_row.simps [simp del]

text \<open>A cost agrees with a metric when they are equal, or the opcode is undefined in both.\<close>

fun cost_agrees :: "int \<Rightarrow> evmc_instruction_metrics \<Rightarrow> bool" where
  "cost_agrees c (g, req, change) = (if c = undefined_cost then g = 0 else c = g)"

text \<open>The reference without \<open>MSTORE8\<close>.\<close>

definition reference :: "evmc_revision \<Rightarrow> evmc_instruction_metrics list" where
  "reference r = (evmc_get_instruction_metrics_table r)[OP_MSTORE8 := (0, 0, 0)]"

lemma rows_agree: "list_all2 cost_agrees (gas_row r) (reference r)"
proof (cases r)
  case EVMC_FRONTIER
  show ?thesis unfolding EVMC_FRONTIER by code_simp
next
  case EVMC_HOMESTEAD
  show ?thesis unfolding EVMC_HOMESTEAD by code_simp
next
  case EVMC_TANGERINE_WHISTLE
  show ?thesis unfolding EVMC_TANGERINE_WHISTLE by code_simp
next
  case EVMC_SPURIOUS_DRAGON
  show ?thesis unfolding EVMC_SPURIOUS_DRAGON by code_simp
next
  case EVMC_BYZANTIUM
  show ?thesis unfolding EVMC_BYZANTIUM by code_simp
next
  case EVMC_CONSTANTINOPLE
  show ?thesis unfolding EVMC_CONSTANTINOPLE by code_simp
next
  case EVMC_PETERSBURG
  show ?thesis unfolding EVMC_PETERSBURG by code_simp
next
  case EVMC_ISTANBUL
  show ?thesis unfolding EVMC_ISTANBUL by code_simp
next
  case EVMC_BERLIN
  show ?thesis unfolding EVMC_BERLIN by code_simp
next
  case EVMC_LONDON
  show ?thesis unfolding EVMC_LONDON by code_simp
next
  case EVMC_PARIS
  show ?thesis unfolding EVMC_PARIS by code_simp
next
  case EVMC_SHANGHAI
  show ?thesis unfolding EVMC_SHANGHAI by code_simp
next
  case EVMC_CANCUN
  show ?thesis unfolding EVMC_CANCUN by code_simp
qed

lemma assign_other: "op \<notin> fst ` set ps \<Longrightarrow> assign ps row ! op = row ! op"
  by (induction ps row rule: assign.induct) auto

text \<open>No revision gives \<open>MSTORE8\<close> a cost.\<close>

lemma mstore8_undefined: "gas_row r ! OP_MSTORE8 = undefined_cost"
proof (induction r rule: gas_row.induct)
  case 1
  have "OP_MSTORE8 \<notin> fst ` set frontier_costs" by (auto simp: frontier_costs_def)
  then show ?case by (simp add: gas_row.simps assign_other)
qed (auto simp: gas_row.simps assign_other homestead_costs_def tangerine_whistle_costs_def byzantium_costs_def
    constantinople_costs_def istanbul_costs_def berlin_costs_def london_costs_def shanghai_costs_def)



text \<open>
  The traits agree with the reference: the stack heights required and changed are those of the
  metrics of the last revision for all 256 opcodes.
\<close>

theorem traits_reference:
  "map (\<lambda>t. (stack_height_required t, stack_height_change t)) (TraitsTable_init (replicate 256 zero_traits)) =
     map snd (evmc_get_instruction_metrics_table EVMC_CANCUN)"
  by code_simp

end
