(* ===== verification/Analysis.thy ===== *)
theory Analysis
  imports Calls Tables
begin

text \<open>
  The interpreter of src/tscvee/ta/include/analysis.h: the instruction table that an analysis of the
  code produces, the state of the interpreter, one function per entry of the table, and the tables of
  these functions by opcode. A pointer to an instruction is its index; \<open>NULL\<close>, which ends the
  execution, is \<open>None\<close>. A function pointer is a value of \<open>instruction_exec_fn\<close>; \<open>exec_fn\<close> gives the
  function it points to. The global table \<open>traits\<close> is an argument. Pointers into the stack space are
  numbers as in \<open>Exec_State\<close>; they may run outside, only what is read or written must be inside.
\<close>

section \<open>The instruction table\<close>

record BlockInfo =
  bi_gas_cost :: u32
  bi_stack_req :: int
  bi_stack_max_growth :: int

definition BlockInfo_init :: BlockInfo where
  "BlockInfo_init = \<lparr>bi_gas_cost = 0, bi_stack_req = 0, bi_stack_max_growth = 0\<rparr>"

definition BlockInfo_init_v :: "u32 \<Rightarrow> int \<Rightarrow> int \<Rightarrow> BlockInfo" where
  "BlockInfo_init_v gc req smg = \<lparr>bi_gas_cost = gc, bi_stack_req = req, bi_stack_max_growth = smg\<rparr>"

text \<open>The union of the arguments; \<open>Unset\<close> before a member is written.\<close>

datatype InstructionArgument =
    Number int
  | Push_value uint256_t
  | Small_push_value u64
  | Block BlockInfo
  | Unset

text \<open>The functions that a function pointer may point to.\<close>

datatype arith_fn =
    Op_add | Op_mul | Op_sub | Op_div | Op_sdiv | Op_mod | Op_smod | Op_addmod | Op_mulmod | Op_exp
  | Op_signextend | Op_lt | Op_gt | Op_slt | Op_sgt | Op_eq | Op_iszero | Op_and | Op_or | Op_xor
  | Op_not | Op_byte | Op_shl | Op_shr | Op_sar

datatype context_fn =
    Op_keccak256 | Op_address | Op_balance | Op_origin | Op_caller | Op_callvalue | Op_calldataload
  | Op_calldatasize | Op_calldatacopy | Op_codesize | Op_codecopy | Op_gasprice | Op_extcodesize
  | Op_extcodecopy | Op_returndatasize | Op_returndatacopy | Op_extcodehash | Op_blockhash
  | Op_coinbase | Op_timestamp | Op_number | Op_difficulty | Op_gaslimit | Op_chainid | Op_selfbalance
  | Op_basefee

datatype instruction_exec_fn =
    Arith arith_fn | Context context_fn | Op_stop | Op_pop | Op_mload | Op_mstore | Op_mstore8
  | Op_sload | Op_sstore | Op_jump | Op_jumpi | Op_pc | Op_msize | Op_gas | Op_jumpdest | Op_push0
  | Op_push_small | Op_push_full | Op_log0 | Op_create | Op_call | Op_callcode | Op_return
  | Op_delegatecall | Op_create2 | Op_staticcall | Op_revert | Op_invalid | Op_selfdestruct
  | Op_undefined | Opx_beginblock | Op_dup nat | Op_swap nat | Op_log nat

record Instruction =
  fn :: "instruction_exec_fn option"
  arg :: InstructionArgument

definition Instrcution_init :: Instruction where
  "Instrcution_init = \<lparr>fn = None, arg = Unset\<rparr>"

definition Instrcution_init_v :: "instruction_exec_fn option \<Rightarrow> Instruction" where
  "Instrcution_init_v f = \<lparr>fn = f, arg = Unset\<rparr>"

text \<open>The comparisons that the vectors of instructions and of numbers are made with.\<close>

definition instr_cmp :: "Instruction \<Rightarrow> Instruction \<Rightarrow> int" where
  "instr_cmp a b = - 1"

definition u256_cmp :: "uint256_t \<Rightarrow> uint256_t \<Rightarrow> int" where
  "u256_cmp a b = (if equal256 a b then 0 else if gt256 a b then 1 else - 1)"

record CodeAnalysis =
  instrs :: "Instruction list"
  push_values :: "uint256_t list"
  jumpdest_offsets :: "int list"
  jumpdest_targets :: "int list"

definition CodeAnalysis_init :: CodeAnalysis where
  "CodeAnalysis_init = \<lparr>instrs = [], push_values = [], jumpdest_offsets = [], jumpdest_targets = []\<rparr>"

text \<open>\<open>cvec_at\<close> asserts that the index is inside.\<close>

definition cvec_at :: "'a list \<Rightarrow> nat \<Rightarrow> 'a outcome" where
  "cvec_at xs i = bind_o (guard_o Assertion_failed (i < length xs)) (\<lambda>_. Inr (xs ! i))"

definition find_jumpdest :: "CodeAnalysis \<Rightarrow> int \<Rightarrow> int outcome" where
  "find_jumpdest analysis offset =
     (let it = cvec_lower_bound (jumpdest_offsets analysis) offset
      in if it \<noteq> length (jumpdest_offsets analysis) \<and> jumpdest_offsets analysis ! it = offset
         then cvec_at (jumpdest_targets analysis) it
         else Inr (- 1))"

section \<open>The state of the interpreter\<close>

record Stack =
  top_item :: int
  m_bottom :: int

definition Stack_reset :: "int \<Rightarrow> Stack" where
  "Stack_reset stack_space_bottom = \<lparr>top_item = stack_space_bottom, m_bottom = stack_space_bottom\<rparr>"

definition Stack_init_v :: "int \<Rightarrow> Stack" where
  "Stack_init_v stack_space_bottom = Stack_reset stack_space_bottom"

text \<open>The record has the pointer to the analysis, a field of \<open>ExecutionState\<close> in the code.\<close>

record AdvancedExecutionState =
  estate :: ExecutionState
  stack :: Stack
  current_block_cost :: u32
  advanced :: "CodeAnalysis option"

definition Stack_size :: "Stack \<Rightarrow> int" where
  "Stack_size st = signed_take_bit 31 (top_item st - m_bottom st)"

definition Stack_top :: "Stack \<Rightarrow> int" where
  "Stack_top st = top_item st"

definition Stack_get :: "AdvancedExecutionState \<Rightarrow> int \<Rightarrow> uint256_t outcome" where
  "Stack_get a index = load (estate a) (top_item (stack a) - index)"

definition Stack_push :: "AdvancedExecutionState \<Rightarrow> uint256_t \<Rightarrow> AdvancedExecutionState outcome" where
  "Stack_push a item =
     (let a = a\<lparr>stack := (stack a)\<lparr>top_item := top_item (stack a) + 1\<rparr>\<rparr>
      in bind_o (store_slot (estate a) (top_item (stack a)) item) (\<lambda>s. Inr (a\<lparr>estate := s\<rparr>)))"

definition Stack_pop :: "AdvancedExecutionState \<Rightarrow> (AdvancedExecutionState \<times> uint256_t) outcome" where
  "Stack_pop a =
     bind_o (load (estate a) (top_item (stack a))) (\<lambda>v.
     Inr (a\<lparr>stack := (stack a)\<lparr>top_item := top_item (stack a) - 1\<rparr>\<rparr>, v))"

definition AdvancedExecutionState_init_v ::
  "AdvancedExecutionState \<Rightarrow> evmc_message \<Rightarrow> evmc_revision \<Rightarrow> MockedHost \<Rightarrow> u8 list \<Rightarrow> nat \<Rightarrow> AdvancedExecutionState" where
  "AdvancedExecutionState_init_v a message revision host code_data code_size =
     a\<lparr>estate := ExecutionState_init_v (estate a) message revision host code_data code_size,
       stack := Stack_init_v StackSpace_bottom, current_block_cost := 0, advanced := None\<rparr>"

text \<open>
  These three work on a copy of the inner state: the reset changes only the host it is given, the
  transaction context is not kept, and an exit does not record its status.
\<close>

definition AdvancedExecutionState_reset ::
  "AdvancedExecutionState \<Rightarrow> evmc_message \<Rightarrow> evmc_revision \<Rightarrow> MockedHost \<Rightarrow> u8 list \<Rightarrow> nat
     \<Rightarrow> AdvancedExecutionState \<times> MockedHost" where
  "AdvancedExecutionState_reset a message revision host code_data code_size =
     (let (execution_state, host) = ExecutionState_reset (estate a) message revision host code_data code_size
      in (a, host))"

definition AdvancedExecutionState_in_static_mode :: "AdvancedExecutionState \<Rightarrow> bool" where
  "AdvancedExecutionState_in_static_mode a =
     (let execution_state = estate a in flags (msg execution_state) AND of_bool (EVMC_STATIC \<noteq> 0) \<noteq> 0)"

definition AdvancedExecutionState_get_tx_context :: "AdvancedExecutionState \<Rightarrow> AdvancedExecutionState \<times> evmc_tx_context" where
  "AdvancedExecutionState_get_tx_context a =
     (let execution_state = estate a;
          execution_state = (if block_timestamp (m_tx execution_state) = 0
            then execution_state\<lparr>m_tx := get_tx_context (host_ctx execution_state)\<rparr> else execution_state)
      in (a, m_tx execution_state))"

definition AdvancedExecutionState_exit ::
  "AdvancedExecutionState \<Rightarrow> evmc_status_code \<Rightarrow> AdvancedExecutionState \<times> nat option" where
  "AdvancedExecutionState_exit a st_code =
     (let execution_state = estate a; execution_state = execution_state\<lparr>status := st_code\<rparr>
      in (a, None))"

section \<open>The functions of the instruction table\<close>

text \<open>A function takes the table of the traits, the instruction pointer and the state.\<close>

type_synonym op_fn =
  "Traits list \<Rightarrow> nat \<Rightarrow> AdvancedExecutionState \<Rightarrow> (AdvancedExecutionState \<times> nat option) outcome"

definition instr_arg :: "nat \<Rightarrow> AdvancedExecutionState \<Rightarrow> InstructionArgument outcome" where
  "instr_arg i a = (case advanced a of None \<Rightarrow> Inl Null_pointer
     | Some analysis \<Rightarrow> bind_o (read_at (instrs analysis) i) (\<lambda>instr. Inr (arg instr)))"

text \<open>A member of the union that is read is the one that was written.\<close>

definition arg_number :: "nat \<Rightarrow> AdvancedExecutionState \<Rightarrow> int outcome" where
  "arg_number i a = bind_o (instr_arg i a) (\<lambda>x. case x of Number n \<Rightarrow> Inr n | _ \<Rightarrow> Inl Uninitialised)"

definition arg_push_value :: "nat \<Rightarrow> AdvancedExecutionState \<Rightarrow> uint256_t outcome" where
  "arg_push_value i a = bind_o (instr_arg i a) (\<lambda>x. case x of Push_value v \<Rightarrow> Inr v | _ \<Rightarrow> Inl Uninitialised)"

definition arg_small_push_value :: "nat \<Rightarrow> AdvancedExecutionState \<Rightarrow> u64 outcome" where
  "arg_small_push_value i a = bind_o (instr_arg i a) (\<lambda>x. case x of Small_push_value v \<Rightarrow> Inr v | _ \<Rightarrow> Inl Uninitialised)"

definition arg_block :: "nat \<Rightarrow> AdvancedExecutionState \<Rightarrow> BlockInfo outcome" where
  "arg_block i a = bind_o (instr_arg i a) (\<lambda>x. case x of Block b \<Rightarrow> Inr b | _ \<Rightarrow> Inl Uninitialised)"

text \<open>\<open>astate->stack.top_item += (*(traits + op)).stack_height_change\<close>\<close>

definition shift_top :: "Traits list \<Rightarrow> nat \<Rightarrow> AdvancedExecutionState \<Rightarrow> AdvancedExecutionState outcome" where
  "shift_top tr opcode a =
     bind_o (read_at tr opcode) (\<lambda>t.
     Inr (a\<lparr>stack := (stack a)\<lparr>top_item := top_item (stack a) + stack_height_change t\<rparr>\<rparr>))"

text \<open>
  The shapes of the functions: the instruction returns nothing; it returns a status; the gas left is
  corrected around it by the costs of the rest of the block; it ends the execution.
\<close>

definition op_void :: "(int \<Rightarrow> ExecutionState \<Rightarrow> ExecutionState outcome) \<Rightarrow> nat \<Rightarrow> op_fn" where
  "op_void f opcode tr i a =
     bind_o (f (top_item (stack a)) (estate a)) (\<lambda>s.
     bind_o (shift_top tr opcode (a\<lparr>estate := s\<rparr>)) (\<lambda>a. Inr (a, Some (i + 1))))"

definition op_status ::
  "(int \<Rightarrow> ExecutionState \<Rightarrow> (ExecutionState \<times> evmc_status_code) outcome) \<Rightarrow> nat \<Rightarrow> op_fn" where
  "op_status f opcode tr i a =
     bind_o (f (top_item (stack a)) (estate a)) (\<lambda>(s, st_code).
     bind_o (shift_top tr opcode (a\<lparr>estate := s\<rparr>)) (\<lambda>a.
     if st_code \<noteq> EVMC_SUCCESS then Inr (AdvancedExecutionState_exit a st_code)
     else Inr (a, Some (i + 1))))"

definition op_corrected ::
  "(int \<Rightarrow> ExecutionState \<Rightarrow> (ExecutionState \<times> evmc_status_code) outcome) \<Rightarrow> nat \<Rightarrow> op_fn" where
  "op_corrected f opcode tr i a =
     bind_o (arg_number i a) (\<lambda>n.
     bind_o (int64 (uint (current_block_cost a) - n)) (\<lambda>gas_left_correction.
     bind_o (int64 (gas_left (estate a) + gas_left_correction)) (\<lambda>g.
     bind_o (f (top_item (stack a)) ((estate a)\<lparr>gas_left := g\<rparr>)) (\<lambda>(s, st_code).
     bind_o (shift_top tr opcode (a\<lparr>estate := s\<rparr>)) (\<lambda>a.
     if st_code \<noteq> EVMC_SUCCESS then Inr (AdvancedExecutionState_exit a st_code)
     else bind_o (charge gas_left_correction (estate a)) (\<lambda>(s, ok).
       let a = a\<lparr>estate := s\<rparr>
       in if \<not> ok then Inr (AdvancedExecutionState_exit a EVMC_OUT_OF_GAS)
          else Inr (a, Some (i + 1))))))))"

definition op_ending :: "(int \<Rightarrow> ExecutionState \<Rightarrow> (ExecutionState \<times> evmc_status_code) outcome) \<Rightarrow> op_fn" where
  "op_ending f tr i a =
     bind_o (f (top_item (stack a)) (estate a)) (\<lambda>(s, st_code).
     Inr (AdvancedExecutionState_exit (a\<lparr>estate := s\<rparr>) st_code))"

text \<open>Instructions that return nothing.\<close>

definition op_add :: op_fn where
  "op_add = op_void add OP_ADD"

definition op_mul :: op_fn where
  "op_mul = op_void mul OP_MUL"

definition op_sub :: op_fn where
  "op_sub = op_void sub OP_SUB"

definition op_div :: op_fn where
  "op_div = op_void div_instr OP_DIV"

definition op_sdiv :: op_fn where
  "op_sdiv = op_void sdiv OP_SDIV"

definition op_mod :: op_fn where
  "op_mod = op_void mod_instr OP_MOD"

definition op_smod :: op_fn where
  "op_smod = op_void smod OP_SMOD"

definition op_addmod :: op_fn where
  "op_addmod = op_void addmod OP_ADDMOD"

definition op_mulmod :: op_fn where
  "op_mulmod = op_void mulmod OP_MULMOD"

definition op_signextend :: op_fn where
  "op_signextend = op_void signextend OP_SIGNEXTEND"

definition op_lt :: op_fn where
  "op_lt = op_void lt OP_LT"

definition op_gt :: op_fn where
  "op_gt = op_void gt OP_GT"

definition op_slt :: op_fn where
  "op_slt = op_void slt OP_SLT"

definition op_sgt :: op_fn where
  "op_sgt = op_void sgt OP_SGT"

definition op_eq :: op_fn where
  "op_eq = op_void eq_instr OP_EQ"

definition op_iszero :: op_fn where
  "op_iszero = op_void iszero OP_ISZERO"

definition op_and :: op_fn where
  "op_and = op_void and_instr OP_AND"

definition op_or :: op_fn where
  "op_or = op_void or_instr OP_OR"

definition op_xor :: op_fn where
  "op_xor = op_void xor_instr OP_XOR"

definition op_not :: op_fn where
  "op_not = op_void not_instr OP_NOT"

definition op_byte :: op_fn where
  "op_byte = op_void byte_instr OP_BYTE"

definition op_shl :: op_fn where
  "op_shl = op_void shl OP_SHL"

definition op_shr :: op_fn where
  "op_shr = op_void shr OP_SHR"

definition op_sar :: op_fn where
  "op_sar = op_void sar OP_SAR"

definition op_address :: op_fn where
  "op_address = op_void address OP_ADDRESS"

definition op_origin :: op_fn where
  "op_origin = op_void origin OP_ORIGIN"

definition op_caller :: op_fn where
  "op_caller = op_void caller OP_CALLER"

definition op_callvalue :: op_fn where
  "op_callvalue = op_void callvalue OP_CALLVALUE"

definition op_calldataload :: op_fn where
  "op_calldataload = op_void calldataload OP_CALLDATALOAD"

definition op_calldatasize :: op_fn where
  "op_calldatasize = op_void calldatasize OP_CALLDATASIZE"

definition op_codesize :: op_fn where
  "op_codesize = op_void codesize OP_CODESIZE"

definition op_gasprice :: op_fn where
  "op_gasprice = op_void gasprice OP_GASPRICE"

definition op_returndatasize :: op_fn where
  "op_returndatasize = op_void returndatasize OP_RETURNDATASIZE"

definition op_blockhash :: op_fn where
  "op_blockhash = op_void blockhash OP_BLOCKHASH"

definition op_coinbase :: op_fn where
  "op_coinbase = op_void coinbase OP_COINBASE"

definition op_timestamp :: op_fn where
  "op_timestamp = op_void timestamp OP_TIMESTAMP"

definition op_number :: op_fn where
  "op_number = op_void number OP_NUMBER"

definition op_difficulty :: op_fn where
  "op_difficulty = op_void difficulty OP_DIFFICULTY"

definition op_gaslimit :: op_fn where
  "op_gaslimit = op_void gaslimit OP_GASLIMIT"

definition op_chainid :: op_fn where
  "op_chainid = op_void chainid OP_CHAINID"

definition op_selfbalance :: op_fn where
  "op_selfbalance = op_void selfbalance OP_SELFBALANCE"

definition op_basefee :: op_fn where
  "op_basefee = op_void basefee OP_BASEFEE"

definition op_pop :: op_fn where
  "op_pop = op_void pop OP_POP"

definition op_msize :: op_fn where
  "op_msize = op_void msize OP_MSIZE"

definition op_jumpdest :: op_fn where
  "op_jumpdest = op_void jumpdest OP_JUMPDEST"

definition op_push0 :: op_fn where
  "op_push0 = op_void push0 OP_PUSH0"

text \<open>\<open>op_dup1\<close> to \<open>op_dup16\<close> and \<open>op_swap1\<close> to \<open>op_swap16\<close>, by their number.\<close>

definition op_dup :: "nat \<Rightarrow> op_fn" where
  "op_dup n = op_void (dup n) (OP_DUP1 + n - 1)"

definition op_swap :: "nat \<Rightarrow> op_fn" where
  "op_swap n = op_void (swap n) (OP_SWAP1 + n - 1)"

text \<open>Instructions that return a status.\<close>

definition op_exp :: op_fn where
  "op_exp = op_status exp_instr OP_EXP"

definition op_keccak256 :: op_fn where
  "op_keccak256 = op_status keccak256 OP_KECCAK256"

definition op_balance :: op_fn where
  "op_balance = op_status balance OP_BALANCE"

definition op_calldatacopy :: op_fn where
  "op_calldatacopy = op_status calldatacopy OP_CALLDATACOPY"

definition op_codecopy :: op_fn where
  "op_codecopy = op_status codecopy OP_CODECOPY"

definition op_extcodesize :: op_fn where
  "op_extcodesize = op_status extcodesize OP_EXTCODESIZE"

definition op_extcodecopy :: op_fn where
  "op_extcodecopy = op_status extcodecopy OP_EXTCODECOPY"

definition op_returndatacopy :: op_fn where
  "op_returndatacopy = op_status returndatacopy OP_RETURNDATACOPY"

definition op_extcodehash :: op_fn where
  "op_extcodehash = op_status extcodehash OP_EXTCODEHASH"

definition op_mload :: op_fn where
  "op_mload = op_status mload OP_MLOAD"

definition op_mstore :: op_fn where
  "op_mstore = op_status mstore OP_MSTORE"

definition op_mstore8 :: op_fn where
  "op_mstore8 = op_status mstore8 OP_MSTORE8"

definition op_sload :: op_fn where
  "op_sload = op_status sload OP_SLOAD"

definition op_log0 :: op_fn where
  "op_log0 = op_status log0 OP_LOG0"

text \<open>\<open>op_log1\<close> to \<open>op_log4\<close>, by the number of topics.\<close>

definition op_log :: "nat \<Rightarrow> op_fn" where
  "op_log n = op_status (log_n n) (OP_LOG0 + n)"

text \<open>Instructions that look at the gas left.\<close>

definition op_sstore :: op_fn where
  "op_sstore = op_corrected sstore OP_SSTORE"

definition op_create :: op_fn where
  "op_create = op_corrected create OP_CREATE"

definition op_call :: op_fn where
  "op_call = op_corrected call_instr OP_CALL"

definition op_callcode :: op_fn where
  "op_callcode = op_corrected callcode OP_CALLCODE"

definition op_delegatecall :: op_fn where
  "op_delegatecall = op_corrected delegatecall OP_DELEGATECALL"

definition op_create2 :: op_fn where
  "op_create2 = op_corrected create2 OP_CREATE2"

definition op_staticcall :: op_fn where
  "op_staticcall = op_corrected staticcall OP_STATICCALL"

text \<open>Instructions that end the execution.\<close>

definition op_return :: op_fn where
  "op_return = op_ending return_instr"

definition op_revert :: op_fn where
  "op_revert = op_ending revert"

definition op_selfdestruct :: op_fn where
  "op_selfdestruct = op_ending selfdestruct_instr"

definition op_stop :: op_fn where
  "op_stop tr i a = Inr (AdvancedExecutionState_exit a stop)"

definition op_invalid :: op_fn where
  "op_invalid tr i a = Inr (AdvancedExecutionState_exit a invalid)"

definition op_undefined :: op_fn where
  "op_undefined tr i a = Inr (AdvancedExecutionState_exit a EVMC_UNDEFINED_INSTRUCTION)"

text \<open>
  Jumps: the destination is the low 32 bits of the item, as a signed number, so that the comparison
  with \<open>INT_MAX\<close> is always false.
\<close>

definition op_jump :: op_fn where
  "op_jump tr i a =
     bind_o (Stack_pop a) (\<lambda>(a, dst).
     let dst32 = sint (ucast (lower128 (lower256 dst)) :: u32)
     in if dst32 > 2 ^ 31 - 1 then Inr (AdvancedExecutionState_exit a EVMC_BAD_JUMP_DESTINATION)
        else case advanced a of None \<Rightarrow> Inl Null_pointer
        | Some analysis \<Rightarrow>
            bind_o (find_jumpdest analysis dst32) (\<lambda>target.
            if target < 0 then Inr (AdvancedExecutionState_exit a EVMC_BAD_JUMP_DESTINATION)
            else bind_o (cvec_at (instrs analysis) (nat target)) (\<lambda>_. Inr (a, Some (nat target)))))"

definition op_jumpi :: op_fn where
  "op_jumpi tr i a =
     bind_o (Stack_get a 1) (\<lambda>tmp.
     bind_o (if \<not> zero256 tmp then op_jump tr i a
             else bind_o (Stack_pop a) (\<lambda>(a, _). Inr (a, Some (i + 1)))) (\<lambda>(a, instr).
     bind_o (Stack_pop a) (\<lambda>(a, _). Inr (a, instr))))"

definition op_pc :: op_fn where
  "op_pc tr i a =
     bind_o (arg_number i a) (\<lambda>n.
     bind_o (Stack_push a (mk256 0 0 0 (of_int n))) (\<lambda>a. Inr (a, Some (i + 1))))"

definition op_gas :: op_fn where
  "op_gas tr i a =
     bind_o (arg_number i a) (\<lambda>n.
     let correction = ucast (current_block_cost a) - of_int n :: u64;
         g = of_int (gas_left (estate a)) + correction
     in bind_o (Stack_push a (mk256 0 0 0 g)) (\<lambda>a. Inr (a, Some (i + 1))))"

definition op_push_small :: op_fn where
  "op_push_small tr i a =
     bind_o (arg_small_push_value i a) (\<lambda>v.
     bind_o (Stack_push a (mk256 0 0 0 v)) (\<lambda>a. Inr (a, Some (i + 1))))"

definition op_push_full :: op_fn where
  "op_push_full tr i a =
     bind_o (arg_push_value i a) (\<lambda>v.
     bind_o (Stack_push a v) (\<lambda>a. Inr (a, Some (i + 1))))"

text \<open>The start of a block: its gas is taken, and the stack height is checked for all of it.\<close>

definition opx_beginblock :: op_fn where
  "opx_beginblock tr i a =
     bind_o (arg_block i a) (\<lambda>block.
     bind_o (charge (uint (bi_gas_cost block)) (estate a)) (\<lambda>(s, ok).
     let a = a\<lparr>estate := s\<rparr>
     in if \<not> ok then Inr (AdvancedExecutionState_exit a EVMC_OUT_OF_GAS)
        else if Stack_size (stack a) < bi_stack_req block
        then Inr (AdvancedExecutionState_exit a EVMC_STACK_UNDERFLOW)
        else if Stack_size (stack a) + bi_stack_max_growth block > 1024
        then Inr (AdvancedExecutionState_exit a EVMC_STACK_OVERFLOW)
        else Inr (a\<lparr>current_block_cost := bi_gas_cost block\<rparr>, Some (i + 1))))"

text \<open>The function that a pointer points to.\<close>

primrec arith_exec :: "arith_fn \<Rightarrow> op_fn" where
  "arith_exec Op_add = op_add"
| "arith_exec Op_mul = op_mul"
| "arith_exec Op_sub = op_sub"
| "arith_exec Op_div = op_div"
| "arith_exec Op_sdiv = op_sdiv"
| "arith_exec Op_mod = op_mod"
| "arith_exec Op_smod = op_smod"
| "arith_exec Op_addmod = op_addmod"
| "arith_exec Op_mulmod = op_mulmod"
| "arith_exec Op_exp = op_exp"
| "arith_exec Op_signextend = op_signextend"
| "arith_exec Op_lt = op_lt"
| "arith_exec Op_gt = op_gt"
| "arith_exec Op_slt = op_slt"
| "arith_exec Op_sgt = op_sgt"
| "arith_exec Op_eq = op_eq"
| "arith_exec Op_iszero = op_iszero"
| "arith_exec Op_and = op_and"
| "arith_exec Op_or = op_or"
| "arith_exec Op_xor = op_xor"
| "arith_exec Op_not = op_not"
| "arith_exec Op_byte = op_byte"
| "arith_exec Op_shl = op_shl"
| "arith_exec Op_shr = op_shr"
| "arith_exec Op_sar = op_sar"

primrec context_exec :: "context_fn \<Rightarrow> op_fn" where
  "context_exec Op_keccak256 = op_keccak256"
| "context_exec Op_address = op_address"
| "context_exec Op_balance = op_balance"
| "context_exec Op_origin = op_origin"
| "context_exec Op_caller = op_caller"
| "context_exec Op_callvalue = op_callvalue"
| "context_exec Op_calldataload = op_calldataload"
| "context_exec Op_calldatasize = op_calldatasize"
| "context_exec Op_calldatacopy = op_calldatacopy"
| "context_exec Op_codesize = op_codesize"
| "context_exec Op_codecopy = op_codecopy"
| "context_exec Op_gasprice = op_gasprice"
| "context_exec Op_extcodesize = op_extcodesize"
| "context_exec Op_extcodecopy = op_extcodecopy"
| "context_exec Op_returndatasize = op_returndatasize"
| "context_exec Op_returndatacopy = op_returndatacopy"
| "context_exec Op_extcodehash = op_extcodehash"
| "context_exec Op_blockhash = op_blockhash"
| "context_exec Op_coinbase = op_coinbase"
| "context_exec Op_timestamp = op_timestamp"
| "context_exec Op_number = op_number"
| "context_exec Op_difficulty = op_difficulty"
| "context_exec Op_gaslimit = op_gaslimit"
| "context_exec Op_chainid = op_chainid"
| "context_exec Op_selfbalance = op_selfbalance"
| "context_exec Op_basefee = op_basefee"

primrec exec_fn :: "instruction_exec_fn \<Rightarrow> op_fn" where
  "exec_fn (Arith f) = arith_exec f"
| "exec_fn (Context f) = context_exec f"
| "exec_fn Op_stop = op_stop"
| "exec_fn Op_pop = op_pop"
| "exec_fn Op_mload = op_mload"
| "exec_fn Op_mstore = op_mstore"
| "exec_fn Op_mstore8 = op_mstore8"
| "exec_fn Op_sload = op_sload"
| "exec_fn Op_sstore = op_sstore"
| "exec_fn Op_jump = op_jump"
| "exec_fn Op_jumpi = op_jumpi"
| "exec_fn Op_pc = op_pc"
| "exec_fn Op_msize = op_msize"
| "exec_fn Op_gas = op_gas"
| "exec_fn Op_jumpdest = op_jumpdest"
| "exec_fn Op_push0 = op_push0"
| "exec_fn Op_push_small = op_push_small"
| "exec_fn Op_push_full = op_push_full"
| "exec_fn Op_log0 = op_log0"
| "exec_fn Op_create = op_create"
| "exec_fn Op_call = op_call"
| "exec_fn Op_callcode = op_callcode"
| "exec_fn Op_return = op_return"
| "exec_fn Op_delegatecall = op_delegatecall"
| "exec_fn Op_create2 = op_create2"
| "exec_fn Op_staticcall = op_staticcall"
| "exec_fn Op_revert = op_revert"
| "exec_fn Op_invalid = op_invalid"
| "exec_fn Op_selfdestruct = op_selfdestruct"
| "exec_fn Op_undefined = op_undefined"
| "exec_fn Opx_beginblock = opx_beginblock"
| "exec_fn (Op_dup n) = op_dup n"
| "exec_fn (Op_swap n) = op_swap n"
| "exec_fn (Op_log n) = op_log n"

section \<open>The tables of the functions\<close>

abbreviation (input) OPX_BEGINBLOCK :: nat where "OPX_BEGINBLOCK \<equiv> OP_JUMPDEST"

text \<open>An entry that is not assigned keeps the pointer the memory held; no defined opcode has one.\<close>

definition fn_entries :: "(nat \<times> instruction_exec_fn) list" where
  "fn_entries =
    [(OP_STOP, Op_stop), (OP_ADD, Arith Op_add), (OP_MUL, Arith Op_mul), (OP_SUB, Arith Op_sub),
     (OP_DIV, Arith Op_div), (OP_SDIV, Arith Op_sdiv), (OP_MOD, Arith Op_mod), (OP_SMOD, Arith Op_smod),
     (OP_ADDMOD, Arith Op_addmod), (OP_MULMOD, Arith Op_mulmod), (OP_EXP, Arith Op_exp),
     (OP_SIGNEXTEND, Arith Op_signextend), (OP_LT, Arith Op_lt), (OP_GT, Arith Op_gt),
     (OP_SLT, Arith Op_slt), (OP_SGT, Arith Op_sgt), (OP_EQ, Arith Op_eq), (OP_ISZERO, Arith Op_iszero),
     (OP_AND, Arith Op_and), (OP_OR, Arith Op_or), (OP_XOR, Arith Op_xor), (OP_NOT, Arith Op_not),
     (OP_BYTE, Arith Op_byte), (OP_SHL, Arith Op_shl), (OP_SHR, Arith Op_shr), (OP_SAR, Arith Op_sar),
     (OP_KECCAK256, Context Op_keccak256), (OP_ADDRESS, Context Op_address),
     (OP_BALANCE, Context Op_balance), (OP_ORIGIN, Context Op_origin), (OP_CALLER, Context Op_caller),
     (OP_CALLVALUE, Context Op_callvalue), (OP_CALLDATALOAD, Context Op_calldataload),
     (OP_CALLDATASIZE, Context Op_calldatasize), (OP_CALLDATACOPY, Context Op_calldatacopy),
     (OP_CODESIZE, Context Op_codesize), (OP_CODECOPY, Context Op_codecopy),
     (OP_GASPRICE, Context Op_gasprice), (OP_EXTCODESIZE, Context Op_extcodesize),
     (OP_EXTCODECOPY, Context Op_extcodecopy), (OP_RETURNDATASIZE, Context Op_returndatasize),
     (OP_RETURNDATACOPY, Context Op_returndatacopy), (OP_EXTCODEHASH, Context Op_extcodehash),
     (OP_BLOCKHASH, Context Op_blockhash), (OP_COINBASE, Context Op_coinbase),
     (OP_TIMESTAMP, Context Op_timestamp), (OP_NUMBER, Context Op_number),
     (OP_DIFFICULTY, Context Op_difficulty), (OP_GASLIMIT, Context Op_gaslimit),
     (OP_CHAINID, Context Op_chainid), (OP_SELFBALANCE, Context Op_selfbalance),
     (OP_BASEFEE, Context Op_basefee), (OP_POP, Op_pop), (OP_MLOAD, Op_mload), (OP_MSTORE, Op_mstore),
     (OP_MSTORE8, Op_mstore8), (OP_SLOAD, Op_sload), (OP_SSTORE, Op_sstore), (OP_JUMP, Op_jump),
     (OP_JUMPI, Op_jumpi), (OP_PC, Op_pc), (OP_MSIZE, Op_msize), (OP_GAS, Op_gas),
     (OP_JUMPDEST, Op_jumpdest), (OP_PUSH0, Op_push0), (OP_PUSH1, Op_push_small), (OP_PUSH2, Op_push_small),
     (OP_PUSH3, Op_push_small), (OP_PUSH4, Op_push_small), (OP_PUSH5, Op_push_small),
     (OP_PUSH6, Op_push_small), (OP_PUSH7, Op_push_small), (OP_PUSH8, Op_push_small),
     (OP_PUSH9, Op_push_full), (OP_PUSH10, Op_push_full), (OP_PUSH11, Op_push_full),
     (OP_PUSH12, Op_push_full), (OP_PUSH13, Op_push_full), (OP_PUSH14, Op_push_full),
     (OP_PUSH15, Op_push_full), (OP_PUSH16, Op_push_full), (OP_PUSH17, Op_push_full),
     (OP_PUSH18, Op_push_full), (OP_PUSH19, Op_push_full), (OP_PUSH20, Op_push_full),
     (OP_PUSH21, Op_push_full), (OP_PUSH22, Op_push_full), (OP_PUSH23, Op_push_full),
     (OP_PUSH24, Op_push_full), (OP_PUSH25, Op_push_full), (OP_PUSH26, Op_push_full),
     (OP_PUSH27, Op_push_full), (OP_PUSH28, Op_push_full), (OP_PUSH29, Op_push_full),
     (OP_PUSH30, Op_push_full), (OP_PUSH31, Op_push_full), (OP_PUSH32, Op_push_full), (OP_DUP1, Op_dup 1),
     (OP_DUP2, Op_dup 2), (OP_DUP3, Op_dup 3), (OP_DUP4, Op_dup 4), (OP_DUP5, Op_dup 5),
     (OP_DUP6, Op_dup 6), (OP_DUP7, Op_dup 7), (OP_DUP8, Op_dup 8), (OP_DUP9, Op_dup 9),
     (OP_DUP10, Op_dup 10), (OP_DUP11, Op_dup 11), (OP_DUP12, Op_dup 12), (OP_DUP13, Op_dup 13),
     (OP_DUP14, Op_dup 14), (OP_DUP15, Op_dup 15), (OP_DUP16, Op_dup 16), (OP_SWAP1, Op_swap 1),
     (OP_SWAP2, Op_swap 2), (OP_SWAP3, Op_swap 3), (OP_SWAP4, Op_swap 4), (OP_SWAP5, Op_swap 5),
     (OP_SWAP6, Op_swap 6), (OP_SWAP7, Op_swap 7), (OP_SWAP8, Op_swap 8), (OP_SWAP9, Op_swap 9),
     (OP_SWAP10, Op_swap 10), (OP_SWAP11, Op_swap 11), (OP_SWAP12, Op_swap 12), (OP_SWAP13, Op_swap 13),
     (OP_SWAP14, Op_swap 14), (OP_SWAP15, Op_swap 15), (OP_SWAP16, Op_swap 16), (OP_LOG0, Op_log0),
     (OP_LOG1, Op_log 1), (OP_LOG2, Op_log 2), (OP_LOG3, Op_log 3), (OP_LOG4, Op_log 4),
     (OP_CREATE, Op_create), (OP_CALL, Op_call), (OP_CALLCODE, Op_callcode), (OP_RETURN, Op_return),
     (OP_DELEGATECALL, Op_delegatecall), (OP_CREATE2, Op_create2), (OP_STATICCALL, Op_staticcall),
     (OP_REVERT, Op_revert), (OP_INVALID, Op_invalid), (OP_SELFDESTRUCT, Op_selfdestruct),
     (OPX_BEGINBLOCK, Opx_beginblock)]"

definition InstructionFnTable_init :: "instruction_exec_fn option list \<Rightarrow> instruction_exec_fn option list" where
  "InstructionFnTable_init table = assign (map (\<lambda>(op, f). (op, Some f)) fn_entries) table"

record OpTableEntry =
  oe_fn :: "instruction_exec_fn option"
  oe_gas_cost :: int
  oe_stack_req :: int
  oe_stack_change :: int

text \<open>The table is a local variable: an undefined opcode keeps the stack heights the memory held.\<close>

definition op_entry ::
  "instruction_exec_fn option \<Rightarrow> int \<Rightarrow> Traits \<Rightarrow> OpTableEntry \<Rightarrow> OpTableEntry" where
  "op_entry f gas_cost t e =
     (if gas_cost = - 1 then e\<lparr>oe_fn := Some Op_undefined, oe_gas_cost := 0\<rparr>
      else \<lparr>oe_fn = f, oe_gas_cost = gas_cost, oe_stack_req = stack_height_required t,
             oe_stack_change = stack_height_change t\<rparr>)"

definition get_op_table ::
  "int list list \<Rightarrow> Traits list \<Rightarrow> evmc_revision \<Rightarrow> instruction_exec_fn option list \<Rightarrow> OpTableEntry list \<Rightarrow> OpTableEntry list outcome" where
  "get_op_table gas_costs tr r fns opt =
     (let instr_fns = InstructionFnTable_init fns
      in bind_o (read_at gas_costs (rev_number r)) (\<lambda>row.
         Inr (map (\<lambda>i. op_entry (instr_fns ! i) (row ! i) (tr ! i) (opt ! i)) [0..<256])))"

end
