(* ===== verification/Op_Table.thy ===== *)
theory Op_Table
  imports Analysis
begin

text \<open>
  Laws of the tables of src/tscvee/ta/include/analysis.h: every opcode with a cost has a function, and
  the function of an opcode moves the stack by the height that the traits of the opcode say.
\<close>

section \<open>Laws of the tables\<close>

lemma assign_nth:
  "op < length row \<Longrightarrow> assign ps row ! op = (case map_of (List.rev ps) op of None \<Rightarrow> row ! op | Some v \<Rightarrow> v)"
proof (induction ps row rule: assign.induct)
  case (2 op' v ps row)
  then show ?case by (auto simp: map_add_def split: option.splits)
qed simp

text \<open>The traits as the TA sets them up, and the function of an opcode.\<close>

definition traits_table :: "Traits list" where
  "traits_table = TraitsTable_init (replicate 256 zero_traits)"

definition fn_of :: "nat \<Rightarrow> instruction_exec_fn option" where
  "fn_of op = map_of (List.rev fn_entries) op"

lemma InstructionFnTable_nth:
  assumes "op < length fns" and "fn_of op = Some f"
  shows "InstructionFnTable_init fns ! op = Some f"
proof -
  have "map_of (List.rev (map (\<lambda>(op, f). (op, Some f)) fn_entries)) op = map_option Some (fn_of op)"
    by (simp add: fn_of_def rev_map map_of_map)
  then show ?thesis using assms by (simp add: InstructionFnTable_init_def assign_nth)
qed

lemma fn_ops:
  "map fst fn_entries =
     [0..<12] @ [16..<30] @ [32] @ [48..<73] @ [80..<92] @ [95..<165] @ [240..<246] @ [250, 253, 254, 255, 91]"
  by (simp add: fn_entries_def upt_rec)

definition has_fn :: "nat \<Rightarrow> bool" where
  "has_fn op \<longleftrightarrow> op < 12 \<or> 16 \<le> op \<and> op < 30 \<or> op = 32 \<or> 48 \<le> op \<and> op < 73 \<or> 80 \<le> op \<and> op < 92 \<or>
     95 \<le> op \<and> op < 165 \<or> 240 \<le> op \<and> op < 246 \<or> op \<in> {250, 253, 254, 255}"

lemma has_fn_iff: "has_fn op \<longleftrightarrow> fn_of op \<noteq> None"
proof -
  have "fn_of op \<noteq> None \<longleftrightarrow> op \<in> set (map fst fn_entries)"
    by (simp add: fn_of_def map_of_eq_None_iff)
  also have "\<dots> \<longleftrightarrow> has_fn op \<or> op = 91"
    by (simp only: fn_ops has_fn_def set_append set_upt atLeastLessThan_iff Un_iff list.set insert_iff empty_iff
        simp_thms le0 disj_assoc)
  also have "op = 91 \<Longrightarrow> has_fn op" by (simp add: has_fn_def)
  ultimately show ?thesis by blast
qed

lemmas cost_lists = frontier_costs_def homestead_costs_def tangerine_whistle_costs_def byzantium_costs_def
  constantinople_costs_def istanbul_costs_def berlin_costs_def london_costs_def shanghai_costs_def

lemma costs_have_functions:
  "list_all (\<lambda>p. has_fn (fst p)) (frontier_costs @ homestead_costs @ tangerine_whistle_costs @ byzantium_costs @
     constantinople_costs @ istanbul_costs @ berlin_costs @ london_costs @ shanghai_costs)"
  by code_simp

definition covered :: "int list \<Rightarrow> bool" where
  "covered row \<longleftrightarrow> (\<forall>op < length row. row ! op \<noteq> undefined_cost \<longrightarrow> has_fn op)"

lemma covered_assign: "list_all (\<lambda>p. has_fn (fst p)) ps \<Longrightarrow> covered row \<Longrightarrow> covered (assign ps row)"
  using assign_other [of _ ps row] by (fastforce simp: covered_def list_all_iff)

lemma covered_start: "covered (replicate 256 undefined_cost)"
  by (simp add: covered_def)

lemma covered_gas_row: "covered (gas_row r)"
  using costs_have_functions unfolding list_all_append
  by (induction r rule: gas_row.induct) (simp_all only: gas_row.simps covered_assign covered_start)

lemma defined_has_fn: "op < 256 \<Longrightarrow> gas_row r ! op \<noteq> undefined_cost \<Longrightarrow> \<exists>f. fn_of op = Some f"
  using covered_gas_row [of r] has_fn_iff [of op] by (auto simp: covered_def)

text \<open>The table of a revision.\<close>

definition op_table :: "evmc_revision \<Rightarrow> instruction_exec_fn option list \<Rightarrow> OpTableEntry list \<Rightarrow> OpTableEntry list" where
  "op_table r fns opt =
     map (\<lambda>i. op_entry (InstructionFnTable_init fns ! i) (gas_row r ! i) (traits_table ! i) (opt ! i)) [0..<256]"

lemma get_op_table: "get_op_table gas_rows traits_table r fns opt = Inr (op_table r fns opt)"
proof -
  have "rev_number r < length gas_rows" by (cases r) (simp_all add: gas_rows_def)
  then show ?thesis by (simp add: get_op_table_def op_table_def nth_gas_rows Let_def)
qed

lemma op_table_undefined:
  "op < 256 \<Longrightarrow> gas_row r ! op = undefined_cost \<Longrightarrow>
     op_table r fns opt ! op = (opt ! op)\<lparr>oe_fn := Some Op_undefined, oe_gas_cost := 0\<rparr>"
  by (simp add: op_table_def op_entry_def undefined_cost_def)

lemma op_table_defined:
  assumes "length fns = 256" and "op < 256" and "gas_row r ! op \<noteq> undefined_cost"
  shows "\<exists>f. fn_of op = Some f \<and>
    op_table r fns opt ! op = \<lparr>oe_fn = Some f, oe_gas_cost = gas_row r ! op,
      oe_stack_req = stack_height_required (traits_table ! op), oe_stack_change = stack_height_change (traits_table ! op)\<rparr>"
proof -
  obtain f where "fn_of op = Some f" "InstructionFnTable_init fns ! op = Some f"
    using defined_has_fn [OF assms(2,3)] InstructionFnTable_nth [of op fns] assms(1,2) by auto
  then show ?thesis using assms(2,3) by (simp add: op_table_def op_entry_def undefined_cost_def)
qed

text \<open>
  Claim C40. The table of a revision. An opcode that the revision does not define gets the function
  that ends with \<open>EVMC_UNDEFINED_INSTRUCTION\<close>, no gas cost, and keeps the stack heights that the memory
  of the local table held. Every other opcode has a function, whatever the memory of the table of
  functions held, and the gas cost of the revision and the stack heights of the traits.
\<close>

theorem op_table_entries:
  assumes "length fns = 256"
  shows "\<exists>t. get_op_table gas_rows traits_table r fns opt = Inr t \<and> length t = 256 \<and>
    (\<forall>op < 256. if gas_row r ! op = undefined_cost
       then t ! op = (opt ! op)\<lparr>oe_fn := Some Op_undefined, oe_gas_cost := 0\<rparr>
       else \<exists>f. fn_of op = Some f \<and>
         t ! op = \<lparr>oe_fn = Some f, oe_gas_cost = gas_row r ! op,
                   oe_stack_req = stack_height_required (traits_table ! op),
                   oe_stack_change = stack_height_change (traits_table ! op)\<rparr>)"
proof (intro exI conjI)
  show "length (op_table r fns opt) = 256" by (simp add: op_table_def)
qed (auto simp: get_op_table op_table_undefined op_table_defined assms)

text \<open>Opcode 12, undefined in London, keeps the stack heights 5 and 3 that its entry happened to have.\<close>

theorem op_table_entries_witness:
  "\<exists>t. get_op_table gas_rows traits_table EVMC_LONDON (replicate 256 None)
        (replicate 256 \<lparr>oe_fn = None, oe_gas_cost = 7, oe_stack_req = 5, oe_stack_change = 3\<rparr>) = Inr t \<and>
     t ! 12 = \<lparr>oe_fn = Some Op_undefined, oe_gas_cost = 0, oe_stack_req = 5, oe_stack_change = 3\<rparr>"
proof -
  let ?opt = "replicate 256 \<lparr>oe_fn = None, oe_gas_cost = 7, oe_stack_req = 5, oe_stack_change = 3\<rparr>"
  have "length (replicate 256 None :: instruction_exec_fn option list) = 256" by simp
  note table = op_table_entries [OF this, of EVMC_LONDON ?opt]
  have "gas_row EVMC_LONDON ! 12 = undefined_cost" by code_simp
  then show ?thesis
    using table by - (elim exE conjE, intro exI conjI, assumption, drule spec [of _ 12], simp)
qed

section \<open>Stack heights\<close>

text \<open>A function that moves the stack by the height the traits have for an opcode, when it goes on.\<close>

definition moves_by :: "op_fn \<Rightarrow> nat \<Rightarrow> bool" where
  "moves_by f op \<longleftrightarrow> (\<forall>i a a' j. f traits_table i a = Inr (a', Some j) \<longrightarrow>
     top_item (stack a') = top_item (stack a) + stack_height_change (traits_table ! op) \<and>
     m_bottom (stack a') = m_bottom (stack a))"

lemma length_traits: "length traits_table = 256"
  by (simp add: traits_table_def TraitsTable_init_def)

lemma exit_simp [simp]: "AdvancedExecutionState_exit a s = (a, None)"
  by (simp add: AdvancedExecutionState_exit_def)

lemma shift_top_Inr [cres]:
  "shift_top tr op a = Inr a' \<longleftrightarrow> op < length tr \<and>
     a' = a\<lparr>stack := (stack a)\<lparr>top_item := top_item (stack a) + stack_height_change (tr ! op)\<rparr>\<rparr>"
  by (auto simp: shift_top_def cres)

lemma moves_shapes:
  "op < 256 \<Longrightarrow> moves_by (op_void f op) op" "op < 256 \<Longrightarrow> moves_by (op_status g op) op"
  "op < 256 \<Longrightarrow> moves_by (op_corrected g op) op" "moves_by (op_ending g) op"
  by (auto simp: moves_by_def op_void_def op_status_def op_corrected_def op_ending_def Let_def cres length_traits
      split: if_splits prod.splits)

lemma Stack_push_moves [cres]:
  "Stack_push a v = Inr a' \<Longrightarrow> top_item (stack a') = top_item (stack a) + 1 \<and> m_bottom (stack a') = m_bottom (stack a)"
  by (auto simp: Stack_push_def Let_def cres)

lemma Stack_pop_Inr: 
  "Stack_pop a = Inr (a', v) \<longleftrightarrow> load (estate a) (top_item (stack a)) = Inr v \<and>
     a' = a\<lparr>stack := (stack a)\<lparr>top_item := top_item (stack a) - 1\<rparr>\<rparr>"
  by (auto simp: Stack_pop_def cres)

lemma op_jump_moves:
  "op_jump tr i a = Inr (a', j) \<Longrightarrow> a' = a\<lparr>stack := (stack a)\<lparr>top_item := top_item (stack a) - 1\<rparr>\<rparr>"
  by (auto simp: op_jump_def Let_def cres Stack_pop_Inr split: if_splits option.splits)

lemma special_changes:
  "map (\<lambda>op. stack_height_change (traits_table ! op)) [OP_JUMP, OP_JUMPI, OP_PC, OP_GAS, OP_JUMPDEST] = [-1, -2, 1, 1, 0]"
  "list_all (\<lambda>op. stack_height_change (traits_table ! op) = 1) [OP_PUSH1..<OP_PUSH32 + 1]"
  by code_simp+

lemmas op_shapes = op_add_def op_mul_def op_sub_def op_div_def op_sdiv_def op_mod_def op_smod_def
  op_addmod_def op_mulmod_def op_signextend_def op_lt_def op_gt_def op_slt_def op_sgt_def op_eq_def
  op_iszero_def op_and_def op_or_def op_xor_def op_not_def op_byte_def op_shl_def op_shr_def op_sar_def
  op_address_def op_origin_def op_caller_def op_callvalue_def op_calldataload_def op_calldatasize_def
  op_codesize_def op_gasprice_def op_returndatasize_def op_blockhash_def op_coinbase_def op_timestamp_def
  op_number_def op_difficulty_def op_gaslimit_def op_chainid_def op_selfbalance_def op_basefee_def
  op_pop_def op_msize_def op_jumpdest_def op_push0_def op_dup_def op_swap_def op_exp_def op_keccak256_def
  op_balance_def op_calldatacopy_def op_codecopy_def op_extcodesize_def op_extcodecopy_def
  op_returndatacopy_def op_extcodehash_def op_mload_def op_mstore_def op_mstore8_def op_sload_def
  op_log0_def op_log_def op_sstore_def op_create_def op_call_def op_callcode_def op_delegatecall_def
  op_create2_def op_staticcall_def op_return_def op_revert_def op_selfdestruct_def

lemma special_moves:
  "moves_by op_stop op" "moves_by op_invalid op" "moves_by op_jump OP_JUMP" "moves_by op_jumpi OP_JUMPI"
  "moves_by op_pc OP_PC" "moves_by op_gas OP_GAS" "moves_by opx_beginblock OP_JUMPDEST"
  using special_changes(1)
  by (auto simp: moves_by_def op_stop_def op_invalid_def op_jumpi_def op_pc_def op_gas_def opx_beginblock_def Let_def
      cres Stack_pop_Inr split: if_splits dest!: Stack_push_moves op_jump_moves)

lemma push_moves:
  assumes "OP_PUSH1 \<le> op" and "op \<le> OP_PUSH32"
  shows "moves_by op_push_small op" and "moves_by op_push_full op"
proof -
  have "op \<in> set [OP_PUSH1..<OP_PUSH32 + 1]" using assms by (simp only: set_upt) simp
  then have "stack_height_change (traits_table ! op) = 1"
    using special_changes(2) unfolding list_all_iff by blast
  then show "moves_by op_push_small op" "moves_by op_push_full op"
    by (auto simp: moves_by_def op_push_small_def op_push_full_def cres dest!: Stack_push_moves)
qed

lemma entries_move: "list_all (\<lambda>(op, f). moves_by (exec_fn f) op) fn_entries"
  by (simp add: fn_entries_def moves_shapes special_moves push_moves op_shapes)

text \<open>
  Claim C7. The function of every opcode moves the stack by the height that the traits of the opcode
  give, whenever the execution goes on after it, jumps and intrinsic instructions included; so the
  heights that the analysis adds up are those of the execution.
\<close>

theorem stack_height_changes:
  assumes "fn_of op = Some f" and "exec_fn f traits_table i a = Inr (a', Some j)"
  shows "top_item (stack a') = top_item (stack a) + stack_height_change (traits_table ! op) \<and>
    m_bottom (stack a') = m_bottom (stack a)"
proof -
  have "(op, f) \<in> set fn_entries" using assms(1) map_of_SomeD [of "List.rev fn_entries" op f] by (simp add: fn_of_def)
  then have "moves_by (exec_fn f) op" using entries_move by (auto simp: list_all_iff)
  then show ?thesis using assms(2) by (auto simp: moves_by_def)
qed

theorem stack_height_changes_witness:
  "\<forall>a. \<exists>a'. exec_fn Op_pop traits_table 0 a = Inr (a', Some 1) \<and>
     top_item (stack a') = top_item (stack a) + stack_height_change (traits_table ! OP_POP)"
proof
  fix a
  have f: "fn_of OP_POP = Some Op_pop" by (simp add: fn_of_def fn_entries_def)
  obtain a' where e: "exec_fn Op_pop traits_table 0 a = Inr (a', Some 1)"
    by (auto simp: op_pop_def op_void_def pop_def shift_top_def length_traits)
  show "\<exists>a'. exec_fn Op_pop traits_table 0 a = Inr (a', Some 1) \<and>
     top_item (stack a') = top_item (stack a) + stack_height_change (traits_table ! OP_POP)"
    using e stack_height_changes [OF f e] by blast
qed

end
