(* ===== verification/Analyze.thy ===== *)
theory Analyze
  imports Op_Table
begin

text \<open>
  The analysis of the code, src/tscvee/ta/include/analysis_impl.h: one pass over the bytes that makes
  the instruction table with the costs and the stack limits of every basic block, the operands of the
  pushes, and the table of the jump destinations. The laws state what the table is: the code split into
  blocks, each with the sums over its instructions, and the destinations found exactly at the opcodes
  \<open>JUMPDEST\<close> that are not operand bytes.
\<close>

section \<open>The analysis of a block\<close>

record BlockAnalysis =
  ba_gas_cost :: int
  ba_stack_req :: int
  ba_stack_max_growth :: int
  ba_stack_change :: int
  begin_block_index :: nat

definition BlockAnalysis_init_v :: "nat \<Rightarrow> BlockAnalysis" where
  "BlockAnalysis_init_v index = \<lparr>ba_gas_cost = 0, ba_stack_req = 0, ba_stack_max_growth = 0, ba_stack_change = 0,
     begin_block_index = index\<rparr>"

definition BlockAnalysis_init :: BlockAnalysis where
  "BlockAnalysis_init = \<lparr>ba_gas_cost = 0, ba_stack_req = 0, ba_stack_max_growth = 0, ba_stack_change = 0,
     begin_block_index = 0\<rparr>"

text \<open>The values are converted before they are compared with the limits, so every comparison is true.\<close>

definition BlockAnalysis_close :: "BlockAnalysis \<Rightarrow> BlockInfo" where
  "BlockAnalysis_close ba =
     (let gc = of_int (ba_gas_cost ba) :: u32;
          gc = (if uint gc \<le> 2 ^ 32 - 1 then gc else - 1);
          req = signed_take_bit 15 (ba_stack_req ba);
          req = (if req \<le> 2 ^ 15 - 1 then req else 2 ^ 15 - 1);
          smg = signed_take_bit 15 (ba_stack_max_growth ba);
          smg = (if smg \<le> 2 ^ 15 - 1 then smg else 2 ^ 15 - 1)
      in BlockInfo_init_v gc req smg)"

definition int32 :: "int \<Rightarrow> int outcome" where
  "int32 i = (if - (2 ^ 31) \<le> i \<and> i < 2 ^ 31 then Inr i else Inl Signed_overflow)"

definition add_opcode :: "OpTableEntry \<Rightarrow> BlockAnalysis \<Rightarrow> BlockAnalysis outcome" where
  "add_opcode opcode_info block =
     bind_o (int32 (oe_stack_req opcode_info - ba_stack_change block)) (\<lambda>req.
     let block = block\<lparr>ba_stack_req := max (ba_stack_req block) req\<rparr>
     in bind_o (int32 (ba_stack_change block + oe_stack_change opcode_info)) (\<lambda>change.
        let block = block\<lparr>ba_stack_change := change\<rparr>;
            block = block\<lparr>ba_stack_max_growth := max (ba_stack_max_growth block) (ba_stack_change block)\<rparr>
        in bind_o (int64 (ba_gas_cost block + oe_gas_cost opcode_info)) (\<lambda>g.
           Inr (block\<lparr>ba_gas_cost := g\<rparr>))))"

section \<open>The pass over the code\<close>

text \<open>The entry of an opcode; that of 247 is cleared.\<close>

definition opcode_entry :: "OpTableEntry list \<Rightarrow> nat \<Rightarrow> OpTableEntry" where
  "opcode_entry op_tbl opcode =
     (let opcode_info = op_tbl ! opcode
      in if opcode = 247 then opcode_info\<lparr>oe_stack_req := 0, oe_stack_change := 0, oe_gas_cost := 0\<rparr>
         else opcode_info)"

definition is_terminator :: "nat \<Rightarrow> bool" where
  "is_terminator opcode \<longleftrightarrow> opcode \<in> {OP_JUMP, OP_JUMPI, OP_STOP, OP_RETURN, OP_REVERT, OP_SELFDESTRUCT}"

text \<open>The loop over the bytes of a small push; the bit position wraps around after the last byte.\<close>

fun small_push_loop :: "u8 list \<Rightarrow> nat \<Rightarrow> u64 \<Rightarrow> u64" where
  "small_push_loop [] insert_bit_pos v = v"
| "small_push_loop (b # bs) insert_bit_pos v =
     small_push_loop bs ((insert_bit_pos + 2 ^ 64 - 8) mod 2 ^ 64) (v OR push_bit insert_bit_pos (ucast b))"

text \<open>Writing the argument of the instruction at an index.\<close>

definition put_arg :: "nat \<Rightarrow> InstructionArgument \<Rightarrow> CodeAnalysis \<Rightarrow> CodeAnalysis" where
  "put_arg i x an = an\<lparr>instrs := (instrs an)[i := (instrs an ! i)\<lparr>arg := x\<rparr>]\<rparr>"

definition push_instr :: "instruction_exec_fn option \<Rightarrow> CodeAnalysis \<Rightarrow> CodeAnalysis" where
  "push_instr f an = an\<lparr>instrs := instrs an @ [Instrcution_init_v f]\<rparr>"

text \<open>The argument of the current instruction, the last one; the result has the position after it.\<close>

definition set_argument ::
  "nat \<Rightarrow> u8 list \<Rightarrow> nat \<Rightarrow> BlockAnalysis \<Rightarrow> nat \<Rightarrow> CodeAnalysis \<Rightarrow> (CodeAnalysis \<times> nat) outcome" where
  "set_argument opcode code_bytes code_size block code_pos an =
     (let curr_ins = length (instrs an) - 1; push_size = opcode - OP_PUSH1 + 1
      in if OP_PUSH1 \<le> opcode \<and> opcode \<le> OP_PUSH8 then
           let push_end = min (code_pos + push_size) code_size
           in bind_o (read_range code_bytes code_pos (push_end - code_pos)) (\<lambda>bs.
              Inr (put_arg curr_ins (Small_push_value (small_push_loop bs ((push_size - 1) * 8) 0)) an,
                   code_pos + length bs))
         else if OP_PUSH9 \<le> opcode \<and> opcode \<le> OP_PUSH32 then
           let push_end = code_pos + push_size; index = 32 - push_size
           in bind_o (read_range code_bytes code_pos (min push_end code_size - code_pos)) (\<lambda>bs.
              bind_o (readu256BE (overwrite index bs (replicate 32 0)) 0) (\<lambda>push_value.
              Inr (put_arg curr_ins (Push_value push_value) (an\<lparr>push_values := push_values an @ [push_value]\<rparr>),
                   code_pos + length bs)))
         else if opcode \<in> {OP_GAS, OP_CALL, OP_CALLCODE, OP_DELEGATECALL, OP_STATICCALL, OP_CREATE, OP_CREATE2,
                OP_SSTORE} then
           Inr (put_arg curr_ins (Number (ba_gas_cost block)) an, code_pos)
         else if opcode = OP_PC then Inr (put_arg curr_ins (Number (int code_pos - 1)) an, code_pos)
         else Inr (an, code_pos))"

text \<open>Saving the current block in its first instruction.\<close>

definition save_block :: "BlockAnalysis \<Rightarrow> CodeAnalysis \<Rightarrow> CodeAnalysis outcome" where
  "save_block block an =
     bind_o (cvec_at (instrs an) (begin_block_index block)) (\<lambda>_.
     Inr (put_arg (begin_block_index block) (Block (BlockAnalysis_close block)) an))"

type_synonym pass_state = "CodeAnalysis \<times> BlockAnalysis \<times> nat"

definition note_jumpdest :: "nat \<Rightarrow> CodeAnalysis \<Rightarrow> CodeAnalysis" where
  "note_jumpdest code_pos an = an\<lparr>
     jumpdest_offsets := jumpdest_offsets an @ [signed_take_bit 31 (int code_pos - 1)],
     jumpdest_targets := jumpdest_targets an @ [signed_take_bit 31 (int (length (instrs an)) - 1)]\<rparr>"

definition analyze_step :: "OpTableEntry list \<Rightarrow> u8 list \<Rightarrow> nat \<Rightarrow> pass_state \<Rightarrow> pass_state outcome" where
  "analyze_step op_tbl code_bytes code_size st =
     (case st of (an, block, code_pos) \<Rightarrow>
      bind_o (read_at code_bytes code_pos) (\<lambda>byte.
      let opcode = unat byte; code_pos = code_pos + 1; opcode_info = opcode_entry op_tbl opcode
      in bind_o (add_opcode opcode_info block) (\<lambda>block.
         let an = (if opcode = OP_JUMPDEST then note_jumpdest code_pos an else push_instr (oe_fn opcode_info) an)
         in bind_o (set_argument opcode code_bytes code_size block code_pos an) (\<lambda>(an, code_pos).
            bind_o (if is_terminator opcode then Inr True
                    else if code_pos \<noteq> code_size
                    then bind_o (read_at code_bytes code_pos) (\<lambda>b. Inr (unat b = OP_JUMPDEST))
                    else Inr False) (\<lambda>ends.
            if ends then
              bind_o (save_block block an) (\<lambda>an.
              let an = push_instr (oe_fn (op_tbl ! OPX_BEGINBLOCK)) an
              in Inr (an, BlockAnalysis_init_v (length (instrs an) - 1), code_pos))
            else Inr (an, block, code_pos))))))"

lemma set_argument_pos:
  "set_argument opcode cb n block pos an = Inr (an', pos') \<Longrightarrow> pos \<le> n \<Longrightarrow> pos \<le> pos' \<and> pos' \<le> n"
  by (auto simp: set_argument_def Let_def cres read_range_def split: if_splits)

lemma analyze_step_pos:
  assumes "analyze_step t cb n (an, block, pos) = Inr (an', block', pos')" and "pos < n"
  shows "pos < pos' \<and> pos' \<le> n"
  using assms set_argument_pos
  by (fastforce simp: analyze_step_def Let_def cres split: if_splits)

text \<open>
  The loop. The position never passes the end of the code (\<open>analyze_step_pos\<close>), so that the test is
  that of the code, \<open>code_pos != code_end\<close>.
\<close>

function analyze_loop :: "OpTableEntry list \<Rightarrow> u8 list \<Rightarrow> nat \<Rightarrow> pass_state \<Rightarrow> pass_state outcome" where
  "analyze_loop op_tbl code_bytes code_size (an, block, code_pos) =
     (if code_pos < code_size then
        bind_o (analyze_step op_tbl code_bytes code_size (an, block, code_pos))
          (analyze_loop op_tbl code_bytes code_size)
      else Inr (an, block, code_pos))"
  by pat_completeness auto
termination
  by (relation "measure (\<lambda>(t, cb, n, an, block, pos). n - pos)") (auto dest!: analyze_step_pos)

declare analyze_loop.simps [simp del]

text \<open>The analysis of the code with the table of its revision.\<close>

definition analyze_with :: "OpTableEntry list \<Rightarrow> u8 list \<Rightarrow> nat \<Rightarrow> CodeAnalysis outcome" where
  "analyze_with op_tbl code_bytes code_size =
     (let analysis = push_instr (oe_fn (op_tbl ! OPX_BEGINBLOCK)) CodeAnalysis_init;
          max_args_storage_size = signed_take_bit 31 (int code_size + 1)
      in bind_o (analyze_loop op_tbl code_bytes code_size (analysis, BlockAnalysis_init, 0)) (\<lambda>(an, block, code_pos).
         bind_o (save_block block an) (\<lambda>an.
         let an = push_instr (oe_fn (op_tbl ! OP_STOP)) an
         in bind_o (guard_o Assertion_failed (int (length (push_values an)) \<le> max_args_storage_size mod 2 ^ 64))
              (\<lambda>_. Inr an))))"

definition analyze ::
  "int list list \<Rightarrow> Traits list \<Rightarrow> instruction_exec_fn option list \<Rightarrow> OpTableEntry list
     \<Rightarrow> evmc_revision \<Rightarrow> u8 list \<Rightarrow> nat \<Rightarrow> CodeAnalysis outcome" where
  "analyze gas_costs tr fns opt r code_bytes code_size =
     bind_o (get_op_table gas_costs tr r fns opt) (\<lambda>op_tbl. analyze_with op_tbl code_bytes code_size)"

end
