(* ===== verification/Code_Layout.thy ===== *)
theory Code_Layout
  imports Analyze
begin

text \<open>
  What the analysis of src/tscvee/ta/include/analysis_impl.h computes, without its loop: the opcodes of
  the code are those reached by skipping the operands of pushes; they are split into blocks after a
  jump or an end and before a jump destination; the table has, block by block, the instruction that
  checks the block and then one instruction for every opcode.
\<close>

section \<open>The opcodes of a code and its blocks\<close>

definition operand_size :: "nat \<Rightarrow> nat" where
  "operand_size op = (if OP_PUSH1 \<le> op \<and> op \<le> OP_PUSH32 then op - OP_PUSH1 + 1 else 0)"

text \<open>The opcodes from a position on, each with its own position.\<close>

function code_ops :: "u8 list \<Rightarrow> nat \<Rightarrow> (nat \<times> nat) list" where
  "code_ops cb p = (if p < length cb then (p, unat (cb ! p)) # code_ops cb (p + 1 + operand_size (unat (cb ! p))) else [])"
  by pat_completeness auto
termination
  by (relation "measure (\<lambda>(cb, p). length cb - p)") auto

declare code_ops.simps [simp del]

definition ends_block :: "nat \<times> nat \<Rightarrow> (nat \<times> nat) list \<Rightarrow> bool" where
  "ends_block x xs \<longleftrightarrow> is_terminator (snd x) \<or> xs \<noteq> [] \<and> snd (hd xs) = OP_JUMPDEST"

fun blocks :: "(nat \<times> nat) list \<Rightarrow> (nat \<times> nat) list list" where
  "blocks [] = [[]]"
| "blocks (x # xs) = (if ends_block x xs then [x] # blocks xs else (x # hd (blocks xs)) # tl (blocks xs))"

text \<open>The operand of a push: the bytes after it, with zeros for those beyond the end of the code.\<close>

definition operand :: "u8 list \<Rightarrow> nat \<Rightarrow> nat \<Rightarrow> nat" where
  "operand cb p op =
     (let bs = take (operand_size op) (drop (p + 1) cb)
      in be_val (bs @ replicate (operand_size op - length bs) 0))"

definition number256 :: "nat \<Rightarrow> uint256_t" where
  "number256 n = mk256 (of_nat (n div 2 ^ 192)) (of_nat (n div 2 ^ 128)) (of_nat (n div 2 ^ 64)) (of_nat n)"

section \<open>The instructions of a block\<close>

text \<open>The sums of a block with one more opcode, without overflow.\<close>

definition add_total :: "OpTableEntry \<Rightarrow> BlockAnalysis \<Rightarrow> BlockAnalysis" where
  "add_total e b = b\<lparr>
     ba_stack_req := max (ba_stack_req b) (oe_stack_req e - ba_stack_change b),
     ba_stack_change := ba_stack_change b + oe_stack_change e,
     ba_stack_max_growth := max (ba_stack_max_growth b) (ba_stack_change b + oe_stack_change e),
     ba_gas_cost := ba_gas_cost b + oe_gas_cost e\<rparr>"

definition totals :: "OpTableEntry list \<Rightarrow> (nat \<times> nat) list \<Rightarrow> BlockAnalysis \<Rightarrow> BlockAnalysis" where
  "totals t g b = fold (\<lambda>x. add_total (opcode_entry t (snd x))) g b"

text \<open>The argument of an instruction; \<open>b\<close> has the sums up to it.\<close>

definition op_arg :: "u8 list \<Rightarrow> BlockAnalysis \<Rightarrow> nat \<Rightarrow> nat \<Rightarrow> InstructionArgument" where
  "op_arg cb b p op =
     (if OP_PUSH1 \<le> op \<and> op \<le> OP_PUSH8 then Small_push_value (of_nat (operand cb p op))
      else if OP_PUSH9 \<le> op \<and> op \<le> OP_PUSH32 then Push_value (number256 (operand cb p op))
      else if op \<in> {OP_GAS, OP_CALL, OP_CALLCODE, OP_DELEGATECALL, OP_STATICCALL, OP_CREATE, OP_CREATE2, OP_SSTORE}
      then Number (ba_gas_cost b)
      else if op = OP_PC then Number (int p)
      else Unset)"

text \<open>A jump destination has no instruction of its own: the start of its block stands for it.\<close>

definition op_instr :: "OpTableEntry list \<Rightarrow> u8 list \<Rightarrow> BlockAnalysis \<Rightarrow> nat \<times> nat \<Rightarrow> Instruction list" where
  "op_instr t cb b x =
     (if snd x = OP_JUMPDEST then []
      else [\<lparr>fn = oe_fn (opcode_entry t (snd x)), arg = op_arg cb b (fst x) (snd x)\<rparr>])"

fun emit_ops :: "OpTableEntry list \<Rightarrow> u8 list \<Rightarrow> BlockAnalysis \<Rightarrow> (nat \<times> nat) list \<Rightarrow> Instruction list" where
  "emit_ops t cb b [] = []"
| "emit_ops t cb b (x # xs) =
     (let b = add_total (opcode_entry t (snd x)) b in op_instr t cb b x @ emit_ops t cb b xs)"

definition begin_instr :: "OpTableEntry list \<Rightarrow> BlockAnalysis \<Rightarrow> Instruction" where
  "begin_instr t b = \<lparr>fn = oe_fn (t ! OPX_BEGINBLOCK), arg = Block (BlockAnalysis_close b)\<rparr>"

definition emit_block :: "OpTableEntry list \<Rightarrow> u8 list \<Rightarrow> (nat \<times> nat) list \<Rightarrow> Instruction list" where
  "emit_block t cb g = begin_instr t (totals t g BlockAnalysis_init) # emit_ops t cb BlockAnalysis_init g"

text \<open>The large operands, and the jump destinations with the index of the last instruction before.\<close>

definition large_operands :: "u8 list \<Rightarrow> (nat \<times> nat) list \<Rightarrow> uint256_t list" where
  "large_operands cb xs =
     map (\<lambda>(p, op). number256 (operand cb p op)) (filter (\<lambda>(p, op). OP_PUSH9 \<le> op \<and> op \<le> OP_PUSH32) xs)"

fun jumpdests :: "nat \<Rightarrow> (nat \<times> nat) list \<Rightarrow> (nat \<times> nat) list" where
  "jumpdests i [] = []"
| "jumpdests i (x # xs) =
     (let j = (if snd x = OP_JUMPDEST then i else i + 1)
      in (if snd x = OP_JUMPDEST then [(fst x, i)] else []) @ jumpdests (if ends_block x xs then j + 1 else j) xs)"

section \<open>One step\<close>

text \<open>The entries are within the types of their fields.\<close>

definition entry_ok :: "OpTableEntry \<Rightarrow> bool" where
  "entry_ok e \<longleftrightarrow> \<bar>oe_gas_cost e\<bar> \<le> 2 ^ 15 \<and> \<bar>oe_stack_req e\<bar> \<le> 2 ^ 7 \<and> \<bar>oe_stack_change e\<bar> \<le> 2 ^ 7"

definition table_ok :: "OpTableEntry list \<Rightarrow> bool" where
  "table_ok t \<longleftrightarrow> length t = 256 \<and> list_all entry_ok t"

definition bounded :: "nat \<Rightarrow> BlockAnalysis \<Rightarrow> bool" where
  "bounded k b \<longleftrightarrow> \<bar>ba_stack_change b\<bar> \<le> 2 ^ 7 * int k \<and> \<bar>ba_gas_cost b\<bar> \<le> 2 ^ 15 * int k"

lemma opcode_entry_ok: "table_ok t \<Longrightarrow> op < 256 \<Longrightarrow> entry_ok (opcode_entry t op)"
  by (auto simp: table_ok_def list_all_length opcode_entry_def entry_ok_def Let_def)

lemma add_opcode_total:
  assumes "entry_ok e" and "bounded k b" and "k < 2 ^ 23"
  shows "add_opcode e b = Inr (add_total e b)" and "bounded (Suc k) (add_total e b)"
proof -
  have e: "\<bar>oe_gas_cost e\<bar> \<le> 2 ^ 15" "\<bar>oe_stack_req e\<bar> \<le> 2 ^ 7" "\<bar>oe_stack_change e\<bar> \<le> 2 ^ 7"
    and b: "\<bar>ba_stack_change b\<bar> \<le> 2 ^ 7 * int k" "\<bar>ba_gas_cost b\<bar> \<le> 2 ^ 15 * int k"
    using assms by (auto simp: entry_ok_def bounded_def)
  have k: "int k < 2 ^ 23" using assms(3) by simp
  have "int32 (oe_stack_req e - ba_stack_change b) = Inr (oe_stack_req e - ba_stack_change b)"
    "int32 (ba_stack_change b + oe_stack_change e) = Inr (ba_stack_change b + oe_stack_change e)"
    "int64 (ba_gas_cost b + oe_gas_cost e) = Inr (ba_gas_cost b + oe_gas_cost e)"
    using e b k by (auto simp: int32_def int64_def)
  then show "add_opcode e b = Inr (add_total e b)" by (simp add: add_opcode_def add_total_def)
  show "bounded (Suc k) (add_total e b)" using e b by (auto simp: bounded_def add_total_def)
qed

lemma bounded_mono: "bounded k b \<Longrightarrow> k \<le> l \<Longrightarrow> bounded l b"
  by (auto simp: bounded_def)

lemma bounded_init [simp]: "bounded k (BlockAnalysis_init_v i)"
  by (simp add: bounded_def BlockAnalysis_init_v_def)

text \<open>The operand of a push.\<close>

lemma be_val_zeros: "be_val (bs @ replicate j 0) = be_val bs * 256 ^ j" "be_val (replicate j 0 @ bs) = be_val bs"
proof -
  have "be_val (replicate j 0) = 0" by (induction j) (simp_all add: replicate_append_same [symmetric])
  then show "be_val (bs @ replicate j 0) = be_val bs * 256 ^ j" "be_val (replicate j 0 @ bs) = be_val bs"
    by (simp_all add: be_val_append)
qed

lemma small_push_loop_fold:
  "length bs \<le> m \<Longrightarrow> m \<le> 8 \<Longrightarrow>
   small_push_loop bs ((8 * m + 2 ^ 64 - 8) mod 2 ^ 64) (push_bit (8 * m) w) =
     push_bit (8 * (m - length bs)) (foldl (\<lambda>w b. push_bit 8 w OR ucast b) w bs)"
proof (induction bs arbitrary: m w)
  case (Cons b bs)
  then obtain k where m: "m = Suc k" by (cases m) auto
  have pos: "(8 * m + 2 ^ 64 - 8) mod 2 ^ 64 = 8 * k" using Cons.prems(2) by (simp add: m)
  have "push_bit (8 * m) w OR push_bit (8 * k) (ucast b) = push_bit (8 * k) (push_bit 8 w OR ucast b)"
    by (simp add: m push_bit_or add.commute)
  then show ?case
    using Cons.IH [of k "push_bit 8 w OR ucast b"] Cons.prems by (simp only: small_push_loop.simps pos) (simp add: m)
qed simp

lemma small_push_value:
  assumes "length bs \<le> k" and "1 \<le> k" and "k \<le> 8"
  shows "small_push_loop bs ((k - 1) * 8) 0 = of_nat (be_val (bs @ replicate (k - length bs) 0))"
proof -
  have pos: "(8 * k + 2 ^ 64 - 8) mod 2 ^ 64 = (k - 1) * 8" using assms by (cases k) auto
  let ?f = "foldl (\<lambda>w b. push_bit 8 w OR ucast b) (0 :: u64) bs"
  have v: "unat ?f = be_val bs" using assms by (intro horner_bytes) simp
  have "of_nat (unat ?f) = ?f" by simp
  then have f: "?f = of_nat (be_val bs)" unfolding v by (rule sym)
  have "small_push_loop bs ((k - 1) * 8) 0 = push_bit (8 * (k - length bs)) (of_nat (be_val bs))"
    using small_push_loop_fold [of bs k 0] assms(1,3) unfolding pos f push_bit_of_0 by blast
  then show ?thesis by (simp add: be_val_zeros push_bit_eq_mult power_mult)
qed

lemma four_digits:
  "(n :: nat) div B ^ 3 * B ^ 3 + n div B ^ 2 mod B * B ^ 2 + n div B mod B * B + n mod B = n"
proof -
  have q: "n div B ^ 2 = n div B div B" "n div B ^ 3 = n div B div B div B"
    by (simp_all add: power2_eq_square power3_eq_cube div_mult2_eq)
  define q1 q2 q3 where q': "q1 = n div B" "q2 = q1 div B" "q3 = q2 div B"
  have "q3 * B ^ 3 + q2 mod B * B ^ 2 = (q3 * B + q2 mod B) * B ^ 2"
    by (simp add: algebra_simps power2_eq_square power3_eq_cube)
  moreover have "q3 * B + q2 mod B = q2" by (simp add: q'(3))
  moreover have "q2 * B ^ 2 + q1 mod B * B = (q2 * B + q1 mod B) * B"
    by (simp add: algebra_simps power2_eq_square)
  moreover have "q2 * B + q1 mod B = q1" by (simp add: q'(2))
  moreover have "q1 * B + n mod B = n" by (simp add: q'(1))
  ultimately show ?thesis unfolding q q'(1) [symmetric] q'(2) [symmetric] q'(3) [symmetric] by presburger
qed

lemma val256_number: "n < 2 ^ 256 \<Longrightarrow> val256 (number256 n) = n"
proof -
  assume n: "n < 2 ^ 256"
  have h: "n div 2 ^ 192 < 2 ^ 64" using n by (simp add: less_mult_imp_div_less)
  have "n div 2 ^ 192 * 2 ^ 192 + (n div 2 ^ 128 mod 2 ^ 64) * 2 ^ 128 + (n div 2 ^ 64 mod 2 ^ 64) * 2 ^ 64 + n mod 2 ^ 64 = n"
    using four_digits [of n "2 ^ 64"] by (simp only: power_mult [symmetric]) simp
  then show ?thesis using h
    by (simp add: number256_def val256_mk256 unsigned_of_nat take_bit_eq_mod)
qed

lemma number256_eq: "val256 v = n \<Longrightarrow> v = number256 n"
  using val256_number [of n] val256_lt [of v] by (simp flip: val256_inj)

lemma large_push_value:
  assumes "length bs \<le> k" and "k \<le> 32"
  shows "readu256BE (overwrite (32 - k) bs (replicate 32 0)) 0 =
    Inr (number256 (be_val (bs @ replicate (k - length bs) 0)))"
proof -
  let ?b = "overwrite (32 - k) bs (replicate 32 (0 :: u8))"
  have b: "?b = replicate (32 - k) 0 @ bs @ replicate (k - length bs) 0"
    using assms by (simp add: overwrite_def)
  obtain v where "readu256BE ?b 0 = Inr v" "val256 v = be_val ?b"
    using readu256BE_whole [of ?b] assms by auto
  then show ?thesis unfolding b be_val_zeros(2) by (simp add: number256_eq)
qed

section \<open>The pass is the layout\<close>

text \<open>What one opcode adds to the table, and where the next one starts.\<close>

definition next_pos :: "nat \<Rightarrow> nat \<Rightarrow> nat \<Rightarrow> nat" where
  "next_pos n p op = min (p + 1 + operand_size op) n"

definition after_op ::
  "OpTableEntry list \<Rightarrow> u8 list \<Rightarrow> BlockAnalysis \<Rightarrow> nat \<times> nat \<Rightarrow> CodeAnalysis \<Rightarrow> CodeAnalysis" where
  "after_op t cb b x an = an\<lparr>
     instrs := instrs an @ op_instr t cb b x,
     push_values := push_values an @ large_operands cb [x],
     jumpdest_offsets := jumpdest_offsets an @ (if snd x = OP_JUMPDEST then [int (fst x)] else []),
     jumpdest_targets := jumpdest_targets an @ (if snd x = OP_JUMPDEST then [int (length (instrs an)) - 1] else [])\<rparr>"

lemma put_arg_last: "put_arg (length (instrs an)) x (an\<lparr>instrs := instrs an @ [i]\<rparr>) = an\<lparr>instrs := instrs an @ [i\<lparr>arg := x\<rparr>]\<rparr>"
  by (simp add: put_arg_def)

lemma read_operand:
  assumes "p < length cb"
  shows "read_range cb (p + 1) (min (p + 1 + k) (length cb) - (p + 1)) = Inr (take k (drop (p + 1) cb))"
    and "p + 1 + length (take k (drop (p + 1) cb)) = min (p + 1 + k) (length cb)"
  using assms by (auto simp: read_range_def slice_def min_def)

lemma set_argument_after:
  assumes p: "p < length cb" and op: "op \<noteq> OP_JUMPDEST"
  shows "set_argument op cb (length cb) b (p + 1) (push_instr (oe_fn (opcode_entry t op)) an) =
    Inr (after_op t cb b (p, op) an, next_pos (length cb) p op)"
proof -
  let ?k = "operand_size op" and ?an = "push_instr (oe_fn (opcode_entry t op)) an"
  let ?bs = "take ?k (drop (p + 1) cb)"
  have last: "length (instrs ?an) - 1 = length (instrs an)" by (simp add: push_instr_def)
  consider (small) "OP_PUSH1 \<le> op" "op \<le> OP_PUSH8" | (large) "OP_PUSH9 \<le> op" "op \<le> OP_PUSH32"
    | (other) "op < OP_PUSH1 \<or> OP_PUSH32 < op" by linarith
  then show ?thesis
  proof cases
    case small
    then have k: "?k = op - OP_PUSH1 + 1" "1 \<le> ?k" "?k \<le> 8" by (auto simp: operand_size_def)
    have "set_argument op cb (length cb) b (p + 1) ?an =
        Inr (put_arg (length (instrs an)) (Small_push_value (of_nat (operand cb p op))) ?an, next_pos (length cb) p op)"
      unfolding set_argument_def Let_def last k(1) [symmetric] next_pos_def operand_def
      using small read_operand [OF p, of ?k] small_push_value [of ?bs ?k] k(2,3)
      by (simp only: if_True simp_thms bind_o_simps length_take min.cobounded2)
    then show ?thesis using small op
      by (simp add: push_instr_def put_arg_last after_op_def op_instr_def op_arg_def large_operands_def Instrcution_init_v_def)
  next
    case large
    then have not_small: "(op \<le> OP_PUSH8) = False" by simp
    from large have k: "?k = op - OP_PUSH1 + 1" "?k \<le> 32" by (auto simp: operand_size_def)
    have "set_argument op cb (length cb) b (p + 1) ?an =
        Inr (put_arg (length (instrs an)) (Push_value (number256 (operand cb p op)))
              (?an\<lparr>push_values := push_values ?an @ [number256 (operand cb p op)]\<rparr>), next_pos (length cb) p op)"
      unfolding set_argument_def Let_def last k(1) [symmetric] next_pos_def operand_def
      using large read_operand [OF p, of ?k] large_push_value [of ?bs ?k] k(2) not_small
      by (simp only: if_True if_False simp_thms bind_o_simps length_take min.cobounded2)
    then show ?thesis using large op
      by (simp add: push_instr_def put_arg_def after_op_def op_instr_def op_arg_def large_operands_def Instrcution_init_v_def)
  next
    case other
    then have "next_pos (length cb) p op = p + 1" using p by (auto simp: next_pos_def operand_size_def)
    then show ?thesis using other op last
      by (auto simp: set_argument_def push_instr_def put_arg_def after_op_def op_instr_def op_arg_def large_operands_def
          Instrcution_init_v_def Let_def)
  qed
qed

lemma set_argument_jumpdest:
  "set_argument OP_JUMPDEST cb n b p an = Inr (an, p)"
  by (simp add: set_argument_def Let_def)

lemma code_ops_end: "length cb \<le> p \<Longrightarrow> code_ops cb p = []"
  by (simp add: code_ops.simps)

lemma code_ops_next:
  "p < length cb \<Longrightarrow> code_ops cb p = (p, unat (cb ! p)) # code_ops cb (next_pos (length cb) p (unat (cb ! p)))"
  by (subst code_ops.simps) (simp add: next_pos_def min_def code_ops_end)

lemma next_pos_bounds: "p < n \<Longrightarrow> p < next_pos n p op \<and> next_pos n p op \<le> n"
  by (simp add: next_pos_def)

lemma ends_block_next:
  assumes "q \<le> length cb"
  shows "ends_block (p, op) (code_ops cb q) \<longleftrightarrow> is_terminator op \<or> q \<noteq> length cb \<and> unat (cb ! q) = OP_JUMPDEST"
  using assms by (cases "q < length cb") (auto simp: ends_block_def code_ops_end code_ops_next)

lemma instrs_after [simp]: "instrs (after_op t cb b x an) = instrs an @ op_instr t cb b x"
  by (simp add: after_op_def)

lemma length_op_instr: "length (op_instr t cb b x) = (if snd x = OP_JUMPDEST then 0 else 1)"
  by (simp add: op_instr_def)

lemma analyze_step_after:
  fixes cb p defines "op \<equiv> unat (cb ! p)" and "q \<equiv> next_pos (length cb) p (unat (cb ! p))"
  assumes p: "p < length cb" and t: "table_ok t" and b: "bounded p b" and n: "length cb < 2 ^ 23"
    and idx: "begin_block_index b < length (instrs an)" and len: "length (instrs an) \<le> 2 * p + 1"
    and b': "b' = add_total (opcode_entry t op) b" and an': "an' = after_op t cb b' (p, op) an"
  shows "analyze_step t cb (length cb) (an, b, p) =
    Inr (if ends_block (p, op) (code_ops cb q)
         then (push_instr (oe_fn (t ! OPX_BEGINBLOCK)) (put_arg (begin_block_index b) (Block (BlockAnalysis_close b')) an'),
               BlockAnalysis_init_v (length (instrs an')), q)
         else (an', b', q))"
proof -
  have op: "op < 256" using unat8_lt [of "cb ! p"] by (simp add: op_def)
  have add: "add_opcode (opcode_entry t op) b = Inr b'"
    using add_opcode_total(1) [OF opcode_entry_ok [OF t op] b] p n b' by simp
  have idx': "begin_block_index b' = begin_block_index b" by (simp add: b' add_total_def)
  have "int (length (instrs an)) - 1 < 2 ^ 31" "int p < 2 ^ 31" using len p n by simp_all
  then have trunc: "signed_take_bit 31 (int (length (instrs an)) - 1) = int (length (instrs an)) - 1"
    "signed_take_bit 31 (int p) = int p"
    by (auto intro!: signed_take_bit_int_eq_self) (use idx in linarith)?
  have arg: "set_argument op cb (length cb) b' (p + 1)
      (if op = OP_JUMPDEST then note_jumpdest (p + 1) an else push_instr (oe_fn (opcode_entry t op)) an) = Inr (an', q)"
  proof (cases "op = OP_JUMPDEST")
    case True
    then have "next_pos (length cb) p op = p + 1" using p by (simp add: next_pos_def operand_size_def)
    then have "q = p + 1" by (simp add: q_def op_def)
    then show ?thesis using True trunc
      by (simp add: set_argument_jumpdest an' after_op_def op_instr_def large_operands_def note_jumpdest_def)
  next
    case False
    show ?thesis using set_argument_after [OF p False] False by (simp add: an' q_def op_def)
  qed
  have q: "q \<le> length cb" using next_pos_bounds [OF p] by (simp add: q_def)
  have ends: "(if is_terminator op then Inr True
      else if q \<noteq> length cb then bind_o (read_at cb q) (\<lambda>b. Inr (unat b = OP_JUMPDEST)) else Inr False) =
      (Inr (ends_block (p, op) (code_ops cb q)) :: bool outcome)"
    using q by (auto simp: ends_block_next)
  have save: "save_block b' an' = Inr (put_arg (begin_block_index b) (Block (BlockAnalysis_close b')) an')"
    using idx by (simp add: save_block_def cvec_at_def idx' an')
  have step: "analyze_step t cb (length cb) (an, b, p) = bind_o (Inr (ends_block (p, op) (code_ops cb q))) (\<lambda>ends.
      if ends then bind_o (save_block b' an') (\<lambda>an.
         let an = push_instr (oe_fn (t ! OPX_BEGINBLOCK)) an
         in Inr (an, BlockAnalysis_init_v (length (instrs an) - 1), q))
      else Inr (an', b', q))"
    unfolding analyze_step_def prod.case read_at_in [OF p] bind_o_simps Let_def op_def [symmetric] add arg ends by (rule refl)
  show ?thesis unfolding step save by (simp add: push_instr_def put_arg_def Let_def)
qed

text \<open>The sums do not depend on the index of the block.\<close>

lemma add_total_index [simp]: "add_total e (b\<lparr>begin_block_index := i\<rparr>) = (add_total e b)\<lparr>begin_block_index := i\<rparr>"
  by (simp add: add_total_def)

lemma op_instr_index [simp]: "op_instr t cb (b\<lparr>begin_block_index := i\<rparr>) x = op_instr t cb b x"
  by (simp add: op_instr_def op_arg_def)

lemma emit_ops_index [simp]: "emit_ops t cb (b\<lparr>begin_block_index := i\<rparr>) g = emit_ops t cb b g"
  by (induction g arbitrary: b) (simp_all add: Let_def)

lemma begin_index [simp]: "begin_instr t (totals t g (b\<lparr>begin_block_index := i\<rparr>)) = begin_instr t (totals t g b)"
proof (induction g arbitrary: b)
  case Nil
  then show ?case by (simp add: totals_def begin_instr_def BlockAnalysis_close_def)
qed (simp add: totals_def)

lemma init_v_index: "BlockAnalysis_init_v i = BlockAnalysis_init\<lparr>begin_block_index := i\<rparr>"
  by (simp add: BlockAnalysis_init_v_def BlockAnalysis_init_def)

lemma blocks_nonempty: "blocks xs \<noteq> []"
  by (cases xs) auto

text \<open>The rest of the table, from inside a block with the instructions \<open>cur\<close> so far.\<close>

definition rest_of_table ::
  "OpTableEntry list \<Rightarrow> u8 list \<Rightarrow> BlockAnalysis \<Rightarrow> Instruction list \<Rightarrow> (nat \<times> nat) list list \<Rightarrow> Instruction list" where
  "rest_of_table t cb b cur gs =
     begin_instr t (totals t (hd gs) b) # cur @ emit_ops t cb b (hd gs) @ concat (map (emit_block t cb) (tl gs))"

lemma totals_simps [simp]:
  "totals t [] b = b" "totals t (x # g) b = totals t g (add_total (opcode_entry t (snd x)) b)"
  by (simp_all add: totals_def)

lemma rest_of_table_Cons:
  assumes "b' = add_total (opcode_entry t (snd x)) b"
  shows "rest_of_table t cb b cur (blocks (x # xs)) =
    (if ends_block x xs
     then begin_instr t b' # cur @ op_instr t cb b' x @ rest_of_table t cb (BlockAnalysis_init_v i) [] (blocks xs)
     else rest_of_table t cb b' (cur @ op_instr t cb b' x) (blocks xs))"
  using blocks_nonempty [of xs]
  by (cases "blocks xs") (auto simp: rest_of_table_def assms Let_def init_v_index emit_block_def)

lemma large_operands_Cons: "large_operands cb (x # xs) = large_operands cb [x] @ large_operands cb xs"
  by (simp add: large_operands_def)

lemma fields_after:
  assumes "instrs an \<noteq> []" and an': "an' = after_op t cb b x an"
    and "j = (if ends_block x xs then length (instrs an') else length (instrs an') - 1)"
  shows "jumpdest_offsets an' @ map (int \<circ> fst) (jumpdests j xs) =
      jumpdest_offsets an @ map (int \<circ> fst) (jumpdests (length (instrs an) - 1) (x # xs))"
    and "jumpdest_targets an' @ map (int \<circ> snd) (jumpdests j xs) =
      jumpdest_targets an @ map (int \<circ> snd) (jumpdests (length (instrs an) - 1) (x # xs))"
    and "push_values an' @ large_operands cb xs = push_values an @ large_operands cb (x # xs)"
proof -
  obtain k where k: "length (instrs an) = Suc k" using assms(1) by (cases "instrs an") auto
  show "jumpdest_offsets an' @ map (int \<circ> fst) (jumpdests j xs) =
      jumpdest_offsets an @ map (int \<circ> fst) (jumpdests (length (instrs an) - 1) (x # xs))"
    "jumpdest_targets an' @ map (int \<circ> snd) (jumpdests j xs) =
      jumpdest_targets an @ map (int \<circ> snd) (jumpdests (length (instrs an) - 1) (x # xs))"
    by (simp_all add: an' assms(3) k length_op_instr Let_def) (simp_all add: after_op_def k)
  show "push_values an' @ large_operands cb xs = push_values an @ large_operands cb (x # xs)"
    by (simp add: an' after_op_def large_operands_Cons [of cb x xs])
qed

lemma loop_layout:
  assumes "table_ok t" and "length cb < 2 ^ 23" and "p \<le> length cb" and "bounded p b"
    and "instrs an = C @ \<lparr>fn = oe_fn (t ! OPX_BEGINBLOCK), arg = Unset\<rparr> # cur" and "begin_block_index b = length C"
    and "length (instrs an) \<le> 2 * p + 1"
  shows "bind_o (analyze_loop t cb (length cb) (an, b, p)) (\<lambda>(an, b, p). save_block b an) =
    Inr (an\<lparr>instrs := C @ rest_of_table t cb b cur (blocks (code_ops cb p)),
            push_values := push_values an @ large_operands cb (code_ops cb p),
            jumpdest_offsets := jumpdest_offsets an @ map (int \<circ> fst) (jumpdests (length (instrs an) - 1) (code_ops cb p)),
            jumpdest_targets := jumpdest_targets an @ map (int \<circ> snd) (jumpdests (length (instrs an) - 1) (code_ops cb p))\<rparr>)"
  using assms
proof (induction "length cb - p" arbitrary: an b p C cur rule: less_induct)
  case less
  note h = less.prems
  show ?case
  proof (cases "p < length cb")
    case False
    then show ?thesis using h
      by (simp add: analyze_loop.simps save_block_def cvec_at_def put_arg_def code_ops_end rest_of_table_def totals_def
          large_operands_def begin_instr_def)
  next
    case True
    let ?op = "unat (cb ! p)"
    let ?q = "next_pos (length cb) p ?op" and ?b = "add_total (opcode_entry t ?op) b"
    let ?an = "after_op t cb ?b (p, ?op) an"
    let ?xs = "code_ops cb ?q" and ?bb = "oe_fn (t ! OPX_BEGINBLOCK)"
    have ops: "code_ops cb p = (p, ?op) # ?xs" using True by (rule code_ops_next)
    have q: "p < ?q" "?q \<le> length cb" using next_pos_bounds [OF True] by auto
    have op: "?op < 256" using unat8_lt by simp
    have idx: "begin_block_index b < length (instrs an)" using h(5,6) by simp
    have b': "bounded ?q ?b"
      using add_opcode_total(2) [OF opcode_entry_ok [OF h(1) op] h(4)] True h(2) q(1)
      by (auto intro: bounded_mono)
    have len: "length (instrs ?an) \<le> 2 * p + 2" "length (instrs ?an) \<noteq> 0"
      using h(5,7) by (auto simp: length_op_instr)
    note step = analyze_step_after [OF True h(1,4,2) idx h(7) refl refl]
    have "instrs an \<noteq> []" using h(5) by simp
    note fields = fields_after [OF this refl, of _ "(p, ?op)" ?xs t cb ?b, folded ops]
    have loop: "analyze_loop t cb (length cb) (an, b, p) =
        bind_o (analyze_step t cb (length cb) (an, b, p)) (analyze_loop t cb (length cb))"
      using True by (subst analyze_loop.simps) simp
    show ?thesis
    proof (cases "ends_block (p, ?op) ?xs")
      case ends: True
      let ?an2 = "push_instr ?bb (put_arg (begin_block_index b) (Block (BlockAnalysis_close ?b)) ?an)"
      let ?b2 = "BlockAnalysis_init_v (length (instrs ?an))"
      let ?C = "C @ begin_instr t ?b # cur @ op_instr t cb ?b (p, ?op)"
      have an2: "instrs ?an2 = ?C @ \<lparr>fn = ?bb, arg = Unset\<rparr> # []"
        using h(5,6) by (simp add: push_instr_def put_arg_def Instrcution_init_v_def begin_instr_def)
      have i2: "begin_block_index ?b2 = length ?C" using h(5) by (simp add: BlockAnalysis_init_v_def)
      have l2: "length (instrs ?an2) \<le> 2 * ?q + 1" "length (instrs ?an2) - 1 = length (instrs ?an)"
        using len q(1) by (auto simp: push_instr_def put_arg_def)
      have l: "analyze_loop t cb (length cb) (an, b, p) = analyze_loop t cb (length cb) (?an2, ?b2, ?q)"
        using loop step ends by (simp only: if_True bind_o_simps)
      have "length cb - ?q < length cb - p" using q True by linarith
      note IH = less.hyps [OF this h(1,2) q(2) bounded_init an2 i2 l2(1)]
      have "rest_of_table t cb b cur (blocks (code_ops cb p)) =
          begin_instr t ?b # cur @ op_instr t cb ?b (p, ?op) @ rest_of_table t cb ?b2 [] (blocks ?xs)"
        using rest_of_table_Cons [of ?b t "(p, ?op)" b cb cur ?xs "length (instrs ?an)"] ends by (simp add: ops)
      moreover have "push_values ?an2 = push_values ?an" "jumpdest_offsets ?an2 = jumpdest_offsets ?an"
        "jumpdest_targets ?an2 = jumpdest_targets ?an"
        by (simp_all add: push_instr_def put_arg_def)
      ultimately show ?thesis unfolding l IH l2(2) using fields [of "length (instrs ?an)"] ends by simp
    next
      case go: False
      have l: "analyze_loop t cb (length cb) (an, b, p) = analyze_loop t cb (length cb) (?an, ?b, ?q)"
        using loop step go by (simp only: if_False bind_o_simps)
      have an1: "instrs ?an = C @ \<lparr>fn = ?bb, arg = Unset\<rparr> # (cur @ op_instr t cb ?b (p, ?op))" using h(5) by simp
      have i1: "begin_block_index ?b = length C" using h(6) by (simp add: add_total_def)
      have l1: "length (instrs ?an) \<le> 2 * ?q + 1" using len q(1) by simp
      have "length cb - ?q < length cb - p" using q True by linarith
      note IH = less.hyps [OF this h(1,2) q(2) b' an1 i1 l1]
      have "rest_of_table t cb b cur (blocks (code_ops cb p)) =
          rest_of_table t cb ?b (cur @ op_instr t cb ?b (p, ?op)) (blocks ?xs)"
        using rest_of_table_Cons [of ?b t "(p, ?op)" b cb cur ?xs 0] go by (simp add: ops)
      then show ?thesis unfolding l IH using fields [of "length (instrs ?an) - 1"] go by simp
    qed
  qed
qed

end
