(* ===== verification/Code_Facts.thy ===== *)
theory Code_Facts
  imports Code_Layout
begin

text \<open>
  The properties of the analysis: the table it makes for any code, where jumps lead, and what the
  check at the start of a block says about the instructions in it.
\<close>

section \<open>The table of the code\<close>

lemma assign_all:
  "list_all P row \<Longrightarrow> list_all (\<lambda>p. P (snd p)) ps \<Longrightarrow> list_all P (assign ps row)"
proof (induction ps row rule: assign.induct)
  case (2 op v ps row)
  then have "list_all P (row[op := v])" by (auto simp: list_all_iff dest!: set_update_subset_insert [THEN subsetD])
  then show ?case using 2 by simp
qed simp

lemma costs_small:
  "list_all (\<lambda>p. \<bar>snd p\<bar> \<le> 2 ^ 15) (frontier_costs @ homestead_costs @ tangerine_whistle_costs @ byzantium_costs @
     constantinople_costs @ istanbul_costs @ berlin_costs @ london_costs @ shanghai_costs)"
  by code_simp

lemma gas_row_small: "list_all (\<lambda>c. \<bar>c\<bar> \<le> 2 ^ 15) (gas_row r)"
proof -
  have "list_all (\<lambda>c. \<bar>c\<bar> \<le> 2 ^ 15) (replicate 256 undefined_cost)" by (simp add: list_all_length undefined_cost_def)
  then show ?thesis
    using costs_small unfolding list_all_append
    by (induction r rule: gas_row.induct) (simp_all only: gas_row.simps assign_all)
qed

lemma traits_small:
  "list_all (\<lambda>t. \<bar>stack_height_required t\<bar> \<le> 2 ^ 7 \<and> \<bar>stack_height_change t\<bar> \<le> 2 ^ 7) traits_table"
  by code_simp

lemma op_table_ok:
  assumes "length opt = 256" and "list_all entry_ok opt"
  shows "table_ok (op_table r fns opt)"
  using assms gas_row_small [of r] traits_small
  by (auto simp: op_table_def table_ok_def list_all_length op_entry_def entry_ok_def length_traits)

text \<open>The layout of the whole code.\<close>

definition layout :: "OpTableEntry list \<Rightarrow> u8 list \<Rightarrow> CodeAnalysis" where
  "layout t cb =
     \<lparr>instrs = concat (map (emit_block t cb) (blocks (code_ops cb 0))) @ [Instrcution_init_v (oe_fn (t ! OP_STOP))],
      push_values = large_operands cb (code_ops cb 0),
      jumpdest_offsets = map (int \<circ> fst) (jumpdests 0 (code_ops cb 0)),
      jumpdest_targets = map (int \<circ> snd) (jumpdests 0 (code_ops cb 0))\<rparr>"

lemma length_code_ops: "length (code_ops cb p) \<le> length cb - p"
proof (induction cb p rule: code_ops.induct)
  case (1 cb p)
  then show ?case by (subst code_ops.simps) auto
qed

lemma analyze_with_layout:
  assumes "table_ok t" and "length cb < 2 ^ 23"
  shows "analyze_with t cb (length cb) = Inr (layout t cb)"
proof -
  let ?bb = "oe_fn (t ! OPX_BEGINBLOCK)"
  let ?an = "push_instr ?bb CodeAnalysis_init" and ?xs = "code_ops cb 0"
  have an: "instrs ?an = [] @ \<lparr>fn = ?bb, arg = Unset\<rparr> # []"
    by (simp add: push_instr_def CodeAnalysis_init_def Instrcution_init_v_def)
  have rest: "rest_of_table t cb BlockAnalysis_init [] (blocks ?xs) = concat (map (emit_block t cb) (blocks ?xs))"
    using blocks_nonempty [of ?xs] by (cases "blocks ?xs") (auto simp: rest_of_table_def emit_block_def)
  have init: "BlockAnalysis_init = BlockAnalysis_init_v 0" by (simp add: BlockAnalysis_init_def BlockAnalysis_init_v_def)
  have loop: "bind_o (analyze_loop t cb (length cb) (?an, BlockAnalysis_init, 0)) (\<lambda>(an, b, p). save_block b an) =
    Inr (?an\<lparr>instrs := concat (map (emit_block t cb) (blocks ?xs)), push_values := large_operands cb ?xs,
        jumpdest_offsets := map (int \<circ> fst) (jumpdests 0 ?xs), jumpdest_targets := map (int \<circ> snd) (jumpdests 0 ?xs)\<rparr>)"
    using loop_layout [OF assms, of 0 BlockAnalysis_init ?an "[]" "[]"] rest
    by (simp add: an [simplified] init BlockAnalysis_init_v_def bounded_def) (simp add: push_instr_def CodeAnalysis_init_def)
  have bind: "bind_o m (\<lambda>(an, b, p). bind_o (save_block b an) f) = bind_o (bind_o m (\<lambda>(an, b, p). save_block b an)) f"
    for m :: "pass_state outcome" and f :: "CodeAnalysis \<Rightarrow> CodeAnalysis outcome"
    by (cases m) (auto split: prod.splits)
  have "length (large_operands cb ?xs) \<le> length cb"
    using length_code_ops [of cb 0] length_filter_le [of _ ?xs] unfolding large_operands_def length_map
    by (meson diff_le_self le_trans)
  moreover have "signed_take_bit 31 (int (length cb) + 1) = int (length cb) + 1"
    using assms(2) by (intro signed_take_bit_int_eq_self) simp_all
  ultimately show ?thesis
    using assms(2) unfolding analyze_with_def Let_def bind loop
    by (simp add: push_instr_def layout_def CodeAnalysis_init_def)
qed

text \<open>
  Claim C2. The analysis of a code below 2^23 bytes always returns, without overflow, and its table is the
  layout of the code: block after block the instruction that checks the block, with the sums over all
  its opcodes, then one instruction for every opcode but \<open>JUMPDEST\<close>, with the operand of a push, padded
  with zeros at the end of the code, with the gas up to it where the instruction needs that, and its
  position for \<open>PC\<close>; after the last block a \<open>STOP\<close>. Operand bytes are never taken for opcodes.
\<close>

theorem analyze_layout:
  assumes "length fns = 256" and "length opt = 256" and "list_all entry_ok opt" and "length cb < 2 ^ 23"
  shows "\<exists>t. get_op_table gas_rows traits_table r fns opt = Inr t \<and> table_ok t \<and>
    analyze gas_rows traits_table fns opt r cb (length cb) = Inr (layout t cb)"
  using get_op_table [of r fns opt] op_table_ok [OF assms(2,3)] analyze_with_layout [OF _ assms(4)]
  by (auto simp: analyze_def)

definition zero_entry :: OpTableEntry where
  "zero_entry = \<lparr>oe_fn = None, oe_gas_cost = 0, oe_stack_req = 0, oe_stack_change = 0\<rparr>"

theorem analyze_layout_witness:
  "\<exists>t. get_op_table gas_rows traits_table EVMC_LONDON (replicate 256 None) (replicate 256 zero_entry) = Inr t \<and>
     table_ok t \<and> analyze gas_rows traits_table (replicate 256 None) (replicate 256 zero_entry) EVMC_LONDON [96, 91, 0] 3 =
       Inr (layout t [96, 91, 0])"
  using analyze_layout [of "replicate 256 None" "replicate 256 zero_entry" "[96, 91, 0]" EVMC_LONDON]
  by (simp add: list_all_length zero_entry_def entry_ok_def numeral_3_eq_3)

section \<open>Jump destinations\<close>

definition is_jumpdest :: "nat \<times> nat \<Rightarrow> bool" where
  "is_jumpdest x \<longleftrightarrow> snd x = OP_JUMPDEST"

lemma fst_jumpdests: "map fst (jumpdests i xs) = map fst (filter is_jumpdest xs)"
  by (induction xs arbitrary: i) (auto simp: is_jumpdest_def Let_def)

lemma code_ops_above: "x \<in> set (code_ops cb p) \<Longrightarrow> p \<le> fst x \<and> fst x < length cb"
proof (induction cb p rule: code_ops.induct)
  case (1 cb p)
  then show ?case
    using code_ops.simps [of cb p] by (cases "p < length cb") fastforce+
qed

lemma sorted_code_ops: "sorted_wrt (\<lambda>x y. fst x < fst y) (code_ops cb p)"
proof (induction cb p rule: code_ops.induct)
  case (1 cb p)
  then show ?case
    using code_ops_above by (subst code_ops.simps) fastforce
qed

lemma sorted_jumpdests: "sorted (map (int \<circ> fst) (jumpdests i (code_ops cb p)))"
  "distinct (map fst (jumpdests i (code_ops cb p)))"
proof -
  have s: "sorted_wrt (<) (map fst (jumpdests i (code_ops cb p)))"
    unfolding fst_jumpdests sorted_wrt_map by (rule sorted_wrt_filter [OF sorted_code_ops])
  then show "distinct (map fst (jumpdests i (code_ops cb p)))" by (simp add: strict_sorted_iff)
  have "sorted_wrt (\<lambda>x y. fst x < fst y) (jumpdests i (code_ops cb p))" using s by (simp add: sorted_wrt_map)
  then show "sorted (map (int \<circ> fst) (jumpdests i (code_ops cb p)))"
    unfolding sorted_wrt_map by (rule sorted_wrt_mono_rel [rotated]) simp
qed

lemma find_jumpdest_map_of:
  assumes "jumpdest_offsets a = map (int \<circ> fst) js" and "jumpdest_targets a = map (int \<circ> snd) js"
    and "sorted (map (int \<circ> fst) js)" and "distinct (map fst js)"
  shows "(p, i) \<in> set js \<Longrightarrow> find_jumpdest a (int p) = Inr (int i)"
    and "(\<And>p. int p = off \<Longrightarrow> p \<notin> fst ` set js) \<Longrightarrow> find_jumpdest a off = Inr (- 1)"
proof -
  let ?xs = "map (int \<circ> fst) js"
  assume pi: "(p, i) \<in> set js"
  then have "int p \<in> set ?xs" by force
  note hit = cvec_lower_bound_hit [OF assms(3) this]
  let ?k = "cvec_lower_bound ?xs (int p)"
  have k: "?k < length js" "fst (js ! ?k) = p" using hit by auto
  obtain j where j: "j < length js" "js ! j = (p, i)" using pi by (auto simp: in_set_conv_nth)
  then have "?k = j" using k assms(4) by (simp add: distinct_conv_nth) (metis fst_conv nth_map length_map)
  then show "find_jumpdest a (int p) = Inr (int i)"
    using k j hit by (simp add: find_jumpdest_def assms(1,2) cvec_at_def Let_def)
next
  assume no: "\<And>p. int p = off \<Longrightarrow> p \<notin> fst ` set js"
  let ?it = "cvec_lower_bound (map (int \<circ> fst) js) off"
  have "map (int \<circ> fst) js ! ?it \<noteq> off" if "?it < length js"
    using no [of "fst (js ! ?it)"] that by auto
  then show "find_jumpdest a off = Inr (- 1)"
    using cvec_lower_bound_le [of "map (int \<circ> fst) js" off]
    by (auto simp: find_jumpdest_def assms(1,2) Let_def)
qed

text \<open>The blocks that start with a jump destination, with the index of their first instruction.\<close>

fun dests :: "nat \<Rightarrow> nat \<Rightarrow> (nat \<times> nat) list list \<Rightarrow> (nat \<times> nat) list" where
  "dests i m [] = []"
| "dests i m (g # gs) =
     (if g \<noteq> [] \<and> is_jumpdest (hd g) then [(fst (hd g), i)] else []) @
     dests (i + m + 1 + length (filter (\<lambda>x. \<not> is_jumpdest x) g)) 0 gs"

lemma jumpdests_dests:
  "m = 0 \<or> xs = [] \<or> \<not> is_jumpdest (hd xs) \<Longrightarrow> jumpdests (i + m) xs = dests i m (blocks xs)"
proof (induction xs arbitrary: i m)
  case (Cons x xs)
  let ?m = "if is_jumpdest x then m else m + 1"
  obtain g gs where b: "blocks xs = g # gs" using blocks_nonempty [of xs] by (cases "blocks xs") auto
  show ?case
  proof (cases "ends_block x xs")
    case True
    then show ?thesis using Cons.IH [of 0 "i + ?m + 1"] Cons.prems
      by (auto simp: is_jumpdest_def b add.assoc)
  next
    case False
    then have next_op: "xs = [] \<or> \<not> is_jumpdest (hd xs)" by (auto simp: ends_block_def is_jumpdest_def)
    then have m: "?m = 0 \<or> xs = [] \<or> \<not> is_jumpdest (hd xs)" by blast
    have g: "g = [] \<or> hd g = hd xs \<and> xs \<noteq> []" using b by (cases xs) (auto split: if_splits)
    show ?thesis using False Cons.IH [OF m, of i] Cons.prems g next_op
      by (auto simp: is_jumpdest_def b)
  qed
qed simp

text \<open>The index of the first instruction of the block after the blocks \<open>gs\<close>.\<close>

definition start_after :: "OpTableEntry list \<Rightarrow> u8 list \<Rightarrow> (nat \<times> nat) list list \<Rightarrow> nat" where
  "start_after t cb gs = length (concat (map (emit_block t cb) gs))"

lemma length_emit_block: "length (emit_block t cb g) = 1 + length (filter (\<lambda>x. \<not> is_jumpdest x) g)"
proof -
  have "length (emit_ops t cb b g) = length (filter (\<lambda>x. \<not> is_jumpdest x) g)" for b
    by (induction g arbitrary: b) (simp_all add: length_op_instr is_jumpdest_def Let_def)
  then show ?thesis by (simp add: emit_block_def)
qed

lemma dests_starts:
  "(p, j) \<in> set (dests i 0 bs) \<Longrightarrow>
   \<exists>gs g gs'. bs = gs @ g # gs' \<and> g \<noteq> [] \<and> hd g = (p, OP_JUMPDEST) \<and> j = i + start_after t cb gs"
proof (induction bs arbitrary: i)
  case (Cons g bs)
  consider "g \<noteq> []" "is_jumpdest (hd g)" "p = fst (hd g)" "j = i"
    | "(p, j) \<in> set (dests (i + length (emit_block t cb g)) 0 bs)"
    using Cons.prems by (auto simp: length_emit_block split: if_splits)
  then show ?case
  proof cases
    case 1
    then show ?thesis
      by (intro exI [of _ "[]"] exI [of _ g] exI [of _ bs]) (simp add: start_after_def is_jumpdest_def prod_eq_iff)
  next
    case 2
    from Cons.IH [OF 2] obtain gs h gs' where "bs = gs @ h # gs'" "h \<noteq> []" "hd h = (p, OP_JUMPDEST)"
      "j = i + length (emit_block t cb g) + start_after t cb gs" by blast
    then show ?thesis
      by (intro exI [of _ "g # gs"] exI [of _ h] exI [of _ gs']) (simp add: start_after_def)
  qed
qed simp

lemma layout_find:
  shows "(p, OP_JUMPDEST) \<in> set (code_ops cb 0) \<Longrightarrow>
     \<exists>gs g gs'. blocks (code_ops cb 0) = gs @ g # gs' \<and> g \<noteq> [] \<and> hd g = (p, OP_JUMPDEST) \<and>
       find_jumpdest (layout t cb) (int p) = Inr (int (start_after t cb gs))"
    and "(\<And>p. int p = off \<Longrightarrow> (p, OP_JUMPDEST) \<notin> set (code_ops cb 0)) \<Longrightarrow> find_jumpdest (layout t cb) off = Inr (- 1)"
proof -
  let ?js = "jumpdests 0 (code_ops cb 0)"
  have fields: "jumpdest_offsets (layout t cb) = map (int \<circ> fst) ?js"
    "jumpdest_targets (layout t cb) = map (int \<circ> snd) ?js"
    by (simp_all add: layout_def)
  note find = find_jumpdest_map_of [OF fields sorted_jumpdests]
  have keys: "p \<in> fst ` set ?js \<longleftrightarrow> (p, OP_JUMPDEST) \<in> set (code_ops cb 0)" for p
  proof -
    have "fst ` set ?js = set (map fst ?js)" by simp
    also have "\<dots> = fst ` set (filter is_jumpdest (code_ops cb 0))" unfolding fst_jumpdests by simp
    finally show ?thesis by (force simp: is_jumpdest_def)
  qed
  show "find_jumpdest (layout t cb) off = Inr (- 1)"
    if "\<And>p. int p = off \<Longrightarrow> (p, OP_JUMPDEST) \<notin> set (code_ops cb 0)"
    using find(2) [of off] that keys by blast
  assume "(p, OP_JUMPDEST) \<in> set (code_ops cb 0)"
  then obtain j where j: "(p, j) \<in> set ?js" using keys [of p] by force
  then have "(p, j) \<in> set (dests 0 0 (blocks (code_ops cb 0)))" using jumpdests_dests [of 0 "code_ops cb 0" 0] by simp
  from dests_starts [OF this, of t cb] find(1) [OF j]
  show "\<exists>gs g gs'. blocks (code_ops cb 0) = gs @ g # gs' \<and> g \<noteq> [] \<and> hd g = (p, OP_JUMPDEST) \<and>
       find_jumpdest (layout t cb) (int p) = Inr (int (start_after t cb gs))"
    by auto
qed

lemma start_inside:
  "blocks (code_ops cb 0) = gs @ g # gs' \<Longrightarrow> start_after t cb gs < length (instrs (layout t cb))"
  by (simp add: layout_def start_after_def emit_block_def)

lemma signed_wrap:
  assumes "2 ^ n \<le> k" and "k < 2 ^ Suc n"
  shows "signed_take_bit n k = k - (2 :: int) ^ Suc n"
proof -
  have "take_bit (Suc n) k = take_bit (Suc n) (k - 2 ^ Suc n)"
    by (simp add: take_bit_eq_mod)
  then have "signed_take_bit n k = signed_take_bit n (k - 2 ^ Suc n)"
    by (simp only: signed_take_bit_eq_iff_take_bit_eq)
  also have "\<dots> = k - 2 ^ Suc n" using assms by (intro signed_take_bit_int_eq_self) simp_all
  finally show ?thesis .
qed

lemma signed_32:
  assumes "n < 2 ^ 32"
  shows "signed_take_bit 31 (int n) = (if n < 2 ^ 31 then int n else int n - 2 ^ 32)"
  using assms signed_wrap [of 31 "int n"] by (auto simp: signed_take_bit_int_eq_self)

text \<open>
  Claim C6. Where a jump leads. A jump takes the low 32 bits of its operand. When they are the position of an
  opcode \<open>JUMPDEST\<close> of the code, an operand byte of the same value not being one, the execution goes on
  with the instruction that starts the block of that \<open>JUMPDEST\<close>; with all other values it ends. In
  particular operands that differ by a multiple of 2^32 jump to the same place.
\<close>

theorem jump_exact:
  assumes "advanced a = Some (layout t cb)" and "load (estate a) (top_item (stack a)) = Inr d" and "length cb < 2 ^ 31"
  shows "let p = val256 d mod 2 ^ 32; a' = a\<lparr>stack := (stack a)\<lparr>top_item := top_item (stack a) - 1\<rparr>\<rparr> in
    if (p, OP_JUMPDEST) \<in> set (code_ops cb 0)
    then \<exists>gs g gs'. blocks (code_ops cb 0) = gs @ g # gs' \<and> g \<noteq> [] \<and> hd g = (p, OP_JUMPDEST) \<and>
           op_jump tr i a = Inr (a', Some (start_after t cb gs))
    else op_jump tr i a = Inr (a', None)"
proof -
  let ?w = "ucast (lower128 (lower256 d)) :: u32" and ?p = "val256 d mod 2 ^ 32"
  let ?a = "a\<lparr>stack := (stack a)\<lparr>top_item := top_item (stack a) - 1\<rparr>\<rparr>"
  have w: "unat ?w = ?p" by (rule shift_amount)
  then have u: "uint ?w = int ?p" by (simp only: uint_nat)
  have "sint ?w = signed_take_bit 31 (uint ?w)" by (subst sint_uint) simp
  then have sw: "sint ?w = (if ?p < 2 ^ 31 then int ?p else int ?p - 2 ^ 32)"
    unfolding u using signed_32 [of ?p] by simp
  have jump: "op_jump tr i a = bind_o (find_jumpdest (layout t cb) (sint ?w)) (\<lambda>target.
      if target < 0 then Inr (?a, None)
      else bind_o (cvec_at (instrs (layout t cb)) (nat target)) (\<lambda>_. Inr (?a, Some (nat target))))"
    using assms(1,2) sint_lt [of ?w] unfolding op_jump_def exit_simp by (simp add: Stack_pop_def not_less)
  show ?thesis
  proof (cases "(?p, OP_JUMPDEST) \<in> set (code_ops cb 0)")
    case True
    then have "?p < 2 ^ 31" using code_ops_above assms(3) by fastforce
    then have "sint ?w = int ?p" unfolding sw by (rule if_P)
    moreover from layout_find(1) [OF True, of t] obtain gs g gs' where
      b: "blocks (code_ops cb 0) = gs @ g # gs'" "g \<noteq> []" "hd g = (?p, OP_JUMPDEST)"
      and f: "find_jumpdest (layout t cb) (int ?p) = Inr (int (start_after t cb gs))" by blast
    ultimately have "op_jump tr i a = Inr (?a, Some (start_after t cb gs))"
      using start_inside [OF b(1), of t] by (simp add: jump cvec_at_def)
    then show ?thesis using True b unfolding Let_def if_P [OF True] by blast
  next
    case False
    have "(q, OP_JUMPDEST) \<notin> set (code_ops cb 0)" if q: "int q = sint ?w" for q
    proof
      assume "(q, OP_JUMPDEST) \<in> set (code_ops cb 0)"
      have "int ?p - 2 ^ 32 < 0" by simp
      then have "sint ?w = int ?p" using q sw by (metis not_le of_nat_0_le_iff)
      then have "q = ?p" using q by (metis of_nat_eq_iff)
      then show False using False \<open>(q, OP_JUMPDEST) \<in> set (code_ops cb 0)\<close> by simp
    qed
    then show ?thesis using False layout_find(2) [of "sint ?w" cb t] by (simp add: jump)
  qed
qed

theorem jump_exact_witness:
  "\<forall>a t tr i. \<exists>a'. op_jump tr i
     (a\<lparr>estate := (estate a)\<lparr>stack_space := [mk256 0 0 0 0x100000000]\<rparr>, stack := \<lparr>top_item = 0, m_bottom = - 1\<rparr>,
        advanced := Some (layout t [91])\<rparr>) = Inr (a', Some 0)"
proof (intro allI)
  fix a :: AdvancedExecutionState and t tr i
  let ?a = "a\<lparr>estate := (estate a)\<lparr>stack_space := [mk256 0 0 0 0x100000000]\<rparr>, stack := \<lparr>top_item = 0, m_bottom = - 1\<rparr>,
        advanced := Some (layout t [91])\<rparr>"
  have ops: "code_ops [91] 0 = [(0, 91)]" by (simp add: code_ops.simps operand_size_def)
  have "blocks (code_ops [91] 0) = [[(0, 91)]]" by (simp add: ops ends_block_def is_terminator_def)
  then have start: "gs = []" if "blocks (code_ops [91] 0) = gs @ g # gs'" for gs g gs' using that by (cases gs) auto
  have "load (estate ?a) (top_item (stack ?a)) = Inr (mk256 0 0 0 0x100000000)" by (simp add: load_def)
  from jump_exact [OF _ this, of t "[91]" tr i] obtain gs g gs' a' where
    "blocks (code_ops [91] 0) = gs @ g # gs'" "op_jump tr i ?a = Inr (a', Some (start_after t [91] gs))"
    by (simp add: Let_def ops val256_mk256) blast
  moreover from this(1) have "gs = []" by (rule start)
  ultimately show "\<exists>a'. op_jump tr i ?a = Inr (a', Some 0)" by (simp add: start_after_def)
qed

section \<open>The check of a block\<close>

text \<open>How far the stack has moved before the opcode number \<open>k\<close> of a block.\<close>

definition moved :: "OpTableEntry list \<Rightarrow> nat \<Rightarrow> int" where
  "moved es k = sum_list (map oe_stack_change (take k es))"

lemma moved_simps [simp]: "moved es 0 = 0" "moved (e # es) (Suc k) = oe_stack_change e + moved es k"
  by (simp_all add: moved_def)

lemma all_less_Suc: "(\<forall>k < Suc n. P k) \<longleftrightarrow> P 0 \<and> (\<forall>k < n. P (Suc k))"
  by (auto simp: less_Suc_eq_0_disj)

lemma totals_gas: "ba_gas_cost (fold add_total es b) = ba_gas_cost b + sum_list (map oe_gas_cost es)"
  by (induction es arbitrary: b) (simp_all add: add_total_def)

lemma totals_req:
  "ba_stack_req (fold add_total es b) \<le> h \<longleftrightarrow>
     ba_stack_req b \<le> h \<and> (\<forall>k < length es. oe_stack_req (es ! k) \<le> h + ba_stack_change b + moved es k)"
proof (induction es arbitrary: b)
  case (Cons e es)
  show ?case
    by (simp only: fold_simps Cons.IH length_Cons all_less_Suc nth_Cons_0 nth_Cons_Suc moved_simps)
      (auto simp: add_total_def algebra_simps)
qed simp

lemma totals_growth:
  "ba_stack_max_growth (fold add_total es b) \<le> h \<longleftrightarrow>
     ba_stack_max_growth b \<le> h \<and> (\<forall>k < length es. ba_stack_change b + moved es (Suc k) \<le> h)"
proof (induction es arbitrary: b)
  case (Cons e es)
  show ?case
    by (simp only: fold_simps Cons.IH length_Cons all_less_Suc moved_simps) (auto simp: add_total_def algebra_simps)
qed simp

lemma totals_nonneg:
  "ba_stack_req b \<le> ba_stack_req (fold add_total es b)" "ba_stack_max_growth b \<le> ba_stack_max_growth (fold add_total es b)"
  by (simp_all add: totals_req [of es b "ba_stack_req (fold add_total es b)", THEN iffD1, THEN conjunct1]
      totals_growth [of es b "ba_stack_max_growth (fold add_total es b)", THEN iffD1, THEN conjunct1])

lemma close_fields:
  "bi_gas_cost (BlockAnalysis_close b) = of_int (ba_gas_cost b)"
  "bi_stack_req (BlockAnalysis_close b) = signed_take_bit 15 (ba_stack_req b)"
  "bi_stack_max_growth (BlockAnalysis_close b) = signed_take_bit 15 (ba_stack_max_growth b)"
proof -
  have "uint (of_int (ba_gas_cost b) :: u32) \<le> 2 ^ 32 - 1" using uint_lt2p [of "of_int (ba_gas_cost b) :: u32"] by simp
  moreover have "signed_take_bit 15 k \<le> 2 ^ 15 - 1" for k :: int
    using signed_take_bit_int_less_exp [of 15 k] by simp
  ultimately show "bi_gas_cost (BlockAnalysis_close b) = of_int (ba_gas_cost b)"
    "bi_stack_req (BlockAnalysis_close b) = signed_take_bit 15 (ba_stack_req b)"
    "bi_stack_max_growth (BlockAnalysis_close b) = signed_take_bit 15 (ba_stack_max_growth b)"
    by (simp_all add: BlockAnalysis_close_def BlockInfo_init_v_def Let_def)
qed

lemma signed_16: "0 \<le> k \<Longrightarrow> k < 2 ^ 15 \<Longrightarrow> signed_take_bit 15 k = (k :: int)"
  by (simp add: signed_take_bit_int_eq_self)

text \<open>
  Claim C3. The check at the start of a block, when the sums of the block are in the range of the fields that
  keep them: the execution goes on exactly when the gas covers all the instructions of the block and
  every instruction in it, in its turn, finds the items it requires and leaves at most 1024. It charges
  the gas of the whole block and nothing else.
\<close>

theorem beginblock_checks:
  fixes g t defines "es \<equiv> map (\<lambda>x. opcode_entry t (snd x)) g"
  assumes arg: "instr_arg i a = Inr (Block (BlockAnalysis_close (totals t g BlockAnalysis_init)))"
    and gas: "0 \<le> sum_list (map oe_gas_cost es)" "sum_list (map oe_gas_cost es) < 2 ^ 32"
    and req: "ba_stack_req (totals t g BlockAnalysis_init) < 2 ^ 15"
    and growth: "ba_stack_max_growth (totals t g BlockAnalysis_init) < 2 ^ 15"
    and left: "- (2 ^ 62) \<le> gas_left (estate a)" "gas_left (estate a) < 2 ^ 63"
    and h: "h = top_item (stack a) - m_bottom (stack a)" "0 \<le> h" "h \<le> 1024"
  shows "let cost = sum_list (map oe_gas_cost es); a' = a\<lparr>estate := (estate a)\<lparr>gas_left := gas_left (estate a) - cost\<rparr>\<rparr> in
    opx_beginblock tr i a =
      Inr (if cost \<le> gas_left (estate a) \<and>
              (\<forall>k < length es. oe_stack_req (es ! k) \<le> h + moved es k \<and> h + moved es (Suc k) \<le> 1024)
           then (a'\<lparr>current_block_cost := of_int cost\<rparr>, Some (i + 1)) else (a', None))"
proof -
  let ?b = "totals t g BlockAnalysis_init" and ?cost = "sum_list (map oe_gas_cost es)"
  have b: "?b = fold add_total es BlockAnalysis_init" by (simp add: totals_def es_def fold_map comp_def)
  have zero: "ba_gas_cost BlockAnalysis_init = 0" "ba_stack_req BlockAnalysis_init = 0"
    "ba_stack_max_growth BlockAnalysis_init = 0" "ba_stack_change BlockAnalysis_init = 0"
    by (simp_all add: BlockAnalysis_init_def)
  note ranges = totals_nonneg [of BlockAnalysis_init es, folded b, unfolded zero]
  have info: "bi_gas_cost (BlockAnalysis_close ?b) = of_int ?cost"
    "bi_stack_req (BlockAnalysis_close ?b) = ba_stack_req ?b"
    "bi_stack_max_growth (BlockAnalysis_close ?b) = ba_stack_max_growth ?b"
    using signed_16 [OF ranges(1) req] signed_16 [OF ranges(2) growth]
    by (simp_all add: close_fields) (simp add: b totals_gas zero)
  have cost: "uint (of_int ?cost :: u32) = ?cost" using gas by (simp add: unsigned_of_int take_bit_eq_mod)
  have size: "Stack_size (stack a) = h" using h by (simp add: Stack_size_def signed_take_bit_int_eq_self)
  have req_iff: "ba_stack_req ?b \<le> h \<longleftrightarrow> (\<forall>k < length es. oe_stack_req (es ! k) \<le> h + moved es k)"
    unfolding b totals_req zero using h(2) by simp
  have growth_iff: "ba_stack_max_growth ?b \<le> 1024 - h \<longleftrightarrow> (\<forall>k < length es. moved es (Suc k) \<le> 1024 - h)"
    unfolding b totals_growth zero using h(3) by simp
  have ch: "charge ?cost (estate a) = Inr ((estate a)\<lparr>gas_left := gas_left (estate a) - ?cost\<rparr>, ?cost \<le> gas_left (estate a))"
    using left gas by (intro charge_law) simp_all
  have "opx_beginblock tr i a = Inr (let a' = a\<lparr>estate := (estate a)\<lparr>gas_left := gas_left (estate a) - ?cost\<rparr>\<rparr> in
      if ?cost \<le> gas_left (estate a) \<and> ba_stack_req ?b \<le> h \<and> ba_stack_max_growth ?b \<le> 1024 - h
      then (a'\<lparr>current_block_cost := of_int ?cost\<rparr>, Some (i + 1)) else (a', None))"
    by (simp add: opx_beginblock_def arg_block_def arg info cost ch size Let_def)
  then show ?thesis unfolding req_iff growth_iff by (simp add: Let_def le_diff_eq add.commute)
qed

text \<open>A table in which every opcode is \<open>POP\<close>, and a state at the check of a block of one of them.\<close>

definition pop_table :: "OpTableEntry list" where
  "pop_table = replicate 256 \<lparr>oe_fn = Some Op_pop, oe_gas_cost = 2, oe_stack_req = 1, oe_stack_change = - 1\<rparr>"

definition at_block :: "AdvancedExecutionState \<Rightarrow> AdvancedExecutionState" where
  "at_block a = a\<lparr>estate := (estate a)\<lparr>gas_left := 5\<rparr>, stack := \<lparr>top_item = 0, m_bottom = - 1\<rparr>,
     advanced := Some \<lparr>instrs = [\<lparr>fn = Some Opx_beginblock,
         arg = Block (BlockAnalysis_close (totals pop_table [(0, OP_POP)] BlockAnalysis_init))\<rparr>],
       push_values = [], jumpdest_offsets = [], jumpdest_targets = []\<rparr>\<rparr>"

theorem beginblock_checks_witness:
  "\<forall>a. opx_beginblock [] 0 (at_block a) =
     Inr ((at_block a)\<lparr>estate := (estate (at_block a))\<lparr>gas_left := 3\<rparr>, current_block_cost := 2\<rparr>, Some 1)"
proof
  fix a
  have entry: "opcode_entry pop_table OP_POP = \<lparr>oe_fn = Some Op_pop, oe_gas_cost = 2, oe_stack_req = 1, oe_stack_change = - 1\<rparr>"
    by (simp add: opcode_entry_def pop_table_def Let_def)
  have arg: "instr_arg 0 (at_block a) = Inr (Block (BlockAnalysis_close (totals pop_table [(0, OP_POP)] BlockAnalysis_init)))"
    by (simp only: instr_arg_def at_block_def) simp
  have "gas_left (estate (at_block a)) = 5" "stack (at_block a) = \<lparr>top_item = 0, m_bottom = - 1\<rparr>"
    by (simp_all add: at_block_def)
  then show "opx_beginblock [] 0 (at_block a) =
     Inr ((at_block a)\<lparr>estate := (estate (at_block a))\<lparr>gas_left := 3\<rparr>, current_block_cost := 2\<rparr>, Some 1)"
    using beginblock_checks [OF arg, of 1 "[]"] by (simp add: entry Let_def add_total_def BlockAnalysis_init_def)
qed



end
