(* ===== verification/Execution.thy ===== *)
theory Execution
  imports Code_Facts
begin

text \<open>
  The execution of a code: the loop of src/tscvee/ta/include/execution.h over the instruction table, the
  virtual machine interface of src/tscvee/ta/include/vm.h, and the entry points of the trusted
  application, src/tscvee/ta/tscvee_ta.c. The loop may run forever; it gets a number of rounds, and
  \<open>None\<close> stands for an execution that has not ended within them. Logging is not modelled.
\<close>

section \<open>The interpreter loop\<close>

text \<open>\<open>instr->fn(instr, astate)\<close>\<close>

definition exec_instr :: "Traits list \<Rightarrow> nat \<Rightarrow> AdvancedExecutionState \<Rightarrow> (AdvancedExecutionState \<times> nat option) outcome" where
  "exec_instr tr i a =
     (case advanced a of None \<Rightarrow> Inl Null_pointer
      | Some analysis \<Rightarrow> bind_o (read_at (instrs analysis) i) (\<lambda>instr.
          case fn instr of None \<Rightarrow> Inl Unset_function | Some f \<Rightarrow> exec_fn f tr i a))"

fun run :: "nat \<Rightarrow> Traits list \<Rightarrow> nat option \<Rightarrow> AdvancedExecutionState \<Rightarrow> AdvancedExecutionState outcome option" where
  "run n tr None a = Some (Inr a)"
| "run 0 tr (Some i) a = None"
| "run (Suc n) tr (Some i) a =
     (case exec_instr tr i a of Inl e \<Rightarrow> Some (Inl e) | Inr (a, instr) \<Rightarrow> run n tr instr a)"

text \<open>The gas left goes through an unsigned \<open>size_t\<close> into the signed field of the result.\<close>

definition make_execution_result :: "AdvancedExecutionState \<Rightarrow> evmc_result outcome" where
  "make_execution_result a =
     (let s = estate a;
          g = (if status s = EVMC_SUCCESS \<or> status s = EVMC_REVERT then gas_left s mod 2 ^ 64 else 0)
      in bind_o (guard_o Assertion_failed (output_size s \<noteq> 0 \<or> output_offset s = 0)) (\<lambda>_.
         evmc_make_result (status s) (signed_take_bit 63 g) (m_data (memory s)) (output_offset s) (output_size s)))"

definition execute_analyzed_code ::
  "nat \<Rightarrow> Traits list \<Rightarrow> AdvancedExecutionState \<Rightarrow> CodeAnalysis \<Rightarrow> (AdvancedExecutionState \<times> evmc_result) outcome option" where
  "execute_analyzed_code n tr a analysis =
     map_option (\<lambda>r. bind_o r (\<lambda>a. bind_o (make_execution_result a) (\<lambda>result. Inr (a, result))))
       (run n tr (Some 0) (a\<lparr>advanced := Some analysis\<rparr>))"

text \<open>
  The state in zeroed memory. The message and the host of the inner state are pointers that are set
  before they are used; here they have their later values.
\<close>

definition zero_state :: "evmc_message \<Rightarrow> MockedHost \<Rightarrow> AdvancedExecutionState" where
  "zero_state m host =
     \<lparr>estate = \<lparr>gas_left = 0, memory = \<lparr>page_size = 0, m_data = [], m_size = 0, m_capacity = 0\<rparr>, msg = m,
        host_ctx = host, rev = EVMC_FRONTIER, return_data = None, code = \<lparr>bv_data = [], bv_size = 0\<rparr>,
        status = EVMC_SUCCESS, output_offset = 0, output_size = 0, m_tx = zero_tx_context,
        stack_space = replicate 1024 (mk256 0 0 0 0)\<rparr>,
      stack = \<lparr>top_item = 0, m_bottom = 0\<rparr>, current_block_cost = 0, advanced = None\<rparr>"

text \<open>\<open>fns\<close> and \<open>opt\<close> are what the memory of the two local tables of \<open>get_op_table\<close> held.\<close>

definition execute ::
  "nat \<Rightarrow> int list list \<Rightarrow> Traits list \<Rightarrow> instruction_exec_fn option list \<Rightarrow> OpTableEntry list \<Rightarrow> MockedHost
     \<Rightarrow> evmc_revision \<Rightarrow> evmc_message \<Rightarrow> u8 list \<Rightarrow> nat \<Rightarrow> (AdvancedExecutionState \<times> evmc_result) outcome option" where
  "execute n gas_costs tr fns opt ctx r m code_bytes code_size =
     (case analyze gas_costs tr fns opt r code_bytes code_size of Inl e \<Rightarrow> Some (Inl e)
      | Inr analysis \<Rightarrow>
          let astate = AdvancedExecutionState_init_v (zero_state m ctx) m r ctx code_bytes code_size
          in execute_analyzed_code n tr astate analysis)"

section \<open>The virtual machine\<close>

datatype vm_fn = Fn_destroy | Fn_execute | Fn_get_capabilities | Fn_set_option

record evmc_vm =
  abi_version :: int
  vm_name :: string
  vm_version :: string
  vm_destroy :: "vm_fn option"
  vm_execute :: "vm_fn option"
  vm_get_capabilities :: "vm_fn option"
  vm_set_option :: "vm_fn option"

definition EVMC_ABI_VERSION :: int where
  "EVMC_ABI_VERSION = 10"

definition EVMC_CAPABILITY_EVM1 :: u32 where
  "EVMC_CAPABILITY_EVM1 = 1"

definition destroy :: "evmc_vm option \<Rightarrow> unit outcome" where
  "destroy vm = guard_o Assertion_failed (vm \<noteq> None)"

definition get_capabilities :: "evmc_vm \<Rightarrow> u32" where
  "get_capabilities vm = EVMC_CAPABILITY_EVM1"

definition set_option :: "evmc_vm \<Rightarrow> string \<Rightarrow> string \<Rightarrow> evmc_vm \<times> evmc_set_option_result" where
  "set_option vm c_name c_value =
     (if c_name = ''O'' then
        if c_value = ''0'' then (vm\<lparr>vm_execute := Some Fn_execute\<rparr>, EVMC_SET_OPTION_SUCCESS)
        else if c_value = ''2'' then (vm\<lparr>vm_execute := Some Fn_execute\<rparr>, EVMC_SET_OPTION_SUCCESS)
        else (vm, EVMC_SET_OPTION_INVALID_VALUE)
      else (vm, EVMC_SET_OPTION_INVALID_NAME))"

definition vm_init :: evmc_vm where
  "vm_init = \<lparr>abi_version = EVMC_ABI_VERSION, vm_name = ''evmonec'', vm_version = ''0.0.0'',
     vm_destroy = Some Fn_destroy, vm_execute = Some Fn_execute, vm_get_capabilities = Some Fn_get_capabilities,
     vm_set_option = Some Fn_set_option\<rparr>"

section \<open>The trusted application\<close>

datatype TEE_Result = TEE_SUCCESS | TEE_ERROR_BAD_PARAMETERS

definition TA_TSCVEE_CMD_RUN :: nat where
  "TA_TSCVEE_CMD_RUN = 0"

definition TA_TSCVEE_CMD_BENCH :: nat where
  "TA_TSCVEE_CMD_BENCH = 1"

definition TA_CreateEntryPoint :: TEE_Result where
  "TA_CreateEntryPoint = TEE_SUCCESS"

text \<open>The encoding of four parameters of type \<open>NONE\<close> comes from the TEE library; it is an argument.\<close>

definition TA_OpenSessionEntryPoint :: "u32 \<Rightarrow> u32 \<Rightarrow> TEE_Result" where
  "TA_OpenSessionEntryPoint exp_param_types param_types =
     (if param_types \<noteq> exp_param_types then TEE_ERROR_BAD_PARAMETERS else TEE_SUCCESS)"

text \<open>A character array with an initialiser, padded with zeros.\<close>

definition char_array :: "nat \<Rightarrow> string \<Rightarrow> u8 list" where
  "char_array n s = map of_char s @ replicate (n - length s) 0"

definition bytecode_hex :: "u8 list" where
  "bytecode_hex = char_array 7076
    (''0x6060604052341561000f57600080fd5b604051610dd1380380610dd1833981016040528080519060200190919080518201'' @
     ''9190602001805190602001909190805182019190505083600160003373ffffffffffffffffffffffffffffffffffffffff16'' @
     ''73ffffffffffffffffffffffffffffffffffffffff1681526020019081526020016000208190555083600081905550826003'' @
     ''90805190602001906100a79291906100e3565b5081600460006101000a81548160ff021916908360ff160217905550806005'' @
     ''90805190602001906100d99291906100e3565b5050505050610188565b828054600181600116156101000203166002900490'' @
     ''600052602060002090601f016020900481019282601f1061012457805160ff1916838001178555610152565b828001600101'' @
     ''85558215610152579182015b82811115610151578251825591602001919060010190610136565b5b50905061015f91906101'' @
     ''63565b5090565b61018591905b80821115610181576000816000905550600101610169565b5090565b90565b610c3a806101'' @
     ''976000396000f3006060604052600436106100af576000357c01000000000000000000000000000000000000000000000000'' @
     ''00000000900463ffffffff16806306fdde03146100b4578063095ea7b31461014257806318160ddd1461019c57806323b872'' @
     ''dd146101c557806327e235e31461023e578063313ce5671461028b5780635c658165146102ba57806370a082311461032657'' @
     ''806395d89b4114610373578063a9059cbb14610401578063dd62ed3e1461045b575b600080fd5b34156100bf57600080fd5b'' @
     ''6100c76104c7565b6040518080602001828103825283818151815260200191508051906020019080838360005b8381101561'' @
     ''01075780820151818401526020810190506100ec565b50505050905090810190601f16801561013457808203805160018360'' @
     ''20036101000a031916815260200191505b509250505060405180910390f35b341561014d57600080fd5b6101826004808035'' @
     ''73ffffffffffffffffffffffffffffffffffffffff16906020019091908035906020019091905050610565565b6040518082'' @
     ''15151515815260200191505060405180910390f35b34156101a757600080fd5b6101af610657565b60405180828152602001'' @
     ''91505060405180910390f35b34156101d057600080fd5b610224600480803573ffffffffffffffffffffffffffffffffffff'' @
     ''ffff1690602001909190803573ffffffffffffffffffffffffffffffffffffffff1690602001909190803590602001909190'' @
     ''505061065d565b604051808215151515815260200191505060405180910390f35b341561024957600080fd5b610275600480'' @
     ''803573ffffffffffffffffffffffffffffffffffffffff169060200190919050506108f7565b604051808281526020019150'' @
     ''5060405180910390f35b341561029657600080fd5b61029e61090f565b604051808260ff1660ff1681526020019150506040'' @
     ''5180910390f35b34156102c557600080fd5b610310600480803573ffffffffffffffffffffffffffffffffffffffff169060'' @
     ''2001909190803573ffffffffffffffffffffffffffffffffffffffff16906020019091905050610922565b60405180828152'' @
     ''60200191505060405180910390f35b341561033157600080fd5b61035d600480803573ffffffffffffffffffffffffffffff'' @
     ''ffffffffff16906020019091905050610947565b6040518082815260200191505060405180910390f35b341561037e576000'' @
     ''80fd5b610386610990565b6040518080602001828103825283818151815260200191508051906020019080838360005b8381'' @
     ''10156103c65780820151818401526020810190506103ab565b50505050905090810190601f1680156103f357808203805160'' @
     ''01836020036101000a031916815260200191505b509250505060405180910390f35b341561040c57600080fd5b6104416004'' @
     ''80803573ffffffffffffffffffffffffffffffffffffffff16906020019091908035906020019091905050610a2e565b6040'' @
     ''51808215151515815260200191505060405180910390f35b341561046657600080fd5b6104b1600480803573ffffffffffff'' @
     ''ffffffffffffffffffffffffffff1690602001909190803573ffffffffffffffffffffffffffffffffffffffff1690602001'' @
     ''9091905050610b87565b6040518082815260200191505060405180910390f35b600380546001816001161561010002031660'' @
     ''02900480601f0160208091040260200160405190810160405280929190818152602001828054600181600116156101000203'' @
     ''1660029004801561055d5780601f106105325761010080835404028352916020019161055d565b8201919060005260206000'' @
     ''20905b81548152906001019060200180831161054057829003601f168201915b505050505081565b600081600260003373ff'' @
     ''ffffffffffffffffffffffffffffffffffffff1673ffffffffffffffffffffffffffffffffffffffff168152602001908152'' @
     ''60200160002060008573ffffffffffffffffffffffffffffffffffffffff1673ffffffffffffffffffffffffffffffffffff'' @
     ''ffff168152602001908152602001600020819055508273ffffffffffffffffffffffffffffffffffffffff163373ffffffff'' @
     ''ffffffffffffffffffffffffffffffff167f8c5be1e5ebec7d5bd14f71427d1e84f3dd0314c0f7b2291e5b200ac8c7c3b925'' @
     ''846040518082815260200191505060405180910390a36001905092915050565b60005481565b600080600260008673ffffff'' @
     ''ffffffffffffffffffffffffffffffffff1673ffffffffffffffffffffffffffffffffffffffff1681526020019081526020'' @
     ''0160002060003373ffffffffffffffffffffffffffffffffffffffff1673ffffffffffffffffffffffffffffffffffffffff'' @
     ''16815260200190815260200160002054905082600160008773ffffffffffffffffffffffffffffffffffffffff1673ffffff'' @
     ''ffffffffffffffffffffffffffffffffff168152602001908152602001600020541015801561072e5750828110155b151561'' @
     ''073957600080fd5b82600160008673ffffffffffffffffffffffffffffffffffffffff1673ffffffffffffffffffffffffff'' @
     ''ffffffffffffff1681526020019081526020016000206000828254019250508190555082600160008773ffffffffffffffff'' @
     ''ffffffffffffffffffffffff1673ffffffffffffffffffffffffffffffffffffffff16815260200190815260200160002060'' @
     ''0082825403925050819055507fffffffffffffffffffffffffffffffffffffffffffffffffffffffffffffffff8110156108'' @
     ''865782600260008773ffffffffffffffffffffffffffffffffffffffff1673ffffffffffffffffffffffffffffffffffffff'' @
     ''ff16815260200190815260200160002060003373ffffffffffffffffffffffffffffffffffffffff1673ffffffffffffffff'' @
     ''ffffffffffffffffffffffff168152602001908152602001600020600082825403925050819055505b8373ffffffffffffff'' @
     ''ffffffffffffffffffffffffff168573ffffffffffffffffffffffffffffffffffffffff167fddf252ad1be2c89b69c2b068'' @
     ''fc378daa952ba7f163c4a11628f55a4df523b3ef856040518082815260200191505060405180910390a36001915050939250'' @
     ''5050565b60016020528060005260406000206000915090505481565b600460009054906101000a900460ff1681565b600260'' @
     ''2052816000526040600020602052806000526040600020600091509150505481565b6000600160008373ffffffffffffffff'' @
     ''ffffffffffffffffffffffff1673ffffffffffffffffffffffffffffffffffffffff16815260200190815260200160002054'' @
     ''9050919050565b60058054600181600116156101000203166002900480601f01602080910402602001604051908101604052'' @
     ''8092919081815260200182805460018160011615610100020316600290048015610a265780601f106109fb57610100808354'' @
     ''040283529160200191610a26565b820191906000526020600020905b815481529060010190602001808311610a0957829003'' @
     ''601f168201915b505050505081565b600081600160003373ffffffffffffffffffffffffffffffffffffffff1673ffffffff'' @
     ''ffffffffffffffffffffffffffffffff1681526020019081526020016000205410151515610a7e57600080fd5b8160016000'' @
     ''3373ffffffffffffffffffffffffffffffffffffffff1673ffffffffffffffffffffffffffffffffffffffff168152602001'' @
     ''9081526020016000206000828254039250508190555081600160008573ffffffffffffffffffffffffffffffffffffffff16'' @
     ''73ffffffffffffffffffffffffffffffffffffffff1681526020019081526020016000206000828254019250508190555082'' @
     ''73ffffffffffffffffffffffffffffffffffffffff163373ffffffffffffffffffffffffffffffffffffffff167fddf252ad'' @
     ''1be2c89b69c2b068fc378daa952ba7f163c4a11628f55a4df523b3ef846040518082815260200191505060405180910390a3'' @
     ''6001905092915050565b6000600260008473ffffffffffffffffffffffffffffffffffffffff1673ffffffffffffffffffff'' @
     ''ffffffffffffffffffff16815260200190815260200160002060008373ffffffffffffffffffffffffffffffffffffffff16'' @
     ''73ffffffffffffffffffffffffffffffffffffffff168152602001908152602001600020549050929150505600a165627a7a'' @
     ''72305820a04b03a98b165f64984cff3951df4523c88e24d7a0f763d464aca096b3b470dd0029'')"

definition input_hex :: "u8 list" where
  "input_hex = char_array 138
    (''0xa9059cbb000000000000000000000000d96c351f73f72968b00b5b568c47905eee6afb9400000000000000000000000000'' @
     ''00000000000000000000000000000000000001'')"

text \<open>The bytes of a hexadecimal string in a buffer of its own.\<close>

definition decode_hex :: "u8 list \<Rightarrow> (u8 list \<times> nat) outcome" where
  "decode_hex text =
     bind_o (strlen text) (\<lambda>n.
     let sz = (n div 2 + 2 ^ 64 - 1) mod 2 ^ 64
     in bind_o (from_hex text (replicate sz 0)) (\<lambda>bytes. Inr (bytes, sz)))"

text \<open>The message in zeroed memory.\<close>

definition zero_message :: evmc_message where
  "zero_message = \<lparr>kind = EVMC_CALL, flags = 0, depth = 0, gas_limit = 0, recipient = replicate 20 0,
     sender = replicate 20 0, input_data = [], input_size = 0, call_value = replicate 32 0,
     create2_salt = replicate 32 0, code_address = replicate 20 0\<rparr>"

text \<open>What is done with the result: the gas used, and the output in hexadecimal.\<close>

definition report_result :: "evmc_message \<Rightarrow> evmc_result \<Rightarrow> TEE_Result outcome" where
  "report_result m result =
     bind_o (int64 (gas_limit m - result_gas_left result)) (\<lambda>gas_used.
     if status_code result = EVMC_SUCCESS \<or> status_code result = EVMC_REVERT then
       let outlen = (result_output_size result * 2 + 2) mod 2 ^ 64;
           data = (case output_data result of None \<Rightarrow> [] | Some bs \<Rightarrow> bs)
       in bind_o (hex data (result_output_size result) (replicate outlen 0)) (\<lambda>output. Inr TEE_SUCCESS)
     else Inr TEE_SUCCESS)"

text \<open>The globals \<open>gas_costs\<close> and \<open>traits\<close>, and what the memory of local tables held, are arguments.\<close>

definition tscvee_main ::
  "u32 \<Rightarrow> nat \<Rightarrow> int list list \<Rightarrow> Traits list \<Rightarrow> instruction_exec_fn option list \<Rightarrow> OpTableEntry list \<Rightarrow> u32 \<Rightarrow> bool
     \<Rightarrow> TEE_Result outcome option" where
  "tscvee_main exp_param_types n gas_costs tr fns opt param_types bench_flag =
     (if param_types \<noteq> exp_param_types then Some (Inr TEE_ERROR_BAD_PARAMETERS)
      else
        let gas = 1000000; r = EVMC_LONDON; setup =
          bind_o (GasCostTable_init gas_costs) (\<lambda>gas_costs.
          bind_o (decode_hex bytecode_hex) (\<lambda>(code_bytes, code_size).
          bind_o (decode_hex input_hex) (\<lambda>(input, in_size).
          Inr (gas_costs, TraitsTable_init tr, code_bytes, code_size, input, in_size))))
        in case setup of Inl e \<Rightarrow> Some (Inl e)
           | Inr (gas_costs, tr, code_bytes, code_size, input, in_size) \<Rightarrow>
               let host = MockedHost_init zero_host; m = EVMCMessage_init_v zero_message gas input in_size
               in map_option (\<lambda>res. bind_o res (\<lambda>(a, result). report_result m result))
                    (execute n gas_costs tr fns opt host r m code_bytes code_size))"

definition TA_InvokeCommandEntryPoint ::
  "u32 \<Rightarrow> nat \<Rightarrow> int list list \<Rightarrow> Traits list \<Rightarrow> instruction_exec_fn option list \<Rightarrow> OpTableEntry list \<Rightarrow> nat \<Rightarrow> u32
     \<Rightarrow> TEE_Result outcome option" where
  "TA_InvokeCommandEntryPoint exp_param_types n gas_costs tr fns opt cmd_id param_types =
     (if cmd_id = TA_TSCVEE_CMD_RUN then tscvee_main exp_param_types n gas_costs tr fns opt param_types False
      else if cmd_id = TA_TSCVEE_CMD_BENCH then tscvee_main exp_param_types n gas_costs tr fns opt param_types True
      else Some (Inr TEE_ERROR_BAD_PARAMETERS))"

end
