(* ===== verification/Gas_Laws.thy ===== *)
theory Gas_Laws
  imports Execution
begin

text \<open>
  What every instruction of src/tscvee/ta/include/instructions.h keeps: none changes the status of the
  state, and none that goes on, but for the calls and the creations, leaves more gas than there was. The
  rules follow the shape of the definitions, so that an instruction is an application of them.
\<close>

section \<open>Calm steps\<close>

text \<open>The memory is one that an execution may have; the gas does not grow and does not become negative.\<close>

definition mem_small :: "ExecutionState \<Rightarrow> bool" where
  "mem_small s \<longleftrightarrow> memory_inv (memory s) \<and> m_capacity (memory s) < 2 ^ 60"

definition calm :: "ExecutionState \<Rightarrow> ExecutionState \<Rightarrow> bool" where
  "calm s s' \<longleftrightarrow> (mem_small s \<longrightarrow>
     mem_small s' \<and> gas_left s' \<le> gas_left s \<and> (0 \<le> gas_left s \<longrightarrow> 0 \<le> gas_left s'))"

lemma calm_trans: "calm s t \<Longrightarrow> calm t u \<Longrightarrow> calm s u"
  by (auto simp: calm_def)

text \<open>Nothing of this changes.\<close>

definition same_shape :: "Memory \<Rightarrow> Memory \<Rightarrow> bool" where
  "same_shape m m' \<longleftrightarrow> page_size m' = page_size m \<and> m_size m' = m_size m \<and> m_capacity m' = m_capacity m \<and>
     length (m_data m') = length (m_data m)"

definition quiet :: "ExecutionState \<Rightarrow> ExecutionState \<Rightarrow> bool" where
  "quiet s s' \<longleftrightarrow> status s' = status s \<and> gas_left s' = gas_left s \<and> same_shape (memory s) (memory s')"

lemma quiet_calm: "quiet s s' \<Longrightarrow> calm s s'"
  by (auto simp: quiet_def calm_def mem_small_def same_shape_def memory_inv_def)

lemma quiet_updates [simp]:
  "quiet s s" "quiet s (s\<lparr>host_ctx := h\<rparr>)" "quiet s (s\<lparr>stack_space := sp\<rparr>)" "quiet s (s\<lparr>return_data := r\<rparr>)"
  "quiet s (s\<lparr>output_size := n\<rparr>)" "quiet s (s\<lparr>output_size := n, output_offset := k\<rparr>)"
  "quiet s (s\<lparr>memory := m\<rparr>) \<longleftrightarrow> same_shape (memory s) m"
  by (auto simp: quiet_def same_shape_def)

named_theorems calm_rules \<open>what instructions keep, by the shape of their definitions\<close>

lemmas [calm_rules] = quiet_updates(1-6)

definition quiet_o :: "ExecutionState \<Rightarrow> ExecutionState outcome \<Rightarrow> bool" where
  "quiet_o s r \<longleftrightarrow> (\<forall>s'. r = Inr s' \<longrightarrow> quiet s s')"

text \<open>With a result: the status stays, and with \<open>R\<close>, a step that succeeds is calm.\<close>

definition fine :: "bool \<Rightarrow> ExecutionState \<Rightarrow> (ExecutionState \<times> evmc_status_code) outcome \<Rightarrow> bool" where
  "fine R s r \<longleftrightarrow> (\<forall>s' c. r = Inr (s', c) \<longrightarrow> status s' = status s \<and> (R \<and> c = EVMC_SUCCESS \<longrightarrow> calm s s'))"

definition fine_check :: "bool \<Rightarrow> ExecutionState \<Rightarrow> (ExecutionState \<times> bool) outcome \<Rightarrow> bool" where
  "fine_check R s r \<longleftrightarrow> (\<forall>s' ok. r = Inr (s', ok) \<longrightarrow> status s' = status s \<and> (R \<and> ok \<longrightarrow> calm s s'))"

lemma fine_Inl [calm_rules]: "fine R s (Inl e)" "fine_check R s (Inl e)" "quiet_o s (Inl e)"
  by (simp_all add: fine_def fine_check_def quiet_o_def)

lemma fine_Inr [calm_rules]: "quiet s s' \<Longrightarrow> fine R s (Inr (s', c))" "quiet s s' \<Longrightarrow> fine_check R s (Inr (s', ok))"
  "quiet s s' \<Longrightarrow> quiet_o s (Inr s')"
  by (auto simp: fine_def fine_check_def quiet_o_def quiet_calm) (auto simp: quiet_def)

lemma fine_bind [calm_rules]:
  "(\<And>x. m = Inr x \<Longrightarrow> fine R s (f x)) \<Longrightarrow> fine R s (bind_o m f)"
  "(\<And>x. m' = Inr x \<Longrightarrow> fine_check R s (g x)) \<Longrightarrow> fine_check R s (bind_o m' g)"
  "(\<And>x. m'' = Inr x \<Longrightarrow> quiet_o s (h x)) \<Longrightarrow> quiet_o s (bind_o m'' h)"
  by (auto simp: fine_def fine_check_def quiet_o_def cres)

lemma fineD: "fine R s r \<Longrightarrow> r = Inr (s', c) \<Longrightarrow> status s' = status s \<and> (R \<and> c = EVMC_SUCCESS \<longrightarrow> calm s s')"
  by (simp add: fine_def)

lemma fine_checkD: "fine_check R s r \<Longrightarrow> r = Inr (s', ok) \<Longrightarrow> status s' = status s \<and> (R \<and> ok \<longrightarrow> calm s s')"
  by (simp add: fine_check_def)

lemma fine_checked [calm_rules]:
  assumes "fine_check R s r" and k: "\<And>s'. r = Inr (s', True) \<Longrightarrow> fine R s' (k s')"
  shows "fine R s (checked r k)"
proof (cases r)
  case (Inl e)
  then show ?thesis by (simp add: checked_def fine_Inl)
next
  case (Inr p)
  obtain t ok where r: "r = Inr (t, ok)" using Inr by (cases p) auto
  note t = fine_checkD [OF assms(1) r]
  show ?thesis
  proof (cases ok)
    case True
    then have kt: "fine R t (k t)" using k r by simp
    have "checked r k = k t" using r True by simp
    then show ?thesis using fineD [OF kt] t True calm_trans [of s t] by (auto simp: fine_def)
  next
    case False
    then show ?thesis using r t by (simp add: fine_def)
  qed
qed

lemma fine_succeed [calm_rules]: "quiet_o s r \<Longrightarrow> fine R s (succeed r)"
  by (auto simp: fine_def succeed_def quiet_o_def cres quiet_calm) (auto simp: quiet_def)

lemma quiet_trans: "quiet s t \<Longrightarrow> quiet t u \<Longrightarrow> quiet s u"
  by (simp add: quiet_def same_shape_def)

lemma fine_quiet:
  assumes q: "quiet s t"
  shows "fine R t r \<Longrightarrow> fine R s r" and "fine_check R t r' \<Longrightarrow> fine_check R s r'" and "quiet_o t r'' \<Longrightarrow> quiet_o s r''"
proof -
  have st: "status t = status s" and c: "calm t u \<Longrightarrow> calm s u" for u
    using q quiet_calm [OF q] calm_trans [of s t u] by (simp_all add: quiet_def)
  show "fine R t r \<Longrightarrow> fine R s r" using st c unfolding fine_def by metis
  show "fine_check R t r' \<Longrightarrow> fine_check R s r'" using st c unfolding fine_check_def by metis
  show "quiet_o t r'' \<Longrightarrow> quiet_o s r''" using quiet_trans [OF q] unfolding quiet_o_def by blast
qed

lemma store_quiet [calm_rules]: "quiet s t \<Longrightarrow> quiet_o s (store_slot t p v)"
  by (rule fine_quiet(3), assumption) (auto simp: quiet_o_def store_slot_def cres split: if_splits)

lemma push_quiet [calm_rules]:
  "quiet s t \<Longrightarrow> quiet_o s (StackTop_push st v t)" "quiet s t \<Longrightarrow> quiet_o s (push_u64 st w t)"
  "quiet s t \<Longrightarrow> quiet_o s (push_bytes st b t)"
  unfolding StackTop_push_def push_u64_def push_bytes_def by (intro calm_rules; assumption)+

section \<open>Gas and memory checks\<close>

lemma charge_fine [calm_rules]: "quiet s t \<Longrightarrow> (R \<Longrightarrow> 0 \<le> c) \<Longrightarrow> fine_check R s (charge c t)"
  by (rule fine_quiet(2), assumption) (auto simp: fine_check_def charge_def cres calm_def mem_small_def)

lemma mem_write_shape: "mem_write m p bs = Inr m' \<Longrightarrow> same_shape m m'"
  by (auto simp: mem_write_def same_shape_def split: if_splits)

lemma mem_write_shape_trans: "mem_write m p bs = Inr m' \<Longrightarrow> same_shape k m \<Longrightarrow> same_shape k m'"
  using mem_write_shape [of m p bs m'] by (simp add: same_shape_def)

lemma same_shape_refl [simp]: "same_shape m m"
  by (simp add: same_shape_def)

lemma Memory_grow_capacity: "Memory_grow m n = Inr m' \<Longrightarrow> m_capacity m' \<le> m_capacity m + 2 * n + page_size m"
proof -
  have r: "(n + (page_size m - 1)) div page_size m * page_size m \<le> n + page_size m"
    using div_times_less_eq_dividend [of "n + (page_size m - 1)" "page_size m"] by linarith
  assume "Memory_grow m n = Inr m'"
  then show ?thesis
    using r by (auto simp: Memory_grow_def Let_def cres Memory_allocate_capacity_def dest!: mem_write_shape split: if_splits)
      (auto simp: same_shape_def)
qed

lemma Memory_grow_same: "n \<le> m_capacity m \<Longrightarrow> Memory_grow m n = Inr m' \<Longrightarrow> m_capacity m' = m_capacity m"
  by (auto simp: Memory_grow_def Let_def cres same_shape_def dest!: mem_write_shape split: if_splits)

lemma Memory_grow_guard: "Memory_grow m n = Inr m' \<Longrightarrow> n mod 32 = 0 \<and> m_size m < n"
  by (auto simp: Memory_grow_def cres)

lemma memory_cost_Inr: "memory_cost (int w) = Inr c \<Longrightarrow> c = mem_gas w \<and> w < 2 ^ 32"
proof -
  assume h: "memory_cost (int w) = Inr c"
  then have "int w * int w < 2 ^ 63" by (auto simp: memory_cost_def cres)
  then have "w * w < 2 ^ 63" by (metis of_nat_less_iff of_nat_mult of_nat_numeral of_nat_power)
  have "w < 2 ^ 32"
  proof (rule ccontr)
    assume "\<not> w < 2 ^ 32"
    then have "(2 :: nat) ^ 32 * 2 ^ 32 \<le> w * w" by (intro mult_mono) simp_all
    then show False using \<open>w * w < 2 ^ 63\<close> by simp
  qed
  then show ?thesis using h by (auto simp: memory_cost_def mem_gas_def cres)
qed

lemma num_words_nat: "num_words n = int (nat (num_words n))" "0 \<le> num_words n"
  by (simp_all add: num_words_def)

lemma grow_memory_fine [calm_rules]: "fine_check R s (grow_memory s n)"
  unfolding fine_check_def
proof (intro allI impI)
  fix s' ok
  assume g: "grow_memory s n = Inr (s', ok)"
  let ?w = "nat (num_words n)" and ?v = "m_size (memory s) div word_size"
  have w: "num_words n = int ?w" by (rule num_words_nat)
  obtain c c' where c: "memory_cost (int ?w) = Inr c" "memory_cost (int ?v) = Inr c'"
    using g num_words_nat(2) [of n] by (auto simp: grow_memory_def Let_def cres)
  have mc: "memory_cost (num_words n) = Inr c" using c(1) w by simp
  have g': "s' = (if ok then s\<lparr>gas_left := gas_left s - (c - c'), memory := memory s'\<rparr> else s\<lparr>gas_left := gas_left s - (c - c')\<rparr>)"
    "ok \<longleftrightarrow> 0 \<le> gas_left s - (c - c')" "ok \<Longrightarrow> Memory_grow (memory s) (?w * word_size) = Inr (memory s')"
    using g c(2) mc by (auto simp: grow_memory_def Let_def cres charge_def split: if_splits)
  have gl: "gas_left s' = gas_left s - (c - c')" by (subst g'(1)) simp
  have "calm s s'" if ok: ok
    unfolding calm_def
  proof (intro impI)
    assume m: "mem_small s"
    note grow = g'(3) [OF ok]
    have inv: "memory_inv (memory s)" using m by (simp add: mem_small_def)
    note guard = Memory_grow_guard [OF grow] and cap = Memory_grow_capacity [OF grow]
    have "memory_inv (memory s')" using Memory_grow_law [OF inv conjunct1 [OF guard] conjunct2 [OF guard]] grow by auto
    moreover have "m_capacity (memory s') < 2 ^ 60"
    proof (cases "?w * word_size \<le> m_capacity (memory s)")
      case True
      then have "m_capacity (memory s') = m_capacity (memory s)"
        using grow by (intro Memory_grow_same)
      then show ?thesis using m by (simp add: mem_small_def)
    next
      case False
      have "?w < 2 ^ 32" using memory_cost_Inr [OF c(1)] by simp
      then have "?w * word_size < 2 ^ 37" by (simp add: word_size_def)
      then show ?thesis using False cap inv by (simp add: memory_inv_def)
    qed
    moreover have "?v \<le> ?w" using guard by (simp add: word_size_def)
    then have "c' \<le> c" using memory_cost_Inr [OF c(1)] memory_cost_Inr [OF c(2)] mem_gas_mono by simp
    ultimately show "mem_small s' \<and> gas_left s' \<le> gas_left s \<and> (0 \<le> gas_left s \<longrightarrow> 0 \<le> gas_left s')"
      using g'(2) ok gl by (simp add: mem_small_def)
  qed
  moreover have "status s' = status s" by (subst g'(1)) simp
  ultimately show "status s' = status s \<and> (R \<and> ok \<longrightarrow> calm s s')" by blast
qed

lemma fine_if [calm_rules]:
  "(b \<Longrightarrow> fine R s x) \<Longrightarrow> (\<not> b \<Longrightarrow> fine R s y) \<Longrightarrow> fine R s (if b then x else y)"
  "(b \<Longrightarrow> fine_check R s x') \<Longrightarrow> (\<not> b \<Longrightarrow> fine_check R s y') \<Longrightarrow> fine_check R s (if b then x' else y')"
  "(b \<Longrightarrow> quiet_o s x'') \<Longrightarrow> (\<not> b \<Longrightarrow> quiet_o s y'') \<Longrightarrow> quiet_o s (if b then x'' else y'')"
  by auto

lemma fine_prod [calm_rules]:
  "(\<And>a b. p = (a, b) \<Longrightarrow> fine R s (f a b)) \<Longrightarrow> fine R s (case p of (a, b) \<Rightarrow> f a b)"
  "(\<And>a b. p' = (a, b) \<Longrightarrow> fine_check R s (g a b)) \<Longrightarrow> fine_check R s (case p' of (a, b) \<Rightarrow> g a b)"
  "(\<And>a b. p'' = (a, b) \<Longrightarrow> quiet_o s (h a b)) \<Longrightarrow> quiet_o s (case p'' of (a, b) \<Rightarrow> h a b)"
  by (auto split: prod.splits)

lemma fine_option [calm_rules]:
  "(x = None \<Longrightarrow> fine R s n) \<Longrightarrow> (\<And>y. x = Some y \<Longrightarrow> fine R s (f y)) \<Longrightarrow> fine R s (case x of None \<Rightarrow> n | Some y \<Rightarrow> f y)"
  by (auto split: option.splits)

lemma check_memory_fine [calm_rules]:
  "fine_check R s (check_memory_u64 s vo n)" "fine_check R s (check_memory_u256 s vo vn)"
proof -
  show u64: "fine_check R s (check_memory_u64 s vo n)" for n
    unfolding check_memory_u64_def Let_def by (intro calm_rules)
  show "fine_check R s (check_memory_u256 s vo vn)"
    unfolding check_memory_u256_def by (intro calm_rules u64)
qed

lemma cold_account_fine [calm_rules]: "0 \<le> c \<Longrightarrow> fine_check R s (cold_account c addr s)"
  unfolding cold_account_def Let_def by (intro calm_rules)

lemmas cold_costs = cold_account_access_cost_def additional_cold_account_access_cost_def warm_storage_read_cost_def
  cold_sload_cost_def

section \<open>Instructions that return nothing\<close>

definition quiet_instr :: "(int \<Rightarrow> ExecutionState \<Rightarrow> ExecutionState outcome) \<Rightarrow> bool" where
  "quiet_instr f \<longleftrightarrow> (\<forall>st s. quiet_o s (f st s))"

lemma binop_quiet: "quiet_instr (binop f)"
  unfolding quiet_instr_def binop_def Let_def by (intro allI calm_rules)

lemmas binop_instrs = add_def mul_def lt_def gt_def slt_def sgt_def and_instr_def or_instr_def xor_instr_def shl_def
  shr_def sar_def

lemma binops_quiet:
  "quiet_instr add" "quiet_instr mul" "quiet_instr lt" "quiet_instr gt" "quiet_instr slt" "quiet_instr sgt"
  "quiet_instr and_instr" "quiet_instr or_instr" "quiet_instr xor_instr" "quiet_instr shl" "quiet_instr shr" "quiet_instr sar"
  unfolding binop_instrs by (rule binop_quiet)+

lemma arith_quiet:
  "quiet_instr pop" "quiet_instr jumpdest" "quiet_instr sub" "quiet_instr div_instr" "quiet_instr sdiv"
  "quiet_instr mod_instr" "quiet_instr smod" "quiet_instr addmod" "quiet_instr mulmod" "quiet_instr signextend"
  "quiet_instr eq_instr" "quiet_instr iszero" "quiet_instr not_instr" "quiet_instr byte_instr"
  unfolding quiet_instr_def pop_def jumpdest_def sub_def div_instr_def sdiv_def mod_instr_def smod_def addmod_def
    mulmod_def signextend_def eq_instr_def iszero_def not_instr_def byte_instr_def Let_def
  by (intro allI calm_rules)+

lemma context_quiet:
  "quiet_instr address" "quiet_instr origin" "quiet_instr caller" "quiet_instr callvalue" "quiet_instr calldataload"
  "quiet_instr calldatasize" "quiet_instr codesize" "quiet_instr gasprice" "quiet_instr returndatasize"
  "quiet_instr blockhash" "quiet_instr coinbase" "quiet_instr timestamp" "quiet_instr number" "quiet_instr difficulty"
  "quiet_instr gaslimit" "quiet_instr chainid" "quiet_instr selfbalance" "quiet_instr basefee" "quiet_instr msize"
  "quiet_instr push0" "quiet_instr (dup n)"
  unfolding quiet_instr_def address_def origin_def caller_def callvalue_def calldataload_def calldatasize_def
    codesize_def gasprice_def returndatasize_def blockhash_def coinbase_def timestamp_def number_def difficulty_def
    gaslimit_def chainid_def selfbalance_def basefee_def msize_def push0_def dup_def Let_def
  by (intro allI calm_rules)+

lemma swap_quiet: "quiet_instr (swap n)"
proof -
  have "store_slot s p v = Inr t \<Longrightarrow> quiet s t" for s p v t
    using store_quiet [of s s p v] by (simp add: quiet_o_def)
  then show ?thesis unfolding quiet_instr_def swap_def by (intro allI calm_rules) blast
qed

section \<open>Instructions with a status\<close>

definition fine_instr :: "bool \<Rightarrow> (int \<Rightarrow> ExecutionState \<Rightarrow> (ExecutionState \<times> evmc_status_code) outcome) \<Rightarrow> bool" where
  "fine_instr R f \<longleftrightarrow> (\<forall>st s. fine R s (f st s))"

lemma num_words_cost [calm_rules]: "0 \<le> num_words n * 3" "0 \<le> num_words n * 6"
  by (simp_all add: num_words_def)

lemma cold_cost [calm_rules]: "0 \<le> additional_cold_account_access_cost" "0 \<le> cold_account_access_cost"
  "0 \<le> cold_sload_cost - warm_storage_read_cost"
  by (simp_all add: cold_costs)

lemma significant_bytes: "unat (count_significant_bytes x) < 2 ^ 29" "count_significant_bytes 64 = 1"
proof -
  have "unat (64 - clz x + 7) < 2 ^ 32" using unsigned_less [of "64 - clz x + 7"] by simp
  then show "unat (count_significant_bytes x) < 2 ^ 29"
    unfolding count_significant_bytes_def by (simp only: unat_div) simp
  show "count_significant_bytes 64 = 1" by code_simp
qed

lemma csb256_small: "0 \<le> signed_take_bit 31 (uint (csb256 x))"
proof -
  have add: "unat (count_significant_bytes y + of_nat k) < 2 ^ 31" if "k \<le> 3" for y k
  proof -
    have "unat (count_significant_bytes y + of_nat k) \<le> unat (count_significant_bytes y) + unat (of_nat k :: u32)"
      by (simp add: unat_word_ariths)
    also have "unat (of_nat k :: u32) \<le> k" by (simp add: unsigned_of_nat take_bit_eq_mod)
    finally show ?thesis using significant_bytes(1) [of y] that by simp
  qed
  have "unat (csb256 x) < 2 ^ 31"
    using add [of 3] add [of 2] add [of 1] add [of 0] by (simp add: csb256_def Let_def significant_bytes(2))
  then have "int (unat (csb256 x)) < int (2 ^ 31)" by (simp only: of_nat_less_iff)
  then have "uint (csb256 x) < int (2 ^ 31)" by (simp only: uint_nat)
  then have "signed_take_bit 31 (uint (csb256 x)) = uint (csb256 x)"
    by (intro signed_take_bit_int_eq_self order_trans [OF _ uint_ge_0]) simp_all
  then show ?thesis by (simp only: uint_nat)
qed

lemma copy_quiet [calm_rules]: "quiet_o s (copy_and_clear bs src dst k n s)"
  unfolding quiet_o_def copy_and_clear_def
  by (auto simp: cres dest!: mem_write_shape split: if_splits) (auto simp: same_shape_def)

lemma account_fine:
  "fine_instr R balance" "fine_instr R extcodesize" "fine_instr R extcodehash"
  unfolding fine_instr_def balance_def extcodesize_def extcodehash_def Let_def
  by (intro allI calm_rules)+

lemma copy_fine:
  "fine_instr R calldatacopy" "fine_instr R codecopy" 
  unfolding fine_instr_def calldatacopy_def codecopy_def Let_def
  by (intro allI calm_rules)+

lemma memory_fine: "fine_instr R mload" "fine_instr R mstore" "fine_instr R mstore8"
  unfolding fine_instr_def mload_def mstore_def mstore8_def Let_def
  by (intro allI calm_rules; simp add: mem_write_shape)+

lemma keccak256_fine: "fine_instr R keccak256"
  unfolding fine_instr_def keccak256_def Let_def by (intro allI calm_rules)

lemma exp_fine: "fine_instr R exp_instr"
  unfolding fine_instr_def exp_instr_def Let_def checked_def [symmetric] succeed_def [symmetric]
  by (intro allI calm_rules mult_nonneg_nonneg csb256_small) simp

lemma returndatacopy_fine: "fine_instr R returndatacopy"
  unfolding fine_instr_def returndatacopy_def Let_def
  by (intro allI calm_rules) (auto dest: mem_write_shape)

lemma extcodecopy_fine: "fine_instr R extcodecopy"
  unfolding fine_instr_def extcodecopy_def Let_def
  by (intro allI calm_rules) (auto dest: mem_write_shape simp: quiet_def)

lemma sload_fine: "fine_instr R sload"
  unfolding fine_instr_def sload_def cold_storage_def Let_def
  by (intro allI calm_rules) (auto simp: cres split: if_splits)

text \<open>A store: the cost by the status of the slot is never negative.\<close>

lemma sstore_cost_nonneg: "0 \<le> cost \<Longrightarrow> 0 \<le> sstore_cost r cost change"
  by (auto simp: sstore_cost_def cold_costs split: evmc_storage_status.splits)

lemma cold_storage_quiet: "cold_storage key s = Inr (t, cold) \<Longrightarrow> quiet s t"
  by (auto simp: cold_storage_def cres split: if_splits)

lemma quiet_host: "quiet s t \<Longrightarrow> quiet s (t\<lparr>host_ctx := h\<rparr>)"
  by (simp add: quiet_def)

lemma sstore_fine: "fine_instr R sstore"
  unfolding fine_instr_def sstore_def Let_def
  by (intro allI calm_rules quiet_host sstore_cost_nonneg) (auto simp: cold_costs dest: cold_storage_quiet)

text \<open>
  Logs: the cost is negative for a size of 2^63 or more, but then the bytes that are read afterwards are
  not there.
\<close>

lemma log_cost_nonneg:
  assumes "log_cost v = Inr c" and "low v < 2 ^ 60"
  shows "0 \<le> c"
proof -
  have "sint (lower128 (lower256 v)) = int (low v)"
    using assms(2) by (intro sint_small) (simp_all add: low_def)
  then show ?thesis using assms(1) by (auto simp: log_cost_def cres)
qed

lemma log_pay:
  assumes k: "\<And>t. fine R t (K t)" and mem: "\<And>t x. K t = Inr x \<Longrightarrow> low v \<le> length (m_data (memory t))"
  shows "fine R s (bind_o (log_cost v) (\<lambda>cost. checked (charge cost s) K))"
  unfolding fine_def
proof (intro allI impI)
  fix s' c
  assume "bind_o (log_cost v) (\<lambda>cost. checked (charge cost s) K) = Inr (s', c)"
  then obtain cost t ok where cost: "log_cost v = Inr cost" and ch: "charge cost s = Inr (t, ok)"
    and r: "checked (Inr (t, ok)) K = Inr (s', c)"
    by (auto simp: cres checked_def)
  have t: "t = s\<lparr>gas_left := gas_left s - cost\<rparr>" "ok \<longleftrightarrow> 0 \<le> gas_left s - cost"
    using ch by (auto simp: charge_def cres)
  show "status s' = status s \<and> (R \<and> c = EVMC_SUCCESS \<longrightarrow> calm s s')"
  proof (cases ok)
    case True
    then have kt: "K t = Inr (s', c)" using r by simp
    note f = fineD [OF k kt]
    have "calm s t"
      unfolding calm_def
    proof (intro impI)
      assume h: "mem_small s"
      then have "length (m_data (memory t)) < 2 ^ 60" by (simp add: t(1) mem_small_def memory_inv_def)
      then have "low v < 2 ^ 60" using mem [OF kt] by linarith
      then show "mem_small t \<and> gas_left t \<le> gas_left s \<and> (0 \<le> gas_left s \<longrightarrow> 0 \<le> gas_left t)"
        using log_cost_nonneg [OF cost] h t True by (simp add: mem_small_def)
    qed
    then show ?thesis using f t calm_trans by auto
  next
    case False
    then show ?thesis using r t by auto
  qed
qed

lemma read_range_length: "read_range xs p n = Inr ys \<Longrightarrow> n \<le> length xs"
  by (auto simp: read_range_def split: if_splits)

lemma log_fine: "fine_instr R log0" "fine_instr R (log_n n)"
  unfolding fine_instr_def log0_def log_n_def Let_def
  by (intro allI fine_if calm_rules log_pay; auto simp: cres dest: read_range_length)+

section \<open>The status through calls and ends\<close>

text \<open>Here the gas may grow; only the status is looked at.\<close>

definition keeps :: "ExecutionState \<Rightarrow> ExecutionState \<Rightarrow> bool" where
  "keeps s t \<longleftrightarrow> status t = status s"

lemma fine_keeps: "keeps s t \<Longrightarrow> fine False t r \<Longrightarrow> fine False s r"
  by (simp add: fine_def keeps_def)

lemma fine_status [calm_rules]: "status t = status s \<Longrightarrow> fine False s (Inr (t, c))"
  by (simp add: fine_def)

lemma store_status: "store_slot s p v = Inr t \<Longrightarrow> status t = status s"
  using store_quiet [of s s p v] by (simp add: quiet_o_def quiet_def)

lemma set_output_fine: "fine False s (set_output c st s)"
  unfolding set_output_def Let_def by (intro calm_rules) simp

lemma ends_fine: "fine_instr False return_instr" "fine_instr False revert"
  unfolding fine_instr_def return_instr_def revert_def by (simp_all add: set_output_fine)

lemma fine_check_False: "fine_check R s r \<Longrightarrow> fine_check False s r"
  by (simp add: fine_check_def)

lemma selfdestruct_fine: "fine_instr False selfdestruct_instr"
  unfolding fine_instr_def selfdestruct_instr_def Let_def
  by (intro allI calm_rules) (auto simp: cres charge_def split: if_splits)

lemma fine_check_status: "status t = status s \<Longrightarrow> fine_check False t r \<Longrightarrow> fine_check False s r"
  by (simp add: fine_check_def)

lemma charge_status: "status t = status s \<Longrightarrow> fine_check False s (charge c t)"
  by (rule fine_check_status, assumption) (intro calm_rules; simp)

lemma call_result_fine: "status t = status s \<Longrightarrow> fine False s (call_result_step g oo os st r t)"
  unfolding call_result_step_def Let_def by (intro calm_rules) (auto dest: store_status)

lemma call_tail_fine: "status t = status s \<Longrightarrow> fine False s (call_tail b rv gs oo os st m t)"
  unfolding call_tail_def Let_def
  by (intro calm_rules call_result_fine) (auto simp: cres split: if_splits)

lemma call_checks_fine: "(\<And>t. fine False t (k t)) \<Longrightarrow> status t = status s \<Longrightarrow> fine False s (call_checks dst io is oo os t k)"
  unfolding call_checks_def
  by (rule fine_keeps [of _ t]) (auto simp: keeps_def cold_costs intro!: calm_rules)

lemma push_status: "StackTop_push st v s = Inr t \<Longrightarrow> status t = status s"
  by (simp add: StackTop_push_def store_status)

lemma call_fine: "fine_instr False call_instr"
  unfolding fine_instr_def call_instr_def Let_def
  by (intro allI fine_checked charge_status call_tail_fine call_checks_fine calm_rules)
    (auto simp: cres push_status split: if_splits)

lemma other_calls_fine: "fine_instr False staticcall" "fine_instr False delegatecall" "fine_instr False callcode"
  unfolding fine_instr_def staticcall_def delegatecall_def callcode_def Let_def
  by (intro allI fine_checked charge_status call_tail_fine call_checks_fine calm_rules; simp add: push_status)+

lemma create_tail_fine: "status t = status s \<Longrightarrow> fine False s (create_tail k salt e co cs st t)"
  unfolding create_tail_def succeed_def push_bytes_def StackTop_push_def Let_def
  by (intro fine_status fine_bind fine_if fine_prod) (auto simp: cres store_status split: if_splits)

lemma creates_fine: "fine_instr False create" "fine_instr False create2"
  unfolding fine_instr_def create_def create2_def Let_def
  by (intro allI fine_if fine_checked create_tail_fine calm_rules; simp)+

end
