(* ===== verification/Step_Laws.thy ===== *)
theory Step_Laws
  imports Gas_Laws
begin

text \<open>
  What every function of the instruction table of src/tscvee/ta/include/analysis.h keeps, from the laws
  of the instructions: the status of the state, and for those that go on with the next instruction and
  do not call out, gas that does not grow.
\<close>

section \<open>The shapes of the functions\<close>

definition keeps_status :: "op_fn \<Rightarrow> bool" where
  "keeps_status f \<longleftrightarrow> (\<forall>tr i a a' j. f tr i a = Inr (a', j) \<longrightarrow>
     status (estate a') = status (estate a) \<and> advanced a' = advanced a)"

text \<open>A function that goes on with the next instruction, without more gas.\<close>

definition falls_through :: "op_fn \<Rightarrow> bool" where
  "falls_through f \<longleftrightarrow> (\<forall>tr i a a' j. f tr i a = Inr (a', Some j) \<longrightarrow> j = i + 1 \<and> calm (estate a) (estate a'))"

lemma quiet_instrD: "quiet_instr f \<Longrightarrow> f st s = Inr s' \<Longrightarrow> status s' = status s \<and> calm s s'"
  unfolding quiet_instr_def quiet_o_def by (blast dest: quiet_calm intro: quiet_def [THEN iffD1, THEN conjunct1])

lemma fine_instr_False: "fine_instr R f \<Longrightarrow> fine_instr False f"
  by (auto simp: fine_instr_def fine_def)

lemma fine_status_D: "fine_instr False f \<Longrightarrow> f st s = Inr (s', c) \<Longrightarrow> status s' = status s"
  unfolding fine_instr_def by (blast dest: fineD)

lemma fine_calm_D: "fine_instr True f \<Longrightarrow> f st s = Inr (s', EVMC_SUCCESS) \<Longrightarrow> calm s s'"
  unfolding fine_instr_def by (blast dest: fineD)

lemma void_keeps: "quiet_instr f \<Longrightarrow> keeps_status (op_void f op)" "quiet_instr f \<Longrightarrow> falls_through (op_void f op)"
  by (auto simp: keeps_status_def falls_through_def op_void_def cres dest: quiet_instrD)

lemma status_keeps: "fine_instr False f \<Longrightarrow> keeps_status (op_status f op)" "fine_instr True f \<Longrightarrow> falls_through (op_status f op)"
  by (auto simp: keeps_status_def falls_through_def op_status_def cres split: if_splits dest: fine_status_D fine_calm_D)

lemma ending_keeps: "fine_instr False f \<Longrightarrow> keeps_status (op_ending f)"
  by (auto simp: keeps_status_def op_ending_def cres dest: fine_status_D)

lemma ending_falls: "falls_through (op_ending f)"
  by (auto simp: falls_through_def op_ending_def cres)

lemma calm_corrected: "calm (s\<lparr>gas_left := gas_left s + c\<rparr>) t \<Longrightarrow> 0 \<le> gas_left t - c \<Longrightarrow> calm s (t\<lparr>gas_left := gas_left t - c\<rparr>)"
  by (auto simp: calm_def mem_small_def)

lemma charge_Inr: "charge c s = Inr (t, ok) \<Longrightarrow> t = s\<lparr>gas_left := gas_left s - c\<rparr> \<and> ok = (0 \<le> gas_left s - c)"
  by (auto simp: charge_def cres)

lemma op_corrected_Inr:
  assumes "op_corrected f op tr i a = Inr (a', j)"
  shows "\<exists>c s st_code. f (top_item (stack a)) ((estate a)\<lparr>gas_left := gas_left (estate a) + c\<rparr>) = Inr (s, st_code) \<and>
    advanced a' = advanced a \<and> status (estate a') = status s \<and>
    (j \<noteq> None \<longrightarrow> j = Some (i + 1) \<and> st_code = EVMC_SUCCESS \<and> 0 \<le> gas_left s - c \<and>
       estate a' = s\<lparr>gas_left := gas_left s - c\<rparr>)"
proof -
  obtain c where c: "int64 (gas_left (estate a) + c) = Inr (gas_left (estate a) + c)"
    and "bind_o (f (top_item (stack a)) ((estate a)\<lparr>gas_left := gas_left (estate a) + c\<rparr>)) (\<lambda>(s, st_code).
     bind_o (shift_top tr op (a\<lparr>estate := s\<rparr>)) (\<lambda>a.
     if st_code \<noteq> EVMC_SUCCESS then Inr (AdvancedExecutionState_exit a st_code)
     else bind_o (charge c (estate a)) (\<lambda>(s, ok).
       let a = a\<lparr>estate := s\<rparr>
       in if \<not> ok then Inr (AdvancedExecutionState_exit a EVMC_OUT_OF_GAS) else Inr (a, Some (i + 1))))) = Inr (a', j)"
    using assms unfolding op_corrected_def by (auto simp: cres)
  then show ?thesis
    by (intro exI [of _ c]) (auto simp: cres Let_def split: if_splits dest!: charge_Inr)
qed

lemma corrected_keeps:
  "fine_instr False f \<Longrightarrow> keeps_status (op_corrected f op)" "fine_instr True f \<Longrightarrow> falls_through (op_corrected f op)"
proof -
  show "keeps_status (op_corrected f op)" if f: "fine_instr False f"
    unfolding keeps_status_def by (auto dest!: op_corrected_Inr fine_status_D [OF f])
  show "falls_through (op_corrected f op)" if f: "fine_instr True f"
    unfolding falls_through_def by (auto dest!: op_corrected_Inr fine_calm_D [OF f] intro!: calm_corrected)
qed

lemma pushes_quiet:
  assumes "Stack_push a v = Inr a'"
  shows "status (estate a') = status (estate a) \<and> advanced a' = advanced a \<and> calm (estate a) (estate a')"
proof -
  obtain s where s: "store_slot (estate a) (top_item (stack a) + 1) v = Inr s" and a': "estate a' = s" "advanced a' = advanced a"
    using assms by (cases "store_slot (estate a) (top_item (stack a) + 1) v") (auto simp: Stack_push_def Let_def)
  have "quiet (estate a) s" using store_quiet [of "estate a" "estate a"] s quiet_updates(1) unfolding quiet_o_def by blast
  then show ?thesis using a' quiet_calm by (simp add: quiet_def)
qed

section \<open>All functions\<close>

lemma special_keeps:
  "keeps_status op_stop" "keeps_status op_invalid" "keeps_status op_undefined" "keeps_status op_jump"
  "keeps_status op_jumpi" "keeps_status op_pc" "keeps_status op_gas" "keeps_status op_push_small"
  "keeps_status op_push_full" "keeps_status opx_beginblock"
  by (auto simp: keeps_status_def op_stop_def op_invalid_def op_undefined_def op_jumpi_def op_pc_def op_gas_def
      op_push_small_def op_push_full_def opx_beginblock_def Let_def cres Stack_pop_Inr
      split: if_splits dest!: pushes_quiet op_jump_moves charge_Inr)

lemma special_falls:
  "falls_through op_stop" "falls_through op_invalid" "falls_through op_undefined" "falls_through op_pc"
  "falls_through op_gas" "falls_through op_push_small" "falls_through op_push_full"
  by (auto simp: falls_through_def op_stop_def op_invalid_def op_undefined_def op_pc_def op_gas_def
      op_push_small_def op_push_full_def Let_def cres dest!: pushes_quiet)

lemmas instr_laws = binops_quiet arith_quiet context_quiet swap_quiet account_fine copy_fine memory_fine keccak256_fine
  exp_fine returndatacopy_fine extcodecopy_fine sload_fine sstore_fine log_fine

lemma arith_keeps: "keeps_status (arith_exec f)" "falls_through (arith_exec f)"
  by (cases f; simp add: op_shapes void_keeps status_keeps instr_laws)+

lemma context_keeps: "keeps_status (context_exec f)" "falls_through (context_exec f)"
  by (cases f; simp add: op_shapes void_keeps status_keeps instr_laws)+

lemma exec_keeps: "keeps_status (exec_fn f)"
  by (cases f) (simp_all add: op_shapes void_keeps status_keeps corrected_keeps ending_keeps special_keeps instr_laws
      arith_keeps context_keeps ends_fine selfdestruct_fine call_fine other_calls_fine creates_fine)

definition calls_out :: "instruction_exec_fn set" where
  "calls_out = {Op_call, Op_callcode, Op_delegatecall, Op_staticcall, Op_create, Op_create2}"

lemma exec_falls:
  "f \<notin> calls_out \<Longrightarrow> f \<notin> {Op_jump, Op_jumpi, Opx_beginblock} \<Longrightarrow> falls_through (exec_fn f)"
  by (cases f) (simp_all add: calls_out_def op_shapes void_keeps status_keeps corrected_keeps special_falls ending_falls
      instr_laws arith_keeps context_keeps)

end
