(* ===== verification/Execution_Facts.thy ===== *)
theory Execution_Facts
  imports Step_Laws
begin

text \<open>
  The properties of whole executions of src/tscvee/ta/include/execution.h: the instructions of the table
  of a code have the arguments their functions read and the fetch of the next one is inside the table;
  and the result of every execution reports success.
\<close>

section \<open>The roles of the functions in the table\<close>

definition reads_number :: "instruction_exec_fn set" where
  "reads_number = {Op_gas, Op_pc, Op_sstore} \<union> calls_out"

definition call_ops :: "nat set" where
  "call_ops = {OP_CREATE, OP_CALL, OP_CALLCODE, OP_DELEGATECALL, OP_CREATE2, OP_STATICCALL}"

definition role :: "nat \<Rightarrow> instruction_exec_fn \<Rightarrow> bool" where
  "role op f \<longleftrightarrow> (f \<in> calls_out \<longrightarrow> op \<in> call_ops) \<and> (f = Op_gas \<longrightarrow> op = OP_GAS) \<and> (f = Op_pc \<longrightarrow> op = OP_PC) \<and>
     (f = Op_sstore \<longrightarrow> op = OP_SSTORE) \<and> (f = Op_push_small \<longrightarrow> OP_PUSH1 \<le> op \<and> op \<le> OP_PUSH8) \<and>
     (f = Op_push_full \<longrightarrow> OP_PUSH9 \<le> op \<and> op \<le> OP_PUSH32) \<and> (f = Op_jump \<longrightarrow> op = OP_JUMP) \<and>
     (f = Op_jumpi \<longrightarrow> op = OP_JUMPI) \<and> (f = Opx_beginblock \<longrightarrow> op = OP_JUMPDEST)"

lemma entries_roles: "list_all (\<lambda>(op, f). role op f) fn_entries"
  by (simp add: fn_entries_def role_def calls_out_def call_ops_def)

lemma fn_of_role: "fn_of op = Some f \<Longrightarrow> role op f"
proof -
  assume "fn_of op = Some f"
  then have "(op, f) \<in> set fn_entries" using map_of_SomeD [of "List.rev fn_entries" op f] by (simp add: fn_of_def)
  then show ?thesis using entries_roles by (auto simp: list_all_iff)
qed

lemma special_costs:
  "gas_row r ! OP_STOP = 0" "gas_row r ! OP_JUMP = 8" "gas_row r ! OP_JUMPI = 10" "gas_row r ! OP_JUMPDEST = 1"
proof -
  have "list_all (\<lambda>r. gas_row r ! OP_STOP = 0 \<and> gas_row r ! OP_JUMP = 8 \<and> gas_row r ! OP_JUMPI = 10 \<and>
      gas_row r ! OP_JUMPDEST = 1)
    [EVMC_FRONTIER, EVMC_HOMESTEAD, EVMC_TANGERINE_WHISTLE, EVMC_SPURIOUS_DRAGON, EVMC_BYZANTIUM,
     EVMC_CONSTANTINOPLE, EVMC_PETERSBURG, EVMC_ISTANBUL, EVMC_BERLIN, EVMC_LONDON, EVMC_PARIS, EVMC_SHANGHAI,
     EVMC_CANCUN]"
    by code_simp
  then show "gas_row r ! OP_STOP = 0" "gas_row r ! OP_JUMP = 8" "gas_row r ! OP_JUMPI = 10" "gas_row r ! OP_JUMPDEST = 1"
    by (cases r; simp)+
qed

lemma costs_nonneg:
  "list_all (\<lambda>p. - 1 \<le> snd p) (frontier_costs @ homestead_costs @ tangerine_whistle_costs @ byzantium_costs @
     constantinople_costs @ istanbul_costs @ berlin_costs @ london_costs @ shanghai_costs)"
  by code_simp

lemma gas_row_nonneg: "list_all (\<lambda>c. - 1 \<le> c) (gas_row r)"
proof -
  have "list_all (\<lambda>c. - 1 \<le> c) (replicate 256 undefined_cost)" by (simp add: list_all_length undefined_cost_def)
  then show ?thesis
    using costs_nonneg unfolding list_all_append
    by (induction r rule: gas_row.induct) (simp_all only: gas_row.simps assign_all)
qed

text \<open>The entries that the analysis takes from the table of a revision.\<close>

definition regular :: "OpTableEntry list \<Rightarrow> bool" where
  "regular t \<longleftrightarrow> table_ok t \<and> oe_fn (t ! OP_STOP) = Some Op_stop \<and> oe_fn (t ! OPX_BEGINBLOCK) = Some Opx_beginblock \<and>
     (\<forall>op < 256. \<exists>f. oe_fn (t ! op) = Some f \<and> role op f \<and> 0 \<le> oe_gas_cost (t ! op) \<and>
        (f \<in> {Op_jump, Op_jumpi} \<longrightarrow> 0 < oe_gas_cost (t ! op)))"

lemma op_table_regular:
  assumes "length fns = 256" and "length opt = 256" and "list_all entry_ok opt"
  shows "regular (op_table r fns opt)"
  unfolding regular_def
proof (intro conjI allI impI)
  show "table_ok (op_table r fns opt)" using op_table_ok [OF assms(2,3)] .
  have "fn_of OP_STOP = Some Op_stop" "fn_of OP_JUMPDEST = Some Opx_beginblock" by (simp_all add: fn_of_def fn_entries_def)
  then show "oe_fn (op_table r fns opt ! OP_STOP) = Some Op_stop"
    "oe_fn (op_table r fns opt ! OPX_BEGINBLOCK) = Some Opx_beginblock"
    using op_table_defined [OF assms(1), of OP_STOP r opt] op_table_defined [OF assms(1), of OP_JUMPDEST r opt]
    by (auto simp: special_costs undefined_cost_def)
  fix op :: nat assume op: "op < 256"
  let ?t = "op_table r fns opt"
  show "\<exists>f. oe_fn (?t ! op) = Some f \<and> role op f \<and> 0 \<le> oe_gas_cost (?t ! op) \<and>
      (f \<in> {Op_jump, Op_jumpi} \<longrightarrow> 0 < oe_gas_cost (?t ! op))"
  proof (cases "gas_row r ! op = undefined_cost")
    case True
    then show ?thesis using op_table_undefined [OF op True, of fns opt] by (simp add: role_def calls_out_def)
  next
    case False
    have "length (gas_row r) = 256" by simp
    then have "- 1 \<le> gas_row r ! op" using gas_row_nonneg [of r] op by (simp add: list_all_length)
    then have "0 \<le> gas_row r ! op" using False by (simp add: undefined_cost_def)
    moreover obtain f where f: "fn_of op = Some f" "oe_fn (?t ! op) = Some f" "oe_gas_cost (?t ! op) = gas_row r ! op"
      using op_table_defined [OF assms(1) op False, of opt] by auto
    moreover have "role op f" using fn_of_role f(1) .
    moreover have "0 < gas_row r ! op" if "f \<in> {Op_jump, Op_jumpi}"
      using that \<open>role op f\<close> special_costs(2,3) [of r] by (auto simp: role_def)
    ultimately show ?thesis by auto
  qed
qed

lemma regular_entry:
  assumes "regular t" and "op < 256"
  shows "\<exists>f. oe_fn (opcode_entry t op) = Some f \<and> role op f \<and> 0 \<le> oe_gas_cost (opcode_entry t op) \<and>
    (f \<in> {Op_jump, Op_jumpi} \<longrightarrow> 0 < oe_gas_cost (opcode_entry t op))"
proof -
  obtain f where f: "oe_fn (t ! op) = Some f" "role op f" "0 \<le> oe_gas_cost (t ! op)"
    "f \<in> {Op_jump, Op_jumpi} \<longrightarrow> 0 < oe_gas_cost (t ! op)"
    using assms unfolding regular_def by blast
  moreover have "\<not> role 247 Op_jump" "\<not> role 247 Op_jumpi" by (simp_all add: role_def)
  ultimately show ?thesis by (auto simp: opcode_entry_def Let_def)
qed

section \<open>Arguments and the next instruction\<close>

text \<open>An instruction whose argument is the member of the union that its function reads.\<close>

definition typed :: "Instruction \<Rightarrow> bool" where
  "typed ins \<longleftrightarrow> (case fn ins of None \<Rightarrow> False | Some f \<Rightarrow>
     (f \<in> reads_number \<longrightarrow> (\<exists>n. arg ins = Number n)) \<and> (f = Op_push_small \<longrightarrow> (\<exists>v. arg ins = Small_push_value v)) \<and>
     (f = Op_push_full \<longrightarrow> (\<exists>v. arg ins = Push_value v)) \<and> (f = Opx_beginblock \<longrightarrow> (\<exists>b. arg ins = Block b)))"

lemma typed_op:
  assumes "regular t" and "op < 256" and "op \<noteq> OP_JUMPDEST"
  shows "typed \<lparr>fn = oe_fn (opcode_entry t op), arg = op_arg cb b p op\<rparr>"
proof -
  obtain f where f: "oe_fn (opcode_entry t op) = Some f" "role op f" using regular_entry [OF assms(1,2)] by blast
  show ?thesis using f(2) assms(3)
    by (auto simp: typed_def f(1) role_def op_arg_def reads_number_def call_ops_def calls_out_def)
qed

lemma typed_ops:
  assumes "regular t" and "\<forall>x \<in> set g. snd x < 256"
  shows "list_all typed (emit_ops t cb b g)"
  using assms(2) typed_op [OF assms(1)]
  by (induction g arbitrary: b) (auto simp: Let_def op_instr_def)

lemma typed_table:
  assumes "regular t" and "\<forall>g \<in> set bs. \<forall>x \<in> set g. snd x < 256"
  shows "list_all typed (concat (map (emit_block t cb) bs) @ [Instrcution_init_v (oe_fn (t ! OP_STOP))])"
proof -
  have "fn (begin_instr t b) = Some Opx_beginblock" "\<exists>i. arg (begin_instr t b) = Block i" for b
    using assms(1) by (auto simp: regular_def begin_instr_def)
  then have "typed (begin_instr t b)" for b by (auto simp: typed_def reads_number_def calls_out_def)
  moreover have "typed (Instrcution_init_v (oe_fn (t ! OP_STOP)))"
    using assms(1) by (auto simp: regular_def typed_def Instrcution_init_v_def reads_number_def calls_out_def)
  ultimately show ?thesis
    using assms(2) typed_ops [OF assms(1)] by (induction bs) (auto simp: emit_block_def)
qed

lemma code_ops_small: "x \<in> set (code_ops cb p) \<Longrightarrow> snd x < 256"
proof (induction cb p rule: code_ops.induct)
  case (1 cb p)
  then show ?case
    using code_ops.simps [of cb p] unat8_lt by (cases "p < length cb") fastforce+
qed

lemma concat_blocks: "concat (blocks xs) = xs"
proof (induction xs)
  case (Cons x xs)
  then show ?case using blocks_nonempty [of xs] by (cases "blocks xs") auto
qed simp

lemma blocks_ops: "g \<in> set (blocks xs) \<Longrightarrow> set g \<subseteq> set xs \<and> length g \<le> length xs"
proof -
  assume g: "g \<in> set (blocks xs)"
  then obtain l r where b: "blocks xs = l @ g # r" by (meson split_list)
  have "xs = concat l @ g @ concat r" using concat_blocks [of xs] unfolding b by simp
  then show ?thesis by (metis Un_iff length_append le_add1 le_add2 order_trans set_append subsetI)
qed

text \<open>Where a function goes on.\<close>

lemma jump_inside:
  assumes "op_jump tr i a = Inr (a', Some j)" and "advanced a = Some an"
  shows "j < length (instrs an) \<and> (\<exists>off. find_jumpdest an off = Inr (int j)) \<and> estate a' = estate a"
  using assms by (auto simp: op_jump_def Let_def cres Stack_pop_def cvec_at_def split: if_splits)

lemma jumpi_inside:
  assumes "op_jumpi tr i a = Inr (a', Some j)" and "advanced a = Some an"
  shows "(j = i + 1 \<or> j < length (instrs an) \<and> (\<exists>off. find_jumpdest an off = Inr (int j))) \<and> estate a' = estate a"
proof -
  obtain v b where v: "Stack_get a 1 = Inr v"
    and b: "(if \<not> zero256 v then op_jump tr i a
       else bind_o (Stack_pop a) (\<lambda>(a, _). Inr (a, Some (i + 1)))) = Inr (b, Some j)"
    and a': "estate a' = estate b"
    using assms(1) unfolding op_jumpi_def by (auto simp: cres Stack_pop_Inr)
  show ?thesis
  proof (cases "zero256 v")
    case True
    then show ?thesis using b a' by (auto simp: cres Stack_pop_Inr)
  next
    case False
    then show ?thesis using b a' jump_inside [OF _ assms(2), of tr i b j] by simp
  qed
qed

lemma beginblock_next:
  assumes "opx_beginblock tr i a = Inr (a', Some j)"
  shows "\<exists>b. arg_block i a = Inr b \<and> j = i + 1 \<and>
    estate a' = (estate a)\<lparr>gas_left := gas_left (estate a) - uint (bi_gas_cost b)\<rparr> \<and>
    0 \<le> gas_left (estate a) - uint (bi_gas_cost b)"
  using assms by (auto simp: opx_beginblock_def Let_def cres split: if_splits dest!: charge_Inr)

lemma calls_next: "f \<in> calls_out \<Longrightarrow> exec_fn f tr i a = Inr (a', Some j) \<Longrightarrow> j = i + 1"
  by (auto simp: calls_out_def op_shapes dest!: op_corrected_Inr)

lemma keeps_statusD: "f tr i a = Inr (a', j) \<Longrightarrow> keeps_status f \<Longrightarrow> status (estate a') = status (estate a) \<and> advanced a' = advanced a"
  unfolding keeps_status_def by blast

lemma next_inside:
  assumes "exec_fn f tr i a = Inr (a', Some j)" and "advanced a = Some an"
  shows "j = i + 1 \<or> j < length (instrs an)"
proof -
  consider "f \<in> calls_out" | "f = Op_jump" | "f = Op_jumpi" | "f = Opx_beginblock"
    | "f \<notin> calls_out" "f \<notin> {Op_jump, Op_jumpi, Opx_beginblock}" by blast
  then show ?thesis
  proof cases
    case 1
    then show ?thesis using assms(1) calls_next by blast
  next
    case 5
    then show ?thesis using exec_falls [of f] assms(1) unfolding falls_through_def by blast
  qed (use assms in \<open>auto dest: jump_inside jumpi_inside beginblock_next\<close>)
qed

lemma exec_instr_Inr:
  "exec_instr tr i a = Inr (a', j) \<Longrightarrow> \<exists>an f. advanced a = Some an \<and> i < length (instrs an) \<and>
     fn (instrs an ! i) = Some f \<and> exec_fn f tr i a = Inr (a', j)"
  by (auto simp: exec_instr_def cres split: option.splits)

lemma instrs_layout: "instrs (layout t cb) = concat (map (emit_block t cb) (blocks (code_ops cb 0))) @ [Instrcution_init_v (oe_fn (t ! OP_STOP))]"
  by (simp add: layout_def)

lemma analyze_Inr:
  assumes "length opt = 256" and "list_all entry_ok opt" and "length cb < 2 ^ 23"
  shows "analyze gas_rows traits_table fns opt r cb (length cb) = Inr (layout (op_table r fns opt) cb)"
  using op_table_ok [OF assms(1,2)] analyze_with_layout [OF _ assms(3)] by (simp add: analyze_def get_op_table)

text \<open>
  Claim C5. The instruction table of every code below 2^23 bytes is safe to fetch from: every instruction has a
  function, its argument is the member of the union that this function reads, so that no member is read
  that was not written, and the instruction that an execution goes on with is inside the table, after
  every instruction and every jump, since the last one ends the execution.
\<close>

theorem fetch_safe:
  assumes "length fns = 256" and "length opt = 256" and "list_all entry_ok opt" and "length cb < 2 ^ 23"
  shows "\<exists>an. analyze gas_rows traits_table fns opt r cb (length cb) = Inr an \<and>
    (\<forall>i < length (instrs an). typed (instrs an ! i)) \<and>
    (\<forall>a tr i a' j. advanced a = Some an \<and> exec_instr tr i a = Inr (a', Some j) \<longrightarrow>
       advanced a' = Some an \<and> j < length (instrs an))"
proof (intro exI conjI allI impI)
  let ?t = "op_table r fns opt"
  let ?an = "layout ?t cb"
  have t: "regular ?t" using op_table_regular [OF assms(1-3)] .
  show "analyze gas_rows traits_table fns opt r cb (length cb) = Inr ?an" using analyze_Inr [OF assms(2-4)] .
  have "\<forall>g \<in> set (blocks (code_ops cb 0)). \<forall>x \<in> set g. snd x < 256" using blocks_ops code_ops_small by blast
  then have "list_all typed (instrs ?an)" unfolding instrs_layout by (rule typed_table [OF t])
  then show "typed (instrs ?an ! i)" if "i < length (instrs ?an)" for i using that by (simp add: list_all_length)
  fix a tr i a' j
  assume "advanced a = Some ?an \<and> exec_instr tr i a = Inr (a', Some j)"
  then obtain f where a: "advanced a = Some ?an" and i: "i < length (instrs ?an)" and f: "fn (instrs ?an ! i) = Some f"
    and e: "exec_fn f tr i a = Inr (a', Some j)" using exec_instr_Inr [of tr i a a' "Some j"] by auto
  show "advanced a' = Some ?an" using keeps_statusD [OF e exec_keeps] a by simp
  have "i + 1 \<noteq> length (instrs ?an)"
  proof
    assume "i + 1 = length (instrs ?an)"
    then have "f = Op_stop" using f t unfolding instrs_layout
      by (auto simp: nth_append Instrcution_init_v_def regular_def)
    then show False using e by (simp add: op_stop_def)
  qed
  then show "j < length (instrs ?an)" using next_inside [OF e a] i by auto
qed

theorem fetch_safe_witness:
  "\<exists>an. analyze gas_rows traits_table (replicate 256 None) (replicate 256 zero_entry) EVMC_LONDON [96] 1 = Inr an \<and>
     (\<forall>i < length (instrs an). typed (instrs an ! i))"
  using fetch_safe [of "replicate 256 None" "replicate 256 zero_entry" "[96]" EVMC_LONDON]
  by (auto simp: list_all_length zero_entry_def entry_ok_def)

section \<open>The status of the result\<close>

lemma run_keeps: "run n tr i a = Some (Inr a') \<Longrightarrow> status (estate a') = status (estate a) \<and> advanced a' = advanced a"
proof (induction n tr i a rule: run.induct)
  case (3 n tr i a)
  then obtain b j where b: "exec_instr tr i a = Inr (b, j)" "run n tr j b = Some (Inr a')"
    by (auto split: sum.splits)
  then have "status (estate b) = status (estate a) \<and> advanced b = advanced a"
    using exec_instr_Inr [OF b(1)] exec_keeps keeps_statusD by blast
  then show ?case using 3 b by auto
qed auto

text \<open>The state an execution starts with.\<close>

definition initial_state :: "evmc_message \<Rightarrow> MockedHost \<Rightarrow> evmc_revision \<Rightarrow> u8 list \<Rightarrow> nat \<Rightarrow> CodeAnalysis \<Rightarrow> AdvancedExecutionState" where
  "initial_state m ctx r cb n an = (AdvancedExecutionState_init_v (zero_state m ctx) m r ctx cb n)\<lparr>advanced := Some an\<rparr>"

lemma initial_state_simps [simp]:
  "gas_left (estate (initial_state m ctx r cb n an)) = gas_limit m"
  "memory (estate (initial_state m ctx r cb n an)) = Memory_init"
  "status (estate (initial_state m ctx r cb n an)) = EVMC_SUCCESS"
  "output_size (estate (initial_state m ctx r cb n an)) = 0" "output_offset (estate (initial_state m ctx r cb n an)) = 0"
  "advanced (initial_state m ctx r cb n an) = Some an"
  by (simp_all add: initial_state_def AdvancedExecutionState_init_v_def ExecutionState_init_v_def)

lemma execute_run:
  "analyze gas_costs tr fns opt r cb n = Inr an \<Longrightarrow>
   execute k gas_costs tr fns opt ctx r m cb n =
     map_option (\<lambda>res. bind_o res (\<lambda>a. bind_o (make_execution_result a) (\<lambda>result. Inr (a, result))))
       (run k tr (Some 0) (initial_state m ctx r cb n an))"
  by (simp add: execute_def execute_analyzed_code_def initial_state_def Let_def)

text \<open>
  Claim C4. Whatever ends an execution, its result reports success: the status of an instruction goes to a copy of
  the state, and the state itself keeps the success it starts with. So an execution that is out of gas,
  that reverts, or that meets an undefined instruction is reported as successful, and the gas of the
  result is what the failing instruction left, even when that is negative.
\<close>

theorem execution_reports_success:
  assumes "execute n gas_costs tr fns opt ctx r m cb code_size = Some (Inr (a, res))"
  shows "status_code res = EVMC_SUCCESS \<and> result_gas_left res = signed_take_bit 63 (gas_left (estate a))"
proof -
  obtain an where an: "analyze gas_costs tr fns opt r cb code_size = Inr an"
    using assms by (auto simp: execute_def split: sum.splits)
  obtain r: "run n tr (Some 0) (initial_state m ctx r cb code_size an) = Some (Inr a)"
    and res: "make_execution_result a = Inr res"
    using assms unfolding execute_run [OF an] by (auto simp: cres)
  have s: "status (estate a) = EVMC_SUCCESS"
    using run_keeps [OF r] by simp
  have "signed_take_bit 63 (gas_left (estate a) mod 2 ^ 64) = signed_take_bit 63 (gas_left (estate a))"
    by (simp only: take_bit_eq_mod [symmetric] signed_take_bit_take_bit) simp
  then show ?thesis using res
    by (auto simp: make_execution_result_def evmc_make_result_def s Let_def cres split: if_splits)
qed

text \<open>A message without gas, and the code of one \<open>JUMPDEST\<close>: the check of the block ends the execution.\<close>

definition no_table :: "instruction_exec_fn option list" where
  "no_table = replicate 256 None"

definition zero_table :: "OpTableEntry list" where
  "zero_table = replicate 256 zero_entry"

lemma local_tables: "length no_table = 256" "length zero_table = 256" "list_all entry_ok zero_table"
  by (simp_all add: no_table_def zero_table_def zero_entry_def entry_ok_def list_all_length)

lemma jumpdest_layout:
  "instrs (layout (op_table r no_table zero_table) [91]) =
     [\<lparr>fn = Some Opx_beginblock, arg = Block \<lparr>bi_gas_cost = 1, bi_stack_req = 0, bi_stack_max_growth = 0\<rparr>\<rparr>,
      \<lparr>fn = Some Op_stop, arg = Unset\<rparr>]"
proof -
  let ?t = "op_table r no_table zero_table"
  have t: "oe_fn (?t ! 0) = Some Op_stop" "oe_fn (?t ! 91) = Some Opx_beginblock"
    using op_table_regular [OF local_tables, of r] by (simp_all add: regular_def)
  have "code_ops [91] 0 = [(0, 91)]" by (simp add: code_ops.simps operand_size_def)
  then have b: "blocks (code_ops [91] 0) = [[(0, 91)]]" by (simp add: ends_block_def is_terminator_def)
  have g: "oe_gas_cost (?t ! 91) = 1"
    using op_table_defined [OF local_tables(1), of 91 r zero_table] special_costs(4) [of r] by (auto simp: undefined_cost_def)
  have h: "stack_height_required (traits_table ! 91) = 0" "stack_height_change (traits_table ! 91) = 0" by code_simp+
  then have "oe_stack_req (?t ! 91) = 0" "oe_stack_change (?t ! 91) = 0"
    using op_table_defined [OF local_tables(1), of 91 r zero_table] special_costs(4) [of r] by (auto simp: undefined_cost_def)
  then show ?thesis using t g unfolding instrs_layout b
    by (simp add: emit_block_def begin_instr_def op_instr_def opcode_entry_def Let_def Instrcution_init_v_def add_total_def
        BlockAnalysis_init_def BlockAnalysis_close_def BlockInfo_init_v_def)
qed

lemma out_of_gas_run:
  "gas_limit m = 0 \<Longrightarrow> \<exists>a res. execute 1 gas_rows traits_table no_table zero_table h r m [91] 1 = Some (Inr (a, res)) \<and>
     gas_left (estate a) = - 1"
proof -
  assume m: "gas_limit m = 0"
  let ?an = "layout (op_table r no_table zero_table) [91]"
  define a where "a = initial_state m h r [91] 1 ?an"
  let ?b = "a\<lparr>estate := (estate a)\<lparr>gas_left := - 1\<rparr>\<rparr>"
  have an: "analyze gas_rows traits_table no_table zero_table r [91] 1 = Inr ?an"
    using analyze_Inr [OF local_tables(2,3), of "[91]" no_table r] by simp
  have a: "gas_left (estate a) = 0" "status (estate a) = EVMC_SUCCESS" "output_size (estate a) = 0"
    "output_offset (estate a) = 0" "advanced a = Some ?an"
    using m by (simp_all add: a_def)
  have "exec_instr traits_table 0 a = Inr (?b, None)"
    by (simp add: exec_instr_def a jumpdest_layout opx_beginblock_def arg_block_def instr_arg_def charge_def int64_def Let_def)
  then have "run 1 traits_table (Some 0) a = Some (Inr ?b)" by (simp add: numeral_eq_Suc)
  moreover have "\<exists>res. make_execution_result ?b = Inr res"
    by (simp add: make_execution_result_def evmc_make_result_def a)
  ultimately show ?thesis unfolding execute_run [OF an] a_def [symmetric] by auto
qed

theorem execution_reports_success_witness:
  "\<exists>a res. execute 1 gas_rows traits_table no_table zero_table zero_host EVMC_LONDON
       (zero_message\<lparr>gas_limit := 0\<rparr>) [91] 1 = Some (Inr (a, res)) \<and>
     status_code res = EVMC_SUCCESS \<and> result_gas_left res = - 1"
proof -
  have "gas_limit (zero_message\<lparr>gas_limit := 0\<rparr>) = 0" by simp
  from out_of_gas_run [OF this] obtain a res where "execute 1 gas_rows traits_table no_table zero_table zero_host EVMC_LONDON
       (zero_message\<lparr>gas_limit := 0\<rparr>) [91] 1 = Some (Inr (a, res))" and "gas_left (estate a) = - 1"
    by blast
  then show ?thesis using execution_reports_success [of 1 gas_rows traits_table no_table zero_table zero_host EVMC_LONDON]
    by (metis signed_take_bit_of_minus_1)
qed

end
