(* ===== verification/Termination.thy ===== *)
theory Termination
  imports Execution_Facts
begin

text \<open>
  The interpreter loop of src/tscvee/ta/include/execution.h ends for every code without calls and
  creations. A round goes to the next instruction or jumps; between two jumps the start of a block
  is passed, and a block with a jump costs gas. The measure of a state counts a jump that is already
  paid for as one unit of gas.
\<close>

section \<open>Paid jumps\<close>

text \<open>A jump lies ahead, before the start of a block.\<close>

fun jump_ahead :: "Instruction list \<Rightarrow> bool" where
  "jump_ahead [] = False"
| "jump_ahead (x # xs) =
     (if fn x = Some Opx_beginblock then False else fn x \<in> {Some Op_jump, Some Op_jumpi} \<or> jump_ahead xs)"

text \<open>The start of a block with a jump costs gas, and nothing calls out.\<close>

fun priced :: "Instruction list \<Rightarrow> bool" where
  "priced [] = True"
| "priced (x # xs) =
     ((fn x = Some Opx_beginblock \<and> jump_ahead xs \<longrightarrow> (\<forall>b. arg x = Block b \<longrightarrow> 0 < uint (bi_gas_cost b))) \<and>
      fn x \<notin> Some ` calls_out \<and> priced xs)"

lemma jump_ahead_ops:
  "jump_ahead (emit_ops t cb b g @ rest) \<Longrightarrow>
   jump_ahead rest \<or> (\<exists>x \<in> set g. oe_fn (opcode_entry t (snd x)) \<in> {Some Op_jump, Some Op_jumpi})"
  by (induction g arbitrary: b) (auto simp: op_instr_def Let_def split: if_splits)

text \<open>A code whose opcodes do not call out.\<close>

definition no_calls :: "u8 list \<Rightarrow> bool" where
  "no_calls cb \<longleftrightarrow> (\<forall>(p, op) \<in> set (code_ops cb 0). op \<notin> call_ops)"

definition plain :: "OpTableEntry list \<Rightarrow> nat \<times> nat \<Rightarrow> bool" where
  "plain t x \<longleftrightarrow> (\<exists>f. oe_fn (opcode_entry t (snd x)) = Some f \<and> f \<notin> calls_out \<and> role (snd x) f \<and>
     (f \<in> {Op_jump, Op_jumpi} \<longrightarrow> 0 < oe_gas_cost (opcode_entry t (snd x)))) \<and>
     0 \<le> oe_gas_cost (opcode_entry t (snd x)) \<and> oe_gas_cost (opcode_entry t (snd x)) \<le> 2 ^ 15"

lemma plain_code:
  assumes "regular t" and "no_calls cb" and x: "x \<in> set (code_ops cb 0)"
  shows "plain t x"
proof -
  have op: "snd x < 256" using code_ops_small [OF x] .
  have calls: "snd x \<notin> call_ops" using assms(2) x by (auto simp: no_calls_def)
  have "entry_ok (opcode_entry t (snd x))" using opcode_entry_ok op assms(1) by (simp add: regular_def)
  then have "oe_gas_cost (opcode_entry t (snd x)) \<le> 2 ^ 15" unfolding entry_ok_def by linarith
  moreover obtain f where f: "oe_fn (opcode_entry t (snd x)) = Some f" "role (snd x) f"
    "0 \<le> oe_gas_cost (opcode_entry t (snd x))" "f \<in> {Op_jump, Op_jumpi} \<longrightarrow> 0 < oe_gas_cost (opcode_entry t (snd x))"
    using regular_entry [OF assms(1) op] by blast
  moreover have "f \<notin> calls_out" using f(2) calls unfolding role_def by blast
  ultimately show ?thesis unfolding plain_def by blast
qed

lemma priced_op: "plain t x \<Longrightarrow> priced rest \<Longrightarrow> priced (op_instr t cb b x @ rest)"
proof (cases "snd x = OP_JUMPDEST")
  case True
  then show "priced rest \<Longrightarrow> ?thesis" by (simp add: op_instr_def)
next
  case False
  assume "plain t x" and "priced rest"
  then obtain f where "oe_fn (opcode_entry t (snd x)) = Some f" "f \<notin> calls_out" "role (snd x) f"
    unfolding plain_def by blast
  moreover from this(3) have "f \<noteq> Opx_beginblock" using False by (auto simp: role_def)
  ultimately show ?thesis using False \<open>priced rest\<close> by (simp add: op_instr_def image_iff)
qed

lemma priced_ops: "\<forall>x \<in> set g. plain t x \<Longrightarrow> priced rest \<Longrightarrow> priced (emit_ops t cb b g @ rest)"
  by (induction g arbitrary: b) (simp_all add: Let_def priced_op)

lemma gas_of_plain:
  assumes "\<forall>x \<in> set g. plain t x" and "length g < 2 ^ 17"
  shows "0 \<le> ba_gas_cost (totals t g BlockAnalysis_init) \<and> ba_gas_cost (totals t g BlockAnalysis_init) < 2 ^ 32 \<and>
    ((\<exists>x \<in> set g. oe_fn (opcode_entry t (snd x)) \<in> {Some Op_jump, Some Op_jumpi}) \<longrightarrow>
       0 < ba_gas_cost (totals t g BlockAnalysis_init))"
proof -
  let ?c = "\<lambda>x. oe_gas_cost (opcode_entry t (snd x))"
  let ?jumps = "\<lambda>g. \<exists>x \<in> set g. oe_fn (opcode_entry t (snd x)) \<in> {Some Op_jump, Some Op_jumpi}"
  have total: "ba_gas_cost (totals t g b) = ba_gas_cost b + sum_list (map ?c g)" for b
    by (induction g arbitrary: b) (simp_all add: add_total_def)
  have "0 \<le> sum_list (map ?c g) \<and> sum_list (map ?c g) \<le> 2 ^ 15 * int (length g) \<and> (?jumps g \<longrightarrow> 0 < sum_list (map ?c g))"
    using assms(1)
  proof (induction g)
    case (Cons x g)
    have "\<forall>x \<in> set g. plain t x" using Cons.prems by simp
    note IH = Cons.IH [OF this]
    obtain f where "oe_fn (opcode_entry t (snd x)) = Some f" "0 \<le> ?c x" "?c x \<le> 2 ^ 15"
      "f \<in> {Op_jump, Op_jumpi} \<longrightarrow> 0 < ?c x"
      using Cons.prems unfolding plain_def by auto
    then show ?case using IH by auto
  qed simp
  moreover have "2 ^ 15 * int (length g) < 2 ^ 32" using assms(2) by simp
  moreover have "ba_gas_cost BlockAnalysis_init = 0" by (simp add: BlockAnalysis_init_def)
  ultimately show ?thesis unfolding total by auto
qed

lemma priced_table:
  assumes t: "regular t" and "\<forall>g \<in> set bs. (\<forall>x \<in> set g. plain t x) \<and> length g < 2 ^ 17"
  shows "let ins = concat (map (emit_block t cb) bs) @ [Instrcution_init_v (oe_fn (t ! OP_STOP))] in
    priced ins \<and> \<not> jump_ahead ins"
  using assms(2)
proof (induction bs)
  case Nil
  then show ?case using t by (auto simp: regular_def Instrcution_init_v_def calls_out_def)
next
  case (Cons g bs)
  let ?rest = "concat (map (emit_block t cb) bs) @ [Instrcution_init_v (oe_fn (t ! OP_STOP))]"
  let ?b = "totals t g BlockAnalysis_init"
  have rest: "priced ?rest" "\<not> jump_ahead ?rest" using Cons by (simp_all add: Let_def)
  have g: "\<forall>x \<in> set g. plain t x" "length g < 2 ^ 17" using Cons.prems by simp_all
  have start: "fn (begin_instr t ?b) = Some Opx_beginblock" "arg (begin_instr t ?b) = Block (BlockAnalysis_close ?b)"
    using t by (simp_all add: regular_def begin_instr_def)
  have "uint (bi_gas_cost (BlockAnalysis_close ?b)) = ba_gas_cost ?b"
    using gas_of_plain [OF g] by (simp add: close_fields unsigned_of_int take_bit_eq_mod)
  then have "jump_ahead (emit_ops t cb BlockAnalysis_init g @ ?rest) \<Longrightarrow> 0 < uint (bi_gas_cost (BlockAnalysis_close ?b))"
    using jump_ahead_ops [of t cb BlockAnalysis_init g ?rest] rest(2) gas_of_plain [OF g] by auto
  then show ?case
    using start priced_ops [OF g(1) rest(1), of cb BlockAnalysis_init]
    unfolding Let_def list.map concat.simps emit_block_def [of t cb g] by (auto simp: calls_out_def)
qed

lemma length_emit_blocks: "length (concat (map (emit_block t cb) bs)) \<le> length (concat bs) + length bs"
proof (induction bs)
  case (Cons g bs)
  then show ?case using length_filter_le [of "\<lambda>x. \<not> is_jumpdest x" g]
    unfolding list.map concat.simps length_append length_emit_block length_Cons by linarith
qed simp

lemma length_blocks: "length (blocks xs) \<le> length xs + 1"
proof (induction xs)
  case (Cons x xs)
  then show ?case using blocks_nonempty [of xs] by (cases "blocks xs") auto
qed simp

lemma length_table: "length (instrs (layout t cb)) \<le> 2 * length cb + 2"
proof -
  let ?xs = "code_ops cb 0"
  have "length (concat (map (emit_block t cb) (blocks ?xs))) \<le> length ?xs + length (blocks ?xs)"
    using length_emit_blocks [of t cb "blocks ?xs"] unfolding concat_blocks .
  moreover have "length ?xs \<le> length cb" using length_code_ops [of cb 0] by simp
  ultimately show ?thesis
    using length_blocks [of ?xs] unfolding instrs_layout length_append list.size by linarith
qed

section \<open>The measure\<close>

text \<open>What the table of such a code has.\<close>

definition good :: "CodeAnalysis \<Rightarrow> bool" where
  "good an \<longleftrightarrow> priced (instrs an) \<and> list_all typed (instrs an) \<and> \<not> jump_ahead (instrs an) \<and>
     (\<forall>off j. find_jumpdest an off = Inr (int j) \<longrightarrow> \<not> jump_ahead (drop j (instrs an)))"

definition ready :: "CodeAnalysis \<Rightarrow> AdvancedExecutionState \<Rightarrow> bool" where
  "ready an a \<longleftrightarrow> advanced a = Some an \<and> mem_small (estate a) \<and> 0 \<le> gas_left (estate a)"

definition rounds :: "CodeAnalysis \<Rightarrow> nat \<Rightarrow> AdvancedExecutionState \<Rightarrow> nat" where
  "rounds an i a =
     (nat (gas_left (estate a)) + of_bool (jump_ahead (drop i (instrs an)))) * (length (instrs an) + 1) +
     (length (instrs an) - i)"

lemma good_layout:
  assumes "regular t" and "no_calls cb" and "length cb < 2 ^ 17"
  shows "good (layout t cb)"
  unfolding good_def
proof (intro conjI allI impI)
  let ?bs = "blocks (code_ops cb 0)"
  have "\<forall>g \<in> set ?bs. (\<forall>x \<in> set g. plain t x) \<and> length g < 2 ^ 17"
  proof
    fix g assume "g \<in> set ?bs"
    note g = blocks_ops [OF this]
    show "(\<forall>x \<in> set g. plain t x) \<and> length g < 2 ^ 17"
      using g plain_code [OF assms(1,2)] length_code_ops [of cb 0] assms(3) by (auto dest: order_le_less_trans)
  qed
  from priced_table [OF assms(1) this, of cb]
  show "priced (instrs (layout t cb))" "\<not> jump_ahead (instrs (layout t cb))"
    unfolding instrs_layout by (simp_all add: Let_def)
  have "\<forall>g \<in> set ?bs. \<forall>x \<in> set g. snd x < 256" using blocks_ops code_ops_small by blast
  then show "list_all typed (instrs (layout t cb))" unfolding instrs_layout by (rule typed_table [OF assms(1)])
  fix off j assume f: "find_jumpdest (layout t cb) off = Inr (int j)"
  then obtain p where "int p = off" "(p, OP_JUMPDEST) \<in> set (code_ops cb 0)"
    using layout_find(2) [of off cb t] by force
  then obtain gs g gs' where b: "?bs = gs @ g # gs'" and j: "j = start_after t cb gs"
    using layout_find(1) [of p cb t] f by auto
  have "fn (begin_instr t b) = Some Opx_beginblock" for b using assms(1) by (simp add: regular_def begin_instr_def)
  then show "\<not> jump_ahead (drop j (instrs (layout t cb)))"
    unfolding instrs_layout b j by (simp add: start_after_def emit_block_def [of t cb g])
qed

lemma priced_drop: "priced xs \<Longrightarrow> priced (drop i xs)"
proof (induction xs arbitrary: i)
  case (Cons x xs)
  then show ?case by (cases i) auto
qed simp

lemma rounds_less:
  assumes "i < length (instrs an)" and "0 \<le> gas_left (estate a')" and "gas_left (estate a') \<le> gas_left (estate a)"
    and "jump_ahead (drop (i + 1) (instrs an)) \<longrightarrow> jump_ahead (drop i (instrs an)) \<or> gas_left (estate a') < gas_left (estate a)"
  shows "rounds an (i + 1) a' < rounds an i a"
proof -
  let ?n = "length (instrs an)"
  have "nat (gas_left (estate a')) + of_bool (jump_ahead (drop (i + 1) (instrs an))) \<le>
      nat (gas_left (estate a)) + of_bool (jump_ahead (drop i (instrs an)))"
    using assms(2-4) by auto
  then have "(nat (gas_left (estate a')) + of_bool (jump_ahead (drop (i + 1) (instrs an)))) * (?n + 1) \<le>
      (nat (gas_left (estate a)) + of_bool (jump_ahead (drop i (instrs an)))) * (?n + 1)"
    by (rule mult_right_mono) simp
  then show ?thesis unfolding rounds_def using assms(1) by linarith
qed

lemma rounds_jump:
  assumes "jump_ahead (drop i (instrs an))" and "\<not> jump_ahead (drop j (instrs an))"
    and "gas_left (estate a') = gas_left (estate a)"
  shows "rounds an j a' < rounds an i a"
  using assms by (simp add: rounds_def)

lemma step_down:
  assumes good: "good an" and ready: "ready an a" and step: "exec_instr tr i a = Inr (a', Some j)"
  shows "ready an a' \<and> rounds an j a' < rounds an i a"
proof -
  obtain f where adv: "advanced a = Some an" and i: "i < length (instrs an)"
    and f: "fn (instrs an ! i) = Some f" and e: "exec_fn f tr i a = Inr (a', Some j)"
    using exec_instr_Inr [OF step] ready by (auto simp: ready_def)
  have adv': "advanced a' = Some an" using keeps_statusD [OF e exec_keeps] adv by simp
  have d: "drop i (instrs an) = instrs an ! i # drop (i + 1) (instrs an)" using i by (simp add: Cons_nth_drop_Suc)
  have p: "priced (instrs an ! i # drop (i + 1) (instrs an))" using priced_drop [of "instrs an" i] good d by (simp add: good_def)
  have same: "ready an a' \<and> rounds an j a' < rounds an i a"
    if "j = i + 1 \<or> (\<exists>off. find_jumpdest an off = Inr (int j))" "estate a' = estate a" "f \<in> {Op_jump, Op_jumpi}"
  proof -
    have ahead: "jump_ahead (drop i (instrs an))" using that(3) f by (auto simp: d)
    have "rounds an j a' < rounds an i a"
      using that(1) rounds_less [OF i, of a' a] ahead rounds_jump [OF ahead, of j a' a] good that(2) ready
      by (auto simp: good_def ready_def)
    then show ?thesis using that(2) ready adv' by (simp add: ready_def)
  qed
  consider "f = Op_jump" | "f = Op_jumpi" | "f = Opx_beginblock" | "f \<notin> {Op_jump, Op_jumpi, Opx_beginblock}" by blast
  then show ?thesis
  proof cases
    case 1
    then show ?thesis using same jump_inside [of tr i a a' j] e adv by auto
  next
    case 2
    then show ?thesis using same jumpi_inside [of tr i a a' j] e adv by auto
  next
    case 3
    obtain b where b: "arg_block i a = Inr b" "j = i + 1" "0 \<le> gas_left (estate a) - uint (bi_gas_cost b)"
      "estate a' = (estate a)\<lparr>gas_left := gas_left (estate a) - uint (bi_gas_cost b)\<rparr>"
      using beginblock_next [of tr i a a' j] e 3 by auto
    have "arg (instrs an ! i) = Block b"
      using b(1) i adv by (auto simp: arg_block_def instr_arg_def cres split: InstructionArgument.splits)
    then have "jump_ahead (drop (i + 1) (instrs an)) \<longrightarrow> 0 < uint (bi_gas_cost b)" using p f 3 by simp
    moreover have "0 \<le> uint (bi_gas_cost b)" by simp
    ultimately have "rounds an j a' < rounds an i a" unfolding b(2) using b(3,4) by (intro rounds_less [OF i]) auto
    then show ?thesis using ready adv' b(3,4) by (simp add: ready_def mem_small_def)
  next
    case 4
    have "f \<notin> calls_out" using p f by auto
    then have "j = i + 1" "calm (estate a) (estate a')" using exec_falls [of f] 4 e unfolding falls_through_def by blast+
    moreover have "jump_ahead (drop (i + 1) (instrs an)) \<longrightarrow> jump_ahead (drop i (instrs an))"
      using f 4 by (simp add: d)
    ultimately show ?thesis using ready adv' rounds_less [OF i, of a' a] by (auto simp: ready_def calm_def)
  qed
qed

lemma run_ends: "good an \<Longrightarrow> ready an a \<Longrightarrow> rounds an i a < n \<Longrightarrow> \<exists>res. run n tr (Some i) a = Some res"
proof (induction n arbitrary: i a)
  case (Suc n)
  show ?case
  proof (cases "exec_instr tr i a")
    case (Inr r)
    obtain a' j where r: "r = (a', j)" by (cases r)
    show ?thesis
    proof (cases j)
      case (Some k)
      then have "ready an a' \<and> rounds an k a' < rounds an i a" using step_down [OF Suc.prems(1,2)] Inr r by simp
      then show ?thesis using Suc.IH [of a' k] Suc.prems Inr r Some by simp
    qed (use Inr r in simp)
  qed simp
qed simp

lemma run_more: "run n tr i a = Some res \<Longrightarrow> n \<le> k \<Longrightarrow> run k tr i a = Some res"
proof (induction n tr i a arbitrary: k rule: run.induct)
  case (3 n tr i a)
  then obtain k' where "k = Suc k'" by (cases k) auto
  then show ?case using 3 by (auto split: sum.splits)
qed auto



end
