(* ===== verification/TA_Facts.thy ===== *)
theory TA_Facts
  imports Execution_Facts
begin

text \<open>
  The entry points of the trusted application, src/tscvee/ta/tscvee_ta.c: what each command returns for
  every parameter, and what the setup of an execution does with the constants of the file.
\<close>

lemma strlen_endless: "0 \<notin> set cs \<Longrightarrow> strlen cs = Inl Out_of_bounds"
  by (induction cs) auto

lemma bit_of_bits: "n < length bs \<Longrightarrow> n < 8 \<Longrightarrow> bit (horner_sum of_bool 2 bs :: u8) n = bs ! n"
  by (simp add: bit_horner_sum_bit_iff)

lemma of_char_0: "(of_char c :: u8) = 0 \<Longrightarrow> c = CHR 0x00"
proof (cases c)
  case (Char b0 b1 b2 b3 b4 b5 b6 b7)
  assume z: "(of_char c :: u8) = 0"
  let ?bs = "[b0, b1, b2, b3, b4, b5, b6, b7]"
  have bit: "bit (of_char c :: u8) n = ?bs ! n" if "n < 8" for n
    using that unfolding Char of_char_Char by (intro bit_of_bits) simp_all
  have "\<not> ?bs ! n" if "n < 8" for n using bit [OF that] unfolding z by simp
  from this [of 0] this [of 1] this [of 2] this [of 3] this [of 4] this [of 5] this [of 6] this [of 7]
  show ?thesis unfolding Char by simp
qed

lemma array_endless:
  assumes "length s = n" and "list_all (\<lambda>c. c \<noteq> CHR 0x00) s"
  shows "strlen (char_array n s) = Inl Out_of_bounds"
proof (rule strlen_endless)
  have "char_array n s = map of_char s" using assms(1) by (simp add: char_array_def)
  then show "0 \<notin> set (char_array n s)" using assms(2) of_char_0 by (fastforce simp: list_all_iff)
qed

lemma input_endless: "strlen input_hex = Inl Out_of_bounds"
  unfolding input_hex_def by (rule array_endless; simp only: length_append list_all_append) simp_all

lemma bytecode_endless: "strlen bytecode_hex = Inl Out_of_bounds"
  unfolding bytecode_hex_def by (rule array_endless; simp only: length_append list_all_append) simp_all

lemma bytecode_setup: "decode_hex bytecode_hex = Inl Out_of_bounds"
  by (simp add: decode_hex_def bytecode_endless)

text \<open>
  Claim C21. The commands of the trusted application. Parameters are refused with \<open>BAD_PARAMETERS\<close>, when a
  session is opened and in every command, and so are all commands but the two it has. These two never
  reach their end: the table of gas costs has twelve rows and the setup writes a thirteenth outside of it;
  with a row more, \<open>strlen\<close> runs over the end of the bytecode, whose array of 7076 characters has no
  room for the NUL.
\<close>

theorem ta_commands:
  "(\<forall>p. p \<noteq> none \<longrightarrow> TA_OpenSessionEntryPoint none p = TEE_ERROR_BAD_PARAMETERS) \<and>
   (\<forall>cmd p. cmd \<notin> {TA_TSCVEE_CMD_RUN, TA_TSCVEE_CMD_BENCH} \<or> p \<noteq> none \<longrightarrow>
      TA_InvokeCommandEntryPoint none n gas_costs tr fns opt cmd p = Some (Inr TEE_ERROR_BAD_PARAMETERS)) \<and>
   (\<forall>cmd \<in> {TA_TSCVEE_CMD_RUN, TA_TSCVEE_CMD_BENCH}. length gas_costs \<in> {12, 13} \<longrightarrow>
      TA_InvokeCommandEntryPoint none n gas_costs tr fns opt cmd none = Some (Inl Out_of_bounds))"
proof -
  have "tscvee_main none n gas_costs tr fns opt none b = Some (Inl Out_of_bounds)" if "length gas_costs \<in> {12, 13}" for b
    using that GasCostTable_init_rows GasCostTable_init_out by (auto simp: tscvee_main_def Let_def bytecode_setup)
  then show ?thesis
    by (auto simp: TA_OpenSessionEntryPoint_def TA_InvokeCommandEntryPoint_def tscvee_main_def)
qed

theorem ta_commands_witness:
  "TA_InvokeCommandEntryPoint 0 5 (replicate 12 (replicate 256 0)) [] [] [] TA_TSCVEE_CMD_RUN 0 = Some (Inl Out_of_bounds) \<and>
   TA_InvokeCommandEntryPoint 0 5 [] [] [] [] 2 0 = Some (Inr TEE_ERROR_BAD_PARAMETERS)"
  using ta_commands [of 0 5 "replicate 12 (replicate 256 0)" "[]" "[]" "[]"] ta_commands [of 0 5 "[]" "[]" "[]" "[]"]
  by (simp add: TA_TSCVEE_CMD_RUN_def TA_TSCVEE_CMD_BENCH_def)

end
