(* ===== verification/Spec2Isabelle.thy ===== *)
theory Spec2Isabelle
  imports To_Text Termination Call_Gas TA_Facts
begin

text \<open>
  TSC-VEE runs EVM bytecode inside a trusted execution environment. Its core is a C interpreter, a
  translation of evmone's Advanced interpreter, in src/tscvee/ta: the trusted application
  (tscvee_ta.c) decodes a contract and a message, makes a mocked host (mocked_host.h), and calls
  \<open>execute\<close> (execution.h), which analyses the code into an instruction table (analysis_impl.h), makes
  the execution state (execution_state.h) and runs the functions of the table (analysis.h), each of
  which calls an instruction implementation (instructions.h); those use 256-bit numbers (uint256.c),
  the hash (sha3.c), the tables of costs and stack heights (instructions_traits.h) and, for accounts,
  storage and logs, the host with its hash maps (stc/cmap.h). This development models that core.

  \<^bold>\<open>Conventions.\<close> An operation whose behaviour C leaves undefined (an access outside an object or
  through a null or uninitialised pointer, signed overflow, a failed assertion) has the outcome \<open>Inl\<close>
  of the reason, all others \<open>Inr\<close> of the result (\<open>Prelude\<close>). State is passed explicitly; an
  out-parameter is a result. Unsigned types are words; signed ones are integers with a check of their
  range where C overflows; \<open>size_t\<close> is a number, with its modulus where the code relies on it. Function
  pointers are values of a datatype with an interpretation (\<open>exec_fn\<close>). What the code reads from
  uninitialised tables is an argument, so that a theorem holds for every content.

  \<^bold>\<open>Numbers and bytes.\<close> \<open>Uint128\<close> and \<open>Uint256\<close> model the arithmetic of uint256.c limb by limb, with
  the wrong carry of \<open>mul256\<close>; \<open>Long_Division\<close> is the locale of the shift-and-subtract division,
  interpreted at both widths, and \<open>To_Text\<close> that of the conversion to text. \<open>Bytes\<close> has the readers
  and writers of big-endian bytes, \<open>Hex\<close> the hexadecimal text of hex_helpers.h. Each operation is
  related to the numbers it stands for (\<open>val128\<close>, \<open>val256\<close>, \<open>be_val\<close>).

  \<^bold>\<open>Hash.\<close> \<open>Keccak\<close> models \<open>keccakf\<close> and the standard permutation of FIPS 202, step by step, and proves
  them equal; \<open>Sha3\<close> models the context with incremental updates and proves that it refines the sponge.

  \<^bold>\<open>Host.\<close> \<open>Containers\<close> models the open-addressed hash map and the searches of vectors; the locale
  \<open>hash_keys\<close> has the laws of hash and comparison that the map needs, and is interpreted on storage keys
  and on addresses, for keys that \<open>strcmp\<close> tells apart. \<open>Evmc\<close> has the data types of the interface,
  \<open>Host\<close> every method of the mocked host.

  \<^bold>\<open>Instructions.\<close> \<open>Exec_State\<close> models the memory, its growth, its price and the checks; \<open>Instructions\<close>
  the arithmetic, \<open>State_Instructions\<close> those that read or change the context, memory and storage,
  \<open>Calls\<close> logs, ends, calls and creations. An instruction reads its operands through the slots of the
  stack at the moment the C code does, since pushes overwrite operands. \<open>Opcodes\<close>, \<open>Tables\<close> and \<open>Metrics\<close>
  have the opcodes, the costs and heights that the code sets up, and the reference tables of the EVMC
  library in the repository, with which they are compared.

  \<^bold>\<open>Interpreter.\<close> \<open>Analysis\<close> models the instruction table, the stack and the functions of the table;
  \<open>Op_Table\<close> proves what the tables of functions and opcodes hold. \<open>Analyze\<close> models the pass over the code;
  \<open>Code_Layout\<close> is its specification without a loop (the opcodes reached by skipping operands, split
  into blocks, each with its sums), and \<open>Code_Facts\<close> proves that the pass computes it, where jumps
  lead, and what the check of a block decides. \<open>Execution\<close> models the loop, the virtual machine and the
  trusted application. \<open>Gas_Laws\<close> has rules by the shape of the definitions that give, for every
  instruction, that the status is kept and gas does not grow; \<open>Step_Laws\<close> lifts them to the functions of
  the table, \<open>Execution_Facts\<close> to whole executions. \<open>Termination\<close> proves that the loop ends, \<open>Call_Gas\<close>
  why calls have to be left out of that, \<open>TA_Facts\<close> what the commands of the application return.

  \<^bold>\<open>Bounds.\<close> The loop takes a number of rounds; \<open>None\<close> is an execution that has not ended within them.
  For code without calls and creations (gas + 1)(2 length + 3) rounds are enough: the table has at most
  2 length + 2 instructions, a round goes to the next one or jumps, and a jump is paid for by its block.
  Codes are below 2^23 bytes for the analysis, so that its sums do not overflow, and below 2^17 bytes
  for the end of the execution, so that the gas of a block fits in its 32 bits. All other loops of the
  code are recursive functions with a termination proof.

  \<^bold>\<open>Not modelled.\<close> Logging (IMSG, DMSG), failure of allocation and freeing of memory have no effect in
  the model. \<open>Stack_init\<close>, \<open>AdvancedExecutionState_init\<close> and \<open>ExecutionState_init\<close> are not called, or only
  for a state that is overwritten at once. Of the containers, what the interpreter does not call
  (erasing, cloning, iterating, editing of strings) is left out. The client in the normal world
  (src/tscvee/host) only opens a session; src/on REE is a copy of the same interpreter with a vendored JSON
  library; src/evmone is the upstream project, of which the metrics tables serve as a reference. A call
  goes to the mocked host, which returns a fixed result: nested executions do not exist in the code.
\<close>

end
